(* ===== verification/Prelude.thy ===== *)
theory Prelude
  imports Main "HOL-Library.AList" "HOL-Library.Char_ord"
begin

text \<open>
  Shared ground of the development.

  The service is TypeScript.  This theory fixes how its ordinary data is read in HOL:
  strings are lists of characters (the code units below 256, which covers every identifier
  the service compares), a JavaScript \<^verbatim>\<open>Set\<close> is a duplicate-free list
  in insertion order, a JavaScript \<^verbatim>\<open>Map\<close> is an association list with distinct keys in
  insertion order, an operation that may throw returns a sum whose left side is the error, and
  a point in time is an integer number of milliseconds.

  It also holds the interface of an insertion-ordered map as a locale, with its interpretation
  on the association lists.
\<close>

section \<open>Collections of simplification facts\<close>

named_theorems js_simps \<open>behaviour of the JavaScript collection operations\<close>
named_theorems service_defs \<open>definitions of guards and handlers\<close>

section \<open>Results\<close>

type_synonym timestamp = int

abbreviation Ok :: "'a \<Rightarrow> 'e + 'a" where
  "Ok \<equiv> Inr"

abbreviation Fail :: "'e \<Rightarrow> 'e + 'a" where
  "Fail \<equiv> Inl"

definition is_ok :: "'e + 'a \<Rightarrow> bool" where
  "is_ok r = (case r of Inl _ \<Rightarrow> False | Inr _ \<Rightarrow> True)"

lemma is_ok_simps [simp]: "is_ok (Ok x)" "\<not> is_ok (Fail e)"
  by (simp_all add: is_ok_def)

lemma is_ok_iff: "is_ok r \<longleftrightarrow> (\<exists>x. r = Ok x)"
  by (cases r) auto

definition and_then :: "'e + 'a \<Rightarrow> ('a \<Rightarrow> 'e + 'b) \<Rightarrow> 'e + 'b" where
  "and_then r f = (case r of Inl e \<Rightarrow> Inl e | Inr x \<Rightarrow> f x)"

lemma and_then_simps [simp]:
  "and_then (Ok x) f = f x"
  "and_then (Fail e) f = Fail e"
  by (simp_all add: and_then_def)

lemma and_then_eq_Ok_iff [simp]:
  "and_then r f = Ok y \<longleftrightarrow> (\<exists>x. r = Ok x \<and> f x = Ok y)"
  by (cases r) auto

lemma and_then_eq_Fail_iff:
  "and_then r f = Fail e \<longleftrightarrow> r = Fail e \<or> (\<exists>x. r = Ok x \<and> f x = Fail e)"
  by (cases r) auto

definition guard :: "'e \<Rightarrow> bool \<Rightarrow> 'e + unit" where
  "guard e b = (if b then Ok () else Fail e)"

lemma guard_simps [simp]:
  "guard e b = Ok u \<longleftrightarrow> b"
  "guard e b = Fail e' \<longleftrightarrow> \<not> b \<and> e' = e"
  by (auto simp: guard_def)

section \<open>Strings\<close>

text \<open>\<^verbatim>\<open>String.prototype.toLowerCase\<close> and \<^verbatim>\<open>trim\<close> on code units below 256.\<close>

definition js_lower_char :: "char \<Rightarrow> char" where
  "js_lower_char c =
    (let n = (of_char c :: nat) in
     if (65 \<le> n \<and> n \<le> 90) \<or> (192 \<le> n \<and> n \<le> 222 \<and> n \<noteq> 215) then char_of (n + 32) else c)"

definition js_lower :: "string \<Rightarrow> string" where
  "js_lower s = map js_lower_char s"

definition js_space :: "char \<Rightarrow> bool" where
  "js_space c = (let n = (of_char c :: nat) in (9 \<le> n \<and> n \<le> 13) \<or> n = 32 \<or> n = 160)"

definition js_trim :: "string \<Rightarrow> string" where
  "js_trim s = rev (dropWhile js_space (rev (dropWhile js_space s)))"

fun js_join :: "string \<Rightarrow> string list \<Rightarrow> string" where
  "js_join sep [] = []"
| "js_join sep [x] = x"
| "js_join sep (x # y # ys) = x @ sep @ js_join sep (y # ys)"

definition js_starts_with :: "string \<Rightarrow> string \<Rightarrow> bool" where
  "js_starts_with s p = (take (length p) s = p)"

definition js_ends_with :: "string \<Rightarrow> string \<Rightarrow> bool" where
  "js_ends_with s p = (length p \<le> length s \<and> drop (length s - length p) s = p)"

fun js_includes :: "string \<Rightarrow> string \<Rightarrow> bool" where
  "js_includes [] p = (p = [])"
| "js_includes (c # s) p = (js_starts_with (c # s) p \<or> js_includes s p)"

lemma js_lower_length [simp]: "length (js_lower s) = length s"
  by (simp add: js_lower_def)

lemma js_lower_char_idem [simp]: "js_lower_char (js_lower_char c) = js_lower_char c"
proof (cases "(65 \<le> (of_char c :: nat) \<and> (of_char c :: nat) \<le> 90) \<or>
               (192 \<le> (of_char c :: nat) \<and> (of_char c :: nat) \<le> 222 \<and> (of_char c :: nat) \<noteq> 215)")
  case True
  then have "(of_char (char_of (of_char c + 32 :: nat) :: char) :: nat) = of_char c + 32"
    by auto
  then show ?thesis using True by (auto simp: js_lower_char_def Let_def)
next
  case False
  then show ?thesis by (auto simp: js_lower_char_def Let_def)
qed

lemma js_lower_idem [simp]: "js_lower (js_lower s) = js_lower s"
  by (simp add: js_lower_def)

lemma js_trim_Nil [simp]: "js_trim [] = []"
  by (simp add: js_trim_def)

lemma js_trim_eq_Nil_iff: "js_trim s = [] \<longleftrightarrow> (\<forall>c \<in> set s. js_space c)"
  by (auto simp: js_trim_def dropWhile_eq_Nil_conv dest: set_dropWhileD)
     (metis dropWhile_eq_Nil_conv set_rev dropWhile_eq_self_iff hd_dropWhile list.set_sel(1))

section \<open>Sets in insertion order\<close>

definition js_add :: "'a \<Rightarrow> 'a list \<Rightarrow> 'a list" where
  "js_add x s = (if x \<in> set s then s else s @ [x])"

definition js_remove :: "'a \<Rightarrow> 'a list \<Rightarrow> 'a list" where
  "js_remove x s = filter (\<lambda>y. y \<noteq> x) s"

text \<open>\<^verbatim>\<open>new Set(xs)\<close>: the elements in the order of their first occurrence.\<close>

definition js_set_of :: "'a list \<Rightarrow> 'a list" where
  "js_set_of xs = fold js_add xs []"

lemma set_js_add [simp, js_simps]: "set (js_add x s) = insert x (set s)"
  by (auto simp: js_add_def)

lemma distinct_js_add [simp, intro]: "distinct s \<Longrightarrow> distinct (js_add x s)"
  by (auto simp: js_add_def)

lemma set_js_remove [simp, js_simps]: "set (js_remove x s) = set s - {x}"
  by (auto simp: js_remove_def)

lemma distinct_js_remove [simp, intro]: "distinct s \<Longrightarrow> distinct (js_remove x s)"
  by (simp add: js_remove_def)

lemma set_fold_js_add [simp]: "set (fold js_add xs s) = set s \<union> set xs"
  by (induction xs arbitrary: s) auto

lemma distinct_fold_js_add: "distinct s \<Longrightarrow> distinct (fold js_add xs s)"
  by (induction xs arbitrary: s) auto

lemma fold_js_add_fresh:
  "distinct xs \<Longrightarrow> set s \<inter> set xs = {} \<Longrightarrow> fold js_add xs s = s @ xs"
  by (induction xs arbitrary: s) (auto simp: js_add_def)

lemma set_js_set_of [simp, js_simps]: "set (js_set_of xs) = set xs"
  by (simp add: js_set_of_def)

lemma distinct_js_set_of [simp, intro]: "distinct (js_set_of xs)"
  by (simp add: js_set_of_def distinct_fold_js_add)

lemma js_set_of_distinct [simp]: "distinct xs \<Longrightarrow> js_set_of xs = xs"
  by (simp add: js_set_of_def fold_js_add_fresh)

lemma js_set_of_Nil [simp]: "js_set_of [] = []"
  by (simp add: js_set_of_def)

lemma length_js_set_of: "length (js_set_of xs) = card (set xs)"
  using distinct_card[OF distinct_js_set_of, of xs] by simp

lemma js_set_of_eq_Nil_iff [simp]: "js_set_of xs = [] \<longleftrightarrow> xs = []"
  by (metis js_set_of_Nil set_empty set_js_set_of)

lemma find_append:
  "find P (xs @ ys) = (case find P xs of Some x \<Rightarrow> Some x | None \<Rightarrow> find P ys)"
  by (induction xs) auto

lemma option_eqI: "(\<And>x. a = Some x \<longleftrightarrow> b = Some x) \<Longrightarrow> a = b"
  by (metis not_None_eq)

lemma find_SomeD: "find P xs = Some y \<Longrightarrow> y \<in> set xs \<and> P y"
  by (induction xs) (auto split: if_splits)

section \<open>Maps in insertion order\<close>

text \<open>
  What the service uses of a JavaScript \<^verbatim>\<open>Map\<close>: a write leaves every other key
  alone, iteration lists each key once, and a write of a present key keeps its place.
\<close>

locale ordered_map =
  fixes empty :: 'm
    and get :: "'m \<Rightarrow> 'k \<Rightarrow> 'v option"
    and put :: "'k \<Rightarrow> 'v \<Rightarrow> 'm \<Rightarrow> 'm"
    and entries :: "'m \<Rightarrow> ('k \<times> 'v) list"
    and ok :: "'m \<Rightarrow> bool"
  assumes ok_empty: "ok empty"
    and entries_empty: "entries empty = []"
    and ok_put: "ok m \<Longrightarrow> ok (put k v m)"
    and get_put: "ok m \<Longrightarrow> get (put k v m) k' = (if k' = k then Some v else get m k')"
    and get_entries: "ok m \<Longrightarrow> get m k = map_of (entries m) k"
    and distinct_keys: "ok m \<Longrightarrow> distinct (map fst (entries m))"
    and keys_put: "ok m \<Longrightarrow> map fst (entries (put k v m)) = js_add k (map fst (entries m))"
begin

lemma get_empty: "get empty k = None"
  by (simp add: get_entries ok_empty entries_empty)

lemma ok_put_all: "ok m \<Longrightarrow> ok (fold (\<lambda>x. put (f x) (g x)) xs m)"
  by (induction xs arbitrary: m) (auto intro: ok_put)

lemma keys_put_all:
  "ok m \<Longrightarrow> map fst (entries (fold (\<lambda>x. put (f x) (g x)) xs m))
          = fold js_add (map f xs) (map fst (entries m))"
  by (induction xs arbitrary: m) (auto simp: keys_put ok_put)

lemma get_put_all:
  "ok m \<Longrightarrow> get (fold (\<lambda>x. put (f x) (g x)) xs m) k
          = (case find (\<lambda>x. f x = k) (rev xs) of Some x \<Rightarrow> Some (g x) | None \<Rightarrow> get m k)"
proof (induction xs rule: rev_induct)
  case (snoc x xs)
  then show ?case by (auto simp: get_put ok_put_all)
qed simp

lemma keys_of_list:
  "map fst (entries (fold (\<lambda>x. put (f x) (g x)) xs empty)) = js_set_of (map f xs)"
  by (simp add: keys_put_all ok_empty entries_empty js_set_of_def)

lemma get_of_list:
  "get (fold (\<lambda>x. put (f x) (g x)) xs empty) k
     = map_option g (find (\<lambda>x. f x = k) (rev xs))"
  by (auto simp: get_put_all ok_empty get_empty split: option.splits)

lemma get_of_list_inj:
  assumes "x \<in> set xs" and "distinct (map f xs)"
  shows "get (fold (\<lambda>x. put (f x) (g x)) xs empty) (f x) = Some (g x)"
proof -
  obtain y where y: "find (\<lambda>y. f y = f x) (rev xs) = Some y"
    using assms(1) by (fastforce simp: find_None_iff)
  then have "y \<in> set xs" "f y = f x"
    by (auto dest: find_SomeD)
  then have "y = x" using assms by (auto simp: distinct_map dest: inj_onD)
  then show ?thesis using y by (simp add: get_of_list)
qed

lemma get_some_iff_key: "ok m \<Longrightarrow> get m k \<noteq> None \<longleftrightarrow> k \<in> set (map fst (entries m))"
  by (simp add: get_entries map_of_eq_None_iff)

end

type_synonym ('k, 'v) js_map = "('k \<times> 'v) list"

abbreviation js_get :: "('k, 'v) js_map \<Rightarrow> 'k \<Rightarrow> 'v option" where
  "js_get \<equiv> map_of"

abbreviation js_put :: "'k \<Rightarrow> 'v \<Rightarrow> ('k, 'v) js_map \<Rightarrow> ('k, 'v) js_map" where
  "js_put \<equiv> AList.update"

abbreviation js_keys :: "('k, 'v) js_map \<Rightarrow> 'k list" where
  "js_keys m \<equiv> map fst m"

definition js_has :: "('k, 'v) js_map \<Rightarrow> 'k \<Rightarrow> bool" where
  "js_has m k = (map_of m k \<noteq> None)"

lemma js_has_iff [simp, js_simps]: "js_has m k \<longleftrightarrow> k \<in> set (js_keys m)"
  by (simp add: js_has_def map_of_eq_None_iff)

lemma js_keys_put [simp, js_simps]: "js_keys (js_put k v m) = js_add k (js_keys m)"
  by (simp add: js_add_def update_keys)

definition js_ensure :: "'k \<Rightarrow> 'v \<Rightarrow> ('k, 'v) js_map \<Rightarrow> ('k, 'v) js_map" where
  "js_ensure k v m = (if js_has m k then m else js_put k v m)"

definition js_get_or :: "'v \<Rightarrow> ('k, 'v) js_map \<Rightarrow> 'k \<Rightarrow> 'v" where
  "js_get_or d m k = (case js_get m k of None \<Rightarrow> d | Some v \<Rightarrow> v)"

lemma js_put_put [simp]: "js_put k v (js_put k w m) = js_put k v m"
  by (induction m) auto

lemma js_put_ensure [simp]: "js_put k v (js_ensure k w m) = js_put k v m"
  by (simp add: js_ensure_def)

lemma js_get_put [simp]: "js_get (js_put k v m) k' = (if k' = k then Some v else js_get m k')"
  by (simp add: update_conv')

lemma js_get_or_ensure [simp]: "js_get_or v (js_ensure k v m) k' = js_get_or v m k'"
  by (cases "js_get m k") (simp_all add: js_ensure_def js_has_def js_get_or_def del: js_has_iff)

lemma js_get_or_put [simp]: "js_get_or d (js_put k v m) k' = (if k' = k then v else js_get_or d m k')"
  by (simp add: js_get_or_def)

lemma js_keys_ensure [simp]: "js_keys (js_ensure k v m) = js_add k (js_keys m)"
  by (auto simp: js_ensure_def js_add_def update_keys)

lemma js_get_or_cases: "js_get_or d m k = d \<or> (k, js_get_or d m k) \<in> set m"
  by (cases "js_get m k") (simp_all add: js_get_or_def map_of_SomeD)

lemma set_snd_js_put: "set (map snd (js_put k v m)) \<subseteq> insert v (set (map snd m))"
  by (induction m) auto

interpretation js_map: ordered_map "[]" js_get js_put "\<lambda>m. m" "\<lambda>m. distinct (js_keys m)"
  by unfold_locales (auto simp: update_conv' js_add_def update_keys)

end
