(* ===== verification/Access_Model.thy ===== *)
theory Access_Model
  imports Prelude
begin

text \<open>
  The data the authorization side of the service shares: JSON values, the enumerations, and the
  rows of the tables \<^verbatim>\<open>roles\<close>, \<^verbatim>\<open>role_permissions\<close>,
  \<^verbatim>\<open>user_groups\<close>, \<^verbatim>\<open>user_group_roles\<close>,
  \<^verbatim>\<open>user_group_memberships\<close>, \<^verbatim>\<open>user_effective_roles\<close>,
  \<^verbatim>\<open>employee_references\<close> and the outbox.  A nullable or optional field is an
  \<^verbatim>\<open>option\<close>; identifiers, tenant codes and timestamps in payloads are strings.
\<close>

type_synonym uuid = string
type_synonym tenant = string

section \<open>JSON values\<close>

datatype json =
    JUndefined
  | JNull
  | JBool bool
  | JNum int
  | JStr string
  | JArr "json list"
  | JObj "(string \<times> json) list"

definition jopt :: "string option \<Rightarrow> json" where
  "jopt s = (case s of None \<Rightarrow> JUndefined | Some x \<Rightarrow> JStr x)"

definition jnullable :: "string option \<Rightarrow> json" where
  "jnullable s = (case s of None \<Rightarrow> JNull | Some x \<Rightarrow> JStr x)"

definition jstrs :: "string list \<Rightarrow> json" where
  "jstrs xs = JArr (map JStr xs)"

definition jstrs_opt :: "string list option \<Rightarrow> json" where
  "jstrs_opt xs = (case xs of None \<Rightarrow> JUndefined | Some ys \<Rightarrow> jstrs ys)"

section \<open>Roles\<close>

datatype role_type = SYSTEM | CUSTOM
datatype system_role_key = EMPLOYEE | MANAGER | ADMINISTRATOR
datatype role_status = Role_active | Role_inactive

definition role_type_string :: "role_type \<Rightarrow> string" where
  "role_type_string t = (case t of SYSTEM \<Rightarrow> ''SYSTEM'' | CUSTOM \<Rightarrow> ''CUSTOM'')"

definition system_role_key_string :: "system_role_key \<Rightarrow> string" where
  "system_role_key_string k =
    (case k of EMPLOYEE \<Rightarrow> ''EMPLOYEE'' | MANAGER \<Rightarrow> ''MANAGER'' | ADMINISTRATOR \<Rightarrow> ''ADMINISTRATOR'')"

record role =
  role_id :: uuid
  role_tenant :: tenant
  role_name :: string
  role_description :: "string option"
  role_kind :: role_type
  role_state :: role_status
  role_systemKey :: "system_role_key option"
  role_version :: int
  role_projectionVersion :: int
  role_createdBy :: "uuid option"
  role_updatedBy :: "uuid option"

record role_permission =
  rp_tenant :: tenant
  rp_roleId :: uuid
  rp_code :: string
  rp_isProtected :: bool

record permission_template =
  tpl_code :: string
  tpl_isProtected :: bool

record system_role_template =
  tpl_key :: system_role_key
  tpl_defaultName :: string
  tpl_description :: string
  tpl_permissions :: "permission_template list"

section \<open>User groups\<close>

datatype group_status = Group_active | Group_inactive

datatype scope_type = SELF | DIRECT_REPORTEES | COMPANY | LOCATION | DEPARTMENT | TENANT_WIDE

definition scope_type_string :: "scope_type \<Rightarrow> string" where
  "scope_type_string s =
    (case s of SELF \<Rightarrow> ''SELF'' | DIRECT_REPORTEES \<Rightarrow> ''DIRECT_REPORTEES'' | COMPANY \<Rightarrow> ''COMPANY''
     | LOCATION \<Rightarrow> ''LOCATION'' | DEPARTMENT \<Rightarrow> ''DEPARTMENT'' | TENANT_WIDE \<Rightarrow> ''TENANT_WIDE'')"

definition all_scope_types :: "scope_type list" where
  "all_scope_types = [SELF, DIRECT_REPORTEES, COMPANY, LOCATION, DEPARTMENT, TENANT_WIDE]"

record rule_clause =
  clause_attribute :: string
  clause_operator :: string
  clause_value :: json
  clause_values :: "json list option"

record matching_rule =
  rule_combinator :: "string option"
  rule_clauses :: "rule_clause list"

definition json_of_clause :: "rule_clause \<Rightarrow> json" where
  "json_of_clause c =
    JObj [(''attribute'', JStr (clause_attribute c)), (''operator'', JStr (clause_operator c)),
          (''value'', clause_value c),
          (''values'', case clause_values c of None \<Rightarrow> JUndefined | Some vs \<Rightarrow> JArr vs)]"

definition json_of_rule :: "matching_rule \<Rightarrow> json" where
  "json_of_rule r =
    JObj [(''combinator'', jopt (rule_combinator r)), (''clauses'', JArr (map json_of_clause (rule_clauses r)))]"

record user_group =
  group_id :: uuid
  group_tenant :: tenant
  group_name :: string
  group_description :: "string option"
  group_state :: group_status
  group_scopeType :: scope_type
  group_scopeRefId :: "string option"
  group_matchingRule :: matching_rule
  group_ruleAttributeKeys :: "string list"
  group_version :: int
  group_projectionVersion :: int
  group_createdBy :: "uuid option"
  group_updatedBy :: "uuid option"

record user_group_role =
  ugr_tenant :: tenant
  ugr_groupId :: uuid
  ugr_roleId :: uuid

record group_membership =
  mem_tenant :: tenant
  mem_groupId :: uuid
  mem_userId :: uuid

record user_effective_role =
  uer_id :: uuid
  uer_tenant :: tenant
  uer_userId :: uuid
  uer_roleId :: uuid
  uer_sourceGroupId :: uuid
  uer_scopeType :: string
  uer_scopeEntityId :: "string option"

record employee_reference =
  emp_id :: uuid
  emp_tenant :: tenant
  emp_code :: string
  emp_companyId :: "string option"
  emp_locationId :: "string option"
  emp_departmentId :: "string option"
  emp_gradeId :: "string option"
  emp_jobTitleId :: "string option"
  emp_employmentStatus :: string
  emp_status :: string
  emp_managerId :: "string option"
  emp_reporteesCount :: int
  emp_sourceVersion :: "string option"

section \<open>Row identity by type classes\<close>

text \<open>
  Scope types are listed in the source's order, so that lists of them are enumerated in it.
\<close>

instantiation scope_type :: linorder
begin

definition scope_rank :: "scope_type \<Rightarrow> nat" where
  "scope_rank s =
    (case s of SELF \<Rightarrow> 0 | DIRECT_REPORTEES \<Rightarrow> 1 | COMPANY \<Rightarrow> 2 | LOCATION \<Rightarrow> 3 | DEPARTMENT \<Rightarrow> 4
     | TENANT_WIDE \<Rightarrow> 5)"

definition less_eq_scope_type :: "scope_type \<Rightarrow> scope_type \<Rightarrow> bool" where
  "less_eq_scope_type a b = (scope_rank a \<le> scope_rank b)"

definition less_scope_type :: "scope_type \<Rightarrow> scope_type \<Rightarrow> bool" where
  "less_scope_type a b = (scope_rank a < scope_rank b)"

instance
  by standard
     (auto simp: less_eq_scope_type_def less_scope_type_def scope_rank_def split: scope_type.splits)

end

lemma all_scope_types_complete [simp]: "s \<in> set all_scope_types"
  by (cases s) (simp_all add: all_scope_types_def)

lemma sorted_all_scope_types: "sorted all_scope_types"
  by (simp add: all_scope_types_def less_eq_scope_type_def scope_rank_def)

lemma scope_type_string_inj [simp]: "scope_type_string a = scope_type_string b \<longleftrightarrow> a = b"
  by (cases a; cases b) (simp_all add: scope_type_string_def)

end
