(* ===== verification/Outbox.thy ===== *)
theory Outbox
  imports Access_Model
begin

text \<open>
  The transactional outbox: the event row, the factory of each event of the role, user-group and
  synchronization components (\<^verbatim>\<open>OutboxEventService\<close>), and the defaults the repository
  fills in.  The wall clock is a parameter, the ISO text of the moment the event is built.
\<close>

section \<open>Events\<close>

datatype event_type =
    TENANT_CREATED
  | AUTHENTICATION_USER_PROVISIONED
  | EMPLOYEE_SUSPENDED
  | EMPLOYEE_TERMINATED
  | EMPLOYEE_REACTIVATED
  | EMPLOYEE_REPORTING_LINE_CHANGED
  | EMPLOYEE_UPDATED
  | EMPLOYEE_CREATED
  | AUTHENTICATION_SESSIONS_REVOKED
  | AUTHENTICATION_USER_INVITED
  | AUTHENTICATION_INVITATION_ACCEPTED
  | AUTHENTICATION_INVITATION_RESENT
  | AUTHENTICATION_PASSWORD_CHANGED
  | AUTHENTICATION_PASSWORD_RESET_REQUESTED
  | AUTHENTICATION_PASSWORD_RESET_COMPLETED
  | AUTHORIZATION_ROLE_UPDATED
  | ROLE_CREATED
  | ROLE_COPIED
  | ROLE_DEACTIVATED
  | ROLE_REACTIVATED
  | ROLE_RENAMED
  | ROLE_PERMISSIONS_UPDATED
  | ROLE_PROTECTED_CAPABILITY_VIOLATION
  | USER_GROUP_CREATED
  | USER_GROUP_UPDATED
  | USER_GROUP_DEACTIVATED
  | USER_GROUP_REACTIVATED
  | USER_GROUP_ROLES_ASSIGNED
  | USER_GROUP_ROLE_UNASSIGNED
  | USER_GROUP_SCOPE_UPDATED
  | AUTHORIZATION_USER_GROUP_UPDATED
  | AUTHORIZATION_SYNC_REQUESTED
  | AUTHORIZATION_SYNC_COMPLETED
  | AUTHORIZATION_SYNC_FAILED
  | AUTHENTICATION_COGNITO_USER_PROVISIONED
  | AUTHENTICATION_COGNITO_PROVISIONING_FAILED

definition event_type_string :: "event_type \<Rightarrow> string" where
  "event_type_string e =
    (case e of
       TENANT_CREATED \<Rightarrow> ''tenant.created''
     | AUTHENTICATION_USER_PROVISIONED \<Rightarrow> ''authentication.user-provisioned''
     | EMPLOYEE_SUSPENDED \<Rightarrow> ''employee.suspended''
     | EMPLOYEE_TERMINATED \<Rightarrow> ''employee.terminated''
     | EMPLOYEE_REACTIVATED \<Rightarrow> ''employee.reactivated''
     | EMPLOYEE_REPORTING_LINE_CHANGED \<Rightarrow> ''employee.reporting-line-changed''
     | EMPLOYEE_UPDATED \<Rightarrow> ''employee.updated''
     | EMPLOYEE_CREATED \<Rightarrow> ''employee.created''
     | AUTHENTICATION_SESSIONS_REVOKED \<Rightarrow> ''authentication.sessions-revoked''
     | AUTHENTICATION_USER_INVITED \<Rightarrow> ''authentication.user-invited''
     | AUTHENTICATION_INVITATION_ACCEPTED \<Rightarrow> ''authentication.invitation-accepted''
     | AUTHENTICATION_INVITATION_RESENT \<Rightarrow> ''authentication.invitation-resent''
     | AUTHENTICATION_PASSWORD_CHANGED \<Rightarrow> ''authentication.password-changed''
     | AUTHENTICATION_PASSWORD_RESET_REQUESTED \<Rightarrow> ''authentication.password-reset-requested''
     | AUTHENTICATION_PASSWORD_RESET_COMPLETED \<Rightarrow> ''authentication.password-reset-completed''
     | AUTHORIZATION_ROLE_UPDATED \<Rightarrow> ''authorization.role-updated''
     | ROLE_CREATED \<Rightarrow> ''role.created''
     | ROLE_COPIED \<Rightarrow> ''role.copied''
     | ROLE_DEACTIVATED \<Rightarrow> ''role.deactivated''
     | ROLE_REACTIVATED \<Rightarrow> ''role.reactivated''
     | ROLE_RENAMED \<Rightarrow> ''role.renamed''
     | ROLE_PERMISSIONS_UPDATED \<Rightarrow> ''role.permissions-updated''
     | ROLE_PROTECTED_CAPABILITY_VIOLATION \<Rightarrow> ''role.protected-capability-violation''
     | USER_GROUP_CREATED \<Rightarrow> ''user_group.created''
     | USER_GROUP_UPDATED \<Rightarrow> ''user_group.updated''
     | USER_GROUP_DEACTIVATED \<Rightarrow> ''user_group.deactivated''
     | USER_GROUP_REACTIVATED \<Rightarrow> ''user_group.reactivated''
     | USER_GROUP_ROLES_ASSIGNED \<Rightarrow> ''user_group.roles_assigned''
     | USER_GROUP_ROLE_UNASSIGNED \<Rightarrow> ''user_group.role_unassigned''
     | USER_GROUP_SCOPE_UPDATED \<Rightarrow> ''user_group.scope_updated''
     | AUTHORIZATION_USER_GROUP_UPDATED \<Rightarrow> ''authorization.user-group-updated''
     | AUTHORIZATION_SYNC_REQUESTED \<Rightarrow> ''authorization.sync-requested''
     | AUTHORIZATION_SYNC_COMPLETED \<Rightarrow> ''authorization.sync-completed''
     | AUTHORIZATION_SYNC_FAILED \<Rightarrow> ''authorization.sync-failed''
     | AUTHENTICATION_COGNITO_USER_PROVISIONED \<Rightarrow> ''authentication.cognito-user-provisioned''
     | AUTHENTICATION_COGNITO_PROVISIONING_FAILED \<Rightarrow> ''authentication.cognito-provisioning-failed'')"

datatype aggregate_type =
  AGG_ROLE | AGG_USER_GROUP | AGG_AUTHORIZATION | AGG_AUTHZ_SYNC | AGG_USER | AGG_SECURITY

datatype outbox_status = Outbox_pending | Outbox_published | Outbox_failed

record outbox_event =
  ev_tenant :: tenant
  ev_aggregateType :: aggregate_type
  ev_aggregateId :: uuid
  ev_type :: event_type
  ev_version :: int
  ev_status :: outbox_status
  ev_payload :: json

record outbox_context =
  ctx_tenant :: tenant
  ctx_userId :: "uuid option"

definition ctx_actor :: "outbox_context \<Rightarrow> json" where
  "ctx_actor ctx = (case ctx_userId ctx of None \<Rightarrow> JStr ''SYSTEM'' | Some u \<Rightarrow> JStr u)"

definition mk_event ::
  "outbox_context \<Rightarrow> aggregate_type \<Rightarrow> uuid \<Rightarrow> event_type \<Rightarrow> (string \<times> json) list \<Rightarrow> outbox_event" where
  "mk_event ctx agg i ty payload =
    \<lparr> ev_tenant = ctx_tenant ctx, ev_aggregateType = agg, ev_aggregateId = i, ev_type = ty,
      ev_version = 1, ev_status = Outbox_pending, ev_payload = JObj payload \<rparr>"

section \<open>Role events\<close>

definition fromRoleCreated ::
  "string \<Rightarrow> outbox_context \<Rightarrow> role \<Rightarrow> string list \<Rightarrow> outbox_event" where
  "fromRoleCreated now ctx r codes =
    mk_event ctx AGG_ROLE (role_id r) ROLE_CREATED
      [(''roleId'', JStr (role_id r)),
       (''tenantCode'', JStr (ctx_tenant ctx)),
       (''roleName'', JStr (role_name r)),
       (''roleType'', JStr (role_type_string (role_kind r))),
       (''version'', JNum (role_version r)),
       (''permissionCodes'', jstrs codes),
       (''actorUserId'', ctx_actor ctx),
       (''timestamp'', JStr now)]"

definition fromRoleCopied ::
  "string \<Rightarrow> outbox_context \<Rightarrow> role \<Rightarrow> uuid \<Rightarrow> string list \<Rightarrow> outbox_event" where
  "fromRoleCopied now ctx r source codes =
    mk_event ctx AGG_ROLE (role_id r) ROLE_COPIED
      [(''roleId'', JStr (role_id r)),
       (''sourceRoleId'', JStr source),
       (''tenantCode'', JStr (ctx_tenant ctx)),
       (''roleName'', JStr (role_name r)),
       (''roleType'', JStr (role_type_string (role_kind r))),
       (''version'', JNum (role_version r)),
       (''permissionCodes'', jstrs codes),
       (''actorUserId'', ctx_actor ctx),
       (''timestamp'', JStr now)]"

definition fromRoleDeactivated ::
  "string \<Rightarrow> outbox_context \<Rightarrow> role \<Rightarrow> int \<Rightarrow> int \<Rightarrow> outbox_event" where
  "fromRoleDeactivated now ctx r groups users =
    mk_event ctx AGG_ROLE (role_id r) ROLE_DEACTIVATED
      [(''roleId'', JStr (role_id r)),
       (''tenantCode'', JStr (ctx_tenant ctx)),
       (''roleName'', JStr (role_name r)),
       (''roleType'', JStr (role_type_string (role_kind r))),
       (''version'', JNum (role_version r)),
       (''affectedUserGroupCount'', JNum groups),
       (''affectedUserCount'', JNum users),
       (''actorUserId'', ctx_actor ctx),
       (''timestamp'', JStr now)]"

definition fromRoleReactivated ::
  "string \<Rightarrow> outbox_context \<Rightarrow> role \<Rightarrow> outbox_event" where
  "fromRoleReactivated now ctx r =
    mk_event ctx AGG_ROLE (role_id r) ROLE_REACTIVATED
      [(''roleId'', JStr (role_id r)),
       (''tenantCode'', JStr (ctx_tenant ctx)),
       (''roleName'', JStr (role_name r)),
       (''roleType'', JStr (role_type_string (role_kind r))),
       (''version'', JNum (role_version r)),
       (''actorUserId'', ctx_actor ctx),
       (''timestamp'', JStr now)]"

definition fromRenameRole ::
  "string \<Rightarrow> outbox_context \<Rightarrow> role \<Rightarrow> string \<Rightarrow> string \<Rightarrow> outbox_event" where
  "fromRenameRole now ctx r old new =
    mk_event ctx AGG_ROLE (role_id r) ROLE_RENAMED
      [(''roleId'', JStr (role_id r)),
       (''tenantCode'', JStr (ctx_tenant ctx)),
       (''oldName'', JStr old),
       (''newName'', JStr new),
       (''roleType'', JStr (role_type_string (role_kind r))),
       (''systemRoleKey'', jopt (map_option system_role_key_string (role_systemKey r))),
       (''actorUserId'', ctx_actor ctx),
       (''timestamp'', JStr now)]"

definition fromPermissionsUpdated ::
  "string \<Rightarrow> outbox_context \<Rightarrow> role \<Rightarrow> string list \<Rightarrow> outbox_event" where
  "fromPermissionsUpdated now ctx r codes =
    mk_event ctx AGG_ROLE (role_id r) ROLE_PERMISSIONS_UPDATED
      [(''roleId'', JStr (role_id r)),
       (''tenantCode'', JStr (ctx_tenant ctx)),
       (''roleName'', JStr (role_name r)),
       (''version'', JNum (role_version r)),
       (''permissionCodes'', jstrs codes),
       (''actorUserId'', ctx_actor ctx),
       (''timestamp'', JStr now)]"

definition fromProtectedCapabilityViolation ::
  "string \<Rightarrow> outbox_context \<Rightarrow> role \<Rightarrow> string list \<Rightarrow> outbox_event" where
  "fromProtectedCapabilityViolation now ctx r omitted =
    mk_event ctx AGG_ROLE (role_id r) ROLE_PROTECTED_CAPABILITY_VIOLATION
      [(''roleId'', JStr (role_id r)),
       (''tenantCode'', JStr (ctx_tenant ctx)),
       (''roleName'', JStr (role_name r)),
       (''omittedProtectedCapabilities'', jstrs omitted),
       (''actorUserId'', ctx_actor ctx),
       (''timestamp'', JStr now)]"

section \<open>User-group events\<close>

definition fromUserGroupCreated ::
  "string \<Rightarrow> outbox_context \<Rightarrow> user_group \<Rightarrow> uuid list \<Rightarrow> outbox_event" where
  "fromUserGroupCreated now ctx g roleIds =
    mk_event ctx AGG_USER_GROUP (group_id g) USER_GROUP_CREATED
      [(''userGroupId'', JStr (group_id g)),
       (''name'', JStr (group_name g)),
       (''groupName'', JStr (group_name g)),
       (''version'', JNum (group_version g)),
       (''roleIds'', jstrs roleIds),
       (''actorUserId'', ctx_actor ctx),
       (''timestamp'', JStr now)]"

record group_update_data =
  gud_previousName :: "string option"
  gud_previousDescription :: "string option"
  gud_previousMatchingRule :: "matching_rule option"
  gud_addedRoleIds :: "uuid list option"
  gud_removedRoleIds :: "uuid list option"

definition fromUserGroupUpdated ::
  "string \<Rightarrow> outbox_context \<Rightarrow> user_group \<Rightarrow> group_update_data \<Rightarrow> outbox_event" where
  "fromUserGroupUpdated now ctx g d =
    mk_event ctx AGG_USER_GROUP (group_id g) USER_GROUP_UPDATED
      [(''userGroupId'', JStr (group_id g)),
       (''groupName'', JStr (group_name g)),
       (''version'', JNum (group_version g)),
       (''previousName'', jopt (gud_previousName d)),
       (''previousDescription'', jopt (gud_previousDescription d)),
       (''previousMatchingRule'', (case gud_previousMatchingRule d of None \<Rightarrow> JUndefined | Some r \<Rightarrow> json_of_rule r)),
       (''addedRoleIds'', jstrs_opt (gud_addedRoleIds d)),
       (''removedRoleIds'', jstrs_opt (gud_removedRoleIds d)),
       (''actorUserId'', ctx_actor ctx),
       (''timestamp'', JStr now)]"

definition fromUserGroupDeactivated ::
  "string \<Rightarrow> outbox_context \<Rightarrow> user_group \<Rightarrow> outbox_event" where
  "fromUserGroupDeactivated now ctx g =
    mk_event ctx AGG_USER_GROUP (group_id g) USER_GROUP_DEACTIVATED
      [(''userGroupId'', JStr (group_id g)),
       (''groupName'', JStr (group_name g)),
       (''version'', JNum (group_version g)),
       (''actorUserId'', ctx_actor ctx),
       (''timestamp'', JStr now)]"

definition fromUserGroupReactivated ::
  "string \<Rightarrow> outbox_context \<Rightarrow> user_group \<Rightarrow> outbox_event" where
  "fromUserGroupReactivated now ctx g =
    mk_event ctx AGG_USER_GROUP (group_id g) USER_GROUP_REACTIVATED
      [(''userGroupId'', JStr (group_id g)),
       (''groupName'', JStr (group_name g)),
       (''version'', JNum (group_version g)),
       (''actorUserId'', ctx_actor ctx),
       (''timestamp'', JStr now)]"

definition fromUserGroupRolesAssigned ::
  "string \<Rightarrow> outbox_context \<Rightarrow> user_group \<Rightarrow> uuid list \<Rightarrow> uuid list \<Rightarrow> uuid list \<Rightarrow> outbox_event" where
  "fromUserGroupRolesAssigned now ctx g assigned added previous =
    mk_event ctx AGG_USER_GROUP (group_id g) USER_GROUP_ROLES_ASSIGNED
      [(''userGroupId'', JStr (group_id g)),
       (''groupName'', JStr (group_name g)),
       (''version'', JNum (group_version g)),
       (''assignedRoleIds'', jstrs assigned),
       (''addedRoleIds'', jstrs added),
       (''previousRoleIds'', jstrs previous),
       (''actorUserId'', ctx_actor ctx),
       (''timestamp'', JStr now)]"

definition fromUserGroupRoleUnassigned ::
  "string \<Rightarrow> outbox_context \<Rightarrow> user_group \<Rightarrow> uuid list \<Rightarrow> uuid list \<Rightarrow> uuid list \<Rightarrow> outbox_event" where
  "fromUserGroupRoleUnassigned now ctx g assigned removed previous =
    mk_event ctx AGG_USER_GROUP (group_id g) USER_GROUP_ROLE_UNASSIGNED
      [(''userGroupId'', JStr (group_id g)),
       (''groupName'', JStr (group_name g)),
       (''version'', JNum (group_version g)),
       (''assignedRoleIds'', jstrs assigned),
       (''removedRoleIds'', jstrs removed),
       (''previousRoleIds'', jstrs previous),
       (''actorUserId'', ctx_actor ctx),
       (''timestamp'', JStr now)]"

definition json_of_scope :: "scope_type \<Rightarrow> string option \<Rightarrow> json" where
  "json_of_scope s ref = JObj [(''scopeType'', JStr (scope_type_string s)), (''scopeRefId'', jnullable ref)]"

definition fromUserGroupScopeUpdated ::
  "string \<Rightarrow> outbox_context \<Rightarrow> user_group \<Rightarrow> json \<Rightarrow> json \<Rightarrow> outbox_event" where
  "fromUserGroupScopeUpdated now ctx g prev new =
    mk_event ctx AGG_USER_GROUP (group_id g) USER_GROUP_SCOPE_UPDATED
      [(''userGroupId'', JStr (group_id g)),
       (''groupName'', JStr (group_name g)),
       (''version'', JNum (group_version g)),
       (''previousScope'', prev),
       (''newScope'', new),
       (''actorUserId'', ctx_actor ctx),
       (''timestamp'', JStr now)]"

definition fromAuthorizationUserGroupUpdated ::
  "string \<Rightarrow> outbox_context \<Rightarrow> user_group \<Rightarrow> bool option \<Rightarrow> outbox_event" where
  "fromAuthorizationUserGroupUpdated now ctx g urgent =
    mk_event ctx AGG_USER_GROUP (group_id g) AUTHORIZATION_USER_GROUP_UPDATED
      [(''userGroupId'', JStr (group_id g)),
       (''tenantCode'', JStr (ctx_tenant ctx)),
       (''version'', JNum (group_version g)),
       (''priority'', JStr (if urgent = Some True then ''URGENT'' else ''STANDARD'')),
       (''urgency'', JStr (if urgent = Some True then ''URGENT'' else ''STANDARD'')),
       (''isUrgent'', JBool (case urgent of None \<Rightarrow> False | Some b \<Rightarrow> b)),
       (''timestamp'', JStr now)]"

section \<open>Synchronization events\<close>

record sync_event_data =
  sed_jobId :: uuid
  sed_sourceType :: string
  sed_sourceId :: uuid
  sed_sourceVersion :: int
  sed_triggerType :: string
  sed_initiatedBy :: "uuid option"

definition json_or :: "json \<Rightarrow> json option \<Rightarrow> json" where
  "json_or d x = (case x of None \<Rightarrow> d | Some v \<Rightarrow> v)"

definition num_or_zero :: "int option \<Rightarrow> int" where
  "num_or_zero x = (case x of None \<Rightarrow> 0 | Some v \<Rightarrow> v)"

definition fromAuthorizationSyncRequested ::
  "string \<Rightarrow> outbox_context \<Rightarrow> sync_event_data \<Rightarrow> outbox_event" where
  "fromAuthorizationSyncRequested now ctx d =
    mk_event ctx AGG_AUTHZ_SYNC (sed_jobId d) AUTHORIZATION_SYNC_REQUESTED
      [(''jobId'', JStr (sed_jobId d)),
       (''tenantCode'', JStr (ctx_tenant ctx)),
       (''sourceType'', JStr (sed_sourceType d)),
       (''sourceId'', JStr (sed_sourceId d)),
       (''sourceVersion'', JNum (sed_sourceVersion d)),
       (''triggerType'', JStr (sed_triggerType d)),
       (''initiatedBy'', (case sed_initiatedBy d of None \<Rightarrow> ctx_actor ctx | Some u \<Rightarrow> JStr u)),
       (''timestamp'', JStr now)]"

record sync_completed_data =
  scd_totalUsers :: "int option"
  scd_processedUsers :: int
  scd_affectedUsers :: "int option"
  scd_durationMs :: "int option"
  scd_isHighImpact :: "bool option"
  scd_isLongRunning :: "bool option"
  scd_requiresEmail :: "bool option"

definition sync_is_high_impact :: "sync_completed_data \<Rightarrow> bool" where
  "sync_is_high_impact c =
    (case scd_isHighImpact c of None \<Rightarrow> 500 \<le> scd_processedUsers c | Some b \<Rightarrow> b)"

definition sync_is_long_running :: "sync_completed_data \<Rightarrow> bool" where
  "sync_is_long_running c =
    (case scd_isLongRunning c of None \<Rightarrow> 30000 \<le> num_or_zero (scd_durationMs c) | Some b \<Rightarrow> b)"

definition sync_requires_email :: "sync_completed_data \<Rightarrow> bool" where
  "sync_requires_email c =
    (case scd_requiresEmail c of
       None \<Rightarrow> sync_is_high_impact c \<or> sync_is_long_running c | Some b \<Rightarrow> b)"

definition fromAuthorizationSyncCompleted ::
  "string \<Rightarrow> outbox_context \<Rightarrow> sync_event_data \<Rightarrow> sync_completed_data \<Rightarrow> outbox_event" where
  "fromAuthorizationSyncCompleted now ctx d c =
    mk_event ctx AGG_AUTHZ_SYNC (sed_jobId d) AUTHORIZATION_SYNC_COMPLETED
      [(''jobId'', JStr (sed_jobId d)),
       (''tenantCode'', JStr (ctx_tenant ctx)),
       (''sourceType'', JStr (sed_sourceType d)),
       (''sourceId'', JStr (sed_sourceId d)),
       (''sourceVersion'', JNum (sed_sourceVersion d)),
       (''triggerType'', JStr (sed_triggerType d)),
       (''totalUsers'', JNum (num_or_zero (scd_totalUsers c))),
       (''processedUsers'', JNum (scd_processedUsers c)),
       (''affectedUsers'', JNum (num_or_zero (scd_affectedUsers c))),
       (''durationMs'', JNum (num_or_zero (scd_durationMs c))),
       (''isHighImpact'', JBool (sync_is_high_impact c)),
       (''isLongRunning'', JBool (sync_is_long_running c)),
       (''requiresEmailNotification'', JBool (sync_requires_email c)),
       (''initiatedBy'', jnullable (sed_initiatedBy d)),
       (''timestamp'', JStr now)]"

record sync_failed_data =
  sfd_failureReason :: "string option"
  sfd_sanitizedErrorCode :: "string option"
  sfd_sanitizedErrorDetails :: "json option"
  sfd_failedAfterRetries :: "bool option"
  sfd_priority :: "string option"
  sfd_totalUsers :: "int option"
  sfd_processedUsers :: "int option"
  sfd_durationMs :: "int option"
  sfd_errorCode :: "string option"
  sfd_errorMessage :: "string option"
  sfd_errorDetails :: "json option"
  sfd_requiresEmail :: "bool option"

definition first_some :: "'a option \<Rightarrow> 'a option \<Rightarrow> 'a \<Rightarrow> 'a" where
  "first_some a b d = (case a of Some x \<Rightarrow> x | None \<Rightarrow> (case b of Some y \<Rightarrow> y | None \<Rightarrow> d))"

definition sync_failure_critical :: "sync_failed_data \<Rightarrow> bool" where
  "sync_failure_critical f =
    (sfd_priority f = Some ''CRITICAL'' \<or> sfd_priority f = Some ''URGENT'' \<or>
     sfd_failedAfterRetries f = Some True \<or> sfd_priority f = None \<or> sfd_priority f = Some [])"

definition fromAuthorizationSyncFailed ::
  "string \<Rightarrow> outbox_context \<Rightarrow> sync_event_data \<Rightarrow> sync_failed_data \<Rightarrow> outbox_event" where
  "fromAuthorizationSyncFailed now ctx d f =
    mk_event ctx AGG_AUTHZ_SYNC (sed_jobId d) AUTHORIZATION_SYNC_FAILED
      [(''jobId'', JStr (sed_jobId d)),
       (''tenantCode'', JStr (ctx_tenant ctx)),
       (''sourceType'', JStr (sed_sourceType d)),
       (''sourceId'', JStr (sed_sourceId d)),
       (''sourceVersion'', JNum (sed_sourceVersion d)),
       (''triggerType'', JStr (sed_triggerType d)),
       (''failureReason'', JStr (first_some (sfd_failureReason f) (sfd_errorMessage f) ''Unknown failure'')),
       (''sanitizedErrorCode'', JStr (first_some (sfd_sanitizedErrorCode f) (sfd_errorCode f) ''INTERNAL_ERROR'')),
       (''sanitizedErrorDetails'', first_some (sfd_sanitizedErrorDetails f) (sfd_errorDetails f) (JObj [])),
       (''failedAfterRetries'', JBool (sfd_failedAfterRetries f = Some True)),
       (''priority'', JStr (case sfd_priority f of None \<Rightarrow> ''STANDARD'' | Some p \<Rightarrow> p)),
       (''urgency'', JStr (if sync_failure_critical f then ''CRITICAL'' else ''STANDARD'')),
       (''totalUsers'', JNum (num_or_zero (sfd_totalUsers f))),
       (''processedUsers'', JNum (num_or_zero (sfd_processedUsers f))),
       (''durationMs'', JNum (num_or_zero (sfd_durationMs f))),
       (''errorCode'', JStr (first_some (sfd_sanitizedErrorCode f) (sfd_errorCode f) ''INTERNAL_ERROR'')),
       (''errorMessage'', JStr (first_some (sfd_failureReason f) (sfd_errorMessage f) ''Unknown failure'')),
       (''errorDetails'', first_some (sfd_sanitizedErrorDetails f) (sfd_errorDetails f) (JObj [])),
       (''requiresEmailNotification'', JBool (case sfd_requiresEmail f of None \<Rightarrow> True | Some b \<Rightarrow> b)),
       (''initiatedBy'', jnullable (sed_initiatedBy d)),
       (''timestamp'', JStr now)]"

lemmas outbox_factories =
  fromRoleCreated_def
  fromRoleCopied_def
  fromRoleDeactivated_def
  fromRoleReactivated_def
  fromRenameRole_def
  fromPermissionsUpdated_def
  fromProtectedCapabilityViolation_def
  fromUserGroupCreated_def
  fromUserGroupUpdated_def
  fromUserGroupDeactivated_def
  fromUserGroupReactivated_def
  fromUserGroupRolesAssigned_def
  fromUserGroupRoleUnassigned_def
  fromUserGroupScopeUpdated_def
  fromAuthorizationUserGroupUpdated_def
  fromAuthorizationSyncRequested_def
  fromAuthorizationSyncCompleted_def
  fromAuthorizationSyncFailed_def

lemma mk_event_fields [simp]:
  "ev_tenant (mk_event ctx agg i ty p) = ctx_tenant ctx"
  "ev_aggregateType (mk_event ctx agg i ty p) = agg"
  "ev_aggregateId (mk_event ctx agg i ty p) = i"
  "ev_type (mk_event ctx agg i ty p) = ty"
  "ev_version (mk_event ctx agg i ty p) = 1"
  "ev_status (mk_event ctx agg i ty p) = Outbox_pending"
  by (simp_all add: mk_event_def)

section \<open>The repository\<close>

text \<open>
  \<^verbatim>\<open>OutboxEventRepository.create\<close>: the row stored for a partial event.  Both branches of
  the source's status default are the pending status.
\<close>

record outbox_draft =
  draft_tenant :: "tenant option"
  draft_aggregateType :: "string option"
  draft_aggregateId :: "string option"
  draft_userId :: "string option"
  draft_payload :: "json option"
  draft_sanitizedPayload :: "json option"
  draft_status :: "outbox_status option"
  draft_eventType :: string
  draft_eventVersion :: "int option"

record outbox_row =
  row_tenant :: tenant
  row_aggregateType :: string
  row_aggregateId :: string
  row_payload :: json
  row_status :: outbox_status
  row_eventType :: string
  row_eventVersion :: int

definition NIL_UUID :: string where
  "NIL_UUID = ''00000000-0000-0000-0000-000000000000''"

definition outbox_create :: "tenant \<Rightarrow> outbox_draft \<Rightarrow> outbox_row" where
  "outbox_create request_tenant d =
    \<lparr> row_tenant = (case draft_tenant d of None \<Rightarrow> request_tenant | Some t \<Rightarrow> t),
      row_aggregateType =
        (case draft_aggregateType d of
           Some a \<Rightarrow> a
         | None \<Rightarrow> (case draft_userId d of Some (c # cs) \<Rightarrow> ''USER'' | _ \<Rightarrow> ''UNKNOWN'')),
      row_aggregateId = first_some (draft_aggregateId d) (draft_userId d) NIL_UUID,
      row_payload = first_some (draft_payload d) (draft_sanitizedPayload d) (JObj []),
      row_status = (case draft_status d of Some s \<Rightarrow> s | None \<Rightarrow> Outbox_pending),
      row_eventType = draft_eventType d,
      row_eventVersion = (case draft_eventVersion d of None \<Rightarrow> 1 | Some v \<Rightarrow> v) \<rparr>"

definition findPendingEvents :: "outbox_event list \<Rightarrow> outbox_event list" where
  "findPendingEvents rows = filter (\<lambda>e. ev_status e = Outbox_pending) rows"

end
