(* ===== verification/Row_Store.thy ===== *)
theory Row_Store
  imports Outbox
begin

text \<open>
  Tables as explicit lists of rows.  A row saved under the key of an existing row replaces it in
  place, a new key is appended, and a conditional delete filters.  The interface of a keyed table
  inside a database state is a locale; every table the model updates through it interprets it.
  The rows are what PostgreSQL holds after the statement, with the constraints the migrations
  declare checked by the operations that can violate them.
\<close>

section \<open>Rows\<close>

definition find_row :: "('r \<Rightarrow> 'k) \<Rightarrow> 'k \<Rightarrow> 'r list \<Rightarrow> 'r option" where
  "find_row key k rows = find (\<lambda>r. key r = k) rows"

definition save_row :: "('r \<Rightarrow> 'k) \<Rightarrow> 'r \<Rightarrow> 'r list \<Rightarrow> 'r list" where
  "save_row key r rows =
    (if key r \<in> key ` set rows then map (\<lambda>x. if key x = key r then r else x) rows else rows @ [r])"

definition delete_rows :: "('r \<Rightarrow> bool) \<Rightarrow> 'r list \<Rightarrow> 'r list" where
  "delete_rows P rows = filter (\<lambda>r. \<not> P r) rows"

lemma set_save_row: "set (save_row key r rows) = insert r {x \<in> set rows. key x \<noteq> key r}"
  by (auto simp: save_row_def image_iff)

lemma keys_save_row: "map key (save_row key r rows) = js_add (key r) (map key rows)"
  by (auto simp: save_row_def js_add_def intro: map_cong)

lemma distinct_save_row: "distinct (map key rows) \<Longrightarrow> distinct (map key (save_row key r rows))"
  by (simp only: keys_save_row distinct_js_add)

lemma find_row_SomeD: "find_row key k rows = Some r \<Longrightarrow> r \<in> set rows \<and> key r = k"
  unfolding find_row_def by (rule find_SomeD)

lemma find_row_iff:
  "distinct (map key rows) \<Longrightarrow> find_row key k rows = Some r \<longleftrightarrow> r \<in> set rows \<and> key r = k"
proof (induction rows)
  case (Cons a rows)
  then show ?case by (auto simp: find_row_def rev_image_eqI)
qed (simp add: find_row_def)

lemma set_delete_rows [simp]: "set (delete_rows P rows) = {r \<in> set rows. \<not> P r}"
  by (auto simp: delete_rows_def)

lemma distinct_delete_rows: "distinct (map key rows) \<Longrightarrow> distinct (map key (delete_rows P rows))"
  by (simp add: delete_rows_def distinct_map_filter)

lemma save_row_replace_in_place:
  "r \<in> set rows \<Longrightarrow> key r' = key r \<Longrightarrow> length (save_row key r' rows) = length rows"
  by (auto simp: save_row_def)

section \<open>A keyed table of a database\<close>

locale keyed_table =
  fixes rows :: "'db \<Rightarrow> 'r list"
    and key :: "'r \<Rightarrow> 'k"
    and save :: "'r \<Rightarrow> 'db \<Rightarrow> 'db"
    and remove :: "('r \<Rightarrow> bool) \<Rightarrow> 'db \<Rightarrow> 'db"
  assumes rows_save: "rows (save r db) = save_row key r (rows db)"
    and rows_remove: "rows (remove P db) = delete_rows P (rows db)"
begin

lemma set_rows_save: "set (rows (save r db)) = insert r {x \<in> set (rows db). key x \<noteq> key r}"
  by (simp add: rows_save set_save_row)

lemma keys_kept:
  "distinct (map key (rows db)) \<Longrightarrow> distinct (map key (rows (save r db)))"
  "distinct (map key (rows db)) \<Longrightarrow> distinct (map key (rows (remove P db)))"
  by (simp_all add: rows_save rows_remove distinct_save_row distinct_delete_rows)

lemma find_save:
  "distinct (map key (rows db)) \<Longrightarrow>
     find_row key k (rows (save r db)) = (if k = key r then Some r else find_row key k (rows db))"
proof -
  assume d: "distinct (map key (rows db))"
  have "find_row key k (rows (save r db)) = Some x \<longleftrightarrow>
      (if k = key r then Some r else find_row key k (rows db)) = Some x" for x
    using find_row_iff[OF keys_kept(1)[OF d]] find_row_iff[OF d] by (auto simp: set_rows_save)
  then show ?thesis by (metis not_None_eq)
qed

lemma find_remove:
  "distinct (map key (rows db)) \<Longrightarrow>
     find_row key k (rows (remove P db))
       = (case find_row key k (rows db) of Some x \<Rightarrow> if P x then None else Some x | None \<Rightarrow> None)"
proof -
  assume d: "distinct (map key (rows db))"
  show ?thesis
  proof (rule option_eqI)
    fix y
    have f: "find_row key k (rows (remove P db)) = Some y \<longleftrightarrow> y \<in> set (rows db) \<and> \<not> P y \<and> key y = k"
      using find_row_iff[OF keys_kept(2)[OF d]] by (simp add: rows_remove)
    show "find_row key k (rows (remove P db)) = Some y \<longleftrightarrow>
        (case find_row key k (rows db) of Some x \<Rightarrow> if P x then None else Some x | None \<Rightarrow> None) = Some y"
      unfolding f using find_row_iff[OF d, of k y]
      by (cases "find_row key k (rows db)") auto
  qed
qed

lemma save_other_rows: "x \<in> set (rows db) \<Longrightarrow> key x \<noteq> key r \<Longrightarrow> x \<in> set (rows (save r db))"
  by (simp add: set_rows_save)

lemma all_after_save:
  "\<forall>x \<in> set (rows db). P x \<Longrightarrow> P r \<Longrightarrow> \<forall>x \<in> set (rows (save r db)). P x"
  by (simp add: set_rows_save)

end

section \<open>Versioned rows under interleaved steps\<close>

text \<open>
  The contract optimistic locking rests on: a step either keeps a row's content and version or
  raises its version, and a row that is gone does not come back under an identifier already handed
  out.
\<close>

locale versioned_rows =
  fixes step :: "'s \<Rightarrow> 's \<Rightarrow> bool"
    and ok :: "'s \<Rightarrow> bool"
    and lookup :: "'i \<Rightarrow> 's \<Rightarrow> 'r option"
    and version :: "'r \<Rightarrow> int"
    and content :: "'r \<Rightarrow> 'c"
    and issued :: "'s \<Rightarrow> 'i set"
  assumes ok_step: "ok s \<Longrightarrow> step s s' \<Longrightarrow> ok s'"
    and issued_step: "ok s \<Longrightarrow> step s s' \<Longrightarrow> issued s \<subseteq> issued s'"
    and lookup_issued: "ok s \<Longrightarrow> lookup i s = Some r \<Longrightarrow> i \<in> issued s"
    and raises: "ok s \<Longrightarrow> step s s' \<Longrightarrow> lookup i s = Some r \<Longrightarrow> lookup i s' = Some r' \<Longrightarrow>
      (content r' = content r \<and> version r' = version r) \<or> version r < version r'"
    and no_return: "ok s \<Longrightarrow> step s s' \<Longrightarrow> i \<in> issued s \<Longrightarrow> lookup i s = None \<Longrightarrow> lookup i s' = None"
begin

lemma ok_steps: "step\<^sup>*\<^sup>* s s' \<Longrightarrow> ok s \<Longrightarrow> ok s' \<and> issued s \<subseteq> issued s'"
  by (induction rule: rtranclp_induct) (auto dest: ok_step issued_step)

lemma steps_raise:
  assumes "step\<^sup>*\<^sup>* s s'" "ok s" "lookup i s = Some r" "lookup i s' = Some r'"
  shows "(content r' = content r \<and> version r' = version r) \<or> version r < version r'"
  using assms(1,4)
proof (induction arbitrary: r' rule: rtranclp_induct)
  case base
  then show ?case using assms(3) by simp
next
  case (step y z)
  have y: "ok y" "i \<in> issued y"
    using ok_steps[OF step(1) assms(2)] lookup_issued[OF assms(2,3)] by auto
  obtain x where x: "lookup i y = Some x"
    using no_return[OF y(1) step(2) y(2)] step(4) by fastforce
  show ?case using step(3)[OF x] raises[OF y(1) step(2) x step(4)] by auto
qed

lemma same_version_same_content:
  "step\<^sup>*\<^sup>* s s' \<Longrightarrow> ok s \<Longrightarrow> lookup i s = Some r \<Longrightarrow> lookup i s' = Some r' \<Longrightarrow>
     version r' = version r \<Longrightarrow> content r' = content r"
  using steps_raise by fastforce

lemma version_never_falls:
  "step\<^sup>*\<^sup>* s s' \<Longrightarrow> ok s \<Longrightarrow> lookup i s = Some r \<Longrightarrow> lookup i s' = Some r' \<Longrightarrow>
     version r \<le> version r'"
  using steps_raise by fastforce

end

section \<open>The authorization database\<close>

record authz_db =
  t_roles :: "role list"
  t_role_permissions :: "role_permission list"
  t_groups :: "user_group list"
  t_group_roles :: "user_group_role list"
  t_memberships :: "group_membership list"
  t_effective_roles :: "user_effective_role list"
  t_outbox :: "outbox_event list"

definition put_role :: "role \<Rightarrow> authz_db \<Rightarrow> authz_db" where
  "put_role r db = db\<lparr> t_roles := save_row role_id r (t_roles db) \<rparr>"

definition drop_roles :: "(role \<Rightarrow> bool) \<Rightarrow> authz_db \<Rightarrow> authz_db" where
  "drop_roles P db = db\<lparr> t_roles := delete_rows P (t_roles db) \<rparr>"

definition put_group :: "user_group \<Rightarrow> authz_db \<Rightarrow> authz_db" where
  "put_group g db = db\<lparr> t_groups := save_row group_id g (t_groups db) \<rparr>"

definition drop_groups :: "(user_group \<Rightarrow> bool) \<Rightarrow> authz_db \<Rightarrow> authz_db" where
  "drop_groups P db = db\<lparr> t_groups := delete_rows P (t_groups db) \<rparr>"

interpretation roles_table: keyed_table t_roles role_id put_role drop_roles
  by unfold_locales (simp_all add: put_role_def drop_roles_def)

interpretation groups_table: keyed_table t_groups group_id put_group drop_groups
  by unfold_locales (simp_all add: put_group_def drop_groups_def)

lemma put_role_tables [simp]:
  "t_role_permissions (put_role r db) = t_role_permissions db"
  "t_groups (put_role r db) = t_groups db"
  "t_group_roles (put_role r db) = t_group_roles db"
  "t_memberships (put_role r db) = t_memberships db"
  "t_effective_roles (put_role r db) = t_effective_roles db"
  "t_outbox (put_role r db) = t_outbox db"
  by (simp_all add: put_role_def)

lemma put_group_tables [simp]:
  "t_roles (put_group g db) = t_roles db"
  "t_role_permissions (put_group g db) = t_role_permissions db"
  "t_group_roles (put_group g db) = t_group_roles db"
  "t_memberships (put_group g db) = t_memberships db"
  "t_effective_roles (put_group g db) = t_effective_roles db"
  "t_outbox (put_group g db) = t_outbox db"
  by (simp_all add: put_group_def)

definition save_outbox :: "outbox_event \<Rightarrow> authz_db \<Rightarrow> authz_db" where
  "save_outbox e db = db\<lparr> t_outbox := t_outbox db @ [e] \<rparr>"

lemma save_outbox_tables [simp]:
  "t_roles (save_outbox e db) = t_roles db"
  "t_role_permissions (save_outbox e db) = t_role_permissions db"
  "t_groups (save_outbox e db) = t_groups db"
  "t_group_roles (save_outbox e db) = t_group_roles db"
  "t_memberships (save_outbox e db) = t_memberships db"
  "t_effective_roles (save_outbox e db) = t_effective_roles db"
  "t_outbox (save_outbox e db) = t_outbox db @ [e]"
  by (simp_all add: save_outbox_def)

end
