(* ===== verification/Permission_Catalog.thy ===== *)
theory Permission_Catalog
  imports Prelude
begin

text \<open>
  The permission catalog of \<^verbatim>\<open>src/src/modules/permissions\<close>: the naming rule of a
  permission, the loader that turns the parsed YAML document into frozen definitions and the
  three indexes it keeps (by id, by module and resource, and the dependency graph), and the
  graph builder.  The YAML parser is a parameter: a function from the file's text to either a
  parse error or the document, \<^verbatim>\<open>None\<close> standing for a document without a
  \<^verbatim>\<open>permissions\<close> array.
\<close>

section \<open>The data of a catalog\<close>

record permission_definition =
  perm_id :: string
  perm_module :: string
  perm_resource :: string
  perm_action :: string
  perm_requires :: "string list option"
  perm_entry :: bool
  perm_deprecated :: bool
  perm_deprecatedAt :: "string option"
  perm_removedInVersion :: "string option"

record raw_permission =
  raw_id :: string
  raw_module :: string
  raw_resource :: string
  raw_action :: string
  raw_requires :: "string list option"
  raw_entry :: "bool option"
  raw_deprecated :: "bool option"
  raw_deprecatedAt :: "string option"
  raw_removedInVersion :: "string option"

record dependency_node =
  node_id :: string
  node_definition :: permission_definition
  node_prerequisites :: "string list"
  node_dependents :: "string list"

record permission_graph =
  graph_nodes :: "(string, dependency_node) js_map"
  adjacencyList :: "(string, string list) js_map"
  reverseAdjacencyList :: "(string, string list) js_map"

datatype naming_fault = Bad_pattern | Not_concatenation | Past_tense_action

datatype catalog_error =
    Yaml_error string
  | Missing_permissions_array
  | Catalog_file_not_found "string list"
  | Catalog_file_unreadable string
  | Graph_not_loaded
  | Invalid_permission_format string naming_fault
  | Dangling_prerequisite string string
  | Cyclic_dependency "string list"

section \<open>Naming\<close>

text \<open>\<^verbatim>\<open>/^[a-z][a-z0-9_-]*\.[a-z][a-z0-9_-]*$/\<close>\<close>

definition name_start :: "char \<Rightarrow> bool" where
  "name_start c = (CHR ''a'' \<le> c \<and> c \<le> CHR ''z'')"

definition name_char :: "char \<Rightarrow> bool" where
  "name_char c = (name_start c \<or> (CHR ''0'' \<le> c \<and> c \<le> CHR ''9'') \<or> c = CHR ''_'' \<or> c = CHR ''-'')"

fun name_part :: "string \<Rightarrow> bool" where
  "name_part [] = False"
| "name_part (c # cs) = (name_start c \<and> list_all name_char cs)"

definition permission_action_regex :: "string \<Rightarrow> bool" where
  "permission_action_regex s =
    (case dropWhile name_char s of
       [] \<Rightarrow> False
     | d # rest \<Rightarrow> d = CHR ''.'' \<and> name_part (takeWhile name_char s) \<and> name_part rest)"

definition prohibited_event_actions :: "string list" where
  "prohibited_event_actions =
    [''created'', ''updated'', ''deleted'', ''archived'', ''approved'', ''rejected'',
     ''deactivated'', ''activated'', ''synced'', ''requested'', ''viewed'']"

definition validatePermissionNaming :: "string \<Rightarrow> string \<Rightarrow> string \<Rightarrow> catalog_error + unit" where
  "validatePermissionNaming pid resource action =
    (if pid = [] \<or> \<not> permission_action_regex pid
     then Fail (Invalid_permission_format pid Bad_pattern)
     else if pid \<noteq> resource @ ''.'' @ action
     then Fail (Invalid_permission_format pid Not_concatenation)
     else if js_lower action \<in> set prohibited_event_actions
     then Fail (Invalid_permission_format pid Past_tense_action)
     else Ok ())"

lemma name_start_char [simp]: "name_start c \<Longrightarrow> name_char c"
  by (simp add: name_char_def)

lemma not_name_char_dot [simp]: "\<not> name_char (CHR ''.'')"
  by (simp add: name_char_def name_start_def less_eq_char_def)

lemma name_part_list_all: "name_part s \<Longrightarrow> list_all name_char s"
  by (cases s) auto

lemma name_part_take_drop:
  assumes "list_all name_char r"
  shows "takeWhile name_char (r @ CHR ''.'' # a) = r"
    and "dropWhile name_char (r @ CHR ''.'' # a) = CHR ''.'' # a"
  using assms by (induction r) auto

lemma regex_iff:
  "permission_action_regex s \<longleftrightarrow> (\<exists>r a. s = r @ ''.'' @ a \<and> name_part r \<and> name_part a)"
proof
  assume *: "permission_action_regex s"
  then obtain rest where "dropWhile name_char s = CHR ''.'' # rest"
      "name_part (takeWhile name_char s)" "name_part rest"
    by (auto simp: permission_action_regex_def split: list.splits)
  then show "\<exists>r a. s = r @ ''.'' @ a \<and> name_part r \<and> name_part a"
    by (metis append_Cons append_Nil takeWhile_dropWhile_id)
next
  assume "\<exists>r a. s = r @ ''.'' @ a \<and> name_part r \<and> name_part a"
  then show "permission_action_regex s"
    by (auto simp: permission_action_regex_def name_part_take_drop name_part_list_all)
qed

lemma dot_split_unique:
  assumes "r @ ''.'' @ a = r' @ ''.'' @ a'" "name_part r" "name_part r'"
  shows "r = r' \<and> a = a'"
  using name_part_take_drop[OF name_part_list_all[OF assms(2)], of a]
    name_part_take_drop[OF name_part_list_all[OF assms(3)], of a'] assms(1)
  by simp

lemma validatePermissionNaming_Ok_iff:
  "validatePermissionNaming pid resource action = Ok () \<longleftrightarrow>
     permission_action_regex pid \<and> pid = resource @ ''.'' @ action \<and>
     js_lower action \<notin> set prohibited_event_actions"
  by (auto simp: validatePermissionNaming_def permission_action_regex_def)

section \<open>The dependency graph\<close>

definition init_adjacency :: "permission_definition list \<Rightarrow> (string, string list) js_map" where
  "init_adjacency ds = fold (\<lambda>d. js_put (perm_id d) []) ds []"

definition requires_of :: "permission_definition \<Rightarrow> string list" where
  "requires_of d = (case perm_requires d of None \<Rightarrow> [] | Some rs \<Rightarrow> rs)"

text \<open>\<^verbatim>\<open>m.get(k)?.add(x)\<close>: nothing happens when the key is absent.\<close>

definition add_at :: "string \<Rightarrow> string \<Rightarrow> (string, string list) js_map \<Rightarrow> (string, string list) js_map" where
  "add_at k x m = (case js_get m k of None \<Rightarrow> m | Some s \<Rightarrow> js_put k (js_add x s) m)"

type_synonym adjacency_pair = "(string, string list) js_map \<times> (string, string list) js_map"

definition link_requirement :: "string \<Rightarrow> string \<Rightarrow> adjacency_pair \<Rightarrow> adjacency_pair" where
  "link_requirement pid req p =
    (add_at pid req (fst p), add_at req pid (js_ensure req [] (snd p)))"

definition link_definition :: "permission_definition \<Rightarrow> adjacency_pair \<Rightarrow> adjacency_pair" where
  "link_definition d p = fold (link_requirement (perm_id d)) (js_set_of (requires_of d)) p"

definition make_node :: "adjacency_pair \<Rightarrow> permission_definition \<Rightarrow> dependency_node" where
  "make_node p d =
    \<lparr> node_id = perm_id d, node_definition = d,
      node_prerequisites = js_get_or [] (fst p) (perm_id d),
      node_dependents = js_get_or [] (snd p) (perm_id d) \<rparr>"

definition link_all :: "permission_definition list \<Rightarrow> adjacency_pair" where
  "link_all ds = fold link_definition ds (init_adjacency ds, init_adjacency ds)"

definition buildGraph :: "permission_definition list \<Rightarrow> permission_graph" where
  "buildGraph ds =
    (let p = link_all ds in
     \<lparr> graph_nodes = fold (\<lambda>d. js_put (perm_id d) (make_node p d)) ds [],
       adjacencyList = fst p, reverseAdjacencyList = snd p \<rparr>)"

definition succs :: "(string, string list) js_map \<Rightarrow> string \<Rightarrow> string list" where
  "succs m x = js_get_or [] m x"

text \<open>Every write leaves the keys of a map and the elements of its sets distinct.\<close>

definition set_map_ok :: "(string, string list) js_map \<Rightarrow> bool" where
  "set_map_ok m = (distinct (js_keys m) \<and> (\<forall>x. distinct (succs m x)))"

lemma succs_put [simp]: "succs (js_put k s m) x = (if x = k then s else succs m x)"
  by (simp add: succs_def)

lemma set_map_ok_put:
  "set_map_ok m \<Longrightarrow> distinct s \<Longrightarrow> set_map_ok (js_put k s m)"
  by (auto simp: set_map_ok_def)

lemma set_succs_add_at:
  "set (succs (add_at k x m) y) = set (succs m y) \<union> (if y = k \<and> js_has m k then {x} else {})"
proof (cases "js_get m k")
  case None
  then show ?thesis by (simp add: add_at_def js_has_def del: js_has_iff)
next
  case (Some s)
  then show ?thesis by (cases "y = k") (simp_all add: add_at_def js_has_def succs_put succs_def[of m] js_get_or_def del: js_has_iff)
qed

lemma keys_add_at [simp]: "js_keys (add_at k x m) = js_keys m"
  by (cases "js_get m k")
     (auto simp: add_at_def js_add_def update_keys, metis option.distinct(1) map_of_eq_None_iff)

lemma set_map_ok_add_at: "set_map_ok m \<Longrightarrow> set_map_ok (add_at k x m)"
proof (cases "js_get m k")
  case (Some s)
  moreover assume ok: "set_map_ok m"
  ultimately have "distinct s"
    by (auto simp: set_map_ok_def succs_def js_get_or_def split: option.splits)
  with ok Some show ?thesis by (auto simp: add_at_def intro: set_map_ok_put)
qed (simp add: add_at_def)

lemma succs_ensure [simp]: "succs (js_ensure k [] m) y = succs m y"
  using js_get_or_ensure[of "[]" k m y] by (simp add: succs_def js_get_or_def)

lemma set_map_ok_ensure: "set_map_ok m \<Longrightarrow> set_map_ok (js_ensure k [] m)"
  by (auto simp: js_ensure_def intro: set_map_ok_put)

lemmas set_map_ok_intros = set_map_ok_put set_map_ok_add_at set_map_ok_ensure

lemma init_adjacency_keys: "js_keys (init_adjacency ds) = js_set_of (map perm_id ds)"
  unfolding init_adjacency_def by (rule js_map.keys_of_list)

lemma init_adjacency_succs [simp]: "succs (init_adjacency ds) x = []"
  by (simp add: succs_def js_get_or_def init_adjacency_def js_map.get_of_list split: option.splits)

lemma init_adjacency_ok: "set_map_ok (init_adjacency ds)"
  by (simp add: set_map_ok_def init_adjacency_keys)

definition pair_ok :: "adjacency_pair \<Rightarrow> bool" where
  "pair_ok p = (set_map_ok (fst p) \<and> set_map_ok (snd p))"

lemma link_requirement_ok: "pair_ok p \<Longrightarrow> pair_ok (link_requirement i r p)"
  by (simp add: pair_ok_def link_requirement_def set_map_ok_intros)

lemma link_requirement_forward:
  "set (succs (fst (link_requirement i r p)) x)
     = set (succs (fst p) x) \<union> (if x = i \<and> js_has (fst p) i then {r} else {})"
  by (simp add: link_requirement_def set_succs_add_at)

lemma link_requirement_backward:
  "set (succs (snd (link_requirement i r p)) y)
     = set (succs (snd p) y) \<union> (if y = r then {i} else {})"
  by (simp add: link_requirement_def set_succs_add_at)

lemma link_requirement_keys [simp]:
  "js_keys (fst (link_requirement i r p)) = js_keys (fst p)"
  by (simp add: link_requirement_def)

lemma fold_link_requirement:
  fixes p :: adjacency_pair and i :: string
  defines "q rs \<equiv> fold (link_requirement i) rs p"
  shows "js_keys (fst (q rs)) = js_keys (fst p)"
    and "pair_ok p \<Longrightarrow> pair_ok (q rs)"
    and "set (succs (fst (q rs)) x)
           = set (succs (fst p) x) \<union> (if x = i \<and> js_has (fst p) i then set rs else {})"
    and "set (succs (snd (q rs)) y) = set (succs (snd p) y) \<union> (if y \<in> set rs then {i} else {})"
  unfolding q_def
  by (induction rs rule: rev_induct)
     (auto simp: link_requirement_forward link_requirement_backward intro: link_requirement_ok)

lemma link_definition_keys [simp]: "js_keys (fst (link_definition d p)) = js_keys (fst p)"
  by (simp add: link_definition_def fold_link_requirement)

lemma link_definition_ok: "pair_ok p \<Longrightarrow> pair_ok (link_definition d p)"
  by (simp add: link_definition_def fold_link_requirement)

lemma link_definition_forward:
  "set (succs (fst (link_definition d p)) x)
     = set (succs (fst p) x)
       \<union> (if x = perm_id d \<and> js_has (fst p) x then set (requires_of d) else {})"
  by (auto simp: link_definition_def fold_link_requirement)

lemma link_definition_backward:
  "set (succs (snd (link_definition d p)) y)
     = set (succs (snd p) y) \<union> (if y \<in> set (requires_of d) then {perm_id d} else {})"
  by (auto simp: link_definition_def fold_link_requirement)

lemma fold_link_definition:
  fixes p :: adjacency_pair
  defines "q ds \<equiv> fold link_definition ds p"
  shows "js_keys (fst (q ds)) = js_keys (fst p)"
    and "pair_ok p \<Longrightarrow> pair_ok (q ds)"
    and "set (succs (fst (q ds)) x)
           = set (succs (fst p) x)
             \<union> {r. js_has (fst p) x \<and> (\<exists>d \<in> set ds. perm_id d = x \<and> r \<in> set (requires_of d))}"
    and "set (succs (snd (q ds)) y)
           = set (succs (snd p) y) \<union> {perm_id d | d. d \<in> set ds \<and> y \<in> set (requires_of d)}"
  unfolding q_def
  by (induction ds rule: rev_induct)
     (auto simp: link_definition_forward link_definition_backward intro: link_definition_ok)

lemma link_all_ok: "pair_ok (link_all ds)"
  unfolding link_all_def
  by (intro fold_link_definition(2)) (simp add: pair_ok_def init_adjacency_ok)

text \<open>The prerequisite relation of a list of definitions.\<close>

definition requires_rel :: "permission_definition list \<Rightarrow> (string \<times> string) set" where
  "requires_rel ds = {(i, r). \<exists>d \<in> set ds. perm_id d = i \<and> r \<in> set (requires_of d)}"

lemma set_succs_adjacency:
  "set (succs (adjacencyList (buildGraph ds)) x)
     = requires_rel ds `` {x}"
  by (auto simp: requires_rel_def buildGraph_def Let_def link_all_def fold_link_definition init_adjacency_keys)

lemma set_succs_reverse:
  "set (succs (reverseAdjacencyList (buildGraph ds)) y)
     = (requires_rel ds)\<inverse> `` {y}"
  by (auto simp: requires_rel_def buildGraph_def Let_def link_all_def fold_link_definition)

lemma adjacency_keys:
  "js_keys (adjacencyList (buildGraph ds)) = js_set_of (map perm_id ds)"
  by (simp add: buildGraph_def Let_def link_all_def fold_link_definition init_adjacency_keys)

lemma node_keys: "js_keys (graph_nodes (buildGraph ds)) = js_set_of (map perm_id ds)"
  unfolding buildGraph_def Let_def by (simp add: js_map.keys_of_list)

lemma graph_nodes_get:
  "js_get (graph_nodes (buildGraph ds)) i
     = map_option (make_node (link_all ds)) (find (\<lambda>d. perm_id d = i) (rev ds))"
  unfolding buildGraph_def Let_def by (simp add: js_map.get_of_list)

lemma make_node_sets:
  "set (node_prerequisites (make_node (link_all ds) d)) = requires_rel ds `` {perm_id d}"
  "set (node_dependents (make_node (link_all ds) d)) = (requires_rel ds)\<inverse> `` {perm_id d}"
  "distinct (node_prerequisites (make_node (link_all ds) d))"
  "distinct (node_dependents (make_node (link_all ds) d))"
proof -
  have "node_prerequisites (make_node (link_all ds) d)
        = succs (adjacencyList (buildGraph ds)) (perm_id d)"
    "node_dependents (make_node (link_all ds) d)
        = succs (reverseAdjacencyList (buildGraph ds)) (perm_id d)"
    by (simp_all add: make_node_def succs_def buildGraph_def Let_def)
  then show "set (node_prerequisites (make_node (link_all ds) d)) = requires_rel ds `` {perm_id d}"
    "set (node_dependents (make_node (link_all ds) d)) = (requires_rel ds)\<inverse> `` {perm_id d}"
    "distinct (node_prerequisites (make_node (link_all ds) d))"
    "distinct (node_dependents (make_node (link_all ds) d))"
    using link_all_ok[of ds]
    by (simp_all only: set_succs_adjacency set_succs_reverse)
       (simp_all add: buildGraph_def Let_def pair_ok_def set_map_ok_def)
qed

lemma graph_node_cases:
  assumes "js_get (graph_nodes (buildGraph ds)) i = Some n"
  obtains d where "d \<in> set ds" "perm_id d = i" "n = make_node (link_all ds) d"
    "find (\<lambda>d. perm_id d = i) (rev ds) = Some d"
  using assms by (auto simp: graph_nodes_get) (use find_SomeD in fastforce)

definition last_with_id :: "permission_definition list \<Rightarrow> string \<Rightarrow> permission_definition option" where
  "last_with_id ds i = find (\<lambda>d. perm_id d = i) (rev ds)"

lemma last_with_id_SomeD: "last_with_id ds i = Some d \<Longrightarrow> d \<in> set ds \<and> perm_id d = i"
  unfolding last_with_id_def by (drule find_SomeD) simp

lemma last_with_id_None_iff: "last_with_id ds i = None \<longleftrightarrow> i \<notin> perm_id ` set ds"
  by (auto simp: last_with_id_def find_None_iff)

lemma graph_nodes_last:
  "js_get (graph_nodes (buildGraph ds)) i = map_option (make_node (link_all ds)) (last_with_id ds i)"
  by (simp add: graph_nodes_get last_with_id_def)

lemma make_node_fields [simp]:
  "node_id (make_node p d) = perm_id d" "node_definition (make_node p d) = d"
  by (simp_all add: make_node_def)

lemma name_char_not_upper: "name_char c \<Longrightarrow> js_lower_char c = c"
  by (auto simp: name_char_def name_start_def js_lower_char_def Let_def less_eq_char_def)

lemma js_lower_name_part: "name_part s \<Longrightarrow> js_lower s = s"
  unfolding js_lower_def
  by (rule map_idI) (use name_part_list_all name_char_not_upper in \<open>auto simp: list_all_iff\<close>)

section \<open>Properties\<close>

text \<open>
  A catalog entry passes the naming check exactly when its resource and its action are both
  lower-case names (a letter followed by letters, digits, underscores or hyphens), its id is
  their concatenation with a dot, and the action is none of the past-tense event words.
\<close>

theorem permission_naming_exact:
  "validatePermissionNaming pid resource action = Ok () \<longleftrightarrow>
     name_part resource \<and> name_part action \<and> pid = resource @ ''.'' @ action \<and>
     action \<notin> set prohibited_event_actions"
proof -
  have "name_part resource \<and> name_part action"
    if "permission_action_regex (resource @ ''.'' @ action)"
  proof -
    obtain r a where ra: "resource @ ''.'' @ action = r @ ''.'' @ a" "name_part r" "name_part a"
      using \<open>permission_action_regex (resource @ ''.'' @ action)\<close> unfolding regex_iff by blast
    have t: "takeWhile name_char (resource @ CHR ''.'' # action) = r"
      "dropWhile name_char (resource @ CHR ''.'' # action) = CHR ''.'' # a"
      using ra name_part_take_drop[OF name_part_list_all[OF ra(2)], of a] by simp_all
    show ?thesis
    proof (cases "list_all name_char resource")
      case True
      then show ?thesis using t ra(2,3) name_part_take_drop[OF True, of action] by simp
    next
      case False
      then have "\<exists>c \<in> set a. c = CHR ''.''"
        using t(2) by (induction resource) (auto split: if_splits)
      then show ?thesis
        using name_part_list_all[OF ra(3)] by (auto simp: list_all_iff)
    qed
  qed
  moreover have "permission_action_regex (resource @ ''.'' @ action)"
    if "name_part resource" "name_part action"
    using that unfolding regex_iff by blast
  ultimately show ?thesis
    unfolding validatePermissionNaming_Ok_iff using js_lower_name_part by metis
qed

text \<open>
  The graph built from any list of definitions is exact: a node exists for precisely the listed
  ids and carries the last definition of its id, its prerequisites are the requirements the
  definitions of that id state, its dependents are the ids that require it, and the two
  adjacency lists are transposes of each other.
\<close>

theorem graph_is_exact:
  "js_get (graph_nodes (buildGraph ds)) i = map_option (make_node (link_all ds)) (last_with_id ds i) \<and>
   node_definition (make_node (link_all ds) d) = d \<and>
   set (node_prerequisites (make_node (link_all ds) d)) = requires_rel ds `` {perm_id d} \<and>
   set (node_dependents (make_node (link_all ds) d)) = (requires_rel ds)\<inverse> `` {perm_id d} \<and>
   (y \<in> set (succs (adjacencyList (buildGraph ds)) x) \<longleftrightarrow>
      x \<in> set (succs (reverseAdjacencyList (buildGraph ds)) y))"
  unfolding set_succs_adjacency set_succs_reverse make_node_sets graph_nodes_last
  by simp

end
