(* ===== verification/Permission_Loader.thy ===== *)
theory Permission_Loader
  imports Permission_Catalog "HOL-Library.Multiset"
begin

text \<open>
  \<^verbatim>\<open>PermissionCatalogLoader\<close>: loading a parsed catalog document entry by entry into the
  two indexes, with the state left behind by an entry that is refused, and the file lookup in
  front of it.
\<close>

section \<open>State and operations\<close>

type_synonym module_map = "(string, (string, permission_definition list) js_map) js_map"

record catalog_loader =
  permissionMap :: "(string, permission_definition) js_map"
  moduleMap :: module_map
  loader_graph :: "permission_graph option"

record loaded_catalog =
  loaded_definitions :: "permission_definition list"
  loaded_map :: "(string, permission_definition) js_map"
  loaded_graph :: permission_graph

type_synonym yaml_parser = "string \<Rightarrow> string + raw_permission list option"

definition definition_of_raw :: "raw_permission \<Rightarrow> permission_definition" where
  "definition_of_raw raw =
    \<lparr> perm_id = raw_id raw, perm_module = raw_module raw, perm_resource = raw_resource raw,
      perm_action = raw_action raw, perm_requires = raw_requires raw,
      perm_entry = (raw_entry raw = Some True),
      perm_deprecated = (raw_deprecated raw = Some True),
      perm_deprecatedAt = raw_deprecatedAt raw,
      perm_removedInVersion = raw_removedInVersion raw \<rparr>"

definition index_by_module :: "permission_definition \<Rightarrow> module_map \<Rightarrow> module_map" where
  "index_by_module d mm =
    (let mm1 = js_ensure (perm_module d) [] mm;
         rm = js_get_or [] mm1 (perm_module d);
         rm1 = js_ensure (perm_resource d) [] rm;
         ps = js_get_or [] rm1 (perm_resource d)
     in js_put (perm_module d) (js_put (perm_resource d) (ps @ [d]) rm1) mm1)"

definition index_definition :: "permission_definition \<Rightarrow> catalog_loader \<Rightarrow> catalog_loader" where
  "index_definition d st =
    st\<lparr> permissionMap := js_put (perm_id d) d (permissionMap st),
        moduleMap := index_by_module d (moduleMap st) \<rparr>"

fun load_entries ::
  "raw_permission list \<Rightarrow> permission_definition list \<Rightarrow> catalog_loader
    \<Rightarrow> (catalog_error + permission_definition list) \<times> catalog_loader" where
  "load_entries [] ds st = (Ok ds, st)"
| "load_entries (raw # raws) ds st =
    (case validatePermissionNaming (raw_id raw) (raw_resource raw) (raw_action raw) of
       Inl e \<Rightarrow> (Fail e, st)
     | Inr _ \<Rightarrow> load_entries raws (ds @ [definition_of_raw raw])
                 (index_definition (definition_of_raw raw) st))"

definition clear_indexes :: "catalog_loader \<Rightarrow> catalog_loader" where
  "clear_indexes st = st\<lparr> permissionMap := [], moduleMap := [] \<rparr>"

definition loadFromYamlContent ::
  "yaml_parser \<Rightarrow> string \<Rightarrow> catalog_loader \<Rightarrow> (catalog_error + loaded_catalog) \<times> catalog_loader" where
  "loadFromYamlContent yaml content st =
    (let st0 = clear_indexes st in
     case yaml content of
       Inl msg \<Rightarrow> (Fail (Yaml_error msg), st0)
     | Inr None \<Rightarrow> (Fail Missing_permissions_array, st0)
     | Inr (Some raws) \<Rightarrow>
         (case load_entries raws [] st0 of
            (Inl e, st1) \<Rightarrow> (Fail e, st1)
          | (Inr ds, st1) \<Rightarrow>
              (let g = buildGraph ds; st2 = st1\<lparr> loader_graph := Some g \<rparr> in
               (Ok \<lparr> loaded_definitions = ds, loaded_map = permissionMap st2,
                     loaded_graph = g \<rparr>, st2))))"

record file_system =
  fs_exists :: "string \<Rightarrow> bool"
  fs_read :: "string \<Rightarrow> string + string"

text \<open>\<^verbatim>\<open>resolve_here\<close> and \<^verbatim>\<open>resolve_cwd\<close> stand for
  \<^verbatim>\<open>path.resolve(__dirname, _)\<close> and \<^verbatim>\<open>path.resolve(process.cwd(), _)\<close>.\<close>

definition candidate_paths :: "(string \<Rightarrow> string) \<Rightarrow> (string \<Rightarrow> string) \<Rightarrow> string option \<Rightarrow> string list" where
  "candidate_paths resolve_here resolve_cwd filePath =
    (case filePath of
       Some (c # cs) \<Rightarrow> [c # cs]
     | _ \<Rightarrow> [resolve_here ''../config/permission-catalog.yaml'',
            resolve_here ''../../config/permission-catalog.yaml'',
            resolve_cwd ''src/modules/permissions/config/permission-catalog.yaml'',
            resolve_cwd ''dist/src/modules/permissions/config/permission-catalog.yaml'',
            resolve_cwd ''dist/modules/permissions/config/permission-catalog.yaml''])"

definition loadFromFile ::
  "yaml_parser \<Rightarrow> file_system \<Rightarrow> string list \<Rightarrow> catalog_loader
    \<Rightarrow> (catalog_error + loaded_catalog) \<times> catalog_loader" where
  "loadFromFile yaml fs paths st =
    (case find (fs_exists fs) paths of
       None \<Rightarrow> (Fail (Catalog_file_not_found paths), st)
     | Some p \<Rightarrow>
         (case fs_read fs p of
            Inl msg \<Rightarrow> (Fail (Catalog_file_unreadable msg), st)
          | Inr content \<Rightarrow> loadFromYamlContent yaml content st))"

definition loader_getById :: "catalog_loader \<Rightarrow> string \<Rightarrow> permission_definition option" where
  "loader_getById st i = js_get (permissionMap st) i"

definition loader_getAll :: "catalog_loader \<Rightarrow> permission_definition list" where
  "loader_getAll st = map snd (permissionMap st)"

definition loader_getGraph :: "catalog_loader \<Rightarrow> catalog_error + permission_graph" where
  "loader_getGraph st = (case loader_graph st of None \<Rightarrow> Fail Graph_not_loaded | Some g \<Rightarrow> Ok g)"

definition naming_ok :: "raw_permission \<Rightarrow> bool" where
  "naming_ok raw = is_ok (validatePermissionNaming (raw_id raw) (raw_resource raw) (raw_action raw))"

section \<open>The module index\<close>

definition module_perms :: "module_map \<Rightarrow> permission_definition list" where
  "module_perms mm = concat (map snd (concat (map snd mm)))"

definition module_group :: "module_map \<Rightarrow> string \<Rightarrow> string \<Rightarrow> permission_definition list" where
  "module_group mm m r = js_get_or [] (js_get_or [] mm m) r"

definition module_map_ok :: "module_map \<Rightarrow> bool" where
  "module_map_ok mm = (distinct (js_keys mm) \<and> (\<forall>rm \<in> set (map snd mm). distinct (js_keys rm)))"

lemma index_by_module_put:
  "index_by_module d mm =
     js_put (perm_module d)
       (js_put (perm_resource d)
          (module_group mm (perm_module d) (perm_resource d) @ [d]) (js_get_or [] mm (perm_module d))) mm"
  by (simp add: index_by_module_def module_group_def Let_def)

lemma keys_index_by_module [simp]:
  "js_keys (index_by_module d mm) = js_add (perm_module d) (js_keys mm)"
  by (simp add: index_by_module_put)

lemma module_group_index:
  "module_group (index_by_module d mm) m r
     = module_group mm m r @ (if perm_module d = m \<and> perm_resource d = r then [d] else [])"
  by (auto simp: index_by_module_put module_group_def)

lemma module_map_ok_get:
  "module_map_ok mm \<Longrightarrow> distinct (js_keys (js_get_or [] mm m))"
  by (auto simp: module_map_ok_def js_get_or_def dest: map_of_SomeD split: option.splits)

lemma module_map_ok_index: "module_map_ok mm \<Longrightarrow> module_map_ok (index_by_module d mm)"
proof -
  assume ok: "module_map_ok mm"
  let ?rm = "js_put (perm_resource d)
    (module_group mm (perm_module d) (perm_resource d) @ [d]) (js_get_or [] mm (perm_module d))"
  have "distinct (js_keys ?rm)"
    using module_map_ok_get[OF ok] by simp
  moreover have "set (map snd (index_by_module d mm)) \<subseteq> insert ?rm (set (map snd mm))"
    unfolding index_by_module_put by (rule set_snd_js_put)
  ultimately have "\<forall>rm \<in> set (map snd (index_by_module d mm)). distinct (js_keys rm)"
    using ok unfolding module_map_ok_def by blast
  then show ?thesis using ok by (simp add: module_map_ok_def)
qed

lemma mset_flat_put:
  "mset (concat (map snd (js_put k v m))) + mset (js_get_or [] m k)
     = mset (concat (map snd m)) + mset v"
  by (induction m) (auto simp: js_get_or_def)

lemma mset_flat: "mset (concat (map snd xs)) = \<Sum>\<^sub># (image_mset (\<lambda>p. mset (snd p)) (mset xs))"
  by (induction xs) auto

lemma mset_flat_cong:
  assumes "mset xs + mset ys = mset zs + mset ws"
  shows "mset (concat (map snd xs)) + mset (concat (map snd ys))
           = mset (concat (map snd zs)) + mset (concat (map snd ws))"
proof -
  let ?flat = "\<lambda>M. \<Sum>\<^sub># (image_mset (\<lambda>p. mset (snd p)) M)"
  have "?flat (mset xs + mset ys) = ?flat (mset zs + mset ws)"
    by (rule arg_cong[OF assms])
  then show ?thesis by (simp only: mset_flat image_mset_union sum_mset.union)
qed

lemma mset_module_perms_index:
  "mset (module_perms (index_by_module d mm)) = add_mset d (mset (module_perms mm))"
proof -
  let ?m = "perm_module d" and ?r = "perm_resource d"
  define rm where "rm = js_get_or [] mm ?m"
  define rm' where "rm' = js_put ?r (module_group mm ?m ?r @ [d]) rm"
  have "mset (concat (map snd rm')) + mset (module_group mm ?m ?r)
      = mset (concat (map snd rm)) + mset (module_group mm ?m ?r @ [d])"
    using mset_flat_put[of ?r "module_group mm ?m ?r @ [d]" rm]
    by (simp add: module_group_def rm_def rm'_def)
  then have rm': "mset (concat (map snd rm')) = add_mset d (mset (concat (map snd rm)))"
    by simp
  have "mset (concat (map snd (index_by_module d mm))) + mset rm
      = mset (concat (map snd mm)) + mset rm'"
    unfolding index_by_module_put rm_def rm'_def by (rule mset_flat_put)
  from mset_flat_cong[OF this] show ?thesis
    unfolding module_perms_def rm' by simp
qed

section \<open>What a load leaves behind\<close>

definition index_all :: "permission_definition list \<Rightarrow> catalog_loader \<Rightarrow> catalog_loader" where
  "index_all ds st = fold index_definition ds st"

lemma load_entries_good:
  "list_all naming_ok raws \<Longrightarrow>
     load_entries raws ds st
       = (Ok (ds @ map definition_of_raw raws), index_all (map definition_of_raw raws) st)"
  by (induction raws arbitrary: ds st)
     (auto simp: naming_ok_def is_ok_iff index_all_def)

lemma load_entries_bad:
  "list_all naming_ok pre \<Longrightarrow>
   validatePermissionNaming (raw_id bad) (raw_resource bad) (raw_action bad) = Fail e \<Longrightarrow>
     load_entries (pre @ bad # post) ds st
       = (Fail e, index_all (map definition_of_raw pre) st)"
  by (induction pre arbitrary: ds st)
     (auto simp: naming_ok_def is_ok_iff index_all_def)

lemma index_all_fields [simp]:
  "permissionMap (index_all ds st) = fold (\<lambda>d. js_put (perm_id d) d) ds (permissionMap st)"
  "moduleMap (index_all ds st) = fold index_by_module ds (moduleMap st)"
  "loader_graph (index_all ds st) = loader_graph st"
  unfolding index_all_def
  by (induction ds arbitrary: st) (simp_all add: index_definition_def)

lemma fold_index_by_module:
  "module_group (fold index_by_module ds mm) m r
     = module_group mm m r @ filter (\<lambda>d. perm_module d = m \<and> perm_resource d = r) ds"
  "mset (module_perms (fold index_by_module ds mm)) = mset (module_perms mm) + mset ds"
  "module_map_ok mm \<Longrightarrow> module_map_ok (fold index_by_module ds mm)"
  "js_keys (fold index_by_module ds mm) = fold js_add (map perm_module ds) (js_keys mm)"
  by (induction ds arbitrary: mm)
     (simp_all add: module_group_index mset_module_perms_index module_map_ok_index)

text \<open>The loader's state describes exactly the list \<^verbatim>\<open>ds\<close>.\<close>

definition loader_describes :: "catalog_loader \<Rightarrow> permission_definition list \<Rightarrow> bool" where
  "loader_describes st ds =
    ((\<forall>i. loader_getById st i = last_with_id ds i) \<and>
     js_keys (permissionMap st) = js_set_of (map perm_id ds) \<and>
     (\<forall>m r. module_group (moduleMap st) m r
        = filter (\<lambda>d. perm_module d = m \<and> perm_resource d = r) ds) \<and>
     js_keys (moduleMap st) = js_set_of (map perm_module ds) \<and>
     module_map_ok (moduleMap st) \<and>
     mset (module_perms (moduleMap st)) = mset ds)"

lemma empty_module_map [simp]:
  "module_group [] m r = []" "module_perms [] = []" "module_map_ok []"
  by (simp_all add: module_group_def js_get_or_def module_perms_def module_map_ok_def)

lemma clear_indexes_fields [simp]:
  "permissionMap (clear_indexes st) = []" "moduleMap (clear_indexes st) = []"
  "loader_graph (clear_indexes st) = loader_graph st"
  by (simp_all add: clear_indexes_def)

lemma loader_describes_index_all: "loader_describes (index_all ds (clear_indexes st)) ds"
  by (simp add: loader_describes_def loader_getById_def last_with_id_def
      js_map.get_of_list js_map.keys_of_list option.map_ident fold_index_by_module js_set_of_def)

lemma loader_describes_graph [simp]:
  "loader_describes (st\<lparr>loader_graph := g\<rparr>) ds = loader_describes st ds"
  by (simp add: loader_describes_def loader_getById_def)

lemma load_entries_Ok_imp_good:
  "load_entries raws ds st = (Ok ds', st') \<Longrightarrow> list_all naming_ok raws"
  by (induction raws arbitrary: ds st)
     (auto simp: naming_ok_def split: sum.splits)

lemma loadFromYamlContent_OkD:
  assumes "loadFromYamlContent yaml content st = (Ok l, st')"
  shows "\<exists>raws. yaml content = Inr (Some raws) \<and> list_all naming_ok raws \<and>
     loaded_definitions l = map definition_of_raw raws \<and>
     loaded_graph l = buildGraph (loaded_definitions l) \<and>
     loader_getGraph st' = Ok (loaded_graph l) \<and>
     loader_describes st' (loaded_definitions l)"
proof -
  obtain raws where r: "yaml content = Inr (Some raws)"
    using assms by (auto simp: loadFromYamlContent_def Let_def split: sum.splits option.splits)
  obtain ds st1 where l: "load_entries raws [] (clear_indexes st) = (Ok ds, st1)"
    using assms r
    by (cases "load_entries raws [] (clear_indexes st)"; cases "fst (load_entries raws [] (clear_indexes st))")
       (auto simp: loadFromYamlContent_def Let_def)
  have good: "list_all naming_ok raws" by (rule load_entries_Ok_imp_good[OF l])
  then show ?thesis
    using assms r load_entries_good[OF good, of "[]" "clear_indexes st"]
    by (auto simp: loadFromYamlContent_def Let_def loader_describes_index_all loader_getGraph_def)
qed

lemma loader_describes_bad_entry:
  assumes "yaml content = Inr (Some (pre @ bad # post))" "list_all naming_ok pre"
    and "validatePermissionNaming (raw_id bad) (raw_resource bad) (raw_action bad) = Fail e"
  shows "\<exists>st'. loadFromYamlContent yaml content st = (Fail e, st') \<and>
     loader_describes st' (map definition_of_raw pre) \<and> loader_graph st' = loader_graph st"
  using assms
  by (simp add: loadFromYamlContent_def load_entries_bad loader_describes_index_all Let_def)

section \<open>Properties\<close>

text \<open>
  A catalog document whose entries all follow the naming rule loads completely: the
  definitions are its entries in order, the graph is built from them, lookup by id returns the
  last entry of that id, every module and resource group lists exactly its entries in order, and
  the groups together hold every entry once.
\<close>

theorem load_well_named_document:
  assumes "yaml content = Inr (Some raws)" "list_all naming_ok raws"
  shows "\<exists>l st'. loadFromYamlContent yaml content st = (Ok l, st') \<and>
     loaded_definitions l = map definition_of_raw raws \<and>
     loaded_graph l = buildGraph (map definition_of_raw raws) \<and>
     loader_getGraph st' = Ok (loaded_graph l) \<and>
     loader_describes st' (loaded_definitions l)"
  using assms
  by (simp add: loadFromYamlContent_def load_entries_good loader_describes_index_all
      loader_getGraph_def Let_def)

definition sample_raw :: "string \<Rightarrow> string \<Rightarrow> raw_permission" where
  "sample_raw r a = \<lparr> raw_id = r @ ''.'' @ a, raw_module = ''core'', raw_resource = r, raw_action = a,
     raw_requires = None, raw_entry = None, raw_deprecated = None, raw_deprecatedAt = None,
     raw_removedInVersion = None \<rparr>"

definition empty_loader :: catalog_loader where
  "empty_loader = \<lparr> permissionMap = [], moduleMap = [], loader_graph = None \<rparr>"

theorem load_well_named_document_witness:
  "\<exists>l st'. loadFromYamlContent (\<lambda>_. Inr (Some [sample_raw ''a'' ''view'', sample_raw ''b'' ''view'']))
       ''doc'' empty_loader = (Ok l, st') \<and>
     map perm_id (loaded_definitions l) = [''a.view'', ''b.view'']"
proof -
  have "list_all naming_ok [sample_raw ''a'' ''view'', sample_raw ''b'' ''view'']" by code_simp
  with load_well_named_document[of "\<lambda>_. Inr (Some [sample_raw ''a'' ''view'', sample_raw ''b'' ''view''])"
      "''doc''" "[sample_raw ''a'' ''view'', sample_raw ''b'' ''view'']" empty_loader]
  show ?thesis by (auto simp: definition_of_raw_def sample_raw_def)
qed

end
