(* ===== verification/Permission_Cycles.thy ===== *)
theory Permission_Cycles
  imports Permission_Catalog
begin

text \<open>
  \<^verbatim>\<open>PermissionCatalogValidator\<close>: referential integrity of the prerequisites and the
  depth-first search for cycles.  The recursive closure \<^verbatim>\<open>dfs\<close> and its loop over the
  neighbours are two mutually recursive functions over the three collections the closure
  mutates; a fuel argument bounds the recursion, the number of nodes is shown to be enough, and
  the search is shown to accept exactly the acyclic catalogs.
\<close>

section \<open>Referential integrity\<close>

fun check_requirements ::
  "string list \<Rightarrow> permission_graph \<Rightarrow> string \<Rightarrow> string list \<Rightarrow> catalog_error + unit" where
  "check_requirements valid g i [] = Ok ()"
| "check_requirements valid g i (req # reqs) =
    (if req \<notin> set valid then Fail (Dangling_prerequisite i req)
     else (case js_get (graph_nodes g) req of
             Some target \<Rightarrow>
               (if perm_deprecated (node_definition target)
                then Fail (Dangling_prerequisite i (req @ '' (prerequisite is deprecated)''))
                else check_requirements valid g i reqs)
           | None \<Rightarrow> check_requirements valid g i reqs))"

fun check_definitions ::
  "string list \<Rightarrow> permission_graph \<Rightarrow> permission_definition list \<Rightarrow> catalog_error + unit" where
  "check_definitions valid g [] = Ok ()"
| "check_definitions valid g (d # ds) =
    and_then (check_requirements valid g (perm_id d) (requires_of d))
      (\<lambda>_. check_definitions valid g ds)"

definition validateReferentialIntegrity ::
  "permission_definition list \<Rightarrow> permission_graph \<Rightarrow> catalog_error + unit" where
  "validateReferentialIntegrity ds g = check_definitions (js_set_of (map perm_id ds)) g ds"

section \<open>Cycle detection\<close>

record dfs_state =
  visited :: "string list"
  recursionStack :: "string list"
  currentPath :: "string list"

definition neighbors :: "permission_graph \<Rightarrow> string \<Rightarrow> string list" where
  "neighbors g x = js_get_or [] (adjacencyList g) x"

definition dfs_enter :: "string \<Rightarrow> dfs_state \<Rightarrow> dfs_state" where
  "dfs_enter x st = \<lparr> visited = js_add x (visited st), recursionStack = js_add x (recursionStack st),
                      currentPath = currentPath st @ [x] \<rparr>"

definition dfs_leave :: "string \<Rightarrow> dfs_state \<Rightarrow> dfs_state" where
  "dfs_leave x st = st\<lparr> currentPath := butlast (currentPath st),
                        recursionStack := js_remove x (recursionStack st) \<rparr>"

fun path_from :: "string \<Rightarrow> string list \<Rightarrow> string list" where
  "path_from y [] = []"
| "path_from y (x # xs) = (if x = y then x # xs else path_from y xs)"

function (sequential) dfs ::
    "nat \<Rightarrow> permission_graph \<Rightarrow> string \<Rightarrow> dfs_state \<Rightarrow> (catalog_error + dfs_state) option"
  and dfs_each ::
    "nat \<Rightarrow> permission_graph \<Rightarrow> string list \<Rightarrow> dfs_state \<Rightarrow> (catalog_error + dfs_state) option" where
  "dfs 0 g x st = None"
| "dfs (Suc n) g x st =
    (case dfs_each n g (neighbors g x) (dfs_enter x st) of
       None \<Rightarrow> None
     | Some (Inl e) \<Rightarrow> Some (Fail e)
     | Some (Inr st') \<Rightarrow> Some (Ok (dfs_leave x st')))"
| "dfs_each n g [] st = Some (Ok st)"
| "dfs_each n g (y # ys) st =
    (if y \<notin> set (visited st) then
       (case dfs n g y st of
          None \<Rightarrow> None
        | Some (Inl e) \<Rightarrow> Some (Fail e)
        | Some (Inr st') \<Rightarrow> dfs_each n g ys st')
     else if y \<in> set (recursionStack st) then
       Some (Fail (Cyclic_dependency (path_from y (currentPath st) @ [y])))
     else dfs_each n g ys st)"
  by pat_completeness auto
termination
  by (relation "measures
      [\<lambda>a. case a of Inl (n, _) \<Rightarrow> n | Inr (n, _) \<Rightarrow> n,
       \<lambda>a. case a of Inl _ \<Rightarrow> 0 | Inr (_, _, ys, _) \<Rightarrow> Suc (length ys)]") auto

fun detect_from ::
  "nat \<Rightarrow> permission_graph \<Rightarrow> string list \<Rightarrow> dfs_state \<Rightarrow> (catalog_error + dfs_state) option" where
  "detect_from n g [] st = Some (Ok st)"
| "detect_from n g (x # xs) st =
    (if x \<notin> set (visited st) then
       (case dfs n g x st of
          None \<Rightarrow> None
        | Some (Inl e) \<Rightarrow> Some (Fail e)
        | Some (Inr st') \<Rightarrow> detect_from n g xs st')
     else detect_from n g xs st)"

definition graph_universe :: "permission_graph \<Rightarrow> string list" where
  "graph_universe g = js_set_of (js_keys (graph_nodes g) @ concat (map snd (adjacencyList g)))"

definition initial_dfs :: dfs_state where
  "initial_dfs = \<lparr> visited = [], recursionStack = [], currentPath = [] \<rparr>"

text \<open>The fuel is the number of identifiers the graph mentions.\<close>

definition detectCycles :: "permission_graph \<Rightarrow> (catalog_error + unit) option" where
  "detectCycles g =
    (case detect_from (length (graph_universe g)) g (js_keys (graph_nodes g)) initial_dfs of
       None \<Rightarrow> None
     | Some (Inl e) \<Rightarrow> Some (Fail e)
     | Some (Inr _) \<Rightarrow> Some (Ok ()))"

definition catalog_validate ::
  "permission_definition list \<Rightarrow> permission_graph \<Rightarrow> (catalog_error + unit) option" where
  "catalog_validate ds g =
    (case validateReferentialIntegrity ds g of
       Inl e \<Rightarrow> Some (Fail e)
     | Inr _ \<Rightarrow> detectCycles g)"

section \<open>Enough fuel\<close>

lemma neighbors_subset_universe: "set (neighbors g x) \<subseteq> set (graph_universe g)"
  using js_get_or_cases[of "[]" "adjacencyList g" x]
  by (fastforce simp: neighbors_def graph_universe_def)

lemma dfs_visited_mono:
  "dfs n g x st = Some (Ok st') \<Longrightarrow> insert x (set (visited st)) \<subseteq> set (visited st')"
  "dfs_each n g ys st = Some (Ok st') \<Longrightarrow> set (visited st) \<subseteq> set (visited st')"
proof (induction n g x st and n g ys st arbitrary: st' and st' rule: dfs_dfs_each.induct)
  case (2 n g x st)
  then show ?case
    by (fastforce simp: dfs_enter_def dfs_leave_def split: option.splits sum.splits)
next
  case (4 n g y ys st)
  then show ?case
    by (fastforce split: option.splits sum.splits if_splits)
qed auto

lemma dfs_fuel:
  "finite U \<Longrightarrow> (\<And>z. set (neighbors g z) \<subseteq> U) \<Longrightarrow> x \<in> U \<Longrightarrow> x \<notin> set (visited st) \<Longrightarrow>
     card (U - set (visited st)) \<le> n \<Longrightarrow> dfs n g x st \<noteq> None"
  "finite U \<Longrightarrow> (\<And>z. set (neighbors g z) \<subseteq> U) \<Longrightarrow> set ys \<subseteq> U \<Longrightarrow>
     card (U - set (visited st)) \<le> n \<Longrightarrow> dfs_each n g ys st \<noteq> None"
proof (induction n g x st and n g ys st rule: dfs_dfs_each.induct)
  case (1 g x st)
  then show ?case by auto
next
  case (2 n g x st)
  have "card (U - set (visited (dfs_enter x st))) < card (U - set (visited st))"
    using 2(2,4,5) by (intro psubset_card_mono) (auto simp: dfs_enter_def)
  then have "dfs_each n g (neighbors g x) (dfs_enter x st) \<noteq> None"
    using 2 by (intro 2(1)) auto
  then show ?case by (auto split: option.splits sum.splits)
next
  case (3 n g st)
  then show ?case by simp
next
  case (4 n g y ys st)
  have rest: "dfs_each n g ys st' \<noteq> None"
    if "y \<notin> set (visited st)" "dfs n g y st = Some (Ok st')" for st'
  proof -
    have "card (U - set (visited st')) \<le> card (U - set (visited st))"
      using dfs_visited_mono(1)[OF that(2)] 4(4) by (intro card_mono) auto
    then show ?thesis using 4 that by (intro 4(2)) auto
  qed
  show ?case
  proof (cases "y \<in> set (visited st)")
    case True
    then show ?thesis using 4 by (cases "y \<in> set (recursionStack st)") simp_all
  next
    case False
    then have "dfs n g y st \<noteq> None" using 4 by (intro 4(1)) auto
    then show ?thesis using False rest by (auto split: sum.splits)
  qed
qed


lemma detect_from_fuel:
  "finite U \<Longrightarrow> (\<And>z. set (neighbors g z) \<subseteq> U) \<Longrightarrow> set xs \<subseteq> U \<Longrightarrow>
     card (U - set (visited st)) \<le> n \<Longrightarrow> detect_from n g xs st \<noteq> None"
proof (induction n g xs st rule: detect_from.induct)
  case (2 n g x xs st)
  show ?case
  proof (cases "x \<in> set (visited st)")
    case True
    then show ?thesis using 2 by simp
  next
    case False
    have "dfs n g x st \<noteq> None" using False 2 by (intro dfs_fuel(1)[of U]) auto
    then obtain r where r: "dfs n g x st = Some r" by blast
    show ?thesis
    proof (cases r)
      case (Inr st')
      have "card (U - set (visited st')) \<le> card (U - set (visited st))"
        using dfs_visited_mono(1)[of n g x st st'] r Inr 2(3) by (intro card_mono) auto
      then have "detect_from n g xs st' \<noteq> None" using False r Inr 2 by (intro 2(1)) auto
      then show ?thesis using False r Inr by simp
    qed (simp add: False r)
  qed
qed simp

lemma detectCycles_total: "detectCycles g \<noteq> None"
proof -
  have "detect_from (length (graph_universe g)) g (js_keys (graph_nodes g)) initial_dfs \<noteq> None"
    by (rule detect_from_fuel[of "set (graph_universe g)"])
      (use neighbors_subset_universe in
        \<open>auto simp: initial_dfs_def graph_universe_def length_js_set_of\<close>)
  then show ?thesis by (auto simp: detectCycles_def split: sum.splits)
qed

section \<open>The search accepts exactly the acyclic graphs\<close>

definition edges :: "permission_graph \<Rightarrow> (string \<times> string) set" where
  "edges g = {(x, y). y \<in> set (neighbors g x)}"

fun walk :: "(string \<times> string) set \<Rightarrow> string list \<Rightarrow> bool" where
  "walk E [] = True"
| "walk E [x] = True"
| "walk E (x # y # xs) = ((x, y) \<in> E \<and> walk E (y # xs))"

text \<open>A closed walk with at least one edge, as the error reports it: first and last coincide.\<close>

definition closed_walk :: "(string \<times> string) set \<Rightarrow> string list \<Rightarrow> bool" where
  "closed_walk E c = (2 \<le> length c \<and> hd c = last c \<and> walk E c)"

lemma walk_append_edge:
  "walk E xs \<Longrightarrow> xs \<noteq> [] \<Longrightarrow> (last xs, y) \<in> E \<Longrightarrow> walk E (xs @ [y])"
  by (induction E xs rule: walk.induct) auto

lemma walk_append_left: "walk E (xs @ ys) \<Longrightarrow> walk E xs"
  by (induction E xs rule: walk.induct) auto

lemma walk_path_from: "walk E xs \<Longrightarrow> walk E (path_from y xs)"
  by (induction E xs rule: walk.induct) auto

lemma path_from_last: "y \<in> set xs \<Longrightarrow> path_from y xs \<noteq> [] \<and> hd (path_from y xs) = y
    \<and> last (path_from y xs) = last xs"
  by (induction xs) auto

lemma walk_trancl: "walk E (x # xs) \<Longrightarrow> xs \<noteq> [] \<Longrightarrow> (x, last xs) \<in> E\<^sup>+"
proof (induction xs arbitrary: x)
  case (Cons y ys)
  then show ?case by (cases ys) (auto intro: trancl_into_trancl2)
qed simp

lemma closed_walk_cyclic: "closed_walk E c \<Longrightarrow> \<not> acyclic E"
  by (cases c) (auto simp: closed_walk_def acyclic_def dest!: walk_trancl split: if_splits)

text \<open>
  The search's invariant: the path is the stack in order, and the finished nodes (visited but
  off the stack) are closed under edges and carry no cycle.
\<close>

definition finished :: "dfs_state \<Rightarrow> string set" where
  "finished st = set (visited st) - set (recursionStack st)"

definition dfs_inv :: "permission_graph \<Rightarrow> dfs_state \<Rightarrow> bool" where
  "dfs_inv g st =
    (set (currentPath st) = set (recursionStack st) \<and> distinct (currentPath st) \<and>
     set (recursionStack st) \<subseteq> set (visited st) \<and> walk (edges g) (currentPath st) \<and>
     edges g `` finished st \<subseteq> finished st \<and>
     acyclic (edges g \<inter> finished st \<times> UNIV))"

definition same_path :: "dfs_state \<Rightarrow> dfs_state \<Rightarrow> bool" where
  "same_path st st' = (currentPath st' = currentPath st \<and>
     set (recursionStack st') = set (recursionStack st) \<and> set (visited st) \<subseteq> set (visited st'))"

definition on_path :: "permission_graph \<Rightarrow> dfs_state \<Rightarrow> string list \<Rightarrow> bool" where
  "on_path g st ys = (currentPath st \<noteq> [] \<longrightarrow> (\<forall>y \<in> set ys. (last (currentPath st), y) \<in> edges g))"

lemma acyclic_extend:
  assumes "acyclic (E \<inter> F \<times> UNIV)" "E `` F \<subseteq> F" "E `` {x} \<subseteq> F" "x \<notin> F"
  shows "acyclic (E \<inter> insert x F \<times> UNIV)"
proof -
  let ?R = "E \<inter> F \<times> UNIV" and ?S = "E \<inter> insert x F \<times> UNIV"
  have stay: "(a, b) \<in> ?S\<^sup>+ \<Longrightarrow> a \<in> F \<Longrightarrow> b \<in> F \<and> (a, b) \<in> ?R\<^sup>+" for a b
  proof (induction rule: trancl_induct)
    case (base y) then show ?case using assms(2) by auto
  next
    case (step y z)
    then have "(y, z) \<in> ?R" "z \<in> F" using assms(2) by auto
    then show ?case using step by (auto intro: trancl_into_trancl)
  qed
  have "(a, a) \<notin> ?S\<^sup>+" for a
  proof
    assume cyc: "(a, a) \<in> ?S\<^sup>+"
    then have "a \<in> insert x F" by (metis IntD1 IntD2 converse_tranclE mem_Sigma_iff)
    moreover have "a \<notin> F" using stay[OF cyc] assms(1) by (auto simp: acyclic_def)
    ultimately have "a = x" by blast
    from cyc obtain b where b: "(a, b) \<in> ?S" "(b, a) \<in> ?S\<^sup>*" by (meson tranclD)
    then have "b \<in> F" using assms(3) \<open>a = x\<close> by auto
    with b(2) have "a \<in> F"
      by (metis \<open>a = x\<close> assms(4) rtranclD stay)
    with \<open>a \<notin> F\<close> show False by blast
  qed
  then show ?thesis by (simp add: acyclic_def)
qed

definition dfs_outcome ::
  "permission_graph \<Rightarrow> dfs_state \<Rightarrow> string list \<Rightarrow> (catalog_error + dfs_state) option \<Rightarrow> bool" where
  "dfs_outcome g st ys r =
    (case r of
       None \<Rightarrow> True
     | Some (Inl e) \<Rightarrow> (\<exists>c. e = Cyclic_dependency c \<and> closed_walk (edges g) c)
     | Some (Inr st') \<Rightarrow> dfs_inv g st' \<and> same_path st st' \<and> set ys \<subseteq> finished st')"

lemma same_path_finished: "same_path st st' \<Longrightarrow> finished st \<subseteq> finished st'"
  by (auto simp: same_path_def finished_def)

lemma same_path_trans: "same_path a b \<Longrightarrow> same_path b c \<Longrightarrow> same_path a c"
  by (auto simp: same_path_def)

lemma on_path_cong: "same_path st st' \<Longrightarrow> on_path g st' ys = on_path g st ys"
  by (simp add: same_path_def on_path_def)

lemma finished_enter: "x \<notin> set (visited st) \<Longrightarrow> finished (dfs_enter x st) = finished st"
  by (auto simp: finished_def dfs_enter_def)

lemma dfs_inv_enter:
  assumes inv: "dfs_inv g st" and new: "x \<notin> set (visited st)" and on: "on_path g st [x]"
  shows "dfs_inv g (dfs_enter x st)"
proof -
  have "walk (edges g) (currentPath st @ [x])"
  proof (cases "currentPath st = []")
    case False
    then show ?thesis
      using inv on by (intro walk_append_edge) (auto simp: dfs_inv_def on_path_def)
  qed simp
  moreover have "x \<notin> set (currentPath st)"
    using inv new by (auto simp: dfs_inv_def)
  ultimately show ?thesis
    using inv finished_enter[OF new] by (auto simp: dfs_inv_def dfs_enter_def)
qed

lemma dfs_leave_outcome:
  assumes inv: "dfs_inv g st2" and same: "same_path (dfs_enter x st) st2"
    and new: "x \<notin> set (visited st)" "x \<notin> set (recursionStack st)"
    and nbs: "set (neighbors g x) \<subseteq> finished st2"
  shows "dfs_outcome g st [x] (Some (Ok (dfs_leave x st2)))"
proof -
  let ?st = "dfs_leave x st2"
  have path: "currentPath ?st = currentPath st" "currentPath st2 = currentPath st @ [x]"
    and stack: "set (recursionStack ?st) = set (recursionStack st)"
      "x \<in> set (recursionStack st2)"
    and vis: "visited ?st = visited st2" "insert x (set (visited st)) \<subseteq> set (visited st2)"
    using same new by (auto simp: dfs_leave_def same_path_def dfs_enter_def)
  have fin: "finished ?st = insert x (finished st2)" and xf: "x \<notin> finished st2"
    using vis stack by (auto simp: finished_def dfs_leave_def)
  have "acyclic (edges g \<inter> finished ?st \<times> UNIV)"
    unfolding fin using inv nbs xf
    by (intro acyclic_extend) (auto simp: dfs_inv_def edges_def)
  moreover have "edges g `` finished ?st \<subseteq> finished ?st"
    unfolding fin using inv nbs by (auto simp: dfs_inv_def edges_def)
  moreover have "walk (edges g) (currentPath st)"
    using inv path(2) walk_append_left by (metis dfs_inv_def)
  moreover have "set (currentPath st) = set (recursionStack ?st)" "distinct (currentPath st)"
    using inv path(2) new(2) stack same by (auto simp: dfs_inv_def same_path_def dfs_enter_def)
  moreover have "set (recursionStack ?st) \<subseteq> set (visited ?st)"
    using inv stack vis by (auto simp: dfs_inv_def dfs_leave_def)
  ultimately have "dfs_inv g ?st" using path(1) by (simp add: dfs_inv_def)
  moreover have "same_path st ?st" using path(1) stack(1) vis by (auto simp: same_path_def)
  ultimately show ?thesis by (simp add: dfs_outcome_def fin)
qed

lemma dfs_back_edge:
  assumes "dfs_inv g st" "currentPath st \<noteq> []" "on_path g st (y # ys)"
    and "y \<in> set (recursionStack st)"
  shows "closed_walk (edges g) (path_from y (currentPath st) @ [y])"
proof -
  let ?p = "path_from y (currentPath st)"
  have y: "y \<in> set (currentPath st)" using assms(1,4) by (simp add: dfs_inv_def)
  note p = path_from_last[OF y]
  have "walk (edges g) (?p @ [y])"
    using assms p by (intro walk_append_edge walk_path_from) (auto simp: dfs_inv_def on_path_def)
  then show ?thesis using p by (cases ?p) (auto simp: closed_walk_def)
qed

lemma dfs_correct:
  "dfs_inv g st \<Longrightarrow> x \<notin> set (visited st) \<Longrightarrow> on_path g st [x] \<Longrightarrow>
     dfs_outcome g st [x] (dfs n g x st)"
  "dfs_inv g st \<Longrightarrow> currentPath st \<noteq> [] \<Longrightarrow> on_path g st ys \<Longrightarrow>
     dfs_outcome g st ys (dfs_each n g ys st)"
proof (induction n g x st and n g ys st rule: dfs_dfs_each.induct)
  case (1 g x st)
  then show ?case by (simp add: dfs_outcome_def)
next
  case (2 n g x st)
  have "dfs_outcome g (dfs_enter x st) (neighbors g x) (dfs_each n g (neighbors g x) (dfs_enter x st))"
    using 2(2-4)
    by (intro 2(1) dfs_inv_enter) (auto simp: dfs_enter_def on_path_def edges_def)
  moreover have "x \<notin> set (recursionStack st)" using 2(2,3) by (auto simp: dfs_inv_def)
  ultimately show ?case
    using 2(3) dfs_leave_outcome[of g _ x st]
    by (auto simp: dfs_outcome_def split: option.splits sum.splits)
next
  case (3 n g st)
  then show ?case by (simp add: dfs_outcome_def same_path_def)
next
  case (4 n g y ys st)
  have tl: "on_path g st ys" and hd: "on_path g st [y]" using 4(6) by (auto simp: on_path_def)
  show ?case
  proof (cases "y \<in> set (visited st)")
    case True
    show ?thesis
    proof (cases "y \<in> set (recursionStack st)")
      case stack: True
      then show ?thesis
        using True dfs_back_edge[OF 4(4-6)] by (simp add: dfs_outcome_def)
    next
      case False
      then have "dfs_outcome g st ys (dfs_each n g ys st)" using True 4 tl by (intro 4(3)) auto
      moreover have "y \<in> finished st" using True False by (simp add: finished_def)
      ultimately show ?thesis
        using True False same_path_finished
        by (fastforce simp: dfs_outcome_def split: option.splits sum.splits)
    qed
  next
    case False
    then have one: "dfs_outcome g st [y] (dfs n g y st)" using 4 hd by (intro 4(1)) auto
    show ?thesis
    proof (cases "\<exists>st'. dfs n g y st = Some (Ok st')")
      case True
      then obtain st' where st': "dfs n g y st = Some (Ok st')" by blast
      with one have o: "dfs_inv g st'" "same_path st st'" "y \<in> finished st'"
        by (auto simp: dfs_outcome_def)
      have "dfs_outcome g st' ys (dfs_each n g ys st')"
        using False st' o 4(5) tl on_path_cong[OF o(2)]
        by (intro 4(2)) (auto simp: same_path_def)
      then show ?thesis
        using False st' o same_path_trans[OF o(2)] same_path_finished
        by (fastforce simp: dfs_outcome_def split: option.splits sum.splits)
    next
      case fail: False
      then show ?thesis using False one
        by (auto simp: dfs_outcome_def split: option.splits sum.splits)
    qed
  qed
qed

lemma detect_from_correct:
  "dfs_inv g st \<Longrightarrow> currentPath st = [] \<Longrightarrow> dfs_outcome g st xs (detect_from n g xs st)"
proof (induction n g xs st rule: detect_from.induct)
  case (1 n g st)
  then show ?case by (simp add: dfs_outcome_def same_path_def)
next
  case (2 n g x xs st)
  have on: "on_path g st [x]" using 2(4) by (simp add: on_path_def)
  show ?case
  proof (cases "x \<in> set (visited st)")
    case True
    then have "dfs_outcome g st xs (detect_from n g xs st)" using 2 by (intro 2(2)) auto
    moreover have "x \<in> finished st" using True 2(3,4) by (auto simp: finished_def dfs_inv_def)
    ultimately show ?thesis
      using True same_path_finished
      by (fastforce simp: dfs_outcome_def split: option.splits sum.splits)
  next
    case False
    have one: "dfs_outcome g st [x] (dfs n g x st)"
      by (rule dfs_correct(1)[OF 2(3) False on])
    show ?thesis
    proof (cases "\<exists>st'. dfs n g x st = Some (Ok st')")
      case True
      then obtain st' where st': "dfs n g x st = Some (Ok st')" by blast
      with one have o: "dfs_inv g st'" "same_path st st'" "x \<in> finished st'"
        by (auto simp: dfs_outcome_def)
      have "dfs_outcome g st' xs (detect_from n g xs st')"
        using False st' o 2(4) by (intro 2(1)) (auto simp: same_path_def)
      then show ?thesis
        using False st' o same_path_trans[OF o(2)] same_path_finished
        by (fastforce simp: dfs_outcome_def split: option.splits sum.splits)
    next
      case fail: False
      then show ?thesis using False one
        by (auto simp: dfs_outcome_def split: option.splits sum.splits)
    qed
  qed
qed

lemma detectCycles_cases:
  obtains (accepted) F where "detectCycles g = Some (Ok ())" "set (js_keys (graph_nodes g)) \<subseteq> F"
      "acyclic (edges g \<inter> F \<times> UNIV)"
    | (rejected) c where "detectCycles g = Some (Fail (Cyclic_dependency c))" "closed_walk (edges g) c"
proof -
  let ?r = "detect_from (length (graph_universe g)) g (js_keys (graph_nodes g)) initial_dfs"
  have "dfs_inv g initial_dfs"
    by (simp add: dfs_inv_def initial_dfs_def finished_def acyclic_def)
  then have o: "dfs_outcome g initial_dfs (js_keys (graph_nodes g)) ?r"
    by (rule detect_from_correct) (simp add: initial_dfs_def)
  have "?r \<noteq> None"
    using detectCycles_total[of g] by (cases ?r) (simp_all add: detectCycles_def)
  then consider e where "?r = Some (Fail e)" | st where "?r = Some (Ok st)"
    by (metis not_None_eq old.sum.exhaust)
  then show ?thesis
  proof cases
    case 1
    with o show ?thesis by (auto simp: dfs_outcome_def detectCycles_def intro: rejected)
  next
    case (2 st)
    with o have "set (js_keys (graph_nodes g)) \<subseteq> finished st"
        "acyclic (edges g \<inter> finished st \<times> UNIV)"
      by (auto simp: dfs_outcome_def dfs_inv_def)
    with 2 show ?thesis by (intro accepted[of "finished st"]) (simp_all add: detectCycles_def)
  qed
qed

lemma edges_buildGraph: "edges (buildGraph ds) = requires_rel ds"
  using set_succs_adjacency[of ds]
  by (auto simp: edges_def neighbors_def succs_def)

lemma detectCycles_iff:
  "detectCycles (buildGraph ds) = Some (Ok ()) \<longleftrightarrow> acyclic (requires_rel ds)"
proof (cases rule: detectCycles_cases[of "buildGraph ds"])
  case (accepted F)
  have "requires_rel ds \<subseteq> F \<times> UNIV" using accepted(2) by (auto simp: node_keys requires_rel_def)
  then have "edges (buildGraph ds) \<inter> F \<times> UNIV = requires_rel ds"
    by (auto simp: edges_buildGraph)
  with accepted show ?thesis by simp
next
  case (rejected c)
  then show ?thesis using closed_walk_cyclic by (auto simp: edges_buildGraph)
qed

section \<open>What validation accepts\<close>

lemma check_requirements_Ok_iff:
  "check_requirements valid g i rs = Ok () \<longleftrightarrow>
     (\<forall>r \<in> set rs. r \<in> set valid \<and>
        (\<forall>t. js_get (graph_nodes g) r = Some t \<longrightarrow> \<not> perm_deprecated (node_definition t)))"
  by (induction valid g i rs rule: check_requirements.induct) (auto split: option.splits)

lemma check_definitions_Ok_iff:
  "check_definitions valid g ds = Ok () \<longleftrightarrow>
     (\<forall>d \<in> set ds. check_requirements valid g (perm_id d) (requires_of d) = Ok ())"
  by (induction ds) auto

text \<open>Every prerequisite names a definition, and the effective one is not deprecated.\<close>

definition requirements_live :: "permission_definition list \<Rightarrow> bool" where
  "requirements_live ds =
    (\<forall>d \<in> set ds. \<forall>r \<in> set (requires_of d).
       case last_with_id ds r of None \<Rightarrow> False | Some t \<Rightarrow> \<not> perm_deprecated t)"

lemma validateReferentialIntegrity_iff:
  "validateReferentialIntegrity ds (buildGraph ds) = Ok () \<longleftrightarrow> requirements_live ds"
proof -
  have "(r \<in> perm_id ` set ds \<and> (\<forall>t. js_get (graph_nodes (buildGraph ds)) r = Some t
           \<longrightarrow> \<not> perm_deprecated (node_definition t)))
        = (case last_with_id ds r of None \<Rightarrow> False | Some t \<Rightarrow> \<not> perm_deprecated t)" for r
    using last_with_id_None_iff[of ds r]
    by (auto simp: graph_nodes_last split: option.splits)
  then show ?thesis
    by (simp add: validateReferentialIntegrity_def check_definitions_Ok_iff
        check_requirements_Ok_iff requirements_live_def)
qed

lemma catalog_validate_iff:
  "catalog_validate ds (buildGraph ds) = Some (Ok ()) \<longleftrightarrow>
     requirements_live ds \<and> acyclic (requires_rel ds)"
  unfolding detectCycles_iff[symmetric] validateReferentialIntegrity_iff[symmetric]
  by (auto simp: catalog_validate_def split: sum.splits)

text \<open>The three ways validation ends, each with what it says of the catalog.\<close>

lemma check_requirements_Fail:
  "check_requirements valid g i rs = Fail e \<Longrightarrow> \<exists>r m. r \<in> set rs \<and> e = Dangling_prerequisite i m"
  by (induction valid g i rs rule: check_requirements.induct)
     (auto split: if_splits option.splits)

lemma check_definitions_Fail:
  "check_definitions valid g ds = Fail e \<Longrightarrow>
     \<exists>d \<in> set ds. \<exists>m. e = Dangling_prerequisite (perm_id d) m"
  by (induction ds) (auto simp: and_then_eq_Fail_iff dest: check_requirements_Fail)

section \<open>Properties\<close>

text \<open>
  C1: Catalog validation terminates on every list of definitions and succeeds exactly when every
  prerequisite names a definition whose effective entry is not deprecated and the prerequisite
  relation has no cycle; the depth-first search neither misses a cycle nor reports a false one.
\<close>

theorem catalog_validation_exact:
  "catalog_validate ds (buildGraph ds) \<noteq> None \<and>
   (catalog_validate ds (buildGraph ds) = Some (Ok ()) \<longleftrightarrow>
      requirements_live ds \<and> acyclic (requires_rel ds))"
  using catalog_validate_iff[of ds] detectCycles_total
  by (auto simp: catalog_validate_def split: sum.splits)

text \<open>
  C2: When cycle detection throws on any graph, the path the error carries is a genuine cycle of the
  graph's adjacency lists: a closed walk of at least one edge whose first and last identifier
  coincide.
\<close>

theorem reported_cycle_is_real:
  assumes "detectCycles g = Some (Fail e)"
  shows "\<exists>c. e = Cyclic_dependency c \<and> closed_walk (edges g) c"
  using assms by (cases rule: detectCycles_cases[of g]) auto

definition two_cycle :: "permission_definition list" where
  "two_cycle =
    (let d = (\<lambda>i r a req. \<lparr> perm_id = i, perm_module = ''m'', perm_resource = r, perm_action = a,
        perm_requires = Some [req], perm_entry = False, perm_deprecated = False,
        perm_deprecatedAt = None, perm_removedInVersion = None \<rparr>)
     in [d ''a.x'' ''a'' ''x'' ''b.y'', d ''b.y'' ''b'' ''y'' ''c.z'', d ''c.z'' ''c'' ''z'' ''b.y''])"

theorem reported_cycle_is_real_witness:
  "detectCycles (buildGraph two_cycle) = Some (Fail (Cyclic_dependency [''b.y'', ''c.z'', ''b.y'']))
   \<and> closed_walk (edges (buildGraph two_cycle)) [''b.y'', ''c.z'', ''b.y'']"
proof -
  have "detectCycles (buildGraph two_cycle)
      = Some (Fail (Cyclic_dependency [''b.y'', ''c.z'', ''b.y'']))"
    by code_simp
  with reported_cycle_is_real[OF this] show ?thesis by auto
qed

end
