(* ===== verification/Permission_Service.thy ===== *)
theory Permission_Service
  imports Permission_Loader Permission_Cycles
begin

text \<open>
  \<^verbatim>\<open>PermissionCatalogService\<close> and \<^verbatim>\<open>PermissionDependencyService\<close>: the catalog
  that is published after validation, the hierarchy and dependency views built from it, and the
  check of a requested permission set, together with the contract the role component relies on
  (a prerequisite order whose assignable codes are closed under prerequisites).
\<close>

section \<open>The catalog service\<close>

record catalog_service =
  svc_loader :: catalog_loader
  svc_definitions :: "permission_definition list"
  svc_graph :: "permission_graph option"

text \<open>The outer \<^verbatim>\<open>None\<close> is the search running out of fuel, which never happens.\<close>

definition initialize ::
  "yaml_parser \<Rightarrow> file_system \<Rightarrow> string list \<Rightarrow> catalog_service
    \<Rightarrow> (catalog_error + unit) option \<times> catalog_service" where
  "initialize yaml fs paths svc =
    (case loadFromFile yaml fs paths (svc_loader svc) of
       (Inl e, ld) \<Rightarrow> (Some (Fail e), svc\<lparr> svc_loader := ld \<rparr>)
     | (Inr l, ld) \<Rightarrow>
         (case catalog_validate (loaded_definitions l) (loaded_graph l) of
            None \<Rightarrow> (None, svc\<lparr> svc_loader := ld \<rparr>)
          | Some (Inl e) \<Rightarrow> (Some (Fail e), svc\<lparr> svc_loader := ld \<rparr>)
          | Some (Inr _) \<Rightarrow>
              (Some (Ok ()), svc\<lparr> svc_loader := ld, svc_definitions := loaded_definitions l,
                                   svc_graph := Some (loaded_graph l) \<rparr>)))"

definition catalog_getById :: "catalog_service \<Rightarrow> string \<Rightarrow> permission_definition option" where
  "catalog_getById svc i = loader_getById (svc_loader svc) i"

record catalog_response =
  totalModules :: nat
  totalPermissions :: nat
  response_modules :: "(string \<times> (string \<times> permission_definition list) list) list"

definition getCatalogHierarchy :: "catalog_service \<Rightarrow> catalog_response" where
  "getCatalogHierarchy svc =
    (let groups = map (\<lambda>(m, rm). (m, map (\<lambda>(r, ps). (r, ps)) rm)) (moduleMap (svc_loader svc)) in
     \<lparr> totalModules = length groups, totalPermissions = length (svc_definitions svc),
       response_modules = groups \<rparr>)"

record dependency_rule =
  rule_code :: string
  rule_requires :: "string list"
  rule_requiredBy :: "string list"

text \<open>Reading an unset graph is a \<^verbatim>\<open>TypeError\<close>: \<^verbatim>\<open>None\<close>.\<close>

definition getDependencyMatrix :: "catalog_service \<Rightarrow> dependency_rule list option" where
  "getDependencyMatrix svc =
    map_option (\<lambda>g. map (\<lambda>(i, n). \<lparr> rule_code = i, rule_requires = node_prerequisites n,
                                    rule_requiredBy = node_dependents n \<rparr>) (graph_nodes g))
      (svc_graph svc)"

section \<open>Checking a permission set\<close>

datatype violation_type =
  Missing_prerequisite | Blocked_by_dependent | Deprecated_code | Unknown_code | Invalid_format

record violation =
  violation_code :: string
  violation_kind :: violation_type
  violation_conflicts :: "string list option"

definition code_violations :: "permission_graph \<Rightarrow> string \<Rightarrow> violation list" where
  "code_violations g code =
    (let bad = (\<lambda>k. [\<lparr> violation_code = code, violation_kind = k, violation_conflicts = None \<rparr>]) in
     if code = [] \<or> \<not> permission_action_regex code then bad Invalid_format
     else (case js_get (graph_nodes g) code of
             None \<Rightarrow> bad Unknown_code
           | Some n \<Rightarrow> if perm_deprecated (node_definition n) then bad Deprecated_code else []))"

definition missing_prerequisites :: "permission_graph \<Rightarrow> string list \<Rightarrow> string \<Rightarrow> violation list" where
  "missing_prerequisites g requested code =
    (case js_get (graph_nodes g) code of
       None \<Rightarrow> []
     | Some n \<Rightarrow>
         map (\<lambda>p. \<lparr> violation_code = code, violation_kind = Missing_prerequisite,
                     violation_conflicts = Some [p] \<rparr>)
           (filter (\<lambda>p. p \<notin> set requested) (node_prerequisites n)))"

record validation_result =
  isValid :: bool
  validation_errors :: "violation list"

definition validatePermissionSet :: "permission_graph \<Rightarrow> string list \<Rightarrow> validation_result" where
  "validatePermissionSet g codes =
    (let requested = js_set_of codes;
         errs = concat (map (code_violations g) codes) in
     if errs \<noteq> [] then \<lparr> isValid = False, validation_errors = errs \<rparr>
     else let errs2 = concat (map (missing_prerequisites g requested) codes) in
          \<lparr> isValid = (errs2 = []), validation_errors = errs2 \<rparr>)"

section \<open>The contract of a catalog\<close>

text \<open>
  What a client may rely on: a valid catalog has a set of assignable codes, closed under the
  prerequisites, whose order is acyclic; a set of codes is accepted when its members are
  assignable and their prerequisites are present.
\<close>

locale prerequisite_catalog =
  fixes valid :: "'c \<Rightarrow> bool"
    and assignable :: "'c \<Rightarrow> 'k set"
    and requires :: "'c \<Rightarrow> ('k \<times> 'k) set"
    and accepts :: "'c \<Rightarrow> 'k list \<Rightarrow> bool"
  assumes acyclic_requires: "valid c \<Longrightarrow> acyclic (requires c)"
    and accepts_iff:
      "valid c \<Longrightarrow> accepts c xs \<longleftrightarrow> set xs \<subseteq> assignable c \<and> requires c `` set xs \<subseteq> set xs"
begin

lemma accepts_rtrancl_closed:
  assumes "valid c" "accepts c xs" "x \<in> set xs" "(x, y) \<in> (requires c)\<^sup>*"
  shows "y \<in> set xs \<and> y \<in> assignable c"
  using assms(4)
proof (induction rule: rtrancl_induct)
  case base
  then show ?case using assms by (auto simp: accepts_iff)
next
  case (step y z)
  then show ?case using assms(1,2) by (auto simp: accepts_iff)
qed

lemma accepts_cong: "valid c \<Longrightarrow> set xs = set ys \<Longrightarrow> accepts c xs = accepts c ys"
  by (simp add: accepts_iff)

lemma accepts_append: "valid c \<Longrightarrow> accepts c xs \<Longrightarrow> accepts c ys \<Longrightarrow> accepts c (xs @ ys)"
  by (auto simp: accepts_iff)

lemma accepts_common:
  "valid c \<Longrightarrow> accepts c xs \<Longrightarrow> accepts c ys \<Longrightarrow> accepts c (filter (\<lambda>x. x \<in> set ys) xs)"
  by (auto simp: accepts_iff)

lemma accepts_remove_iff:
  "valid c \<Longrightarrow> accepts c xs \<Longrightarrow>
     accepts c (js_remove x xs) \<longleftrightarrow> \<not> (\<exists>y \<in> set xs - {x}. (y, x) \<in> requires c)"
  by (auto simp: accepts_iff)

lemma accepts_has_base:
  assumes "valid c" "accepts c xs" "xs \<noteq> []"
  shows "\<exists>b \<in> set xs. \<forall>r. (b, r) \<notin> requires c"
proof -
  let ?R = "(requires c)\<inverse> \<inter> set xs \<times> set xs"
  have "acyclic ((requires c)\<inverse>)" using acyclic_requires[OF assms(1)] by simp
  then have "acyclic ?R" by (rule acyclic_subset) auto
  moreover have "finite ?R" by (rule finite_subset[of _ "set xs \<times> set xs"]) auto
  ultimately have "wf ?R" using finite_acyclic_wf by blast
  moreover have "hd xs \<in> set xs" using assms(3) by simp
  ultimately obtain b where b: "b \<in> set xs" "\<And>y. (y, b) \<in> ?R \<Longrightarrow> y \<notin> set xs"
    by (rule wfE_min) blast
  have "(b, r) \<notin> requires c" for r
  proof
    assume r: "(b, r) \<in> requires c"
    then have "r \<in> set xs"
      using accepts_iff[OF assms(1), of xs] assms(2) b(1) by blast
    with r b show False by blast
  qed
  with b(1) show ?thesis by blast
qed

end

definition catalog_valid :: "permission_definition list \<Rightarrow> bool" where
  "catalog_valid ds =
    (catalog_validate ds (buildGraph ds) = Some (Ok ()) \<and>
     list_all (\<lambda>d. permission_action_regex (perm_id d)) ds)"

definition assignable_codes :: "permission_definition list \<Rightarrow> string set" where
  "assignable_codes ds =
    {i. case last_with_id ds i of None \<Rightarrow> False | Some d \<Rightarrow> \<not> perm_deprecated d}"

definition set_accepted :: "permission_definition list \<Rightarrow> string list \<Rightarrow> bool" where
  "set_accepted ds codes = isValid (validatePermissionSet (buildGraph ds) codes)"

lemma code_violations_Nil_iff:
  "code_violations (buildGraph ds) code = [] \<longleftrightarrow>
     permission_action_regex code \<and> code \<in> assignable_codes ds"
proof -
  have "permission_action_regex code \<Longrightarrow> code \<noteq> []"
    by (auto simp: permission_action_regex_def)
  then show ?thesis
    by (auto simp: code_violations_def Let_def graph_nodes_last assignable_codes_def
        split: option.splits)
qed

lemma missing_prerequisites_Nil_iff:
  "code \<in> assignable_codes ds \<Longrightarrow>
     missing_prerequisites (buildGraph ds) xs code = [] \<longleftrightarrow> requires_rel ds `` {code} \<subseteq> set xs"
proof -
  assume "code \<in> assignable_codes ds"
  then obtain d where d: "last_with_id ds code = Some d" "perm_id d = code"
    by (auto simp: assignable_codes_def dest: last_with_id_SomeD split: option.splits)
  have "set (node_prerequisites (make_node (link_all ds) d)) = requires_rel ds `` {code}"
    using d(2) by (simp add: make_node_sets)
  then show ?thesis
    using d(1) by (auto simp: missing_prerequisites_def graph_nodes_last filter_empty_conv)
qed

lemma set_accepted_iff:
  "set_accepted ds codes \<longleftrightarrow>
     list_all permission_action_regex codes \<and> set codes \<subseteq> assignable_codes ds \<and>
     requires_rel ds `` set codes \<subseteq> set codes"
proof -
  have 1: "concat (map (code_violations (buildGraph ds)) codes) = [] \<longleftrightarrow>
      list_all permission_action_regex codes \<and> set codes \<subseteq> assignable_codes ds"
    by (auto simp: code_violations_Nil_iff list_all_iff)
  have 2: "concat (map (missing_prerequisites (buildGraph ds) (js_set_of codes)) codes) = [] \<longleftrightarrow>
      requires_rel ds `` set codes \<subseteq> set codes" if "set codes \<subseteq> assignable_codes ds"
  proof -
    have "(\<forall>c \<in> set codes. missing_prerequisites (buildGraph ds) (js_set_of codes) c = []) \<longleftrightarrow>
        (\<forall>c \<in> set codes. requires_rel ds `` {c} \<subseteq> set codes)"
      using that missing_prerequisites_Nil_iff[of _ ds "js_set_of codes"] by auto
    then show ?thesis by auto
  qed
  show ?thesis
    unfolding set_accepted_def validatePermissionSet_def Let_def
    using 1 2 by (auto simp del: concat_eq_Nil_conv)
qed

interpretation catalog: prerequisite_catalog catalog_valid assignable_codes requires_rel set_accepted
proof unfold_locales
  fix ds xs
  assume v: "catalog_valid ds"
  then show "acyclic (requires_rel ds)"
    by (simp add: catalog_valid_def catalog_validate_iff)
  have "permission_action_regex i" if "i \<in> assignable_codes ds" for i
    using that v by (auto simp: catalog_valid_def assignable_codes_def list_all_iff
        dest: last_with_id_SomeD split: option.splits)
  then show "set_accepted ds xs \<longleftrightarrow>
      set xs \<subseteq> assignable_codes ds \<and> requires_rel ds `` set xs \<subseteq> set xs"
    by (auto simp: set_accepted_iff list_all_iff)
qed

section \<open>The platform catalog\<close>

definition raw_entry_of ::
  "string \<Rightarrow> string \<Rightarrow> string \<Rightarrow> string list option \<Rightarrow> bool \<Rightarrow> raw_permission" where
  "raw_entry_of m r a req entry =
    \<lparr> raw_id = r @ ''.'' @ a, raw_module = m, raw_resource = r, raw_action = a, raw_requires = req,
      raw_entry = (if entry then Some True else None), raw_deprecated = None,
      raw_deprecatedAt = None, raw_removedInVersion = None \<rparr>"

text \<open>\<^verbatim>\<open>config/permission-catalog.yaml\<close>, entry by entry.\<close>

definition platform_catalog :: "raw_permission list" where
  "platform_catalog =
    [raw_entry_of ''setting'' ''location'' ''view'' None True,
     raw_entry_of ''setting'' ''location'' ''create'' (Some [''location.view'']) False,
     raw_entry_of ''setting'' ''location'' ''update'' (Some [''location.view'']) False,
     raw_entry_of ''setting'' ''location'' ''deactivate'' (Some [''location.view'']) False,
     raw_entry_of ''setting'' ''location'' ''delete'' (Some [''location.view'', ''location.deactivate'']) False,
     raw_entry_of ''directory'' ''employee'' ''view'' None True,
     raw_entry_of ''directory'' ''employee'' ''create'' (Some [''employee.view'']) False,
     raw_entry_of ''directory'' ''employee'' ''update'' (Some [''employee.view'']) False,
     raw_entry_of ''directory'' ''employee'' ''archive'' (Some [''employee.view'']) False,
     raw_entry_of ''authorization'' ''role'' ''view'' None True,
     raw_entry_of ''authorization'' ''role'' ''create'' (Some [''role.view'']) False,
     raw_entry_of ''authorization'' ''role'' ''update'' (Some [''role.view'']) False,
     raw_entry_of ''authorization'' ''role'' ''delete'' (Some [''role.view'']) False,
     raw_entry_of ''leave'' ''leave'' ''view'' None True,
     raw_entry_of ''leave'' ''leave'' ''request'' (Some [''leave.view'']) False,
     raw_entry_of ''leave'' ''leave'' ''approve'' (Some [''leave.view'']) False,
     raw_entry_of ''payroll'' ''payroll'' ''view'' None True,
     raw_entry_of ''payroll'' ''payroll'' ''run'' (Some [''payroll.view'']) False]"

definition platform_definitions :: "permission_definition list" where
  "platform_definitions = map definition_of_raw platform_catalog"

section \<open>Properties\<close>

text \<open>A published catalog: the views and the graph describe the same validated definitions.\<close>

definition catalog_published :: "catalog_service \<Rightarrow> bool" where
  "catalog_published svc =
    (loader_describes (svc_loader svc) (svc_definitions svc) \<and>
     svc_graph svc = Some (buildGraph (svc_definitions svc)) \<and>
     loader_getGraph (svc_loader svc) = Ok (buildGraph (svc_definitions svc)) \<and>
     catalog_valid (svc_definitions svc))"

lemma naming_ok_regex: "naming_ok raw \<Longrightarrow> permission_action_regex (perm_id (definition_of_raw raw))"
proof -
  assume "naming_ok raw"
  then have "validatePermissionNaming (raw_id raw) (raw_resource raw) (raw_action raw) = Ok ()"
    by (simp add: naming_ok_def is_ok_iff)
  then have "permission_action_regex (raw_id raw)"
    unfolding validatePermissionNaming_Ok_iff by (rule conjunct1)
  then show ?thesis by (simp add: definition_of_raw_def)
qed

lemma loadFromFile_OkD:
  assumes "loadFromFile yaml fs paths st = (Ok l, st')"
  shows "loaded_graph l = buildGraph (loaded_definitions l) \<and>
     loader_getGraph st' = Ok (loaded_graph l) \<and> loader_describes st' (loaded_definitions l) \<and>
     list_all (\<lambda>d. permission_action_regex (perm_id d)) (loaded_definitions l)"
proof -
  obtain content where "loadFromYamlContent yaml content st = (Ok l, st')"
    using assms by (auto simp: loadFromFile_def split: option.splits sum.splits)
  from loadFromYamlContent_OkD[OF this] show ?thesis
    by (auto simp: list_all_iff naming_ok_regex)
qed

text \<open>
  C3: Initialization always ends, and is all or nothing for what the service publishes: either it
  succeeds and the definitions, the indexes, the hierarchy and the graph all describe one catalog
  that passed validation, or it fails and the definitions and the graph are those of before.
\<close>

theorem initialize_all_or_nothing:
  "case initialize yaml fs paths svc of
     (Some (Inr _), svc') \<Rightarrow> catalog_published svc'
   | (Some (Inl _), svc') \<Rightarrow>
       svc_definitions svc' = svc_definitions svc \<and> svc_graph svc' = svc_graph svc
   | (None, _) \<Rightarrow> False"
proof (cases "loadFromFile yaml fs paths (svc_loader svc)")
  case (Pair r ld)
  show ?thesis
  proof (cases r)
    case (Inl e)
    then show ?thesis by (simp add: initialize_def Pair)
  next
    case (Inr l)
    note l = loadFromFile_OkD[OF Pair[unfolded Inr]]
    have "catalog_validate (loaded_definitions l) (loaded_graph l) \<noteq> None"
      using detectCycles_total by (auto simp: catalog_validate_def split: sum.splits)
    then obtain v where v: "catalog_validate (loaded_definitions l) (loaded_graph l) = Some v"
      by blast
    then show ?thesis
      using l by (cases v)
        (auto simp: initialize_def Pair Inr catalog_published_def catalog_valid_def)
  qed
qed

text \<open>
  When a reload is refused at a badly named entry, lookup by id and the hierarchy already serve
  the entries in front of it while the definitions and the graph are still those of the previous
  catalog: the two views of the service disagree until the next successful load.
\<close>

theorem refused_reload_splits_views:
  assumes "find (fs_exists fs) paths = Some p" "fs_read fs p = Inr content"
    and "yaml content = Inr (Some (pre @ bad # post))" "list_all naming_ok pre"
    and "validatePermissionNaming (raw_id bad) (raw_resource bad) (raw_action bad) = Fail e"
  shows "\<exists>svc'. initialize yaml fs paths svc = (Some (Fail e), svc') \<and>
     catalog_getById svc' i = last_with_id (map definition_of_raw pre) i \<and>
     loader_describes (svc_loader svc') (map definition_of_raw pre) \<and>
     svc_definitions svc' = svc_definitions svc \<and> svc_graph svc' = svc_graph svc"
proof -
  obtain st' where st': "loadFromYamlContent yaml content (svc_loader svc) = (Fail e, st')"
      "loader_describes st' (map definition_of_raw pre)"
    using loader_describes_bad_entry[of yaml content pre bad post e "svc_loader svc"] assms(3-5) by blast
  then show ?thesis
    using assms(1,2)
    by (simp add: initialize_def loadFromFile_def catalog_getById_def loader_describes_def)
qed

definition sample_service :: catalog_service where
  "sample_service =
    \<lparr> svc_loader = empty_loader,
      svc_definitions = [definition_of_raw (sample_raw ''old'' ''view'')],
      svc_graph = Some (buildGraph [definition_of_raw (sample_raw ''old'' ''view'')]) \<rparr>"

theorem refused_reload_splits_views_witness:
  "\<exists>svc'. initialize (\<lambda>_. Inr (Some [sample_raw ''new'' ''view'', sample_raw ''new'' ''Created'']))
       \<lparr> fs_exists = (\<lambda>_. True), fs_read = (\<lambda>_. Inr ''doc'') \<rparr> [''f''] sample_service
       = (Some (Fail (Invalid_permission_format ''new.Created'' Bad_pattern)), svc') \<and>
     catalog_getById svc' ''new.view'' = Some (definition_of_raw (sample_raw ''new'' ''view'')) \<and>
     map perm_id (svc_definitions svc') = [''old.view'']"
proof -
  let ?fs = "\<lparr> fs_exists = (\<lambda>_. True), fs_read = (\<lambda>_. Inr ''doc'') \<rparr>"
  let ?yaml = "\<lambda>_. Inr (Some [sample_raw ''new'' ''view'', sample_raw ''new'' ''Created''])"
  have 1: "list_all naming_ok [sample_raw ''new'' ''view'']" by code_simp
  have 2: "validatePermissionNaming (raw_id (sample_raw ''new'' ''Created''))
      (raw_resource (sample_raw ''new'' ''Created'')) (raw_action (sample_raw ''new'' ''Created''))
      = Fail (Invalid_permission_format ''new.Created'' Bad_pattern)" by code_simp
  have 3: "last_with_id (map definition_of_raw [sample_raw ''new'' ''view'']) ''new.view''
      = Some (definition_of_raw (sample_raw ''new'' ''view''))"
    by (simp add: last_with_id_def sample_raw_def definition_of_raw_def)
  show ?thesis
    using refused_reload_splits_views[of ?fs "[''f'']" "''f''" "''doc''" ?yaml
        "[sample_raw ''new'' ''view'']" "sample_raw ''new'' ''Created''" "[]"
        "Invalid_permission_format ''new.Created'' Bad_pattern" sample_service "''new.view''"] 1 2 3
    by (auto simp: sample_service_def definition_of_raw_def sample_raw_def)
qed

text \<open>
  C4: In a valid catalog an accepted permission set is closed under prerequisites however far they
  reach, holds no deprecated or unknown code, and, unless it is empty, contains a code that needs
  no other; dropping a code keeps it acceptable exactly when no remaining code requires it.
\<close>

theorem accepted_sets_are_closed:
  assumes "catalog_valid ds" "isValid (validatePermissionSet (buildGraph ds) codes)"
  shows "(requires_rel ds)\<^sup>* `` set codes \<subseteq> set codes \<inter> assignable_codes ds \<and>
     (codes = [] \<or> (\<exists>b \<in> set codes. requires_rel ds `` {b} = {})) \<and>
     (isValid (validatePermissionSet (buildGraph ds) (js_remove x codes)) \<longleftrightarrow>
        (requires_rel ds)\<inverse> `` {x} \<inter> set codes \<subseteq> {x})"
proof -
  have acc: "set_accepted ds codes" using assms(2) by (simp add: set_accepted_def)
  have 1: "(requires_rel ds)\<^sup>* `` set codes \<subseteq> set codes \<inter> assignable_codes ds"
    using catalog.accepts_rtrancl_closed[OF assms(1) acc] by auto
  have 2: "codes = [] \<or> (\<exists>b \<in> set codes. requires_rel ds `` {b} = {})"
    using catalog.accepts_has_base[OF assms(1) acc] by auto
  have 3: "set_accepted ds (js_remove x codes) \<longleftrightarrow>
      (requires_rel ds)\<inverse> `` {x} \<inter> set codes \<subseteq> {x}"
    unfolding catalog.accepts_remove_iff[OF assms(1) acc] by auto
  show ?thesis using 1 2 3 by (simp add: set_accepted_def)
qed

theorem accepted_sets_are_closed_witness:
  "(requires_rel platform_definitions)\<^sup>* `` {''location.delete'', ''location.deactivate'', ''location.view''}
     \<subseteq> {''location.delete'', ''location.deactivate'', ''location.view''}"
proof -
  have "catalog_valid platform_definitions" by code_simp
  moreover have "isValid (validatePermissionSet (buildGraph platform_definitions)
      [''location.delete'', ''location.deactivate'', ''location.view''])" by code_simp
  ultimately show ?thesis
    using accepted_sets_are_closed[of platform_definitions
        "[''location.delete'', ''location.deactivate'', ''location.view'']"] by auto
qed

text \<open>
  The verdict on a permission set is exact on every catalog graph: it is accepted if and only
  if every code is well formed, known and not deprecated and every stated prerequisite is in the
  set, and it is refused exactly when a violation is reported.
\<close>

theorem permission_set_verdict:
  "(isValid (validatePermissionSet (buildGraph ds) codes) \<longleftrightarrow>
      list_all permission_action_regex codes \<and> set codes \<subseteq> assignable_codes ds \<and>
      requires_rel ds `` set codes \<subseteq> set codes) \<and>
   (isValid (validatePermissionSet (buildGraph ds) codes) \<longleftrightarrow>
      validation_errors (validatePermissionSet (buildGraph ds) codes) = [])"
proof -
  have "isValid (validatePermissionSet g codes) \<longleftrightarrow>
      validation_errors (validatePermissionSet g codes) = []" for g
    by (simp only: validatePermissionSet_def Let_def split: if_split) simp
  then show ?thesis using set_accepted_iff[of ds codes] by (simp add: set_accepted_def)
qed

end
