(* ===== verification/Permission_Contracts.thy ===== *)
theory Permission_Contracts
  imports Permission_Service
begin

text \<open>
  The generated contract constants \<^verbatim>\<open>generated-permission-contracts.ts\<close> the rest of the
  service and its clients compile against, and their agreement with the platform catalog.
\<close>

definition PermissionCodes :: "(string \<times> string) list" where
  "PermissionCodes =
    [(''LOCATION_VIEW'', ''location.view''),
     (''LOCATION_CREATE'', ''location.create''),
     (''LOCATION_UPDATE'', ''location.update''),
     (''LOCATION_DEACTIVATE'', ''location.deactivate''),
     (''LOCATION_DELETE'', ''location.delete''),
     (''EMPLOYEE_VIEW'', ''employee.view''),
     (''EMPLOYEE_CREATE'', ''employee.create''),
     (''EMPLOYEE_UPDATE'', ''employee.update''),
     (''EMPLOYEE_ARCHIVE'', ''employee.archive''),
     (''ROLE_VIEW'', ''role.view''),
     (''ROLE_CREATE'', ''role.create''),
     (''ROLE_UPDATE'', ''role.update''),
     (''ROLE_DELETE'', ''role.delete''),
     (''LEAVE_VIEW'', ''leave.view''),
     (''LEAVE_REQUEST'', ''leave.request''),
     (''LEAVE_APPROVE'', ''leave.approve''),
     (''PAYROLL_VIEW'', ''payroll.view''),
     (''PAYROLL_RUN'', ''payroll.run'')]"

definition PlatformModules :: "string list" where
  "PlatformModules = [''setting'', ''directory'', ''authorization'', ''leave'', ''payroll'']"

record permission_metadata =
  meta_id :: string
  meta_module :: string
  meta_resource :: string
  meta_action :: string
  meta_entry :: "bool option"
  meta_deprecated :: "bool option"

definition metadata_entry :: "string \<Rightarrow> string \<Rightarrow> string \<Rightarrow> string \<Rightarrow> bool option \<Rightarrow> permission_metadata" where
  "metadata_entry i m r a e =
    \<lparr> meta_id = i, meta_module = m, meta_resource = r, meta_action = a, meta_entry = e,
      meta_deprecated = None \<rparr>"

definition PERMISSION_METADATA_LIST :: "permission_metadata list" where
  "PERMISSION_METADATA_LIST =
    [metadata_entry ''location.view'' ''setting'' ''location'' ''view'' (Some True),
     metadata_entry ''location.create'' ''setting'' ''location'' ''create'' None,
     metadata_entry ''location.update'' ''setting'' ''location'' ''update'' None,
     metadata_entry ''location.deactivate'' ''setting'' ''location'' ''deactivate'' None,
     metadata_entry ''location.delete'' ''setting'' ''location'' ''delete'' None,
     metadata_entry ''employee.view'' ''directory'' ''employee'' ''view'' (Some True),
     metadata_entry ''employee.create'' ''directory'' ''employee'' ''create'' None,
     metadata_entry ''employee.update'' ''directory'' ''employee'' ''update'' None,
     metadata_entry ''employee.archive'' ''directory'' ''employee'' ''archive'' None,
     metadata_entry ''role.view'' ''authorization'' ''role'' ''view'' (Some True),
     metadata_entry ''role.create'' ''authorization'' ''role'' ''create'' None,
     metadata_entry ''role.update'' ''authorization'' ''role'' ''update'' None,
     metadata_entry ''role.delete'' ''authorization'' ''role'' ''delete'' None,
     metadata_entry ''leave.view'' ''leave'' ''leave'' ''view'' (Some True),
     metadata_entry ''leave.request'' ''leave'' ''leave'' ''request'' None,
     metadata_entry ''leave.approve'' ''leave'' ''leave'' ''approve'' None,
     metadata_entry ''payroll.view'' ''payroll'' ''payroll'' ''view'' (Some True),
     metadata_entry ''payroll.run'' ''payroll'' ''payroll'' ''run'' None]"

definition metadata_of :: "permission_definition \<Rightarrow> permission_metadata" where
  "metadata_of d =
    \<lparr> meta_id = perm_id d, meta_module = perm_module d, meta_resource = perm_resource d,
      meta_action = perm_action d, meta_entry = (if perm_entry d then Some True else None),
      meta_deprecated = (if perm_deprecated d then Some True else None) \<rparr>"

text \<open>
  The platform catalog passes validation, and the generated contracts are exactly its image:
  the permission codes are its ids in order, the modules are its modules in order of first use,
  and the metadata list is its entries with the entry and deprecation flags.
\<close>

theorem contracts_match_catalog:
  "catalog_valid platform_definitions \<and>
   map snd PermissionCodes = map perm_id platform_definitions \<and>
   PlatformModules = js_set_of (map perm_module platform_definitions) \<and>
   PERMISSION_METADATA_LIST = map metadata_of platform_definitions"
  by (intro conjI; code_simp)

end
