(* ===== verification/Role_Store.thy ===== *)
theory Role_Store
  imports Row_Store Permission_Contracts
begin

text \<open>
  The role tables: the system role templates, the role and role-permission repositories, the
  role cache, and the consistency the database keeps.  Reads through the base repository are
  scoped to the tenant of the request; a row inserted by it receives the tenant and a fresh
  identifier, both parameters here.
\<close>

section \<open>System role templates\<close>

definition tpl :: "string \<Rightarrow> bool \<Rightarrow> permission_template" where
  "tpl c p = \<lparr> tpl_code = c, tpl_isProtected = p \<rparr>"

fun SYSTEM_ROLE_TEMPLATES :: "system_role_key \<Rightarrow> system_role_template" where
  "SYSTEM_ROLE_TEMPLATES EMPLOYEE =
    \<lparr> tpl_key = EMPLOYEE, tpl_defaultName = ''Employee'',
      tpl_description = ''Standard baseline employee access across portal and self-service capabilities.'',
      tpl_permissions =
        [tpl ''employee.view'' True, tpl ''location.view'' True, tpl ''leave.view'' True,
         tpl ''leave.request'' False] \<rparr>"
| "SYSTEM_ROLE_TEMPLATES MANAGER =
    \<lparr> tpl_key = MANAGER, tpl_defaultName = ''Manager'',
      tpl_description = ''Standard manager access for direct reports, approvals, and team visibility.'',
      tpl_permissions =
        [tpl ''employee.view'' True, tpl ''location.view'' True, tpl ''leave.view'' True,
         tpl ''leave.approve'' True, tpl ''leave.request'' False] \<rparr>"
| "SYSTEM_ROLE_TEMPLATES ADMINISTRATOR =
    \<lparr> tpl_key = ADMINISTRATOR, tpl_defaultName = ''Built-in Administrator'',
      tpl_description = ''System administrator with protected platform recovery and authorization management rights.'',
      tpl_permissions =
        [tpl ''employee.view'' True, tpl ''employee.create'' False, tpl ''employee.update'' False,
         tpl ''employee.archive'' False, tpl ''location.view'' True, tpl ''location.create'' False,
         tpl ''location.update'' False, tpl ''location.deactivate'' False,
         tpl ''location.delete'' False, tpl ''role.view'' True, tpl ''role.create'' True,
         tpl ''role.update'' True, tpl ''role.delete'' True, tpl ''leave.view'' True,
         tpl ''leave.approve'' False, tpl ''leave.request'' False, tpl ''payroll.view'' True,
         tpl ''payroll.run'' False] \<rparr>"

definition all_system_role_keys :: "system_role_key list" where
  "all_system_role_keys = [EMPLOYEE, MANAGER, ADMINISTRATOR]"

definition protected_codes :: "system_role_key \<Rightarrow> string list" where
  "protected_codes k =
    map tpl_code (filter tpl_isProtected (tpl_permissions (SYSTEM_ROLE_TEMPLATES k)))"

section \<open>Errors\<close>

datatype role_error =
    Entity_not_found uuid
  | Role_not_found uuid
  | Cannot_delete_system_role uuid string
  | Protected_capability_removal string "string list"
  | Duplicate_role_name string
  | Critical_role_deactivation string
  | Cannot_mutate_system_role string
  | Role_version_conflict uuid int int
  | Capability_validation_failed "violation list"
  | Unique_violation string
  | Foreign_key_violation string

section \<open>Repositories\<close>

definition role_find :: "tenant \<Rightarrow> uuid \<Rightarrow> authz_db \<Rightarrow> role option" where
  "role_find t i db = find (\<lambda>r. role_id r = i \<and> role_tenant r = t) (t_roles db)"

definition role_findByName :: "tenant \<Rightarrow> string \<Rightarrow> authz_db \<Rightarrow> role option" where
  "role_findByName t n db = find (\<lambda>r. role_name r = n \<and> role_tenant r = t) (t_roles db)"

definition role_findBySystemKey :: "tenant \<Rightarrow> system_role_key \<Rightarrow> authz_db \<Rightarrow> role option" where
  "role_findBySystemKey t k db =
    find (\<lambda>r. role_systemKey r = Some k \<and> role_tenant r = t) (t_roles db)"

definition findActiveBuiltInAdminRoles :: "tenant \<Rightarrow> authz_db \<Rightarrow> role list" where
  "findActiveBuiltInAdminRoles t db =
    filter (\<lambda>r. role_systemKey r = Some ADMINISTRATOR \<and> role_state r = Role_active
               \<and> role_tenant r = t) (t_roles db)"

definition findDirtyRoles :: "authz_db \<Rightarrow> (tenant \<times> uuid \<times> int) list" where
  "findDirtyRoles db =
    map (\<lambda>r. (role_tenant r, role_id r, role_version r))
      (filter (\<lambda>r. role_version r \<noteq> role_projectionVersion r) (t_roles db))"

definition role_updateProjectionVersion :: "tenant \<Rightarrow> uuid \<Rightarrow> int \<Rightarrow> authz_db \<Rightarrow> authz_db" where
  "role_updateProjectionVersion t i v db =
    db\<lparr> t_roles := map (\<lambda>r. if role_id r = i \<and> role_tenant r = t
                             then r\<lparr> role_projectionVersion := v \<rparr> else r) (t_roles db) \<rparr>"

text \<open>A failing count query is caught and read as zero.\<close>

definition countActiveUserReach :: "bool \<Rightarrow> tenant \<Rightarrow> uuid \<Rightarrow> authz_db \<Rightarrow> int" where
  "countActiveUserReach query_ok t i db =
    (if query_ok
     then int (length (js_set_of (map uer_userId
            (filter (\<lambda>e. uer_roleId e = i \<and> uer_tenant e = t) (t_effective_roles db)))))
     else 0)"

definition countAssignedUserGroups :: "bool \<Rightarrow> tenant \<Rightarrow> uuid \<Rightarrow> authz_db \<Rightarrow> int" where
  "countAssignedUserGroups query_ok t i db =
    (if query_ok
     then int (length (js_set_of (map ugr_groupId
            (filter (\<lambda>e. ugr_roleId e = i \<and> ugr_tenant e = t) (t_group_roles db)))))
     else 0)"

definition countAssignedUserGroupAndUser :: "bool \<Rightarrow> tenant \<Rightarrow> uuid \<Rightarrow> authz_db \<Rightarrow> int \<times> int" where
  "countAssignedUserGroupAndUser ok t i db =
    (countAssignedUserGroups ok t i db, countActiveUserReach ok t i db)"

text \<open>\<^verbatim>\<open>repository.save\<close> under the unique constraint on tenant and name.\<close>

definition role_save :: "role \<Rightarrow> authz_db \<Rightarrow> role_error + authz_db" where
  "role_save r db =
    (if \<exists>x \<in> set (t_roles db). role_tenant x = role_tenant r \<and> role_name x = role_name r
          \<and> role_id x \<noteq> role_id r
     then Fail (Unique_violation ''uq_roles_tenant_name'')
     else Ok (put_role r db))"

definition rp_key :: "role_permission \<Rightarrow> uuid \<times> string" where
  "rp_key p = (rp_roleId p, rp_code p)"

definition rp_bulkSave :: "role_permission list \<Rightarrow> authz_db \<Rightarrow> role_error + authz_db" where
  "rp_bulkSave ps db =
    (if ps = [] then Ok db
     else if distinct (map rp_key (t_role_permissions db @ ps))
     then Ok (db\<lparr> t_role_permissions := t_role_permissions db @ ps \<rparr>)
     else Fail (Unique_violation ''uq_role_permissions_role_perm''))"

definition rp_deleteByRoleId :: "tenant \<Rightarrow> uuid \<Rightarrow> authz_db \<Rightarrow> authz_db" where
  "rp_deleteByRoleId t i db =
    db\<lparr> t_role_permissions :=
        delete_rows (\<lambda>p. rp_roleId p = i \<and> \<not> rp_isProtected p \<and> rp_tenant p = t)
          (t_role_permissions db) \<rparr>"

text \<open>
  Removing a role row: the references from user groups and effective roles restrict it, the
  remaining permission rows cascade.
\<close>

definition role_delete :: "uuid \<Rightarrow> authz_db \<Rightarrow> role_error + authz_db" where
  "role_delete i db =
    (if (\<exists>e \<in> set (t_group_roles db). ugr_roleId e = i) \<or>
        (\<exists>e \<in> set (t_effective_roles db). uer_roleId e = i)
     then Fail (Foreign_key_violation ''fk_role'')
     else Ok ((drop_roles (\<lambda>r. role_id r = i) db)\<lparr> t_role_permissions :=
                delete_rows (\<lambda>p. rp_roleId p = i) (t_role_permissions db) \<rparr>))"

section \<open>The role cache\<close>

record cached_role =
  cr_roleId :: uuid
  cr_tenant :: tenant
  cr_name :: string
  cr_kind :: role_type
  cr_systemKey :: "system_role_key option"
  cr_state :: role_status
  cr_version :: int
  cr_permissions :: "(string \<times> bool) list"
  cr_updatedAt :: string

type_synonym role_cache = "(string, cached_role) js_map"

text \<open>
  The key builder is the library's.  The second argument of \<^verbatim>\<open>syncRole\<close> is the
  role's \<^verbatim>\<open>permissions\<close> relation, absent unless it was loaded.
\<close>

type_synonym role_key_builder = "tenant \<Rightarrow> uuid \<Rightarrow> string"

definition syncRole ::
  "role_key_builder \<Rightarrow> string \<Rightarrow> role \<Rightarrow> role_permission list option \<Rightarrow> role_cache \<Rightarrow> role_cache" where
  "syncRole kb now r perms cache =
    js_put (kb (role_tenant r) (role_id r))
      \<lparr> cr_roleId = role_id r, cr_tenant = role_tenant r, cr_name = role_name r,
        cr_kind = role_kind r, cr_systemKey = role_systemKey r, cr_state = role_state r,
        cr_version = role_version r,
        cr_permissions =
          map (\<lambda>p. (rp_code p, rp_isProtected p)) (case perms of None \<Rightarrow> [] | Some ps \<Rightarrow> ps),
        cr_updatedAt = now \<rparr> cache"

definition cache_getRole :: "role_key_builder \<Rightarrow> tenant \<Rightarrow> uuid \<Rightarrow> role_cache \<Rightarrow> cached_role option" where
  "cache_getRole kb t i cache = js_get cache (kb t i)"

definition invalidateRole :: "role_key_builder \<Rightarrow> tenant \<Rightarrow> uuid \<Rightarrow> role_cache \<Rightarrow> role_cache" where
  "invalidateRole kb t i cache = AList.delete (kb t i) cache"

section \<open>Consistency of the tables\<close>

definition name_key :: "role \<Rightarrow> tenant \<times> string" where
  "name_key r = (role_tenant r, role_name r)"

definition role_tables_ok :: "authz_db \<Rightarrow> bool" where
  "role_tables_ok db =
    (distinct (map role_id (t_roles db)) \<and> distinct (map name_key (t_roles db)) \<and>
     distinct (map rp_key (t_role_permissions db)) \<and>
     list_all (\<lambda>r. 1 \<le> role_version r) (t_roles db))"

text \<open>Every system role holds its template's protected permissions, marked protected.\<close>

definition protected_intact :: "authz_db \<Rightarrow> bool" where
  "protected_intact db =
    list_all (\<lambda>r. case (role_kind r, role_systemKey r) of
        (SYSTEM, Some k) \<Rightarrow>
          list_all (\<lambda>c. \<exists>p \<in> set (t_role_permissions db).
              rp_roleId p = role_id r \<and> rp_code p = c \<and> rp_isProtected p) (protected_codes k)
      | _ \<Rightarrow> True) (t_roles db)"

end
