(* ===== verification/Matching_Rule.thy ===== *)
theory Matching_Rule
  imports Access_Model
begin

text \<open>
  Matching rules of user groups: the validator over arbitrary JSON
  (\<^verbatim>\<open>MatchingRuleValidator\<close>), and the in-memory evaluator and the SQL builder of
  \<^verbatim>\<open>UserGroupMatchingEngine\<close>.  JavaScript's conversion of a string to a number is a
  parameter of the comparisons that use it.
\<close>

section \<open>JavaScript values\<close>

fun truthy :: "json \<Rightarrow> bool" where
  "truthy JUndefined = False"
| "truthy JNull = False"
| "truthy (JBool b) = b"
| "truthy (JNum n) = (n \<noteq> 0)"
| "truthy (JStr s) = (s \<noteq> [])"
| "truthy (JArr xs) = True"
| "truthy (JObj fs) = True"

fun is_object :: "json \<Rightarrow> bool" where
  "is_object (JArr xs) = True"
| "is_object (JObj fs) = True"
| "is_object JNull = True"
| "is_object v = False"

definition jfield :: "string \<Rightarrow> json \<Rightarrow> json" where
  "jfield k v = (case v of JObj fs \<Rightarrow> (case map_of fs k of Some x \<Rightarrow> x | None \<Rightarrow> JUndefined) | _ \<Rightarrow> JUndefined)"

definition digit_string :: "nat \<Rightarrow> string" where
  "digit_string d = [char_of (48 + d)]"

fun nat_string :: "nat \<Rightarrow> string" where
  "nat_string n = (if n < 10 then digit_string n else nat_string (n div 10) @ digit_string (n mod 10))"

declare nat_string.simps [simp del]

definition int_string :: "int \<Rightarrow> string" where
  "int_string n = (if n < 0 then ''-'' @ nat_string (nat (- n)) else nat_string (nat n))"

text \<open>\<^verbatim>\<open>String(v)\<close>; the elements of an array that are missing print as nothing.\<close>

fun js_String :: "json \<Rightarrow> string" where
  "js_String JUndefined = ''undefined''"
| "js_String JNull = ''null''"
| "js_String (JBool b) = (if b then ''true'' else ''false'')"
| "js_String (JNum n) = int_string n"
| "js_String (JStr s) = s"
| "js_String (JArr xs) =
     js_join '','' (map (\<lambda>x. if x = JNull \<or> x = JUndefined then [] else js_String x) xs)"
| "js_String (JObj fs) = ''[object Object]''"

text \<open>\<^verbatim>\<open>Number(v)\<close>, \<^verbatim>\<open>None\<close> being NaN.\<close>

fun js_Number :: "(string \<Rightarrow> int option) \<Rightarrow> json \<Rightarrow> int option" where
  "js_Number str_num JUndefined = None"
| "js_Number str_num JNull = Some 0"
| "js_Number str_num (JBool b) = Some (if b then 1 else 0)"
| "js_Number str_num (JNum n) = Some n"
| "js_Number str_num (JStr s) = str_num s"
| "js_Number str_num (JArr xs) = str_num (js_String (JArr xs))"
| "js_Number str_num (JObj fs) = None"

definition num_cmp :: "(int \<Rightarrow> int \<Rightarrow> bool) \<Rightarrow> int option \<Rightarrow> int option \<Rightarrow> bool" where
  "num_cmp f a b = (case (a, b) of (Some x, Some y) \<Rightarrow> f x y | _ \<Rightarrow> False)"

section \<open>The validator\<close>

definition ALLOWED_ATTRIBUTES :: "string list" where
  "ALLOWED_ATTRIBUTES =
    [''employmentStatus'', ''companyId'', ''locationId'', ''departmentId'', ''gradeId'', ''jobTitleId'',
     ''reporteesCount'', ''hasReportees'']"

definition ALLOWED_OPERATORS :: "string list" where
  "ALLOWED_OPERATORS =
    [''equals'', ''not_equals'', ''in'', ''not_in'', ''greater_than'', ''greater_than_or_equal'',
     ''less_than'', ''less_than_or_equal'', ''is_true'', ''is_false'', ''exists'', ''eq'', ''neq'', ''gt'',
     ''gte'', ''lt'', ''lte'']"

datatype rule_error =
    Rule_not_object
  | Unsupported_combinator string
  | Clauses_not_array
  | Clauses_empty
  | Clause_not_object nat
  | Clause_without_attribute nat
  | Attribute_not_allowed string nat
  | Clause_without_operator nat
  | Operator_not_supported string nat
  | Operator_needs_values string nat
  | Operator_needs_value string nat
  | Not_a_function

definition value_missing :: "json \<Rightarrow> bool" where
  "value_missing v = (v = JUndefined \<or> v = JNull \<or> v = JStr [])"

definition validateClause :: "json \<Rightarrow> nat \<Rightarrow> rule_error + string" where
  "validateClause c i =
    (if \<not> truthy c \<or> \<not> is_object c then Fail (Clause_not_object i)
     else case jfield ''attribute'' c of
       JStr (a # as) \<Rightarrow>
         (if a # as \<notin> set ALLOWED_ATTRIBUTES then Fail (Attribute_not_allowed (a # as) i)
          else (case jfield ''operator'' c of
            JStr (p # ps) \<Rightarrow>
              (let op = js_lower (p # ps) in
               if op \<notin> set ALLOWED_OPERATORS then Fail (Operator_not_supported (p # ps) i)
               else if op = ''in'' \<or> op = ''not_in'' then
                 (case jfield ''values'' c of
                    JArr (x # xs) \<Rightarrow> Ok (a # as)
                  | _ \<Rightarrow> Fail (Operator_needs_values (p # ps) i))
               else if op = ''is_true'' \<or> op = ''is_false'' \<or> op = ''exists'' then Ok (a # as)
               else if value_missing (jfield ''value'' c) then Fail (Operator_needs_value (p # ps) i)
               else Ok (a # as))
          | _ \<Rightarrow> Fail (Clause_without_operator i)))
     | _ \<Rightarrow> Fail (Clause_without_attribute i))"

fun validate_clauses :: "json list \<Rightarrow> nat \<Rightarrow> string list \<Rightarrow> rule_error + string list" where
  "validate_clauses [] i keys = Ok keys"
| "validate_clauses (c # cs) i keys =
    and_then (validateClause c i) (\<lambda>a. validate_clauses cs (i + 1) (js_add a keys))"

definition combinator_check :: "json \<Rightarrow> rule_error + unit" where
  "combinator_check v =
    (if \<not> truthy v then Ok ()
     else case v of
       JStr s \<Rightarrow> if js_lower s \<noteq> ''all'' then Fail (Unsupported_combinator s) else Ok ()
     | _ \<Rightarrow> Fail Not_a_function)"

definition validateRule :: "json \<Rightarrow> rule_error + string list" where
  "validateRule rule =
    (if \<not> truthy rule \<or> \<not> is_object rule then Fail Rule_not_object
     else and_then (combinator_check (jfield ''combinator'' rule)) (\<lambda>_.
       case jfield ''clauses'' rule of
         JArr [] \<Rightarrow> Fail Clauses_empty
       | JArr cs \<Rightarrow> validate_clauses cs 0 []
       | _ \<Rightarrow> Fail Clauses_not_array))"

section \<open>In-memory evaluation\<close>

definition str_or_null :: "string option \<Rightarrow> json" where
  "str_or_null s = (case s of None \<Rightarrow> JNull | Some x \<Rightarrow> JStr x)"

text \<open>Any other attribute is read as a property of the entity; of those the text columns are covered.\<close>

definition extractEmployeeValue :: "string \<Rightarrow> employee_reference \<Rightarrow> json" where
  "extractEmployeeValue a e =
    (if a = ''employmentStatus'' then JStr (emp_employmentStatus e)
     else if a = ''companyId'' then str_or_null (emp_companyId e)
     else if a = ''locationId'' then str_or_null (emp_locationId e)
     else if a = ''departmentId'' then str_or_null (emp_departmentId e)
     else if a = ''gradeId'' then str_or_null (emp_gradeId e)
     else if a = ''jobTitleId'' then str_or_null (emp_jobTitleId e)
     else if a = ''reporteesCount'' then JNum (emp_reporteesCount e)
     else if a = ''id'' then JStr (emp_id e)
     else if a = ''tenantCode'' then JStr (emp_tenant e)
     else if a = ''employeeCode'' then JStr (emp_code e)
     else if a = ''status'' then JStr (emp_status e)
     else if a = ''managerId'' then str_or_null (emp_managerId e)
     else if a = ''sourceVersion'' then str_or_null (emp_sourceVersion e)
     else JUndefined)"

definition clause_value_strings :: "rule_clause \<Rightarrow> string list" where
  "clause_value_strings c = map js_String (case clause_values c of None \<Rightarrow> [] | Some vs \<Rightarrow> vs)"

definition nullish :: "json \<Rightarrow> bool" where
  "nullish v = (v = JNull \<or> v = JUndefined)"

definition evaluate_operator ::
  "(string \<Rightarrow> int option) \<Rightarrow> string \<Rightarrow> rule_clause \<Rightarrow> json \<Rightarrow> bool" where
  "evaluate_operator str_num op c v =
    (let n = js_Number str_num v; m = js_Number str_num (clause_value c) in
     if op = ''eq'' \<or> op = ''equals'' then js_String v = js_String (clause_value c)
     else if op = ''neq'' \<or> op = ''not_equals'' then js_String v \<noteq> js_String (clause_value c)
     else if op = ''in'' then \<not> nullish v \<and> js_String v \<in> set (clause_value_strings c)
     else if op = ''not_in'' then nullish v \<or> js_String v \<notin> set (clause_value_strings c)
     else if op = ''gt'' \<or> op = ''greater_than'' then num_cmp (\<lambda>x y. x > y) n m
     else if op = ''gte'' \<or> op = ''greater_than_or_equal'' then num_cmp (\<lambda>x y. x \<ge> y) n m
     else if op = ''lt'' \<or> op = ''less_than'' then num_cmp (\<lambda>x y. x < y) n m
     else if op = ''lte'' \<or> op = ''less_than_or_equal'' then num_cmp (\<lambda>x y. x \<le> y) n m
     else if op = ''is_true'' then truthy v
     else if op = ''is_false'' then \<not> truthy v
     else if op = ''exists'' then \<not> nullish v \<and> v \<noteq> JStr []
     else False)"

definition evaluateClause :: "(string \<Rightarrow> int option) \<Rightarrow> rule_clause \<Rightarrow> employee_reference \<Rightarrow> bool" where
  "evaluateClause str_num c e =
    (let a = clause_attribute c; op = js_lower (clause_operator c) in
     if a = [] then False
     else if a = ''hasReportees'' \<and> (op = ''is_true'' \<or> op = ''eq'' \<or> op = ''equals'') then
       (let expected = (if clause_value c \<noteq> JUndefined then truthy (clause_value c) else True) in
        if expected then emp_reporteesCount e > 0 else emp_reporteesCount e = 0)
     else if a = ''hasReportees'' \<and> op = ''is_false'' then emp_reporteesCount e = 0
     else evaluate_operator str_num op c (extractEmployeeValue a e))"

definition evaluateRule :: "(string \<Rightarrow> int option) \<Rightarrow> matching_rule \<Rightarrow> employee_reference \<Rightarrow> bool" where
  "evaluateRule str_num rule e =
    (rule_clauses rule \<noteq> [] \<and> list_all (\<lambda>c. evaluateClause str_num c e) (rule_clauses rule))"

section \<open>The SQL query\<close>

text \<open>
  A condition of the query, in the forms the builder emits; the parameter is referred to by its
  number.
\<close>

datatype sql_condition =
    Tenant_is nat
  | Reportees_positive
  | Reportees_zero
  | Col_eq string nat
  | Col_neq string nat
  | Col_any string nat
  | Col_not_any string nat
  | Col_gt string nat
  | Col_ge string nat
  | Col_lt string nat
  | Col_le string nat
  | Col_present string

definition dollar :: "nat \<Rightarrow> string" where
  "dollar n = ''$'' @ nat_string n"

fun condition_text :: "sql_condition \<Rightarrow> string" where
  "condition_text (Tenant_is n) = ''tenant_code = '' @ dollar n"
| "condition_text Reportees_positive = ''reportees_count > 0''"
| "condition_text Reportees_zero = ''reportees_count = 0''"
| "condition_text (Col_eq c n) = c @ '' = '' @ dollar n"
| "condition_text (Col_neq c n) = ''('' @ c @ '' IS NULL OR '' @ c @ '' != '' @ dollar n @ '')''"
| "condition_text (Col_any c n) = c @ '' = ANY('' @ dollar n @ '')''"
| "condition_text (Col_not_any c n) = ''('' @ c @ '' IS NULL OR NOT ('' @ c @ '' = ANY('' @ dollar n @ '')))''"
| "condition_text (Col_gt c n) = c @ '' > '' @ dollar n"
| "condition_text (Col_ge c n) = c @ '' >= '' @ dollar n"
| "condition_text (Col_lt c n) = c @ '' < '' @ dollar n"
| "condition_text (Col_le c n) = c @ '' <= '' @ dollar n"
| "condition_text (Col_present c) = c @ '' IS NOT NULL AND '' @ c @ '' != '' @ [CHR 0x27, CHR 0x27]"

definition mapAttributeToColumn :: "string \<Rightarrow> string option" where
  "mapAttributeToColumn a =
    (if a = ''employmentStatus'' then Some ''employment_status''
     else if a = ''companyId'' then Some ''company_id''
     else if a = ''locationId'' then Some ''location_id''
     else if a = ''departmentId'' then Some ''department_id''
     else if a = ''gradeId'' then Some ''grade_id''
     else if a = ''jobTitleId'' then Some ''job_title_id''
     else if a = ''reporteesCount'' then Some ''reportees_count''
     else None)"

type_synonym query_state = "sql_condition list \<times> json list"

definition with_param :: "(nat \<Rightarrow> sql_condition) \<Rightarrow> json \<Rightarrow> query_state \<Rightarrow> query_state" where
  "with_param f v q = (fst q @ [f (length (snd q) + 1)], snd q @ [v])"

definition add_condition :: "sql_condition \<Rightarrow> query_state \<Rightarrow> query_state" where
  "add_condition c q = (fst q @ [c], snd q)"

definition clause_condition :: "string \<Rightarrow> string \<Rightarrow> rule_clause \<Rightarrow> query_state \<Rightarrow> query_state" where
  "clause_condition op col c q =
    (let v = clause_value c; vs = JArr (case clause_values c of None \<Rightarrow> [] | Some xs \<Rightarrow> xs) in
     if op = ''eq'' \<or> op = ''equals'' then with_param (Col_eq col) v q
     else if op = ''neq'' \<or> op = ''not_equals'' then with_param (Col_neq col) v q
     else if op = ''in'' then with_param (Col_any col) vs q
     else if op = ''not_in'' then with_param (Col_not_any col) vs q
     else if op = ''gt'' \<or> op = ''greater_than'' then with_param (Col_gt col) v q
     else if op = ''gte'' \<or> op = ''greater_than_or_equal'' then with_param (Col_ge col) v q
     else if op = ''lt'' \<or> op = ''less_than'' then with_param (Col_lt col) v q
     else if op = ''lte'' \<or> op = ''less_than_or_equal'' then with_param (Col_le col) v q
     else if op = ''exists'' then add_condition (Col_present col) q
     else q)"

definition add_clause :: "rule_clause \<Rightarrow> query_state \<Rightarrow> query_state" where
  "add_clause c q =
    (let a = clause_attribute c; op = js_lower (clause_operator c) in
     if a = [] then q
     else if a = ''hasReportees'' then
       (if op = ''is_true'' \<or> (op = ''eq'' \<and> clause_value c = JBool True) then add_condition Reportees_positive q
        else if op = ''is_false'' \<or> (op = ''eq'' \<and> clause_value c = JBool False) then add_condition Reportees_zero q
        else q)
     else (case mapAttributeToColumn a of
             None \<Rightarrow> q
           | Some col \<Rightarrow> clause_condition op col c q))"

definition build_conditions :: "tenant \<Rightarrow> matching_rule \<Rightarrow> query_state" where
  "build_conditions t rule = fold add_clause (rule_clauses rule) ([Tenant_is 1], [JStr t])"

definition buildMatchingQuery :: "tenant \<Rightarrow> matching_rule \<Rightarrow> string \<times> json list" where
  "buildMatchingQuery t rule =
    (let q = build_conditions t rule in
     (''SELECT employee_id FROM employee_references WHERE '' @ js_join '' AND '' (map condition_text (fst q)),
      snd q))"

end
