(* ===== verification/User_Group.thy ===== *)
theory User_Group
  imports Role_Store Matching_Rule
begin

text \<open>
  User groups: the scope validator, the aggregate, the repositories of groups and group roles, the
  impact estimates, and the lifecycle, scope and role-assignment services.  As in the role service
  a handler takes the database its checks read (\<^verbatim>\<open>db0\<close>) next to the one its transaction
  runs in.  The configuration update is taken with the two equal, since what the ORM does with a
  stale \<^verbatim>\<open>groupRoles\<close> relation is not in this repository.
\<close>

section \<open>Errors\<close>

datatype group_error =
    Group_not_found uuid
  | Concurrent_modification
  | Duplicate_group_name string
  | Group_confirmation_required int "int option" int
  | Group_name_empty
  | Scope_type_required
  | Scope_type_invalid string
  | Scope_ref_required scope_type
  | Invalid_transition string
  | Invalid_matching_rule rule_error
  | Invalid_role_assignment "uuid list"
  | Group_constraint string

section \<open>The scope validator\<close>

definition scope_of_string :: "string \<Rightarrow> scope_type option" where
  "scope_of_string s = find (\<lambda>t. scope_type_string t = s) all_scope_types"

definition ENTITY_ANCHORED_SCOPES :: "scope_type list" where
  "ENTITY_ANCHORED_SCOPES = [COMPANY, LOCATION, DEPARTMENT]"

definition UNANCHORED_SCOPES :: "scope_type list" where
  "UNANCHORED_SCOPES = [SELF, DIRECT_REPORTEES, TENANT_WIDE]"

definition validateScope :: "string \<Rightarrow> string option \<Rightarrow> group_error + scope_type \<times> string option" where
  "validateScope st ref =
    (if st = [] then Fail Scope_type_required
     else (case scope_of_string (if st = ''TENANT'' then ''TENANT_WIDE'' else st) of
       None \<Rightarrow> Fail (Scope_type_invalid st)
     | Some t \<Rightarrow>
         if t \<in> set ENTITY_ANCHORED_SCOPES then
           (case ref of
              None \<Rightarrow> Fail (Scope_ref_required t)
            | Some r \<Rightarrow> if js_trim r = [] then Fail (Scope_ref_required t) else Ok (t, Some (js_trim r)))
         else Ok (t, None)))"

section \<open>The aggregate\<close>

record group_aggregate =
  agg_id :: "uuid option"
  agg_tenant :: tenant
  agg_name :: string
  agg_description :: "string option"
  agg_status :: group_status
  agg_scopeType :: scope_type
  agg_scopeRefId :: "string option"
  agg_matchingRule :: matching_rule
  agg_ruleAttributeKeys :: "string list"
  agg_version :: int
  agg_projectionVersion :: int
  agg_assignedRoleIds :: "uuid list"
  agg_createdBy :: "uuid option"
  agg_updatedBy :: "uuid option"

record group_props =
  gp_tenant :: tenant
  gp_name :: string
  gp_description :: "string option"
  gp_scopeType :: scope_type
  gp_scopeRefId :: "string option"
  gp_matchingRule :: matching_rule
  gp_assignedRoleIds :: "uuid list"
  gp_createdBy :: "uuid option"
  gp_updatedBy :: "uuid option"

definition check_rule :: "matching_rule \<Rightarrow> group_error + string list" where
  "check_rule r =
    (case validateRule (json_of_rule r) of Inl e \<Rightarrow> Fail (Invalid_matching_rule e) | Inr keys \<Rightarrow> Ok keys)"

definition agg_create :: "group_props \<Rightarrow> group_error + group_aggregate" where
  "agg_create p =
    (if gp_name p = [] \<or> js_trim (gp_name p) = [] then Fail Group_name_empty
     else and_then (check_rule (gp_matchingRule p)) (\<lambda>keys.
       Ok \<lparr> agg_id = None, agg_tenant = gp_tenant p, agg_name = gp_name p,
            agg_description = gp_description p, agg_status = Group_active,
            agg_scopeType = gp_scopeType p, agg_scopeRefId = gp_scopeRefId p,
            agg_matchingRule = gp_matchingRule p, agg_ruleAttributeKeys = keys, agg_version = 1,
            agg_projectionVersion = 0, agg_assignedRoleIds = gp_assignedRoleIds p,
            agg_createdBy = gp_createdBy p, agg_updatedBy = gp_updatedBy p \<rparr>))"

definition reconstruct :: "user_group \<Rightarrow> uuid list \<Rightarrow> group_aggregate" where
  "reconstruct g roleIds =
    \<lparr> agg_id = Some (group_id g), agg_tenant = group_tenant g, agg_name = group_name g,
      agg_description = group_description g, agg_status = group_state g,
      agg_scopeType = group_scopeType g, agg_scopeRefId = group_scopeRefId g,
      agg_matchingRule = group_matchingRule g, agg_ruleAttributeKeys = group_ruleAttributeKeys g,
      agg_version = group_version g, agg_projectionVersion = group_projectionVersion g,
      agg_assignedRoleIds = roleIds, agg_createdBy = None, agg_updatedBy = None \<rparr>"

definition agg_touch :: "uuid option \<Rightarrow> group_aggregate \<Rightarrow> group_aggregate" where
  "agg_touch user a = a\<lparr> agg_updatedBy := user, agg_version := agg_version a + 1 \<rparr>"

text \<open>The expected version is compared, and nothing is done about a difference.\<close>

definition updateConfiguration ::
  "group_props \<Rightarrow> uuid list option \<Rightarrow> int \<Rightarrow> group_aggregate \<Rightarrow> group_error + group_aggregate" where
  "updateConfiguration p roleIds expected a =
    (if gp_name p = [] \<or> js_trim (gp_name p) = [] then Fail Group_name_empty
     else and_then (check_rule (gp_matchingRule p)) (\<lambda>keys.
       Ok (agg_touch (gp_updatedBy p)
         (a\<lparr> agg_name := gp_name p, agg_description := gp_description p,
             agg_scopeType := gp_scopeType p, agg_scopeRefId := gp_scopeRefId p,
             agg_matchingRule := gp_matchingRule p, agg_ruleAttributeKeys := keys,
             agg_assignedRoleIds := (case roleIds of None \<Rightarrow> agg_assignedRoleIds a | Some r \<Rightarrow> r) \<rparr>))))"

definition assignRoles :: "uuid list \<Rightarrow> uuid option \<Rightarrow> group_aggregate \<Rightarrow> uuid list \<times> group_aggregate" where
  "assignRoles ids user a =
    (let added = filter (\<lambda>i. i \<notin> set (agg_assignedRoleIds a)) (js_set_of ids) in
     (added, if added = [] then a
             else agg_touch user (a\<lparr> agg_assignedRoleIds := agg_assignedRoleIds a @ added \<rparr>)))"

definition unassignRoles :: "uuid list \<Rightarrow> uuid option \<Rightarrow> group_aggregate \<Rightarrow> uuid list \<times> group_aggregate" where
  "unassignRoles ids user a =
    (let removed = filter (\<lambda>i. i \<in> set ids) (agg_assignedRoleIds a) in
     (removed, if removed = [] then a
               else agg_touch user
                 (a\<lparr> agg_assignedRoleIds := filter (\<lambda>i. i \<notin> set ids) (agg_assignedRoleIds a) \<rparr>)))"

definition replaceRoles ::
  "uuid list \<Rightarrow> uuid option \<Rightarrow> group_aggregate \<Rightarrow> (uuid list \<times> uuid list) \<times> group_aggregate" where
  "replaceRoles target user a =
    (let unique = js_set_of target;
         added = filter (\<lambda>i. i \<notin> set (agg_assignedRoleIds a)) unique;
         removed = filter (\<lambda>i. i \<notin> set unique) (agg_assignedRoleIds a)
     in ((added, removed), agg_touch user (a\<lparr> agg_assignedRoleIds := unique \<rparr>)))"

definition agg_updateScope ::
  "string \<Rightarrow> string option \<Rightarrow> uuid option \<Rightarrow> group_aggregate \<Rightarrow>
     group_error + ((scope_type \<times> string option) \<times> (scope_type \<times> string option)) \<times> group_aggregate" where
  "agg_updateScope st ref user a =
    and_then (validateScope st ref) (\<lambda>v.
      Ok (((agg_scopeType a, agg_scopeRefId a), v),
          agg_touch user (a\<lparr> agg_scopeType := fst v, agg_scopeRefId := snd v \<rparr>)))"

definition agg_deactivate :: "uuid option \<Rightarrow> group_aggregate \<Rightarrow> group_error + group_aggregate" where
  "agg_deactivate user a =
    (if agg_status a = Group_inactive then Fail (Invalid_transition ''User Group is already inactive'')
     else Ok (agg_touch user (a\<lparr> agg_status := Group_inactive \<rparr>)))"

definition agg_reactivate :: "uuid option \<Rightarrow> group_aggregate \<Rightarrow> group_error + group_aggregate" where
  "agg_reactivate user a =
    (if agg_status a = Group_active then Fail (Invalid_transition ''User Group is already active'')
     else Ok (agg_touch user (a\<lparr> agg_status := Group_active \<rparr>)))"

definition agg_isPendingSync :: "group_aggregate \<Rightarrow> bool" where
  "agg_isPendingSync a = (agg_version a > agg_projectionVersion a)"

definition agg_hasNoAssignedRoles :: "group_aggregate \<Rightarrow> bool" where
  "agg_hasNoAssignedRoles a = (length (agg_assignedRoleIds a) = 0)"

text \<open>\<^verbatim>\<open>UserGroup.fromAggregate\<close>, with the identifier the insert fills in.\<close>

definition fromAggregate :: "uuid \<Rightarrow> group_aggregate \<Rightarrow> user_group" where
  "fromAggregate new_id a =
    \<lparr> group_id = new_id, group_tenant = agg_tenant a, group_name = agg_name a,
      group_description = agg_description a, group_state = agg_status a,
      group_scopeType = agg_scopeType a, group_scopeRefId = agg_scopeRefId a,
      group_matchingRule = agg_matchingRule a, group_ruleAttributeKeys = agg_ruleAttributeKeys a,
      group_version = agg_version a, group_projectionVersion = agg_projectionVersion a,
      group_createdBy = agg_createdBy a, group_updatedBy = agg_updatedBy a \<rparr>"

section \<open>Repositories\<close>

text \<open>
  The request: tenant, user, time, the outcome of the caught zero-role query, and what the base
  repository returns for a row when it is asked for identifiers only.
\<close>

record group_env =
  ge_tenant :: tenant
  ge_user :: uuid
  ge_now :: string
  ge_queries_ok :: bool
  ge_only_id :: "user_group_role \<Rightarrow> string"

definition group_find :: "group_env \<Rightarrow> uuid \<Rightarrow> authz_db \<Rightarrow> user_group option" where
  "group_find env i db = find (\<lambda>g. group_id g = i \<and> group_tenant g = ge_tenant env) (t_groups db)"

definition group_required :: "group_env \<Rightarrow> uuid \<Rightarrow> authz_db \<Rightarrow> group_error + user_group" where
  "group_required env i db =
    (case group_find env i db of None \<Rightarrow> Fail (Group_not_found i) | Some g \<Rightarrow> Ok g)"

definition group_findByName :: "group_env \<Rightarrow> string \<Rightarrow> authz_db \<Rightarrow> user_group option" where
  "group_findByName env n db = find (\<lambda>g. group_name g = n \<and> group_tenant g = ge_tenant env) (t_groups db)"

definition findActiveGroups :: "tenant \<Rightarrow> authz_db \<Rightarrow> user_group list" where
  "findActiveGroups t db = filter (\<lambda>g. group_state g = Group_active \<and> group_tenant g = t) (t_groups db)"

definition findByAttributeKeys :: "tenant \<Rightarrow> string list \<Rightarrow> authz_db \<Rightarrow> user_group list" where
  "findByAttributeKeys t keys db =
    (if keys = [] then []
     else filter (\<lambda>g. group_tenant g = t \<and> group_state g = Group_active \<and>
                       set (group_ruleAttributeKeys g) \<inter> set keys \<noteq> {}) (t_groups db))"

definition group_updateProjectionVersion :: "tenant \<Rightarrow> uuid \<Rightarrow> int \<Rightarrow> authz_db \<Rightarrow> authz_db" where
  "group_updateProjectionVersion t i v db =
    db\<lparr> t_groups := map (\<lambda>g. if group_id g = i \<and> group_tenant g = t
                              then g\<lparr> group_projectionVersion := v \<rparr> else g) (t_groups db) \<rparr>"

definition findDirtyUserGroups :: "authz_db \<Rightarrow> (tenant \<times> uuid \<times> int) list" where
  "findDirtyUserGroups db =
    map (\<lambda>g. (group_tenant g, group_id g, group_version g))
      (filter (\<lambda>g. group_version g \<noteq> group_projectionVersion g) (t_groups db))"

text \<open>
  \<^verbatim>\<open>repository.save\<close> writes every property of the entity except those that are undefined;
  these columns keep the row's value.  The unique constraint on tenant and name is checked.
\<close>

datatype group_column = Col_description | Col_scopeRefId

definition merge_columns :: "group_column list \<Rightarrow> user_group \<Rightarrow> user_group \<Rightarrow> user_group" where
  "merge_columns undefined_cols old g =
    g\<lparr> group_description := (if Col_description \<in> set undefined_cols then group_description old
                              else group_description g),
       group_scopeRefId := (if Col_scopeRefId \<in> set undefined_cols then group_scopeRefId old
                             else group_scopeRefId g) \<rparr>"

definition group_save :: "group_column list \<Rightarrow> user_group \<Rightarrow> authz_db \<Rightarrow> group_error + authz_db" where
  "group_save undefined_cols g db =
    (if \<exists>x \<in> set (t_groups db). group_tenant x = group_tenant g \<and> group_name x = group_name g
          \<and> group_id x \<noteq> group_id g
     then Fail (Group_constraint ''uq_user_groups_tenant_name'')
     else Ok (put_group (case find_row group_id (group_id g) (t_groups db) of
                None \<Rightarrow> g | Some old \<Rightarrow> merge_columns undefined_cols old g) db))"

definition ugr_key :: "user_group_role \<Rightarrow> tenant \<times> uuid \<times> uuid" where
  "ugr_key r = (ugr_tenant r, ugr_groupId r, ugr_roleId r)"

definition group_role_rows :: "group_env \<Rightarrow> uuid \<Rightarrow> authz_db \<Rightarrow> user_group_role list" where
  "group_role_rows env i db = filter (\<lambda>r. ugr_groupId r = i \<and> ugr_tenant r = ge_tenant env) (t_group_roles db)"

definition findRoleIdsByGroupId :: "group_env \<Rightarrow> uuid \<Rightarrow> authz_db \<Rightarrow> string list" where
  "findRoleIdsByGroupId env i db = map (ge_only_id env) (group_role_rows env i db)"

definition ugr_batchDelete :: "group_env \<Rightarrow> uuid \<Rightarrow> uuid list \<Rightarrow> authz_db \<Rightarrow> authz_db" where
  "ugr_batchDelete env i ids db =
    (if ids = [] then db
     else db\<lparr> t_group_roles := delete_rows (\<lambda>r. ugr_tenant r = ge_tenant env \<and> ugr_groupId r = i \<and>
                ugr_roleId r \<in> set ids) (t_group_roles db) \<rparr>)"

definition new_group_roles :: "group_env \<Rightarrow> uuid \<Rightarrow> uuid list \<Rightarrow> user_group_role list" where
  "new_group_roles env i ids =
    map (\<lambda>r. \<lparr> ugr_tenant = ge_tenant env, ugr_groupId = i, ugr_roleId = r \<rparr>) ids"

definition ugr_bulkSave :: "user_group_role list \<Rightarrow> authz_db \<Rightarrow> group_error + authz_db" where
  "ugr_bulkSave rs db =
    (if rs = [] then Ok db
     else if \<not> list_all (\<lambda>r. ugr_roleId r \<in> role_id ` set (t_roles db)) rs
       then Fail (Group_constraint ''fk_user_group_roles_role'')
     else if distinct (map ugr_key (t_group_roles db @ rs))
       then Ok (db\<lparr> t_group_roles := t_group_roles db @ rs \<rparr>)
     else Fail (Group_constraint ''uq_user_group_roles_tenant_group_role''))"

definition countByGroup :: "group_env \<Rightarrow> uuid \<Rightarrow> authz_db \<Rightarrow> int" where
  "countByGroup env i db =
    int (length (filter (\<lambda>m. mem_tenant m = ge_tenant env \<and> mem_groupId m = i) (t_memberships db)))"

text \<open>Members left without a role: no other active group of theirs assigns one, and none is kept here.\<close>

definition other_roles :: "group_env \<Rightarrow> uuid \<Rightarrow> uuid \<Rightarrow> authz_db \<Rightarrow> bool" where
  "other_roles env i user db =
    (\<exists>m \<in> set (t_memberships db). mem_tenant m = ge_tenant env \<and> mem_groupId m \<noteq> i \<and> mem_userId m = user \<and>
      (\<exists>g \<in> set (t_groups db). group_id g = mem_groupId m \<and> group_tenant g = mem_tenant m \<and>
        group_state g = Group_active \<and>
        (\<exists>r \<in> set (t_group_roles db). ugr_groupId r = group_id g \<and> ugr_tenant r = group_tenant g)))"

definition countZeroRoleMembersAfterUnassign :: "group_env \<Rightarrow> uuid \<Rightarrow> nat \<Rightarrow> authz_db \<Rightarrow> int" where
  "countZeroRoleMembersAfterUnassign env i target_count db =
    (if ge_queries_ok env \<and> target_count = 0
     then int (length (filter (\<lambda>m. mem_tenant m = ge_tenant env \<and> mem_groupId m = i \<and>
            \<not> other_roles env i (mem_userId m) db) (t_memberships db)))
     else 0)"

section \<open>Impact estimates\<close>

definition HIGH_IMPACT_ROLE_ASSIGNMENT_THRESHOLD :: int where
  "HIGH_IMPACT_ROLE_ASSIGNMENT_THRESHOLD = 100"

definition HIGH_IMPACT_SCOPE_THRESHOLD :: int where
  "HIGH_IMPACT_SCOPE_THRESHOLD = 100"

record role_impact =
  ri_affected :: int
  ri_zeroRole :: int
  ri_requires :: bool
  ri_threshold :: int

definition no_role_impact :: role_impact where
  "no_role_impact = \<lparr> ri_affected = 0, ri_zeroRole = 0, ri_requires = False,
     ri_threshold = HIGH_IMPACT_ROLE_ASSIGNMENT_THRESHOLD \<rparr>"

definition estimateRoleAssignmentImpact :: "group_env \<Rightarrow> uuid \<Rightarrow> uuid list \<Rightarrow> authz_db \<Rightarrow> role_impact" where
  "estimateRoleAssignmentImpact env i target db =
    (case group_find env i db of
       None \<Rightarrow> no_role_impact
     | Some g \<Rightarrow>
         (let current = findRoleIdsByGroupId env i db;
              added = filter (\<lambda>r. r \<notin> set current) target;
              removed = filter (\<lambda>r. r \<notin> set target) current;
              affected = countByGroup env i db
          in if added = [] \<and> removed = [] then no_role_impact
             else \<lparr> ri_affected = affected,
                    ri_zeroRole = (if removed \<noteq> [] \<and> affected > 0
                      then countZeroRoleMembersAfterUnassign env i (length target) db else 0),
                    ri_requires = (affected \<ge> HIGH_IMPACT_ROLE_ASSIGNMENT_THRESHOLD),
                    ri_threshold = HIGH_IMPACT_ROLE_ASSIGNMENT_THRESHOLD \<rparr>))"

record scope_impact =
  si_group :: uuid
  si_affected :: int
  si_requires :: bool
  si_current :: "scope_type \<times> string option"
  si_proposed :: "scope_type \<times> string option"

definition estimateScopeImpact ::
  "group_env \<Rightarrow> uuid \<Rightarrow> string \<Rightarrow> string option \<Rightarrow> authz_db \<Rightarrow> group_error + scope_impact" where
  "estimateScopeImpact env i st ref db =
    and_then (group_required env i db) (\<lambda>g.
    and_then (validateScope st ref) (\<lambda>v.
      Ok \<lparr> si_group = i, si_affected = countByGroup env i db,
           si_requires = (countByGroup env i db \<ge> HIGH_IMPACT_SCOPE_THRESHOLD),
           si_current = (group_scopeType g, group_scopeRefId g), si_proposed = v \<rparr>))"

end
