(* ===== verification/User_Group_Service.thy ===== *)
theory User_Group_Service
  imports User_Group
begin

text \<open>
  The services that change user groups: lifecycle, scope and role assignment, each with its checks
  and its transaction.
\<close>

section \<open>Requests\<close>

record create_group_dto =
  cgd_name :: string
  cgd_description :: "string option"
  cgd_scopeType :: scope_type
  cgd_scopeRefId :: "string option"
  cgd_matchingRule :: matching_rule
  cgd_roleIds :: "uuid list option"

record update_group_dto =
  ugd_name :: string
  ugd_description :: "string option"
  ugd_scopeType :: scope_type
  ugd_scopeRefId :: "string option"
  ugd_matchingRule :: matching_rule
  ugd_roleIds :: "uuid list option"
  ugd_confirmed :: "bool option"

record group_roles_dto =
  grd_roleIds :: "uuid list"
  grd_expectedVersion :: int
  grd_confirmed :: "bool option"

record group_scope_dto =
  gsd_scopeType :: string
  gsd_scopeRefId :: "string option"
  gsd_expectedVersion :: int
  gsd_confirmed :: "bool option"

record assigned_role_item =
  ari_id :: uuid
  ari_name :: string
  ari_kind :: role_type
  ari_description :: "string option"
  ari_capabilityCount :: nat

record scope_details =
  sd_group :: uuid
  sd_scopeType :: scope_type
  sd_scopeRefId :: "string option"
  sd_version :: int
  sd_projectionVersion :: int
  sd_isPendingSync :: bool

definition GROUP_IMPACT_THRESHOLD :: int where
  "GROUP_IMPACT_THRESHOLD = 100"

definition group_ctx :: "group_env \<Rightarrow> outbox_context" where
  "group_ctx env = \<lparr> ctx_tenant = ge_tenant env, ctx_userId = Some (ge_user env) \<rparr>"

definition roles_or_empty :: "uuid list option \<Rightarrow> uuid list" where
  "roles_or_empty r = (case r of None \<Rightarrow> [] | Some ids \<Rightarrow> ids)"

text \<open>A transaction that fails leaves the database as it was.\<close>

definition run_group_tx ::
  "(authz_db \<Rightarrow> group_error + 'a \<times> authz_db) \<Rightarrow> authz_db \<Rightarrow> (group_error + 'a) \<times> authz_db" where
  "run_group_tx tx db = (case tx db of Inl e \<Rightarrow> (Fail e, db) | Inr (x, db') \<Rightarrow> (Ok x, db'))"

definition group_handler ::
  "(group_error + 'c) \<Rightarrow> ('c \<Rightarrow> authz_db \<Rightarrow> group_error + 'a \<times> authz_db) \<Rightarrow> authz_db \<Rightarrow>
     (group_error + 'a) \<times> authz_db" where
  "group_handler checks tx db = (case checks of Inl e \<Rightarrow> (Fail e, db) | Inr c \<Rightarrow> run_group_tx (tx c) db)"

definition group_version_guard :: "int \<Rightarrow> user_group \<Rightarrow> group_error + unit" where
  "group_version_guard expected g = guard Concurrent_modification (group_version g = expected)"

section \<open>Lifecycle\<close>

definition validateGroupName :: "group_env \<Rightarrow> string \<Rightarrow> authz_db \<Rightarrow> group_error + unit" where
  "validateGroupName env name db =
    (case group_findByName env (js_trim name) db of
       Some _ \<Rightarrow> Fail (Duplicate_group_name (js_trim name)) | None \<Rightarrow> Ok ())"

definition create_group_checks :: "group_env \<Rightarrow> create_group_dto \<Rightarrow> authz_db \<Rightarrow> group_error + group_aggregate" where
  "create_group_checks env dto db =
    and_then (validateGroupName env (cgd_name dto) db) (\<lambda>_.
      agg_create \<lparr> gp_tenant = ge_tenant env, gp_name = js_trim (cgd_name dto),
        gp_description = map_option js_trim (cgd_description dto), gp_scopeType = cgd_scopeType dto,
        gp_scopeRefId = map_option js_trim (cgd_scopeRefId dto), gp_matchingRule = cgd_matchingRule dto,
        gp_assignedRoleIds = roles_or_empty (cgd_roleIds dto), gp_createdBy = Some (ge_user env),
        gp_updatedBy = Some (ge_user env) \<rparr>)"

definition create_group_tx ::
  "group_env \<Rightarrow> uuid \<Rightarrow> create_group_dto \<Rightarrow> group_aggregate \<Rightarrow> authz_db \<Rightarrow> group_error + user_group \<times> authz_db" where
  "create_group_tx env new_id dto a db =
    (let g = fromAggregate new_id a; ids = roles_or_empty (cgd_roleIds dto) in
     and_then (group_save [] g db) (\<lambda>db1.
     and_then (ugr_bulkSave (new_group_roles env new_id ids) db1) (\<lambda>db2.
       Ok (g, save_outbox (fromAuthorizationUserGroupUpdated (ge_now env) (group_ctx env) g None)
                (save_outbox (fromUserGroupCreated (ge_now env) (group_ctx env) g ids) db2)))))"

definition createGroup ::
  "group_env \<Rightarrow> uuid \<Rightarrow> create_group_dto \<Rightarrow> authz_db \<Rightarrow> authz_db \<Rightarrow> (group_error + user_group) \<times> authz_db" where
  "createGroup env new_id dto db0 db =
    group_handler (create_group_checks env dto db0) (create_group_tx env new_id dto) db"

definition update_group_checks ::
  "group_env \<Rightarrow> uuid \<Rightarrow> update_group_dto \<Rightarrow> int \<Rightarrow> authz_db \<Rightarrow> group_error + user_group \<times> string list" where
  "update_group_checks env i dto expected db =
    and_then (group_required env i db) (\<lambda>g.
    and_then (group_version_guard expected g) (\<lambda>_.
    and_then (if js_trim (ugd_name dto) \<noteq> group_name g then
                (case group_findByName env (js_trim (ugd_name dto)) db of
                   Some x \<Rightarrow> if group_id x \<noteq> i then Fail (Duplicate_group_name (js_trim (ugd_name dto))) else Ok ()
                 | None \<Rightarrow> Ok ())
              else Ok ()) (\<lambda>_.
    and_then (check_rule (ugd_matchingRule dto)) (\<lambda>keys.
    and_then (guard (Group_confirmation_required (countByGroup env i db) None GROUP_IMPACT_THRESHOLD)
        (\<not> (countByGroup env i db \<ge> GROUP_IMPACT_THRESHOLD \<and> ugd_confirmed dto \<noteq> Some True))) (\<lambda>_.
      Ok (g, keys))))))"

definition undefined_columns :: "string option \<Rightarrow> string option \<Rightarrow> group_column list" where
  "undefined_columns descr ref =
    (if descr = None then [Col_description] else []) @ (if ref = None then [Col_scopeRefId] else [])"

definition update_group_tx ::
  "group_env \<Rightarrow> uuid \<Rightarrow> update_group_dto \<Rightarrow> user_group \<times> string list \<Rightarrow> authz_db \<Rightarrow>
     group_error + user_group \<times> authz_db" where
  "update_group_tx env i dto c db =
    (let g = (fst c)\<lparr> group_name := js_trim (ugd_name dto),
                group_description := map_option js_trim (ugd_description dto),
                group_scopeType := ugd_scopeType dto,
                group_scopeRefId := map_option js_trim (ugd_scopeRefId dto),
                group_matchingRule := ugd_matchingRule dto, group_ruleAttributeKeys := snd c,
                group_version := group_version (fst c) + 1, group_updatedBy := Some (ge_user env) \<rparr>;
         current = map ugr_roleId (filter (\<lambda>r. ugr_groupId r = i) (t_group_roles db));
         new = roles_or_empty (ugd_roleIds dto);
         added = filter (\<lambda>r. r \<notin> set current) new;
         removed = filter (\<lambda>r. r \<notin> set new) current
     in and_then (group_save (undefined_columns (ugd_description dto) (ugd_scopeRefId dto)) g db) (\<lambda>db1.
        and_then (ugr_bulkSave (new_group_roles env i added) (ugr_batchDelete env i removed db1)) (\<lambda>db2.
          Ok (g, save_outbox (fromAuthorizationUserGroupUpdated (ge_now env) (group_ctx env) g None)
                   (save_outbox (fromUserGroupUpdated (ge_now env) (group_ctx env) g
                       \<lparr> gud_previousName = None, gud_previousDescription = None,
                         gud_previousMatchingRule = None, gud_addedRoleIds = Some added,
                         gud_removedRoleIds = Some removed \<rparr>) db2)))))"

definition updateGroup ::
  "group_env \<Rightarrow> uuid \<Rightarrow> update_group_dto \<Rightarrow> int \<Rightarrow> authz_db \<Rightarrow> (group_error + user_group) \<times> authz_db" where
  "updateGroup env i dto expected db =
    group_handler (update_group_checks env i dto expected db) (update_group_tx env i dto) db"

definition deactivate_group_checks ::
  "group_env \<Rightarrow> uuid \<Rightarrow> int \<Rightarrow> bool \<Rightarrow> authz_db \<Rightarrow> group_error + user_group \<times> group_aggregate" where
  "deactivate_group_checks env i expected confirmed db =
    and_then (group_required env i db) (\<lambda>g.
    and_then (group_version_guard expected g) (\<lambda>_.
    and_then (guard (Group_confirmation_required (countByGroup env i db) None GROUP_IMPACT_THRESHOLD)
        (\<not> (countByGroup env i db \<ge> GROUP_IMPACT_THRESHOLD \<and> \<not> confirmed))) (\<lambda>_.
    and_then (agg_deactivate (Some (ge_user env)) (reconstruct g [])) (\<lambda>a. Ok (g, a)))))"

definition reactivate_group_checks ::
  "group_env \<Rightarrow> uuid \<Rightarrow> int \<Rightarrow> authz_db \<Rightarrow> group_error + user_group \<times> group_aggregate" where
  "reactivate_group_checks env i expected db =
    and_then (group_required env i db) (\<lambda>g.
    and_then (group_version_guard expected g) (\<lambda>_.
    and_then (agg_reactivate (Some (ge_user env)) (reconstruct g [])) (\<lambda>a. Ok (g, a))))"

definition transition_tx ::
  "group_env \<Rightarrow> (string \<Rightarrow> outbox_context \<Rightarrow> user_group \<Rightarrow> outbox_event) \<Rightarrow>
     user_group \<times> group_aggregate \<Rightarrow> authz_db \<Rightarrow> group_error + user_group \<times> authz_db" where
  "transition_tx env event c db =
    (let g = (fst c)\<lparr> group_state := agg_status (snd c), group_version := agg_version (snd c),
                       group_updatedBy := agg_updatedBy (snd c) \<rparr>
     in and_then (group_save [] g db) (\<lambda>db1.
          Ok (g, save_outbox (fromAuthorizationUserGroupUpdated (ge_now env) (group_ctx env) g None)
                   (save_outbox (event (ge_now env) (group_ctx env) g) db1))))"

definition deactivateGroup ::
  "group_env \<Rightarrow> uuid \<Rightarrow> int \<Rightarrow> bool \<Rightarrow> authz_db \<Rightarrow> authz_db \<Rightarrow> (group_error + user_group) \<times> authz_db" where
  "deactivateGroup env i expected confirmed db0 db =
    group_handler (deactivate_group_checks env i expected confirmed db0)
      (transition_tx env fromUserGroupDeactivated) db"

definition reactivateGroup ::
  "group_env \<Rightarrow> uuid \<Rightarrow> int \<Rightarrow> authz_db \<Rightarrow> authz_db \<Rightarrow> (group_error + user_group) \<times> authz_db" where
  "reactivateGroup env i expected db0 db =
    group_handler (reactivate_group_checks env i expected db0)
      (transition_tx env fromUserGroupReactivated) db"

section \<open>Scope\<close>

definition scope_details_of :: "user_group \<Rightarrow> scope_details" where
  "scope_details_of g =
    \<lparr> sd_group = group_id g, sd_scopeType = group_scopeType g, sd_scopeRefId = group_scopeRefId g,
      sd_version = group_version g, sd_projectionVersion = group_projectionVersion g,
      sd_isPendingSync = (group_version g > group_projectionVersion g) \<rparr>"

definition getScope :: "group_env \<Rightarrow> uuid \<Rightarrow> authz_db \<Rightarrow> group_error + scope_details" where
  "getScope env i db = and_then (group_required env i db) (\<lambda>g. Ok (scope_details_of g))"

type_synonym scope_change =
  "user_group \<times> ((scope_type \<times> string option) \<times> (scope_type \<times> string option)) \<times> group_aggregate"

definition update_scope_checks ::
  "group_env \<Rightarrow> uuid \<Rightarrow> group_scope_dto \<Rightarrow> authz_db \<Rightarrow> group_error + scope_change" where
  "update_scope_checks env i dto db =
    and_then (group_required env i db) (\<lambda>g.
    and_then (group_version_guard (gsd_expectedVersion dto) g) (\<lambda>_.
    and_then (estimateScopeImpact env i (gsd_scopeType dto) (gsd_scopeRefId dto) db) (\<lambda>impact.
    and_then (guard (Group_confirmation_required (si_affected impact) None HIGH_IMPACT_SCOPE_THRESHOLD)
        (\<not> (si_requires impact \<and> gsd_confirmed dto \<noteq> Some True))) (\<lambda>_.
    and_then (agg_updateScope (gsd_scopeType dto) (gsd_scopeRefId dto) (Some (ge_user env)) (reconstruct g []))
      (\<lambda>c. Ok (g, c))))))"

definition update_scope_tx :: "group_env \<Rightarrow> scope_change \<Rightarrow> authz_db \<Rightarrow> group_error + scope_details \<times> authz_db" where
  "update_scope_tx env c db =
    (let a = snd (snd c); prev = fst (fst (snd c)); new = snd (fst (snd c));
         g = (fst c)\<lparr> group_scopeType := agg_scopeType a, group_scopeRefId := agg_scopeRefId a,
                       group_version := agg_version a, group_updatedBy := agg_updatedBy a \<rparr>
     in and_then (group_save (if agg_scopeRefId a = None then [Col_scopeRefId] else []) g db) (\<lambda>db1.
          Ok (scope_details_of g,
              save_outbox (fromAuthorizationUserGroupUpdated (ge_now env) (group_ctx env) g None)
                (save_outbox (fromUserGroupScopeUpdated (ge_now env) (group_ctx env) g
                    (json_of_scope (fst prev) (snd prev)) (json_of_scope (fst new) (snd new))) db1))))"

definition updateScope ::
  "group_env \<Rightarrow> uuid \<Rightarrow> group_scope_dto \<Rightarrow> authz_db \<Rightarrow> authz_db \<Rightarrow> (group_error + scope_details) \<times> authz_db" where
  "updateScope env i dto db0 db =
    group_handler (update_scope_checks env i dto db0) (update_scope_tx env) db"

section \<open>Role assignment\<close>

text \<open>
  \<^verbatim>\<open>findByGroup\<close> loads the role of each row but not the role's permissions, so the
  capability count of every item is that of a missing list.
\<close>

definition assigned_item :: "role \<Rightarrow> assigned_role_item" where
  "assigned_item r =
    \<lparr> ari_id = role_id r, ari_name = role_name r, ari_kind = role_kind r,
      ari_description = role_description r, ari_capabilityCount = 0 \<rparr>"

definition getAssignedRoles :: "group_env \<Rightarrow> uuid \<Rightarrow> authz_db \<Rightarrow> group_error + assigned_role_item list" where
  "getAssignedRoles env i db =
    and_then (group_required env i db) (\<lambda>g.
      Ok (map assigned_item
        (List.map_filter (\<lambda>r. find_row role_id (ugr_roleId r) (t_roles db)) (group_role_rows env i db))))"

definition roles_findByIds :: "group_env \<Rightarrow> uuid list \<Rightarrow> authz_db \<Rightarrow> role list" where
  "roles_findByIds env ids db =
    filter (\<lambda>r. role_id r \<in> set ids \<and> role_tenant r = ge_tenant env) (t_roles db)"

type_synonym role_change = "user_group \<times> uuid list \<times> uuid list \<times> (uuid list \<times> uuid list) \<times> group_aggregate"

definition update_roles_checks ::
  "group_env \<Rightarrow> uuid \<Rightarrow> group_roles_dto \<Rightarrow> authz_db \<Rightarrow> group_error + role_change" where
  "update_roles_checks env i dto db =
    and_then (group_required env i db) (\<lambda>g.
    and_then (group_version_guard (grd_expectedVersion dto) g) (\<lambda>_.
      let target = js_set_of (grd_roleIds dto);
          valid = filter (\<lambda>r. role_state r = Role_active) (roles_findByIds env target db);
          impact = estimateRoleAssignmentImpact env i target db;
          current = findRoleIdsByGroupId env i db
      in and_then (guard (Invalid_role_assignment (filter (\<lambda>x. x \<notin> role_id ` set valid) target))
            (length valid = length target)) (\<lambda>_.
         and_then (guard (Group_confirmation_required (ri_affected impact) (Some (ri_zeroRole impact)) (ri_threshold impact))
            (\<not> (ri_requires impact \<and> grd_confirmed dto \<noteq> Some True))) (\<lambda>_.
           Ok (g, target, current, replaceRoles target (Some (ge_user env)) (reconstruct g current))))))"

definition save_outbox_when :: "bool \<Rightarrow> outbox_event \<Rightarrow> authz_db \<Rightarrow> authz_db" where
  "save_outbox_when b e db = (if b then save_outbox e db else db)"

definition update_roles_tx ::
  "group_env \<Rightarrow> uuid \<Rightarrow> role_change \<Rightarrow> authz_db \<Rightarrow> group_error + assigned_role_item list \<times> authz_db" where
  "update_roles_tx env i c db =
    (case c of (g0, target, current, (added, removed), a) \<Rightarrow>
      (let g = g0\<lparr> group_version := agg_version a, group_updatedBy := agg_updatedBy a \<rparr>;
           now = ge_now env; ctx = group_ctx env
       in and_then (group_save [] g db) (\<lambda>db1.
          and_then (ugr_bulkSave (new_group_roles env i added) (ugr_batchDelete env i removed db1)) (\<lambda>db2.
            let db3 = save_outbox_when (added \<noteq> []) (fromUserGroupRolesAssigned now ctx g target added current) db2;
                db4 = save_outbox_when (removed \<noteq> []) (fromUserGroupRoleUnassigned now ctx g target removed current) db3;
                db5 = save_outbox (fromAuthorizationUserGroupUpdated now ctx g (Some (removed \<noteq> []))) db4
            in and_then (getAssignedRoles env i db5) (\<lambda>items. Ok (items, db5))))))"

definition updateRoleAssignments ::
  "group_env \<Rightarrow> uuid \<Rightarrow> group_roles_dto \<Rightarrow> authz_db \<Rightarrow> authz_db \<Rightarrow>
     (group_error + assigned_role_item list) \<times> authz_db" where
  "updateRoleAssignments env i dto db0 db =
    group_handler (update_roles_checks env i dto db0) (update_roles_tx env i) db"

end
