(* ===== verification/Role_Service.thy ===== *)
theory Role_Service
  imports Role_Store
begin

text \<open>
  \<^verbatim>\<open>RoleApplicationService\<close> and the seeding of the system roles.  A handler reads, decides
  and then runs a transaction; between its reads and its transaction other requests may commit, so
  every such handler takes the database \<^verbatim>\<open>db0\<close> its checks read next to the world its
  transaction and its cache write run in.  The sequential call is the case where the two agree.  A
  transaction that fails leaves the database as it was.
\<close>

section \<open>Requests and replies\<close>

record role_env =
  re_tenant :: tenant
  re_user :: uuid
  re_now :: string
  re_graph :: permission_graph
  re_key :: role_key_builder
  re_queries_ok :: bool

record role_world =
  rw_db :: authz_db
  rw_cache :: role_cache

record create_role_dto =
  crd_name :: string
  crd_description :: "string option"
  crd_codes :: "string list"

record copy_role_dto =
  cpd_name :: string
  cpd_description :: "string option"

record update_role_dto =
  urd_name :: string
  urd_description :: "string option"
  urd_version :: "int option"
  urd_codes :: "string list"
  urd_confirmed :: "bool option"

record deactivate_role_dto =
  drd_version :: "int option"
  drd_confirmed :: "bool option"

record rename_role_dto =
  rrd_name :: string
  rrd_description :: "string option"

record role_permissions_dto =
  rpd_codes :: "string list"
  rpd_version :: "int option"
  rpd_confirmed :: "bool option"

datatype role_reply =
    Role_reply role "(int \<times> int) option"
  | Confirm_users int
  | Confirm_groups int int

type_synonym 'a role_op = "(role_error + 'a) \<times> role_world"

definition HIGH_IMPACT_THRESHOLD :: int where
  "HIGH_IMPACT_THRESHOLD = 100"

definition role_ctx :: "role_env \<Rightarrow> outbox_context" where
  "role_ctx env = \<lparr> ctx_tenant = re_tenant env, ctx_userId = Some (re_user env) \<rparr>"

text \<open>A failed transaction rolls the database back; a committed one is followed by \<^verbatim>\<open>syncRole\<close>
  with the role the transaction returned, whose permissions were not loaded.\<close>

definition sync_unloaded :: "role_env \<Rightarrow> role \<Rightarrow> role_cache \<Rightarrow> role_cache" where
  "sync_unloaded env r cache = syncRole (re_key env) (re_now env) r None cache"

definition run_role_tx :: "role_env \<Rightarrow> (authz_db \<Rightarrow> role_error + role \<times> authz_db) \<Rightarrow> role_world
    \<Rightarrow> role role_op" where
  "run_role_tx env tx w =
    (case tx (rw_db w) of
       Inl e \<Rightarrow> (Fail e, w)
     | Inr (r, db) \<Rightarrow> (Ok r, \<lparr> rw_db = db, rw_cache = sync_unloaded env r (rw_cache w) \<rparr>))"

section \<open>Shared checks\<close>

definition validateRoleName :: "role_env \<Rightarrow> string \<Rightarrow> authz_db \<Rightarrow> role_error + unit" where
  "validateRoleName env name db =
    (case role_findByName (re_tenant env) name db of
       Some _ \<Rightarrow> Fail (Duplicate_role_name name)
     | None \<Rightarrow> Ok ())"

definition validateCodes :: "role_env \<Rightarrow> string list \<Rightarrow> role_error + unit" where
  "validateCodes env codes =
    (let v = validatePermissionSet (re_graph env) codes in
     if isValid v then Ok () else Fail (Capability_validation_failed (validation_errors v)))"

definition version_guard :: "int option \<Rightarrow> role \<Rightarrow> role_error + unit" where
  "version_guard expected r =
    (case expected of
       Some v \<Rightarrow> if role_version r \<noteq> v then Fail (Role_version_conflict (role_id r) v (role_version r))
                 else Ok ()
     | None \<Rightarrow> Ok ())"

definition find_required :: "role_env \<Rightarrow> uuid \<Rightarrow> authz_db \<Rightarrow> role_error + role" where
  "find_required env i db =
    (case role_find (re_tenant env) i db of Some r \<Rightarrow> Ok r | None \<Rightarrow> Fail (Entity_not_found i))"

definition find_locked :: "role_env \<Rightarrow> uuid \<Rightarrow> authz_db \<Rightarrow> role_error + role" where
  "find_locked env i db =
    (case role_find (re_tenant env) i db of Some r \<Rightarrow> Ok r | None \<Rightarrow> Fail (Role_not_found i))"

definition touch :: "role_env \<Rightarrow> role \<Rightarrow> role" where
  "touch env r = r\<lparr> role_version := role_version r + 1, role_updatedBy := Some (re_user env) \<rparr>"

definition permission_rows :: "role_env \<Rightarrow> uuid \<Rightarrow> (string \<Rightarrow> bool) \<Rightarrow> string list \<Rightarrow> role_permission list" where
  "permission_rows env i prot codes =
    map (\<lambda>c. \<lparr> rp_tenant = re_tenant env, rp_roleId = i, rp_code = c, rp_isProtected = prot c \<rparr>) codes"

definition unprotected :: "string \<Rightarrow> bool" where
  "unprotected c = False"

definition save_with_event :: "role \<Rightarrow> (role \<Rightarrow> outbox_event) \<Rightarrow> authz_db \<Rightarrow> role_error + role \<times> authz_db" where
  "save_with_event r ev db =
    and_then (role_save r db) (\<lambda>db1. Ok (r, save_outbox (ev r) db1))"

section \<open>Creating and copying\<close>

text \<open>\<^verbatim>\<open>Role.fromRequest\<close>, with the identifier and tenant the save fills in.\<close>

definition role_fromRequest :: "role_env \<Rightarrow> uuid \<Rightarrow> string \<Rightarrow> string option \<Rightarrow> role" where
  "role_fromRequest env new_id name description =
    \<lparr> role_id = new_id, role_tenant = re_tenant env, role_name = name,
      role_description = description, role_kind = CUSTOM, role_state = Role_active,
      role_systemKey = None, role_version = 1, role_projectionVersion = 0,
      role_createdBy = Some (re_user env), role_updatedBy = Some (re_user env) \<rparr>"

definition create_tx ::
  "role_env \<Rightarrow> role \<Rightarrow> string list \<Rightarrow> (role \<Rightarrow> outbox_event) \<Rightarrow> authz_db \<Rightarrow> role_error + role \<times> authz_db" where
  "create_tx env r codes ev db =
    and_then (role_save r db) (\<lambda>db1.
    and_then (rp_bulkSave (permission_rows env (role_id r) unprotected codes) db1) (\<lambda>db2.
      Ok (r, save_outbox (ev r) db2)))"

definition createCustom :: "role_env \<Rightarrow> uuid \<Rightarrow> create_role_dto \<Rightarrow> authz_db \<Rightarrow> role_world \<Rightarrow> role role_op" where
  "createCustom env new_id dto db0 w =
    (case and_then (validateCodes env (crd_codes dto)) (\<lambda>_. validateRoleName env (crd_name dto) db0) of
       Inl e \<Rightarrow> (Fail e, w)
     | Inr _ \<Rightarrow>
         run_role_tx env (create_tx env (role_fromRequest env new_id (crd_name dto) (crd_description dto))
           (crd_codes dto) (\<lambda>r. fromRoleCreated (re_now env) (role_ctx env) r (crd_codes dto))) w)"

definition role_permissions_of :: "uuid \<Rightarrow> authz_db \<Rightarrow> role_permission list" where
  "role_permissions_of i db = filter (\<lambda>p. rp_roleId p = i) (t_role_permissions db)"

definition copyRole :: "role_env \<Rightarrow> uuid \<Rightarrow> uuid \<Rightarrow> copy_role_dto \<Rightarrow> authz_db \<Rightarrow> role_world \<Rightarrow> role role_op" where
  "copyRole env new_id source dto db0 w =
    (case and_then (find_required env source db0)
            (\<lambda>src. and_then (validateRoleName env (cpd_name dto) db0) (\<lambda>_. Ok src)) of
       Inl e \<Rightarrow> (Fail e, w)
     | Inr src \<Rightarrow>
         (let codes = map rp_code (role_permissions_of (role_id src) db0);
              descr = (case cpd_description dto of Some d \<Rightarrow> Some d | None \<Rightarrow> role_description src)
          in run_role_tx env (create_tx env (role_fromRequest env new_id (cpd_name dto) descr) codes
               (\<lambda>r. fromRoleCopied (re_now env) (role_ctx env) r source codes)) w))"

section \<open>Changing a role\<close>

definition estimateImpact :: "role_env \<Rightarrow> uuid \<Rightarrow> authz_db \<Rightarrow> role_error + int \<times> int" where
  "estimateImpact env i db =
    and_then (find_required env i db)
      (\<lambda>r. Ok (countAssignedUserGroupAndUser (re_queries_ok env) (re_tenant env) (role_id r) db))"

text \<open>The name check of an update: only when the name changes, and another role holds it.\<close>

definition update_name_check :: "role_env \<Rightarrow> role \<Rightarrow> string \<Rightarrow> authz_db \<Rightarrow> role_error + unit" where
  "update_name_check env r name db =
    (if role_name r \<noteq> name then
       (case role_findByName (re_tenant env) name db of
          Some x \<Rightarrow> if role_id x \<noteq> role_id r then Fail (Duplicate_role_name name) else Ok ()
        | None \<Rightarrow> Ok ())
     else Ok ())"

definition updateCustom_checks ::
  "role_env \<Rightarrow> uuid \<Rightarrow> update_role_dto \<Rightarrow> authz_db \<Rightarrow> role_error + int \<times> int" where
  "updateCustom_checks env i dto db =
    and_then (find_required env i db) (\<lambda>r.
    and_then (guard (Cannot_mutate_system_role (role_name r)) (role_kind r \<noteq> SYSTEM)) (\<lambda>_.
    and_then (version_guard (urd_version dto) r) (\<lambda>_.
    and_then (update_name_check env r (urd_name dto) db) (\<lambda>_.
    and_then (validateCodes env (urd_codes dto)) (\<lambda>_.
      Ok (countAssignedUserGroupAndUser (re_queries_ok env) (re_tenant env) (role_id r) db))))))"

definition updateCustom_tx ::
  "role_env \<Rightarrow> uuid \<Rightarrow> update_role_dto \<Rightarrow> authz_db \<Rightarrow> role_error + role \<times> authz_db" where
  "updateCustom_tx env i dto db =
    and_then (find_required env i db) (\<lambda>r.
    and_then (version_guard (urd_version dto) r) (\<lambda>_.
      let r1 = touch env (r\<lparr> role_name := urd_name dto, role_description := urd_description dto \<rparr>);
          db1 = rp_deleteByRoleId (re_tenant env) (role_id r) db
      in and_then (rp_bulkSave (permission_rows env (role_id r) unprotected (urd_codes dto)) db1)
           (save_with_event r1
             (\<lambda>x. fromPermissionsUpdated (re_now env) (role_ctx env) x (urd_codes dto)))))"

definition updateCustom ::
  "role_env \<Rightarrow> uuid \<Rightarrow> update_role_dto \<Rightarrow> authz_db \<Rightarrow> role_world \<Rightarrow> role_reply role_op" where
  "updateCustom env i dto db0 w =
    (case updateCustom_checks env i dto db0 of
       Inl e \<Rightarrow> (Fail e, w)
     | Inr (groups, users) \<Rightarrow>
         if HIGH_IMPACT_THRESHOLD \<le> users \<and> urd_confirmed dto \<noteq> Some True
         then (Ok (Confirm_users users), w)
         else (case run_role_tx env (updateCustom_tx env i dto) w of
                 (Inl e, w') \<Rightarrow> (Fail e, w')
               | (Inr r, w') \<Rightarrow> (Ok (Role_reply r (Some (groups, users))), w')))"

definition deactivate_checks ::
  "role_env \<Rightarrow> uuid \<Rightarrow> deactivate_role_dto \<Rightarrow> authz_db \<Rightarrow> role_error + int \<times> int" where
  "deactivate_checks env i dto db =
    and_then (find_required env i db) (\<lambda>r.
    and_then (guard (Critical_role_deactivation (role_name r))
               (\<not> (role_kind r = SYSTEM \<and> role_systemKey r = Some ADMINISTRATOR))) (\<lambda>_.
    and_then (version_guard (drd_version dto) r) (\<lambda>_.
      Ok (countAssignedUserGroupAndUser (re_queries_ok env) (re_tenant env) (role_id r) db))))"

definition deactivate_tx ::
  "role_env \<Rightarrow> uuid \<Rightarrow> deactivate_role_dto \<Rightarrow> int \<times> int \<Rightarrow> authz_db \<Rightarrow> role_error + role \<times> authz_db" where
  "deactivate_tx env i dto impact db =
    and_then (find_locked env i db) (\<lambda>r.
    and_then (version_guard (drd_version dto) r) (\<lambda>_.
      save_with_event (touch env (r\<lparr> role_state := Role_inactive \<rparr>))
        (\<lambda>x. fromRoleDeactivated (re_now env) (role_ctx env) x (fst impact) (snd impact)) db))"

definition deactivate ::
  "role_env \<Rightarrow> uuid \<Rightarrow> deactivate_role_dto \<Rightarrow> authz_db \<Rightarrow> role_world \<Rightarrow> role_reply role_op" where
  "deactivate env i dto db0 w =
    (case deactivate_checks env i dto db0 of
       Inl e \<Rightarrow> (Fail e, w)
     | Inr (groups, users) \<Rightarrow>
         if 0 < groups \<and> drd_confirmed dto \<noteq> Some True
         then (Ok (Confirm_groups groups users), w)
         else (case run_role_tx env (deactivate_tx env i dto (groups, users)) w of
                 (Inl e, w') \<Rightarrow> (Fail e, w')
               | (Inr r, w') \<Rightarrow> (Ok (Role_reply r (Some (groups, users))), w')))"

definition reactivate_tx :: "role_env \<Rightarrow> uuid \<Rightarrow> authz_db \<Rightarrow> role_error + role \<times> authz_db" where
  "reactivate_tx env i db =
    and_then (find_locked env i db) (\<lambda>r.
      save_with_event (touch env (r\<lparr> role_state := Role_active \<rparr>))
        (\<lambda>x. fromRoleReactivated (re_now env) (role_ctx env) x) db)"

definition reactivate :: "role_env \<Rightarrow> uuid \<Rightarrow> authz_db \<Rightarrow> role_world \<Rightarrow> role_reply role_op" where
  "reactivate env i db0 w =
    (case find_required env i db0 of
       Inl e \<Rightarrow> (Fail e, w)
     | Inr _ \<Rightarrow>
         (case run_role_tx env (reactivate_tx env i) w of
            (Inl e, w') \<Rightarrow> (Fail e, w')
          | (Inr r, w') \<Rightarrow>
              (Ok (Role_reply r (Some (countAssignedUserGroupAndUser (re_queries_ok env)
                     (re_tenant env) (role_id r) (rw_db w')))), w')))"

definition rename_tx :: "role_env \<Rightarrow> uuid \<Rightarrow> rename_role_dto \<Rightarrow> authz_db \<Rightarrow> role_error + role \<times> authz_db" where
  "rename_tx env i dto db =
    and_then (find_required env i db) (\<lambda>r.
      if role_name r = rrd_name dto then Ok (r, db)
      else and_then (validateRoleName env (rrd_name dto) db) (\<lambda>_.
        save_with_event
          (touch env (r\<lparr> role_name := rrd_name dto,
             role_description := (case rrd_description dto of Some d \<Rightarrow> Some d
                                  | None \<Rightarrow> role_description r) \<rparr>))
          (\<lambda>x. fromRenameRole (re_now env) (role_ctx env) x (role_name r) (role_name x)) db))"

definition rename :: "role_env \<Rightarrow> uuid \<Rightarrow> rename_role_dto \<Rightarrow> role_world \<Rightarrow> role role_op" where
  "rename env i dto w = run_role_tx env (rename_tx env i dto) w"

section \<open>The permissions of a role\<close>

definition omitted_protected :: "role \<Rightarrow> string list \<Rightarrow> string list" where
  "omitted_protected r codes =
    (case (role_kind r, role_systemKey r) of
       (SYSTEM, Some k) \<Rightarrow> filter (\<lambda>c. c \<notin> set codes) (protected_codes k)
     | _ \<Rightarrow> [])"

definition updatePermissions_checks ::
  "role_env \<Rightarrow> uuid \<Rightarrow> role_permissions_dto \<Rightarrow> authz_db \<Rightarrow> role_error + int" where
  "updatePermissions_checks env i dto db =
    and_then (find_required env i db) (\<lambda>r.
    and_then (version_guard (rpd_version dto) r) (\<lambda>_.
    and_then (guard (Protected_capability_removal (role_name r) (omitted_protected r (rpd_codes dto)))
               (omitted_protected r (rpd_codes dto) = [])) (\<lambda>_.
    and_then (validateCodes env (rpd_codes dto)) (\<lambda>_.
      Ok (countActiveUserReach (re_queries_ok env) (re_tenant env) i db)))))"

definition protected_set_of :: "role \<Rightarrow> string \<Rightarrow> bool" where
  "protected_set_of r c =
    (case (role_kind r, role_systemKey r) of
       (SYSTEM, Some k) \<Rightarrow> c \<in> set (protected_codes k)
     | _ \<Rightarrow> False)"

definition updatePermissions_tx ::
  "role_env \<Rightarrow> uuid \<Rightarrow> role_permissions_dto \<Rightarrow> authz_db \<Rightarrow> role_error + role \<times> authz_db" where
  "updatePermissions_tx env i dto db =
    and_then (find_required env i db) (\<lambda>r.
    and_then (version_guard (rpd_version dto) r) (\<lambda>_.
      let db1 = rp_deleteByRoleId (re_tenant env) (role_id r) db
      in and_then (rp_bulkSave
             (permission_rows env (role_id r) (protected_set_of r) (rpd_codes dto)) db1)
           (save_with_event (touch env r)
             (\<lambda>x. fromPermissionsUpdated (re_now env) (role_ctx env) x (rpd_codes dto)))))"

definition updatePermissions ::
  "role_env \<Rightarrow> uuid \<Rightarrow> role_permissions_dto \<Rightarrow> authz_db \<Rightarrow> role_world \<Rightarrow> role_reply role_op" where
  "updatePermissions env i dto db0 w =
    (case updatePermissions_checks env i dto db0 of
       Inl e \<Rightarrow> (Fail e, w)
     | Inr users \<Rightarrow>
         if HIGH_IMPACT_THRESHOLD \<le> users \<and> rpd_confirmed dto \<noteq> Some True
         then (Ok (Confirm_users users), w)
         else (case run_role_tx env (updatePermissions_tx env i dto) w of
                 (Inl e, w') \<Rightarrow> (Fail e, w')
               | (Inr r, w') \<Rightarrow>
                   (Ok (Role_reply r (Some (countAssignedUserGroups (re_queries_ok env)
                          (re_tenant env) (role_id r) (rw_db w'), users))), w')))"

section \<open>Deleting a role\<close>

definition delete_tx :: "role_env \<Rightarrow> uuid \<Rightarrow> authz_db \<Rightarrow> role_error + authz_db" where
  "delete_tx env i db =
    and_then (find_locked env i db) (\<lambda>r.
    and_then (guard (Cannot_delete_system_role (role_id r) (role_name r)) (role_kind r \<noteq> SYSTEM)) (\<lambda>_.
      role_delete (role_id r) (rp_deleteByRoleId (re_tenant env) (role_id r) db)))"

definition deleteRole :: "role_env \<Rightarrow> uuid \<Rightarrow> role_world \<Rightarrow> unit role_op" where
  "deleteRole env i w =
    (case delete_tx env i (rw_db w) of
       Inl e \<Rightarrow> (Fail e, w)
     | Inr db \<Rightarrow>
         (Ok (), \<lparr> rw_db = db, rw_cache = invalidateRole (re_key env) (re_tenant env) i (rw_cache w) \<rparr>))"

section \<open>Seeding the system roles\<close>

definition seed_one ::
  "role_env \<Rightarrow> tenant \<Rightarrow> (system_role_key \<Rightarrow> uuid) \<Rightarrow> system_role_key
    \<Rightarrow> (role \<times> role_permission list) list \<times> authz_db
    \<Rightarrow> role_error + (role \<times> role_permission list) list \<times> authz_db" where
  "seed_one env t new_ids k p =
    (let tp = SYSTEM_ROLE_TEMPLATES k in
     case role_findBySystemKey (re_tenant env) k (snd p) of
       Some r \<Rightarrow> Ok (fst p @ [(r, role_permissions_of (role_id r) (snd p))], snd p)
     | None \<Rightarrow>
         (let r = \<lparr> role_id = new_ids k, role_tenant = t, role_name = tpl_defaultName tp,
                    role_description = Some (tpl_description tp), role_kind = SYSTEM,
                    role_state = Role_active, role_systemKey = Some (tpl_key tp),
                    role_version = 1, role_projectionVersion = 1, role_createdBy = None,
                    role_updatedBy = None \<rparr>;
              ps = map (\<lambda>q. \<lparr> rp_tenant = t, rp_roleId = role_id r, rp_code = tpl_code q,
                              rp_isProtected = tpl_isProtected q \<rparr>) (tpl_permissions tp)
          in and_then (role_save r (snd p)) (\<lambda>db1.
             and_then (rp_bulkSave ps db1) (\<lambda>db2. Ok (fst p @ [(r, ps)], db2)))))"

fun seed_all ::
  "role_env \<Rightarrow> tenant \<Rightarrow> (system_role_key \<Rightarrow> uuid) \<Rightarrow> system_role_key list
    \<Rightarrow> (role \<times> role_permission list) list \<times> authz_db
    \<Rightarrow> role_error + (role \<times> role_permission list) list \<times> authz_db" where
  "seed_all env t new_ids [] p = Ok p"
| "seed_all env t new_ids (k # ks) p =
    and_then (seed_one env t new_ids k p) (seed_all env t new_ids ks)"

definition seedBaselineSystemRoles ::
  "role_env \<Rightarrow> tenant \<Rightarrow> (system_role_key \<Rightarrow> uuid) \<Rightarrow> role_world \<Rightarrow> role list role_op" where
  "seedBaselineSystemRoles env t new_ids w =
    (case seed_all env t new_ids all_system_role_keys ([], rw_db w) of
       Inl e \<Rightarrow> (Fail e, w)
     | Inr (created, db) \<Rightarrow>
         (Ok (map fst created),
          \<lparr> rw_db = db,
            rw_cache = fold (\<lambda>(r, ps). syncRole (re_key env) (re_now env) r (Some ps)) created
                         (rw_cache w) \<rparr>))"

end
