(* ===== verification/Role_Properties.thy ===== *)
theory Role_Properties
  imports Role_Service
begin

text \<open>
  What the role service keeps and what it does not: consistency of the tables and inviolability of
  the protected permissions under every operation, optimistic locking against interleaved
  requests, the reach of an impact confirmation, and the two defects of the permission handler and
  of the cache.
\<close>

section \<open>The repositories keep the tables consistent\<close>

lemma role_find_SomeD:
  "role_find t i db = Some r \<Longrightarrow> r \<in> set (t_roles db) \<and> role_id r = i \<and> role_tenant r = t"
  unfolding role_find_def by (drule find_SomeD) simp

lemma find_required_Ok_iff [simp]:
  "find_required env i db = Ok r \<longleftrightarrow> role_find (re_tenant env) i db = Some r"
  by (auto simp: find_required_def split: option.splits)

lemma find_locked_Ok_iff [simp]:
  "find_locked env i db = Ok r \<longleftrightarrow> role_find (re_tenant env) i db = Some r"
  by (auto simp: find_locked_def split: option.splits)

lemma version_guard_Ok_iff [simp]:
  "version_guard ev r = Ok u \<longleftrightarrow> ev = None \<or> ev = Some (role_version r)"
  by (auto simp: version_guard_def split: option.splits)

lemma distinct_map_eqD: "distinct (map f xs) \<Longrightarrow> x \<in> set xs \<Longrightarrow> y \<in> set xs \<Longrightarrow> f x = f y \<Longrightarrow> x = y"
  by (auto simp: distinct_map dest: inj_onD)

lemma distinct_map_other_key:
  assumes "distinct (map key rows)" "distinct (map f rows)"
    and "\<forall>x \<in> set rows. f x = f r \<longrightarrow> key x = key r"
  shows "distinct (map f (save_row key r rows))"
proof -
  have "distinct (save_row key r rows)"
    using distinct_save_row[OF assms(1), of r] by (simp add: distinct_map)
  moreover have "inj_on f (set (save_row key r rows))"
    using assms(2,3) by (auto simp: set_save_row inj_on_def distinct_map)
  ultimately show ?thesis by (simp add: distinct_map)
qed

lemma role_save_Ok:
  assumes "role_save r db = Ok db'"
  shows "db' = put_role r db"
    and "x \<in> set (t_roles db) \<Longrightarrow> name_key x = name_key r \<Longrightarrow> role_id x = role_id r"
  using assms by (auto simp: role_save_def name_key_def split: if_splits)

lemma role_tables_ok_save:
  assumes ok: "role_tables_ok db" and s: "role_save r db = Ok db'" and v: "1 \<le> role_version r"
  shows "role_tables_ok db'"
proof -
  have "distinct (map name_key (t_roles (put_role r db)))"
    unfolding roles_table.rows_save
    using ok role_save_Ok(2)[OF s] by (intro distinct_map_other_key) (auto simp: role_tables_ok_def)
  then show ?thesis
    using ok v roles_table.keys_kept(1)
    by (simp add: role_save_Ok(1)[OF s] role_tables_ok_def list_all_iff roles_table.set_rows_save)
qed

lemma role_tables_ok_bulkSave:
  "role_tables_ok db \<Longrightarrow> rp_bulkSave ps db = Ok db' \<Longrightarrow> role_tables_ok db'"
  by (auto simp: rp_bulkSave_def role_tables_ok_def split: if_splits)

lemma role_tables_ok_deleteByRoleId: "role_tables_ok db \<Longrightarrow> role_tables_ok (rp_deleteByRoleId t i db)"
  by (simp add: rp_deleteByRoleId_def role_tables_ok_def distinct_delete_rows)

lemma role_tables_ok_outbox [simp]: "role_tables_ok (save_outbox e db) = role_tables_ok db"
  by (simp add: role_tables_ok_def)

lemma role_tables_ok_delete:
  "role_tables_ok db \<Longrightarrow> role_delete i db = Ok db' \<Longrightarrow> role_tables_ok db'"
  by (auto simp: role_delete_def role_tables_ok_def list_all_iff drop_roles_def
      intro: distinct_delete_rows split: if_splits)

lemmas role_tables_intros =
  role_tables_ok_save role_tables_ok_bulkSave role_tables_ok_deleteByRoleId role_tables_ok_delete

section \<open>Protected permissions\<close>

definition holds_protected :: "authz_db \<Rightarrow> role \<Rightarrow> bool" where
  "holds_protected db r =
    (\<forall>k. role_kind r = SYSTEM \<and> role_systemKey r = Some k \<longrightarrow>
       (\<forall>c \<in> set (protected_codes k). \<exists>p \<in> set (t_role_permissions db).
          rp_roleId p = role_id r \<and> rp_code p = c \<and> rp_isProtected p))"

lemma protected_intact_iff: "protected_intact db \<longleftrightarrow> (\<forall>r \<in> set (t_roles db). holds_protected db r)"
  by (auto simp: protected_intact_def holds_protected_def list_all_iff
      split: role_type.splits option.splits)

lemma holds_protected_mono:
  "holds_protected db r \<Longrightarrow>
     {p \<in> set (t_role_permissions db). rp_isProtected p} \<subseteq> set (t_role_permissions db') \<Longrightarrow>
     holds_protected db' r"
  unfolding holds_protected_def by blast

lemma holds_protected_cong:
  "role_id r' = role_id r \<Longrightarrow> role_kind r' = role_kind r \<Longrightarrow> role_systemKey r' = role_systemKey r \<Longrightarrow>
     holds_protected db r' = holds_protected db r"
  by (simp add: holds_protected_def)

lemma protected_intactI:
  assumes "protected_intact db"
    and "\<And>r. r \<in> set (t_roles db') \<Longrightarrow> r \<in> set (t_roles db) \<or> holds_protected db r"
    and "\<And>p. p \<in> set (t_role_permissions db) \<Longrightarrow> rp_isProtected p \<Longrightarrow> p \<in> set (t_role_permissions db')"
  shows "protected_intact db'"
  unfolding protected_intact_iff
proof
  fix r assume "r \<in> set (t_roles db')"
  then have "holds_protected db r" using assms(1,2) by (auto simp: protected_intact_iff)
  then show "holds_protected db' r" by (rule holds_protected_mono) (use assms(3) in auto)
qed

lemma protected_intact_save:
  assumes "protected_intact db" "role_save r db = Ok db'" "holds_protected db r"
  shows "protected_intact db'"
  unfolding role_save_Ok(1)[OF assms(2)]
  by (rule protected_intactI[OF assms(1)]) (use assms(3) in \<open>auto simp: roles_table.set_rows_save\<close>)

lemma protected_intact_bulkSave:
  assumes "protected_intact db" "rp_bulkSave ps db = Ok db'"
  shows "protected_intact db'"
  by (rule protected_intactI[OF assms(1)])
     (use assms(2) in \<open>auto simp: rp_bulkSave_def split: if_splits\<close>)

lemma protected_intact_deleteByRoleId:
  assumes "protected_intact db"
  shows "protected_intact (rp_deleteByRoleId t i db)"
  by (rule protected_intactI[OF assms]) (auto simp: rp_deleteByRoleId_def)

lemma protected_intact_outbox [simp]: "protected_intact (save_outbox e db) = protected_intact db"
  by (simp add: protected_intact_iff holds_protected_def)

lemma protected_intact_delete:
  assumes ok: "role_tables_ok db" "protected_intact db" and d: "role_delete i db = Ok db'"
    and c: "\<forall>r \<in> set (t_roles db). role_id r = i \<longrightarrow> role_kind r \<noteq> SYSTEM"
  shows "protected_intact db'"
proof -
  have "holds_protected db' r" if "r \<in> set (t_roles db')" for r
  proof (cases "role_kind r = SYSTEM")
    case True
    with that d have r: "r \<in> set (t_roles db)" "role_id r \<noteq> i"
      by (auto simp: role_delete_def drop_roles_def split: if_splits)
    then have "holds_protected db r" using ok(2) by (simp add: protected_intact_iff)
    then show ?thesis
      using r d by (fastforce simp: role_delete_def drop_roles_def holds_protected_def split: if_splits)
  qed (simp add: holds_protected_def)
  then show ?thesis by (simp add: protected_intact_iff)
qed

section \<open>Every operation keeps both\<close>

definition role_inv :: "authz_db \<Rightarrow> bool" where
  "role_inv db = (role_tables_ok db \<and> protected_intact db)"

lemma role_inv_outbox [simp]: "role_inv (save_outbox e db) = role_inv db"
  by (simp add: role_inv_def)

lemma role_inv_bulkSave: "role_inv db \<Longrightarrow> rp_bulkSave ps db = Ok db' \<Longrightarrow> role_inv db'"
  by (auto simp: role_inv_def intro: role_tables_ok_bulkSave protected_intact_bulkSave)

lemma role_inv_deleteByRoleId: "role_inv db \<Longrightarrow> role_inv (rp_deleteByRoleId t i db)"
  by (simp add: role_inv_def role_tables_ok_deleteByRoleId protected_intact_deleteByRoleId)

lemma role_inv_save:
  "role_inv db \<Longrightarrow> role_save r db = Ok db' \<Longrightarrow> 1 \<le> role_version r \<Longrightarrow> holds_protected db r \<Longrightarrow> role_inv db'"
  by (auto simp: role_inv_def intro: role_tables_ok_save protected_intact_save)

lemma save_with_event_Ok [simp]:
  "save_with_event r ev db = Ok p \<longleftrightarrow>
     (\<exists>db1. role_save r db = Ok db1 \<and> p = (r, save_outbox (ev r) db1))"
  by (auto simp: save_with_event_def)

text \<open>A row read under the lock and saved with a raised version keeps its identity.\<close>

definition updates_row :: "role \<Rightarrow> role \<Rightarrow> bool" where
  "updates_row r r' =
    (role_id r' = role_id r \<and> role_tenant r' = role_tenant r \<and> role_kind r' = role_kind r \<and>
     role_systemKey r' = role_systemKey r \<and> role_version r' = role_version r + 1)"

lemma role_inv_update:
  assumes "role_inv db" "r \<in> set (t_roles db)" "updates_row r r'"
    and "role_save r' db1 = Ok db'" "role_inv db1" "r \<in> set (t_roles db1)"
  shows "role_inv db'"
proof (rule role_inv_save[OF assms(5,4)])
  show "1 \<le> role_version r'"
    using assms(1-3) by (auto simp: role_inv_def role_tables_ok_def list_all_iff updates_row_def)
  have "holds_protected db1 r" using assms(5,6) by (simp add: role_inv_def protected_intact_iff)
  then show "holds_protected db1 r'"
    using assms(3) by (simp add: updates_row_def holds_protected_def)
qed

lemma bulkSave_roles: "rp_bulkSave ps db = Ok db' \<Longrightarrow> t_roles db' = t_roles db"
  by (auto simp: rp_bulkSave_def split: if_splits)

lemma deleteByRoleId_roles [simp]: "t_roles (rp_deleteByRoleId t i db) = t_roles db"
  by (simp add: rp_deleteByRoleId_def)

text \<open>What a transaction that changes one role does to the tables.\<close>

definition changes_one_role :: "role_env \<Rightarrow> uuid \<Rightarrow> authz_db \<Rightarrow> role \<Rightarrow> authz_db \<Rightarrow> bool" where
  "changes_one_role env i db r' db' =
    (\<exists>r. role_find (re_tenant env) i db = Some r \<and> updates_row r r' \<and>
         t_roles db' = t_roles (put_role r' db) \<and> (role_inv db \<longrightarrow> role_inv db'))"

lemma changes_one_roleI:
  assumes "role_find (re_tenant env) i db = Some r" "updates_row r r'"
    and "role_save r' db1 = Ok db2" "t_roles db1 = t_roles db" "role_inv db \<Longrightarrow> role_inv db1"
  shows "changes_one_role env i db r' (save_outbox e db2)"
proof -
  have r: "r \<in> set (t_roles db)" using role_find_SomeD[OF assms(1)] by simp
  have "t_roles db2 = t_roles (put_role r' db)"
    using role_save_Ok(1)[OF assms(3)] assms(4) by (simp add: put_role_def)
  moreover have "role_inv db \<Longrightarrow> role_inv db2"
    using role_inv_update[OF _ r assms(2,3)] assms(4,5) r by simp
  ultimately show ?thesis using assms(1,2) by (auto simp: changes_one_role_def)
qed

lemma updates_row_touch [simp]:
  "updates_row r (touch env (r\<lparr>role_state := st\<rparr>))" "updates_row r (touch env r)"
  "updates_row r (touch env (r\<lparr>role_name := n, role_description := d\<rparr>))"
  by (simp_all add: updates_row_def touch_def)

lemma updateCustom_tx_changes:
  "updateCustom_tx env i dto db = Ok (r', db') \<Longrightarrow> changes_one_role env i db r' db'"
  by (auto simp: updateCustom_tx_def Let_def bulkSave_roles
      intro!: changes_one_roleI role_inv_deleteByRoleId elim!: role_inv_bulkSave[rotated])

lemma deactivate_tx_changes:
  "deactivate_tx env i dto imp db = Ok (r', db') \<Longrightarrow> changes_one_role env i db r' db'"
  by (auto simp: deactivate_tx_def intro!: changes_one_roleI)

lemma reactivate_tx_changes:
  "reactivate_tx env i db = Ok (r', db') \<Longrightarrow> changes_one_role env i db r' db'"
  by (auto simp: reactivate_tx_def intro!: changes_one_roleI)

lemma rename_tx_changes:
  "rename_tx env i dto db = Ok (r', db') \<Longrightarrow> changes_one_role env i db r' db' \<or> db' = db"
  by (auto simp: rename_tx_def intro!: changes_one_roleI split: if_splits)

lemma updatePermissions_tx_changes:
  "updatePermissions_tx env i dto db = Ok (r', db') \<Longrightarrow> changes_one_role env i db r' db'"
  by (auto simp: updatePermissions_tx_def Let_def bulkSave_roles
      intro!: changes_one_roleI role_inv_deleteByRoleId elim!: role_inv_bulkSave[rotated])

lemma create_tx_effect:
  assumes "create_tx env r codes ev db = Ok (r', db')" "role_kind r = CUSTOM" "1 \<le> role_version r"
  shows "r' = r \<and> t_roles db' = t_roles (put_role r db) \<and> (role_inv db \<longrightarrow> role_inv db')"
proof -
  obtain db1 db2 where d: "role_save r db = Ok db1"
      "rp_bulkSave (permission_rows env (role_id r) unprotected codes) db1 = Ok db2"
      "r' = r" "db' = save_outbox (ev r) db2"
    using assms(1) by (auto simp: create_tx_def)
  have "role_inv db \<Longrightarrow> role_inv db2"
    using role_inv_bulkSave[OF role_inv_save[OF _ d(1) assms(3)] d(2)] assms(2)
    by (simp add: holds_protected_def)
  then show ?thesis using d bulkSave_roles[OF d(2)] role_save_Ok(1)[OF d(1)] by simp
qed

lemma delete_tx_effect:
  assumes "delete_tx env i db = Ok db'" "role_inv db"
  shows "role_inv db' \<and> t_roles db' = delete_rows (\<lambda>r. role_id r = i) (t_roles db) \<and>
    (\<exists>r. role_find (re_tenant env) i db = Some r \<and> role_kind r \<noteq> SYSTEM)"
proof -
  let ?db1 = "rp_deleteByRoleId (re_tenant env) i db"
  obtain r where r: "role_find (re_tenant env) i db = Some r" "role_kind r \<noteq> SYSTEM"
      and d: "role_delete i ?db1 = Ok db'"
    using assms(1) by (auto simp: delete_tx_def) (metis role_find_SomeD)
  have inv1: "role_inv ?db1" by (rule role_inv_deleteByRoleId[OF assms(2)])
  have "\<forall>x \<in> set (t_roles ?db1). role_id x = i \<longrightarrow> role_kind x \<noteq> SYSTEM"
    using role_find_SomeD[OF r(1)] r(2) assms(2) distinct_map_eqD[of role_id "t_roles db"]
    by (auto simp: role_inv_def role_tables_ok_def)
  then have "role_inv db'"
    using inv1 protected_intact_delete[OF _ _ d] role_tables_ok_delete[OF _ d]
    by (simp add: role_inv_def)
  moreover have "t_roles db' = delete_rows (\<lambda>r. role_id r = i) (t_roles db)"
    using d by (auto simp: role_delete_def drop_roles_def split: if_splits)
  ultimately show ?thesis using r by blast
qed

lemma seed_one_effect:
  assumes "seed_one env t ids k (c, db) = Ok (c', db')"
  shows "(role_inv db \<longrightarrow> role_inv db') \<and>
    (t_roles db' = t_roles db \<or>
     (\<exists>r. role_id r = ids k \<and> role_version r = 1 \<and> t_roles db' = t_roles (put_role r db)))"
proof (cases "role_findBySystemKey (re_tenant env) k db")
  case (Some r)
  then show ?thesis using assms by (simp add: seed_one_def)
next
  case None
  define tp where "tp = SYSTEM_ROLE_TEMPLATES k"
  define r where "r = \<lparr> role_id = ids k, role_tenant = t, role_name = tpl_defaultName tp,
      role_description = Some (tpl_description tp), role_kind = SYSTEM,
      role_state = Role_active, role_systemKey = Some (tpl_key tp), role_version = 1,
      role_projectionVersion = 1, role_createdBy = None, role_updatedBy = None \<rparr>"
  define ps where "ps = map (\<lambda>q. \<lparr> rp_tenant = t, rp_roleId = role_id r, rp_code = tpl_code q,
      rp_isProtected = tpl_isProtected q \<rparr>) (tpl_permissions tp)"
  obtain db1 where d: "role_save r db = Ok db1" "rp_bulkSave ps db1 = Ok db'"
    using assms None by (auto simp: seed_one_def Let_def tp_def r_def ps_def)
  have db1: "db1 = put_role r db" by (rule role_save_Ok(1)[OF d(1)])
  have ps: "t_role_permissions db' = t_role_permissions db @ ps" "t_roles db' = t_roles (put_role r db)"
    using d(2) db1 by (auto simp: rp_bulkSave_def split: if_splits)
  have "tpl_key tp = k" by (cases k) (simp_all add: tp_def)
  then have holds: "holds_protected db' r"
    by (force simp: holds_protected_def ps(1) ps_def protected_codes_def tp_def r_def bex_Un)
  have "role_inv db \<Longrightarrow> role_inv db'"
  proof -
    assume inv: "role_inv db"
    have "role_tables_ok db'"
      using inv role_tables_ok_bulkSave[OF role_tables_ok_save[OF _ d(1)] d(2)]
      by (simp add: role_inv_def r_def)
    moreover have "holds_protected db' x" if "x \<in> set (t_roles db')" for x
      using that holds inv ps(1) holds_protected_mono[of db x db']
      by (auto simp: ps(2) roles_table.set_rows_save role_inv_def protected_intact_iff)
    ultimately show ?thesis by (simp add: role_inv_def protected_intact_iff)
  qed
  moreover have "role_id r = ids k" "role_version r = 1" by (simp_all add: r_def)
  ultimately show ?thesis using ps(2) by blast
qed

lemma seed_all_inv:
  "seed_all env t ids ks (c, db) = Ok (c', db') \<Longrightarrow> role_inv db \<Longrightarrow> role_inv db'"
  by (induction ks arbitrary: c db) (auto dest!: seed_one_effect)

section \<open>Steps of the role service\<close>

text \<open>
  One committed transaction on the role tables, next to the identifiers handed out so far: the
  database generates a fresh identifier for each inserted row.
\<close>

type_synonym role_state_ids = "authz_db \<times> uuid set"

inductive role_step :: "role_state_ids \<Rightarrow> role_state_ids \<Rightarrow> bool" where
  create: "create_tx env r codes ev db = Ok (r', db') \<Longrightarrow> role_kind r = CUSTOM \<Longrightarrow> role_version r = 1 \<Longrightarrow>
    role_id r \<notin> ids \<Longrightarrow> role_step (db, ids) (db', insert (role_id r) ids)"
| update: "updateCustom_tx env i ud db = Ok (r', db') \<Longrightarrow> role_step (db, ids) (db', ids)"
| deactivate: "deactivate_tx env i dd imp db = Ok (r', db') \<Longrightarrow> role_step (db, ids) (db', ids)"
| reactivate: "reactivate_tx env i db = Ok (r', db') \<Longrightarrow> role_step (db, ids) (db', ids)"
| rename: "rename_tx env i rd db = Ok (r', db') \<Longrightarrow> role_step (db, ids) (db', ids)"
| permissions: "updatePermissions_tx env i pd db = Ok (r', db') \<Longrightarrow> role_step (db, ids) (db', ids)"
| delete: "delete_tx env i db = Ok db' \<Longrightarrow> role_step (db, ids) (db', ids)"
| seed: "seed_one env t nids k (c, db) = Ok (c', db') \<Longrightarrow> nids k \<notin> ids \<Longrightarrow>
    role_step (db, ids) (db', insert (nids k) ids)"
| projected: "role_step (db, ids) (role_updateProjectionVersion t i v db, ids)"

inductive_cases role_stepE: "role_step s s'"

definition ids_ok :: "role_state_ids \<Rightarrow> bool" where
  "ids_ok s = (role_inv (fst s) \<and> role_id ` set (t_roles (fst s)) \<subseteq> snd s)"

definition role_lookup :: "uuid \<Rightarrow> role_state_ids \<Rightarrow> role option" where
  "role_lookup i s = find_row role_id i (t_roles (fst s))"

definition role_content :: "role \<Rightarrow> role" where
  "role_content r = r\<lparr> role_projectionVersion := 0 \<rparr>"

lemma projected_roles:
  "map role_id (t_roles (role_updateProjectionVersion t i v db)) = map role_id (t_roles db)"
  "map name_key (t_roles (role_updateProjectionVersion t i v db)) = map name_key (t_roles db)"
  by (simp_all add: role_updateProjectionVersion_def name_key_def)

lemma role_inv_projected: "role_inv db \<Longrightarrow> role_inv (role_updateProjectionVersion t i v db)"
proof -
  assume inv: "role_inv db"
  let ?db = "role_updateProjectionVersion t i v db"
  have "role_tables_ok ?db"
    using inv by (simp add: role_inv_def role_tables_ok_def projected_roles)
      (auto simp: role_updateProjectionVersion_def list_all_iff)
  moreover have "protected_intact ?db"
    using inv by (auto simp: role_inv_def protected_intact_iff role_updateProjectionVersion_def
        holds_protected_def)
  ultimately show ?thesis by (simp add: role_inv_def)
qed

lemma role_lookup_projected:
  "find_row role_id k (t_roles (role_updateProjectionVersion t i v db)) =
     map_option (\<lambda>r. if role_id r = i \<and> role_tenant r = t then r\<lparr>role_projectionVersion := v\<rparr> else r)
       (find_row role_id k (t_roles db))"
proof -
  have "find (\<lambda>r. role_id r = k)
          (map (\<lambda>r. if role_id r = i \<and> role_tenant r = t then r\<lparr>role_projectionVersion := v\<rparr> else r) rs)
      = map_option (\<lambda>r. if role_id r = i \<and> role_tenant r = t then r\<lparr>role_projectionVersion := v\<rparr> else r)
          (find (\<lambda>r. role_id r = k) rs)" for rs
    by (induction rs) auto
  then show ?thesis by (simp add: role_updateProjectionVersion_def find_row_def)
qed

lemma ids_ok_distinct: "ids_ok (db, ids) \<Longrightarrow> distinct (map role_id (t_roles db))"
  by (simp add: ids_ok_def role_inv_def role_tables_ok_def)

text \<open>The three shapes a step's effect on a row can have.\<close>

definition row_effect :: "role_state_ids \<Rightarrow> role_state_ids \<Rightarrow> bool" where
  "row_effect s s' =
    (ids_ok s' \<and> snd s \<subseteq> snd s' \<and>
     (\<forall>k. (case (role_lookup k s, role_lookup k s') of
             (Some r, Some r') \<Rightarrow> (role_content r' = role_content r \<and> role_version r' = role_version r)
                \<or> (role_version r' = role_version r + 1 \<and> role_kind r' = role_kind r)
           | (None, Some r') \<Rightarrow> k \<notin> snd s
           | (Some r, None) \<Rightarrow> role_kind r \<noteq> SYSTEM
           | (None, None) \<Rightarrow> True)))"

lemma row_effect_both:
  "row_effect s s' \<Longrightarrow> role_lookup k s = Some r \<Longrightarrow> role_lookup k s' = Some r' \<Longrightarrow>
     (role_content r' = role_content r \<and> role_version r' = role_version r)
     \<or> (role_version r' = role_version r + 1 \<and> role_kind r' = role_kind r)"
  unfolding row_effect_def by (elim conjE, drule spec[of _ k]) simp

lemma row_effect_new:
  "row_effect s s' \<Longrightarrow> role_lookup k s = None \<Longrightarrow> role_lookup k s' = Some r' \<Longrightarrow> k \<notin> snd s"
  unfolding row_effect_def by (elim conjE, drule spec[of _ k]) simp

lemma row_effect_gone:
  "row_effect s s' \<Longrightarrow> role_lookup k s = Some r \<Longrightarrow> role_lookup k s' = None \<Longrightarrow> role_kind r \<noteq> SYSTEM"
  unfolding row_effect_def by (elim conjE, drule spec[of _ k]) simp

lemma row_effect_put:
  assumes ok: "ids_ok (db, ids)" and inv: "role_inv db'" and t: "t_roles db' = t_roles (put_role r' db)"
    and ids: "insert (role_id r') ids = ids'"
    and r': "case find_row role_id (role_id r') (t_roles db) of
               Some r \<Rightarrow> role_version r' = role_version r + 1 \<and> role_kind r' = role_kind r
             | None \<Rightarrow> role_id r' \<notin> ids"
  shows "row_effect (db, ids) (db', ids')"
proof -
  have "role_id ` set (t_roles db') \<subseteq> ids'"
    using ok ids by (auto simp: t roles_table.set_rows_save ids_ok_def)
  then have "ids_ok (db', ids')" using inv by (simp add: ids_ok_def)
  moreover have "role_lookup k (db', ids') = (if k = role_id r' then Some r' else role_lookup k (db, ids))" for k
    using roles_table.find_save[OF ids_ok_distinct[OF ok]] by (simp add: role_lookup_def t)
  ultimately show ?thesis
    using r' ids by (auto simp: row_effect_def role_lookup_def split: option.splits)
qed

lemma row_effect_update:
  assumes ok: "ids_ok (db, ids)" and c: "changes_one_role env i db r' db'"
  shows "row_effect (db, ids) (db', ids)"
proof -
  obtain r where r: "role_find (re_tenant env) i db = Some r" "updates_row r r'"
      and t: "t_roles db' = t_roles (put_role r' db)" and inv: "role_inv db'"
    using c ok by (auto simp: changes_one_role_def ids_ok_def)
  have "r \<in> set (t_roles db)" using role_find_SomeD[OF r(1)] by simp
  then have "find_row role_id (role_id r') (t_roles db) = Some r" "role_id r' \<in> ids"
    using find_row_iff[OF ids_ok_distinct[OF ok]] r(2) ok by (auto simp: updates_row_def ids_ok_def)
  then show ?thesis
    using r(2) by (intro row_effect_put[OF ok inv t]) (auto simp: updates_row_def)
qed

lemma row_effect_insert:
  assumes ok: "ids_ok (db, ids)" and "role_inv db'" "t_roles db' = t_roles (put_role r' db)"
    and new: "role_id r' \<notin> ids"
  shows "row_effect (db, ids) (db', insert (role_id r') ids)"
proof -
  have "find_row role_id (role_id r') (t_roles db) = None"
    using ok new by (auto simp: ids_ok_def find_row_def find_None_iff)
  then have "case find_row role_id (role_id r') (t_roles db) of
      Some r \<Rightarrow> role_version r' = role_version r + 1 \<and> role_kind r' = role_kind r
    | None \<Rightarrow> role_id r' \<notin> ids" using new by (simp only: option.case simp_thms)
  then show ?thesis using assms(2,3) by (intro row_effect_put[OF ok]) simp_all
qed

lemma row_effect_refl: "ids_ok s \<Longrightarrow> snd s \<subseteq> ids \<Longrightarrow> row_effect s (fst s, ids)"
  by (auto simp: row_effect_def ids_ok_def role_lookup_def split: option.splits)

lemma row_effect_delete:
  assumes ok: "ids_ok (db, ids)" and "role_inv db'" "t_roles db' = delete_rows P (t_roles db)"
    and sys: "\<And>r. r \<in> set (t_roles db) \<Longrightarrow> P r \<Longrightarrow> role_kind r \<noteq> SYSTEM"
  shows "row_effect (db, ids) (db', ids)"
proof -
  have "find_row role_id k (t_roles db') =
      (case find_row role_id k (t_roles db) of Some x \<Rightarrow> if P x then None else Some x | None \<Rightarrow> None)" for k
    using roles_table.find_remove[OF ids_ok_distinct[OF ok], of k P] assms(3)
    by (simp add: drop_roles_def)
  then show ?thesis
    using assms
    by (auto simp: row_effect_def ids_ok_def role_lookup_def dest: find_row_SomeD split: option.splits)
qed

lemma role_step_effect:
  assumes "role_step s s'" "ids_ok s"
  shows "row_effect s s'"
  using assms
proof (induction rule: role_step.induct)
  case (create env r codes ev db r' db' ids)
  then show ?case
    using create_tx_effect[OF create(1,2)] by (intro row_effect_insert) (auto simp: ids_ok_def)
next
  case (rename env i rd db r' db' ids)
  then show ?case
    using rename_tx_changes[OF rename(1)] row_effect_update row_effect_refl[of "(db, ids)" ids] by auto
next
  case (delete env i db db' ids)
  then show ?case
    using delete_tx_effect[OF delete(1)] distinct_map_eqD[OF ids_ok_distinct[OF delete(2)]]
    by (intro row_effect_delete[where P = "\<lambda>r. role_id r = i"])
       (auto simp: ids_ok_def dest!: role_find_SomeD)
next
  case (seed env t nids k c db c' db' ids)
  note e = seed_one_effect[OF seed(1)]
  have inv: "role_inv db'" using e seed(3) by (simp add: ids_ok_def)
  consider "t_roles db' = t_roles db"
    | r where "role_id r = nids k" "t_roles db' = t_roles (put_role r db)" using e by blast
  then show ?case
  proof cases
    case 1
    then show ?thesis
      using seed(3) inv by (auto simp: row_effect_def ids_ok_def role_lookup_def split: option.splits)
  next
    case 2
    then show ?thesis using row_effect_insert[OF seed(3) inv 2(2)] seed(2) by simp
  qed
next
  case (projected db ids t i v)
  have "role_inv (role_updateProjectionVersion t i v db)"
    using projected by (simp add: ids_ok_def role_inv_projected)
  moreover have "role_id ` set (t_roles (role_updateProjectionVersion t i v db)) = role_id ` set (t_roles db)"
    using projected_roles(1)[of t i v db] by (metis list.set_map)
  ultimately show ?case
    using projected
    by (auto simp: row_effect_def ids_ok_def role_lookup_def role_lookup_projected role_content_def
        split: option.splits)
qed (auto intro!: row_effect_update
      dest: updateCustom_tx_changes deactivate_tx_changes reactivate_tx_changes
        updatePermissions_tx_changes)

interpretation role_versions: versioned_rows role_step ids_ok role_lookup role_version role_content snd
proof unfold_locales
  fix s s' assume "ids_ok s" "role_step s s'"
  note e = role_step_effect[OF this(2,1)]
  show "ids_ok s'" "snd s \<subseteq> snd s'" using e by (auto simp: row_effect_def)
  fix i r r'
  show "(role_content r' = role_content r \<and> role_version r' = role_version r) \<or> role_version r < role_version r'"
    if "role_lookup i s = Some r" "role_lookup i s' = Some r'"
    using row_effect_both[OF e that] by auto
  show "role_lookup i s' = None" if "i \<in> snd s" "role_lookup i s = None"
    using row_effect_new[OF e that(2)] that(1) by (cases "role_lookup i s'") auto
next
  fix s i r assume "ids_ok s" "role_lookup i s = Some r"
  then show "i \<in> snd s"
    by (auto simp: ids_ok_def role_lookup_def dest!: find_row_SomeD)
qed

lemma role_find_lookup:
  assumes "distinct (map role_id (t_roles db))"
  shows "role_find t i db = Some r \<longleftrightarrow> role_lookup i (db, ids) = Some r \<and> role_tenant r = t"
proof
  assume "role_find t i db = Some r"
  then show "role_lookup i (db, ids) = Some r \<and> role_tenant r = t"
    using role_find_SomeD find_row_iff[OF assms] by (fastforce simp: role_lookup_def)
next
  assume r: "role_lookup i (db, ids) = Some r \<and> role_tenant r = t"
  then have "r \<in> set (t_roles db)" "role_id r = i"
    using find_row_iff[OF assms] by (auto simp: role_lookup_def)
  then have "role_find t i db \<noteq> None"
    using r by (auto simp: role_find_def find_None_iff)
  then obtain y where y: "role_find t i db = Some y" by blast
  then have "y = r"
    using role_find_SomeD[OF y] \<open>r \<in> set (t_roles db)\<close> \<open>role_id r = i\<close> distinct_map_eqD[OF assms, of y r]
    by simp
  with y show "role_find t i db = Some r" by simp
qed

lemma role_content_kind: "role_content a = role_content b \<Longrightarrow> role_kind a = role_kind b"
proof -
  assume "role_content a = role_content b"
  then have "role_kind (role_content a) = role_kind (role_content b)" by simp
  then show ?thesis by (simp add: role_content_def)
qed

lemma system_role_persists:
  assumes "role_step\<^sup>*\<^sup>* s s'" "ids_ok s" "role_lookup i s = Some r" "role_kind r = SYSTEM"
  shows "\<exists>r'. role_lookup i s' = Some r' \<and> role_kind r' = SYSTEM"
  using assms(1)
proof (induction rule: rtranclp_induct)
  case (step y z)
  then obtain ry where ry: "role_lookup i y = Some ry" "role_kind ry = SYSTEM" by blast
  have eff: "row_effect y z"
    using role_step_effect[OF step(2)] role_versions.ok_steps[OF step(1) assms(2)] by blast
  obtain rz where rz: "role_lookup i z = Some rz"
    using row_effect_gone[OF eff ry(1)] ry(2) by (cases "role_lookup i z") auto
  have "role_kind rz = role_kind ry"
    using row_effect_both[OF eff ry(1) rz] role_content_kind[of rz ry] by blast
  with ry(2) have "role_kind rz = SYSTEM" by simp
  with rz show ?case by blast
qed (use assms(3,4) in blast)

section \<open>Handlers\<close>

lemma run_role_tx_inv:
  assumes "\<And>r db'. tx (rw_db w) = Ok (r, db') \<Longrightarrow> role_inv (rw_db w) \<Longrightarrow> role_inv db'"
    and "role_inv (rw_db w)"
  shows "role_inv (rw_db (snd (run_role_tx env tx w)))"
  using assms by (auto simp: run_role_tx_def split: sum.splits)

lemma changes_one_role_inv: "changes_one_role env i db r db' \<Longrightarrow> role_inv db \<Longrightarrow> role_inv db'"
  by (auto simp: changes_one_role_def)

lemma snd_case_reply [simp]:
  "snd (case p of (Inl e, w') \<Rightarrow> (Fail e, w') | (Inr r, w') \<Rightarrow> (Ok (f r w'), w')) = snd p"
  by (auto split: prod.splits sum.splits)

lemma role_fromRequest_fields [simp]:
  "role_kind (role_fromRequest env i n d) = CUSTOM" "role_version (role_fromRequest env i n d) = 1"
  "role_id (role_fromRequest env i n d) = i" "role_tenant (role_fromRequest env i n d) = re_tenant env"
  by (simp_all add: role_fromRequest_def)

lemma run_create_inv:
  "role_kind r = CUSTOM \<Longrightarrow> role_version r = 1 \<Longrightarrow> role_inv (rw_db w) \<Longrightarrow>
     role_inv (rw_db (snd (run_role_tx env (create_tx env r codes ev) w)))"
  by (rule run_role_tx_inv) (auto dest: create_tx_effect)

lemma createCustom_inv: "role_inv (rw_db w) \<Longrightarrow> role_inv (rw_db (snd (createCustom env n d db0 w)))"
  by (simp add: createCustom_def run_create_inv split: sum.split)

lemma copyRole_inv: "role_inv (rw_db w) \<Longrightarrow> role_inv (rw_db (snd (copyRole env n i d db0 w)))"
  by (simp add: copyRole_def Let_def run_create_inv split: sum.split)

lemma updateCustom_inv: "role_inv (rw_db w) \<Longrightarrow> role_inv (rw_db (snd (updateCustom env i d db0 w)))"
  by (auto simp: updateCustom_def split: sum.split
      intro!: run_role_tx_inv dest: updateCustom_tx_changes changes_one_role_inv)

lemma deactivate_inv: "role_inv (rw_db w) \<Longrightarrow> role_inv (rw_db (snd (deactivate env i d db0 w)))"
  by (auto simp: deactivate_def split: sum.split
      intro!: run_role_tx_inv dest: deactivate_tx_changes changes_one_role_inv)

lemma reactivate_inv: "role_inv (rw_db w) \<Longrightarrow> role_inv (rw_db (snd (reactivate env i db0 w)))"
  by (auto simp: reactivate_def split: sum.split
      intro!: run_role_tx_inv dest: reactivate_tx_changes changes_one_role_inv)

lemma rename_inv: "role_inv (rw_db w) \<Longrightarrow> role_inv (rw_db (snd (rename env i d w)))"
  unfolding rename_def by (rule run_role_tx_inv) (auto dest: rename_tx_changes changes_one_role_inv)

lemma updatePermissions_inv:
  "role_inv (rw_db w) \<Longrightarrow> role_inv (rw_db (snd (updatePermissions env i d db0 w)))"
  by (auto simp: updatePermissions_def split: sum.split
      intro!: run_role_tx_inv dest: updatePermissions_tx_changes changes_one_role_inv)

lemma deleteRole_inv: "role_inv (rw_db w) \<Longrightarrow> role_inv (rw_db (snd (deleteRole env i w)))"
  by (auto simp: deleteRole_def dest: delete_tx_effect split: sum.split)

lemma seedBaselineSystemRoles_inv:
  "role_inv (rw_db w) \<Longrightarrow> role_inv (rw_db (snd (seedBaselineSystemRoles env t n w)))"
  by (auto simp: seedBaselineSystemRoles_def dest: seed_all_inv split: sum.split)

lemmas role_handler_invs =
  createCustom_inv copyRole_inv updateCustom_inv deactivate_inv reactivate_inv rename_inv
  updatePermissions_inv deleteRole_inv seedBaselineSystemRoles_inv

section \<open>The permission rows of a role\<close>

lemma protected_codes_nonempty: "''employee.view'' \<in> set (protected_codes k)"
  by (cases k) (simp_all add: protected_codes_def tpl_def)

lemma bulkSave_conflict:
  assumes "p \<in> set (t_role_permissions db)" "q \<in> set ps" "rp_key p = rp_key q"
  shows "\<exists>e. rp_bulkSave ps db = Fail e"
proof -
  have "ps \<noteq> []" using assms(2) by auto
  moreover have "\<not> distinct (map rp_key (t_role_permissions db @ ps))"
    using assms by (auto simp: image_iff)
  ultimately show ?thesis by (simp only: rp_bulkSave_def if_False) simp
qed

lemma deleteByRoleId_keeps_protected:
  "p \<in> set (t_role_permissions db) \<Longrightarrow> rp_isProtected p \<Longrightarrow>
     p \<in> set (t_role_permissions (rp_deleteByRoleId t i db))"
  by (simp add: rp_deleteByRoleId_def)

lemma system_permission_tx_fails:
  assumes inv: "role_inv db" and r: "role_find (re_tenant env) i db = Some r"
    and sys: "role_kind r = SYSTEM" "role_systemKey r = Some k"
    and all: "omitted_protected r (rpd_codes dto) = []"
  shows "\<exists>e. updatePermissions_tx env i dto db = Fail e"
proof -
  have "holds_protected db r"
    using inv role_find_SomeD[OF r] by (simp add: role_inv_def protected_intact_iff)
  then obtain p where p: "p \<in> set (t_role_permissions db)" "rp_roleId p = role_id r"
      "rp_code p = ''employee.view''" "rp_isProtected p"
    using sys protected_codes_nonempty unfolding holds_protected_def by blast
  have "''employee.view'' \<in> set (rpd_codes dto)"
    using all sys protected_codes_nonempty[of k] by (auto simp: omitted_protected_def filter_empty_conv)
  then have "\<exists>q \<in> set (permission_rows env (role_id r) (protected_set_of r) (rpd_codes dto)). rp_key q = rp_key p"
    using p by (auto simp: permission_rows_def rp_key_def)
  then obtain e where "rp_bulkSave (permission_rows env (role_id r) (protected_set_of r) (rpd_codes dto))
      (rp_deleteByRoleId (re_tenant env) (role_id r) db) = Fail e"
    using bulkSave_conflict[OF deleteByRoleId_keeps_protected[OF p(1,4)]] by metis
  then show ?thesis using r
    by (auto simp: updatePermissions_tx_def find_required_def version_guard_def split: option.splits)
qed

lemma bulkSave_rows:
  "rp_bulkSave ps db = Ok db' \<Longrightarrow> t_role_permissions db' = t_role_permissions db @ ps"
  by (auto simp: rp_bulkSave_def split: if_splits)

lemma updateCustom_tx_rows:
  assumes "updateCustom_tx env i dto db = Ok (r', db')"
  shows "t_role_permissions db' =
     delete_rows (\<lambda>p. rp_roleId p = role_id r' \<and> \<not> rp_isProtected p \<and> rp_tenant p = re_tenant env)
       (t_role_permissions db)
     @ permission_rows env (role_id r') unprotected (urd_codes dto)"
  using assms
  by (auto simp: updateCustom_tx_def Let_def rp_deleteByRoleId_def touch_def
      dest!: bulkSave_rows role_save_Ok(1))

section \<open>Impact counts\<close>

definition users_reached :: "role_env \<Rightarrow> uuid \<Rightarrow> authz_db \<Rightarrow> uuid set" where
  "users_reached env i db =
    uer_userId ` {e \<in> set (t_effective_roles db). uer_roleId e = i \<and> uer_tenant e = re_tenant env}"

definition groups_assigned :: "role_env \<Rightarrow> uuid \<Rightarrow> authz_db \<Rightarrow> uuid set" where
  "groups_assigned env i db =
    ugr_groupId ` {e \<in> set (t_group_roles db). ugr_roleId e = i \<and> ugr_tenant e = re_tenant env}"

lemma countActiveUserReach_eq:
  "countActiveUserReach (re_queries_ok env) (re_tenant env) i db =
     (if re_queries_ok env then int (card (users_reached env i db)) else 0)"
  by (simp add: countActiveUserReach_def length_js_set_of users_reached_def)

lemma countAssignedUserGroups_eq:
  "countAssignedUserGroups (re_queries_ok env) (re_tenant env) i db =
     (if re_queries_ok env then int (card (groups_assigned env i db)) else 0)"
  by (simp add: countAssignedUserGroups_def length_js_set_of groups_assigned_def)

lemma finite_groups_assigned [simp]: "finite (groups_assigned env i db)"
  by (simp add: groups_assigned_def)

definition impact_of :: "role_env \<Rightarrow> uuid \<Rightarrow> authz_db \<Rightarrow> int \<times> int" where
  "impact_of env i db = countAssignedUserGroupAndUser (re_queries_ok env) (re_tenant env) i db"

lemma impact_of_eq:
  "impact_of env i db =
     (if re_queries_ok env then (int (card (groups_assigned env i db)), int (card (users_reached env i db)))
      else (0, 0))"
  by (simp add: impact_of_def countAssignedUserGroupAndUser_def countActiveUserReach_eq
      countAssignedUserGroups_eq)

lemma checks_Ok_impact:
  "updateCustom_checks env i ud db = Ok p \<Longrightarrow> p = impact_of env i db"
  "deactivate_checks env i dd db = Ok p \<Longrightarrow> p = impact_of env i db"
  "updatePermissions_checks env i qd db = Ok n \<Longrightarrow> n = snd (impact_of env i db)"
  by (auto simp: updateCustom_checks_def deactivate_checks_def updatePermissions_checks_def
      impact_of_def countAssignedUserGroupAndUser_def dest!: role_find_SomeD)

lemma run_role_tx_reply:
  "fst (case run_role_tx env tx w of (Inl e, w') \<Rightarrow> (Fail e, w')
        | (Inr r, w') \<Rightarrow> (Ok (Role_reply r (f r w')), w')) \<noteq> Ok (Confirm_users n)"
  "fst (case run_role_tx env tx w of (Inl e, w') \<Rightarrow> (Fail e, w')
        | (Inr r, w') \<Rightarrow> (Ok (Role_reply r (f r w')), w')) \<noteq> Ok (Confirm_groups g n)"
  by (auto split: prod.splits sum.splits)

section \<open>Seeding\<close>

lemma disjoint_after_insert: "R' \<subseteq> insert a R \<Longrightarrow> a \<notin> A \<Longrightarrow> insert a A \<inter> R = {} \<Longrightarrow> A \<inter> R' = {}"
  by blast

lemma find_save_row_new:
  "key r \<notin> key ` set rows \<Longrightarrow> find P (save_row key r rows)
     = (case find P rows of Some x \<Rightarrow> Some x | None \<Rightarrow> if P r then Some r else None)"
  by (auto simp: save_row_def find_append split: option.splits)

lemma seed_one_found:
  assumes "seed_one env (re_tenant env) ids k (c, db) = Ok (c', db')" "ids k \<notin> role_id ` set (t_roles db)"
  shows "(\<exists>x ps. c' = c @ [(x, ps)] \<and> role_findBySystemKey (re_tenant env) k db' = Some x) \<and>
    (\<forall>k' x. role_findBySystemKey (re_tenant env) k' db = Some x \<longrightarrow>
       role_findBySystemKey (re_tenant env) k' db' = Some x) \<and>
    role_id ` set (t_roles db') \<subseteq> insert (ids k) (role_id ` set (t_roles db))"
proof (cases "role_findBySystemKey (re_tenant env) k db")
  case (Some r)
  then show ?thesis using assms by (auto simp: seed_one_def)
next
  case None
  have key: "tpl_key (SYSTEM_ROLE_TEMPLATES k) = k" by (cases k) simp_all
  have "t_roles db1 = t_roles db2" if "rp_bulkSave ps db2 = Ok db1" for ps db1 db2
    by (rule bulkSave_roles[OF that])
  then show ?thesis
    using assms None key
    by (auto simp: seed_one_def Let_def role_findBySystemKey_def roles_table.rows_save
        find_save_row_new set_save_row dest!: role_save_Ok(1) split: option.splits)
qed

lemma seed_all_again:
  assumes "\<forall>k \<in> set ks. role_findBySystemKey (re_tenant env) k db = Some (f k)"
  shows "\<exists>c'. seed_all env t ids ks (c, db) = Ok (c', db) \<and> map fst c' = map fst c @ map f ks"
  using assms
proof (induction ks arbitrary: c)
  case (Cons k ks)
  then obtain c' where
    "seed_all env t ids ks (c @ [(f k, role_permissions_of (role_id (f k)) db)], db) = Ok (c', db)"
    "map fst c' = map fst (c @ [(f k, role_permissions_of (role_id (f k)) db)]) @ map f ks"
    by fastforce
  then show ?case using Cons(2) by (simp add: seed_one_def)
qed simp

lemma seed_all_found:
  assumes "seed_all env (re_tenant env) ids ks (c, db) = Ok (c', db')" "distinct (map ids ks)"
    and "ids ` set ks \<inter> role_id ` set (t_roles db) = {}"
  shows "\<exists>f. map fst c' = map fst c @ map f ks \<and>
    (\<forall>k \<in> set ks. role_findBySystemKey (re_tenant env) k db' = Some (f k)) \<and>
    (\<forall>k' x. role_findBySystemKey (re_tenant env) k' db = Some x \<longrightarrow>
       role_findBySystemKey (re_tenant env) k' db' = Some x)"
  using assms
proof (induction ks arbitrary: c db)
  case (Cons k ks)
  obtain c1 db1 where one: "seed_one env (re_tenant env) ids k (c, db) = Ok (c1, db1)"
      and rest: "seed_all env (re_tenant env) ids ks (c1, db1) = Ok (c', db')"
    using Cons(2) by auto
  have new: "ids k \<notin> role_id ` set (t_roles db)" using Cons(4) by auto
  note o = seed_one_found[OF one new]
  have fresh: "ids ` set ks \<inter> role_id ` set (t_roles db1) = {}"
  proof -
    have "role_id ` set (t_roles db1) \<subseteq> insert (ids k) (role_id ` set (t_roles db))"
      by (rule conjunct2[OF conjunct2[OF o]])
    moreover have "ids k \<notin> ids ` set ks" using Cons(3) by simp
    moreover have "insert (ids k) (ids ` set ks) \<inter> role_id ` set (t_roles db) = {}"
      using Cons(4) by simp
    ultimately show ?thesis by (rule disjoint_after_insert)
  qed
  have d: "distinct (map ids ks)" using Cons(3) by simp
  from Cons(1)[OF rest d fresh] obtain f where f: "map fst c' = map fst c1 @ map f ks"
      "\<forall>k \<in> set ks. role_findBySystemKey (re_tenant env) k db' = Some (f k)"
      "\<forall>k' x. role_findBySystemKey (re_tenant env) k' db1 = Some x \<longrightarrow>
         role_findBySystemKey (re_tenant env) k' db' = Some x"
    by blast
  obtain x ps where x: "c1 = c @ [(x, ps)]" "role_findBySystemKey (re_tenant env) k db1 = Some x"
    using o by blast
  define g where "g = f(k := x)"
  have "k \<notin> set ks" using Cons(3) by auto
  then have "map g ks = map f ks" "g k = x" by (auto simp: g_def)
  moreover have "role_findBySystemKey (re_tenant env) k' db' = Some y"
    if "role_findBySystemKey (re_tenant env) k' db = Some y" for k' y
    using that o f(3) by blast
  moreover have "\<forall>k' \<in> set (k # ks). role_findBySystemKey (re_tenant env) k' db' = Some (g k')"
    using f(2,3) x(2) by (auto simp: g_def)
  ultimately show ?case using f(1) x(1) by (intro exI[of _ g]) simp
qed auto

section \<open>Properties\<close>

text \<open>A sample database: one tenant with its administrator seeded and one custom role.\<close>

definition sample_env :: role_env where
  "sample_env = \<lparr> re_tenant = ''t'', re_user = ''u'', re_now = ''now'',
     re_graph = buildGraph platform_definitions, re_key = (\<lambda>t i. t @ '':'' @ i), re_queries_ok = True \<rparr>"

definition sample_admin :: role where
  "sample_admin = \<lparr> role_id = ''adm'', role_tenant = ''t'', role_name = ''Built-in Administrator'',
     role_description = None, role_kind = SYSTEM, role_state = Role_active,
     role_systemKey = Some ADMINISTRATOR, role_version = 1, role_projectionVersion = 1,
     role_createdBy = None, role_updatedBy = None \<rparr>"

definition sample_custom :: role where
  "sample_custom = \<lparr> role_id = ''c1'', role_tenant = ''t'', role_name = ''Reader'',
     role_description = None, role_kind = CUSTOM, role_state = Role_active,
     role_systemKey = None, role_version = 4, role_projectionVersion = 1,
     role_createdBy = None, role_updatedBy = None \<rparr>"

definition sample_db :: authz_db where
  "sample_db = \<lparr> t_roles = [sample_admin, sample_custom],
     t_role_permissions =
       map (\<lambda>q. \<lparr> rp_tenant = ''t'', rp_roleId = ''adm'', rp_code = tpl_code q,
                  rp_isProtected = tpl_isProtected q \<rparr>) (tpl_permissions (SYSTEM_ROLE_TEMPLATES ADMINISTRATOR))
       @ permission_rows sample_env ''c1'' unprotected [''employee.view''],
     t_groups = [], t_group_roles = [], t_memberships = [], t_effective_roles = [], t_outbox = [] \<rparr>"

definition sample_world :: role_world where
  "sample_world = \<lparr> rw_db = sample_db, rw_cache = [] \<rparr>"

lemma sample_ids_ok: "ids_ok (sample_db, {''adm'', ''c1''})"
proof -
  have "role_inv sample_db" unfolding role_inv_def by (intro conjI; code_simp)
  then show ?thesis by (simp add: ids_ok_def sample_db_def sample_admin_def sample_custom_def)
qed

text \<open>
  C5: A committed role update, deactivation or permission change that names the version it expects
  applies to exactly the content the client read at that version, whatever other role transactions
  ran in between, and moves the role to the next version: no concurrent change is overwritten.
\<close>

theorem no_lost_role_update:
  assumes "ids_ok s0" "role_step\<^sup>*\<^sup>* s0 (db, ids)" "role_lookup i s0 = Some R"
    and "(updateCustom_tx env i ud db = Ok (r', db') \<and> urd_version ud = Some (role_version R)) \<or>
         (updatePermissions_tx env i pd db = Ok (r', db') \<and> rpd_version pd = Some (role_version R)) \<or>
         (deactivate_tx env i dd imp db = Ok (r', db') \<and> drd_version dd = Some (role_version R))"
  shows "\<exists>r. role_find (re_tenant env) i db = Some r \<and> role_content r = role_content R \<and>
     role_version r' = role_version R + 1"
proof -
  have ok: "ids_ok (db, ids)" using role_versions.ok_steps[OF assms(2,1)] by simp
  obtain r where r: "role_find (re_tenant env) i db = Some r" "role_version r = role_version R"
    using assms(4)
    by (auto simp: updateCustom_tx_def updatePermissions_tx_def deactivate_tx_def)
  have "changes_one_role env i db r' db'"
    using assms(4) updateCustom_tx_changes updatePermissions_tx_changes deactivate_tx_changes
    by blast
  then have "role_version r' = role_version R + 1"
    using r by (auto simp: changes_one_role_def updates_row_def)
  moreover have "role_lookup i (db, ids) = Some r"
    using r(1) role_find_lookup[OF ids_ok_distinct[OF ok]] by blast
  ultimately show ?thesis
    using r role_versions.same_version_same_content[OF assms(2,1,3)] by blast
qed

definition sample_update :: update_role_dto where
  "sample_update = \<lparr> urd_name = ''Writer'', urd_description = None, urd_version = Some 4,
     urd_codes = [''employee.view'', ''employee.update''], urd_confirmed = None \<rparr>"

theorem no_lost_role_update_witness:
  "\<exists>r' db'. updateCustom_tx sample_env ''c1'' sample_update sample_db = Ok (r', db') \<and> role_version r' = 5"
proof -
  have l: "role_lookup ''c1'' (sample_db, {''adm'', ''c1''}) = Some sample_custom" by code_simp
  have "is_ok (updateCustom_tx sample_env ''c1'' sample_update sample_db)" by code_simp
  then obtain r' db' where u: "updateCustom_tx sample_env ''c1'' sample_update sample_db = Ok (r', db')"
    by (auto simp: is_ok_iff)
  have "urd_version sample_update = Some (role_version sample_custom)" by code_simp
  then have "\<exists>r. role_find (re_tenant sample_env) ''c1'' sample_db = Some r \<and>
      role_content r = role_content sample_custom \<and> role_version r' = role_version sample_custom + 1"
    using no_lost_role_update[OF sample_ids_ok _ l, of sample_db _ sample_env sample_update r' db'] u
    by blast
  then show ?thesis using u by (auto simp: sample_custom_def)
qed

text \<open>
  C25: Every handler of the role service, whatever snapshot its checks read and whether it succeeds,
  asks for confirmation or fails, leaves the tables consistent: unique role ids, unique names
  within a tenant, one row per role and permission code, versions of at least one, and every
  system role holding all protected permissions of its template.
\<close>

theorem role_handlers_keep_invariant:
  assumes "role_inv (rw_db w)"
  shows "role_inv (rw_db (snd (createCustom env nid cd db0 w))) \<and>
     role_inv (rw_db (snd (copyRole env nid i pd db0 w))) \<and>
     role_inv (rw_db (snd (updateCustom env i ud db0 w))) \<and>
     role_inv (rw_db (snd (deactivate env i dd db0 w))) \<and>
     role_inv (rw_db (snd (reactivate env i db0 w))) \<and>
     role_inv (rw_db (snd (rename env i rd w))) \<and>
     role_inv (rw_db (snd (updatePermissions env i qd db0 w))) \<and>
     role_inv (rw_db (snd (deleteRole env i w))) \<and>
     role_inv (rw_db (snd (seedBaselineSystemRoles env t nids w)))"
  by (intro conjI role_handler_invs assms)

theorem role_handlers_keep_invariant_witness:
  "role_inv (rw_db (snd (updateCustom sample_env ''c1'' sample_update sample_db sample_world)))"
proof -
  have "role_inv (rw_db sample_world)"
    using sample_ids_ok by (simp add: ids_ok_def sample_world_def)
  from role_handlers_keep_invariant[OF this] show ?thesis by blast
qed

text \<open>
  C26: A system role is never deleted and never loses a protected permission: along every sequence of
  committed role transactions it is still there, still a system role, and holds every protected
  permission of its template.
\<close>

theorem system_roles_inviolable:
  assumes "ids_ok s" "role_step\<^sup>*\<^sup>* s s'" "role_lookup i s = Some r" "role_kind r = SYSTEM"
  shows "\<exists>r'. role_lookup i s' = Some r' \<and> role_kind r' = SYSTEM \<and> holds_protected (fst s') r'"
proof -
  obtain r' where r': "role_lookup i s' = Some r'" "role_kind r' = SYSTEM"
    using system_role_persists[OF assms(2,1,3,4)] by blast
  moreover have "ids_ok s'" using role_versions.ok_steps[OF assms(2,1)] by simp
  then have "holds_protected (fst s') r'"
    using r'(1) by (auto simp: ids_ok_def role_inv_def protected_intact_iff role_lookup_def
        dest!: find_row_SomeD)
  ultimately show ?thesis by blast
qed

theorem system_roles_inviolable_witness:
  "\<exists>r'. role_lookup ''adm'' (role_updateProjectionVersion ''t'' ''c1'' 4 sample_db, {''adm'', ''c1''}) = Some r' \<and>
     holds_protected (role_updateProjectionVersion ''t'' ''c1'' 4 sample_db) r'"
proof -
  have l: "role_lookup ''adm'' (sample_db, {''adm'', ''c1''}) = Some sample_admin" by code_simp
  have k: "role_kind sample_admin = SYSTEM" by (simp add: sample_admin_def)
  have "role_step\<^sup>*\<^sup>* (sample_db, {''adm'', ''c1''})
      (role_updateProjectionVersion ''t'' ''c1'' 4 sample_db, {''adm'', ''c1''})"
    by (rule r_into_rtranclp) (rule role_step.projected)
  from system_roles_inviolable[OF sample_ids_ok this l k] show ?thesis by auto
qed

text \<open>
  Changing the permissions of a seeded system role can never succeed: a list that omits a
  protected permission is refused, and one that keeps them all collides with the protected rows,
  which the handler does not delete before it inserts the list again. The world stays as it was.
\<close>

theorem system_role_permissions_frozen:
  assumes "role_inv (rw_db w)" "role_find (re_tenant env) i (rw_db w) = Some r"
    and "role_kind r = SYSTEM" "role_systemKey r = Some k"
  shows "snd (updatePermissions env i dto (rw_db w) w) = w \<and>
     fst (updatePermissions env i dto (rw_db w) w) \<noteq> Ok (Role_reply r' imp)"
proof (cases "updatePermissions_checks env i dto (rw_db w)")
  case (Inr users)
  then have "omitted_protected r (rpd_codes dto) = []"
    using assms(2) by (auto simp: updatePermissions_checks_def)
  then obtain e where "updatePermissions_tx env i dto (rw_db w) = Fail e"
    using system_permission_tx_fails[OF assms] by blast
  then show ?thesis using Inr by (simp add: updatePermissions_def run_role_tx_def)
qed (simp add: updatePermissions_def)

definition sample_permissions :: role_permissions_dto where
  "sample_permissions = \<lparr> rpd_codes = map tpl_code (tpl_permissions (SYSTEM_ROLE_TEMPLATES ADMINISTRATOR)),
     rpd_version = None, rpd_confirmed = Some True \<rparr>"

theorem system_role_permissions_frozen_witness:
  "is_ok (updatePermissions_checks sample_env ''adm'' sample_permissions sample_db) \<and>
   snd (updatePermissions sample_env ''adm'' sample_permissions sample_db sample_world) = sample_world"
proof -
  have 1: "role_inv (rw_db sample_world)"
    using sample_ids_ok by (simp add: ids_ok_def sample_world_def)
  have 2: "role_find (re_tenant sample_env) ''adm'' (rw_db sample_world) = Some sample_admin" by code_simp
  have 3: "role_kind sample_admin = SYSTEM" "role_systemKey sample_admin = Some ADMINISTRATOR"
    by (simp_all add: sample_admin_def)
  have "is_ok (updatePermissions_checks sample_env ''adm'' sample_permissions sample_db)" by code_simp
  with system_role_permissions_frozen[OF 1 2 3, of sample_permissions] show ?thesis
    by (simp add: sample_world_def)
qed

text \<open>
  After a successful custom role update the table holds exactly the requested codes as the role's
  unprotected permissions and the requested set satisfies the dependency rules, but the cache entry
  written for the new version carries no permission at all, because the role the transaction
  returns was read without its permissions.
\<close>

theorem update_empties_cached_permissions:
  assumes "updateCustom env i dto db0 w = (Ok (Role_reply r imp), w')"
  shows "isValid (validatePermissionSet (re_graph env) (urd_codes dto)) \<and>
     set (map rp_code (filter (\<lambda>p. rp_roleId p = role_id r \<and> \<not> rp_isProtected p
         \<and> rp_tenant p = re_tenant env) (t_role_permissions (rw_db w')))) = set (urd_codes dto) \<and>
     map_option cr_permissions (cache_getRole (re_key env) (role_tenant r) (role_id r) (rw_cache w')) = Some [] \<and>
     map_option cr_version (cache_getRole (re_key env) (role_tenant r) (role_id r) (rw_cache w'))
       = Some (role_version r)"
proof -
  obtain imp0 where c: "updateCustom_checks env i dto db0 = Ok imp0"
    using assms by (auto simp: updateCustom_def split: sum.splits)
  obtain db' where tx: "updateCustom_tx env i dto (rw_db w) = Ok (r, db')"
      and w': "w' = \<lparr> rw_db = db', rw_cache = sync_unloaded env r (rw_cache w) \<rparr>"
    using assms c
    by (auto simp: updateCustom_def run_role_tx_def split: sum.splits prod.splits if_splits)
  have "isValid (validatePermissionSet (re_graph env) (urd_codes dto))"
    using c by (auto simp: updateCustom_checks_def validateCodes_def Let_def split: if_splits)
  moreover have "set (map rp_code (filter (\<lambda>p. rp_roleId p = role_id r \<and> \<not> rp_isProtected p
      \<and> rp_tenant p = re_tenant env) (t_role_permissions db'))) = set (urd_codes dto)"
    by (force simp: updateCustom_tx_rows[OF tx] permission_rows_def unprotected_def)
  ultimately show ?thesis
    by (simp add: w' sync_unloaded_def cache_getRole_def syncRole_def)
qed

theorem update_empties_cached_permissions_witness:
  "\<exists>r w'. updateCustom sample_env ''c1'' sample_update sample_db sample_world
        = (Ok (Role_reply r (Some (0, 0))), w') \<and>
     map_option cr_permissions (cache_getRole (re_key sample_env) (role_tenant r) (role_id r) (rw_cache w'))
       = Some []"
proof -
  define p where "p = updateCustom sample_env ''c1'' sample_update sample_db sample_world"
  have "(case fst p of Inr (Role_reply r x) \<Rightarrow> x = Some (0, 0) | _ \<Rightarrow> False)"
    unfolding p_def by code_simp
  then obtain r where "fst p = Ok (Role_reply r (Some (0, 0)))"
    by (auto split: sum.splits role_reply.splits)
  then have "updateCustom sample_env ''c1'' sample_update sample_db sample_world
      = (Ok (Role_reply r (Some (0, 0))), snd p)"
    by (metis p_def prod.collapse)
  from this update_empties_cached_permissions[OF this] show ?thesis by blast
qed

text \<open>
  A role change asks for confirmation, and then changes nothing, exactly when its checks pass, the
  confirmation is missing, the count query worked and the role reaches at least one hundred
  distinct users (a deactivation: is assigned to at least one group). A failed count query is read
  as zero, so the question is then never asked.
\<close>

theorem confirmation_exact:
  "(updateCustom env i ud db0 w = (Ok (Confirm_users n), w') \<longleftrightarrow>
      is_ok (updateCustom_checks env i ud db0) \<and> re_queries_ok env \<and> urd_confirmed ud \<noteq> Some True \<and>
      n = int (card (users_reached env i db0)) \<and> 100 \<le> n \<and> w' = w) \<and>
   (updatePermissions env i qd db0 w = (Ok (Confirm_users n), w') \<longleftrightarrow>
      is_ok (updatePermissions_checks env i qd db0) \<and> re_queries_ok env \<and> rpd_confirmed qd \<noteq> Some True \<and>
      n = int (card (users_reached env i db0)) \<and> 100 \<le> n \<and> w' = w) \<and>
   (deactivate env i dd db0 w = (Ok (Confirm_groups g n), w') \<longleftrightarrow>
      is_ok (deactivate_checks env i dd db0) \<and> re_queries_ok env \<and> drd_confirmed dd \<noteq> Some True \<and>
      g = int (card (groups_assigned env i db0)) \<and> groups_assigned env i db0 \<noteq> {} \<and>
      n = int (card (users_reached env i db0)) \<and> w' = w)"
proof (intro conjI)
  show "updateCustom env i ud db0 w = (Ok (Confirm_users n), w') \<longleftrightarrow>
      is_ok (updateCustom_checks env i ud db0) \<and> re_queries_ok env \<and> urd_confirmed ud \<noteq> Some True \<and>
      n = int (card (users_reached env i db0)) \<and> 100 \<le> n \<and> w' = w"
  proof (cases "updateCustom_checks env i ud db0")
    case (Inr p)
    show ?thesis
      unfolding updateCustom_def Inr checks_Ok_impact(1)[OF Inr] impact_of_eq HIGH_IMPACT_THRESHOLD_def
      by (auto split: prod.splits sum.splits)
  qed (simp add: updateCustom_def)
  show "updatePermissions env i qd db0 w = (Ok (Confirm_users n), w') \<longleftrightarrow>
      is_ok (updatePermissions_checks env i qd db0) \<and> re_queries_ok env \<and> rpd_confirmed qd \<noteq> Some True \<and>
      n = int (card (users_reached env i db0)) \<and> 100 \<le> n \<and> w' = w"
  proof (cases "updatePermissions_checks env i qd db0")
    case (Inr p)
    show ?thesis
      unfolding updatePermissions_def Inr checks_Ok_impact(3)[OF Inr] impact_of_eq HIGH_IMPACT_THRESHOLD_def
      by (auto split: prod.splits sum.splits)
  qed (simp add: updatePermissions_def)
  show "deactivate env i dd db0 w = (Ok (Confirm_groups g n), w') \<longleftrightarrow>
      is_ok (deactivate_checks env i dd db0) \<and> re_queries_ok env \<and> drd_confirmed dd \<noteq> Some True \<and>
      g = int (card (groups_assigned env i db0)) \<and> groups_assigned env i db0 \<noteq> {} \<and>
      n = int (card (users_reached env i db0)) \<and> w' = w"
  proof (cases "deactivate_checks env i dd db0")
    case (Inr p)
    show ?thesis
      unfolding deactivate_def Inr checks_Ok_impact(2)[OF Inr] impact_of_eq
      by (auto simp: card_gt_0_iff split: prod.splits sum.splits)
  qed (simp add: deactivate_def)
qed

text \<open>
  Every system role template is an acceptable permission set of the platform catalog, and so are
  its protected permissions alone.
\<close>

theorem system_templates_accepted:
  "list_all (\<lambda>k. isValid (validatePermissionSet (buildGraph platform_definitions)
       (map tpl_code (tpl_permissions (SYSTEM_ROLE_TEMPLATES k))))) all_system_role_keys \<and>
   list_all (\<lambda>k. isValid (validatePermissionSet (buildGraph platform_definitions)
       (protected_codes k))) all_system_role_keys"
  by code_simp

text \<open>
  Seeding the system roles with fresh identifiers gives the tenant one role per system key, in the
  order of the keys, and is idempotent: seeding again, with whatever identifiers, creates nothing,
  changes no table and returns the same roles.
\<close>

theorem seeding_is_idempotent:
  assumes "seedBaselineSystemRoles env (re_tenant env) ids w = (Ok rs, w')" "inj ids"
    and "range ids \<inter> role_id ` set (t_roles (rw_db w)) = {}"
  shows "map (\<lambda>k. role_findBySystemKey (re_tenant env) k (rw_db w')) all_system_role_keys = map Some rs \<and>
     (\<exists>w2. seedBaselineSystemRoles env (re_tenant env) ids2 w' = (Ok rs, w2) \<and> rw_db w2 = rw_db w')"
proof -
  obtain c where c: "seed_all env (re_tenant env) ids all_system_role_keys ([], rw_db w) = Ok (c, rw_db w')"
      "rs = map fst c"
    using assms(1) by (auto simp: seedBaselineSystemRoles_def split: sum.splits)
  have d: "distinct (map ids all_system_role_keys)"
    using assms(2) by (auto simp: distinct_map inj_on_def all_system_role_keys_def)
  have "ids ` set all_system_role_keys \<inter> role_id ` set (t_roles (rw_db w)) = {}"
    using assms(3) by auto
  from seed_all_found[OF c(1) d this] obtain f where
    f: "rs = map f all_system_role_keys"
      "\<forall>k \<in> set all_system_role_keys. role_findBySystemKey (re_tenant env) k (rw_db w') = Some (f k)"
    using c(2) by auto
  from seed_all_again[OF f(2), of "re_tenant env" ids2 "[]"] f show ?thesis
    by (auto simp: seedBaselineSystemRoles_def)
qed

definition seed_ids :: "system_role_key \<Rightarrow> uuid" where
  "seed_ids k = ''id-'' @ system_role_key_string k"

definition empty_world :: role_world where
  "empty_world = \<lparr> rw_db = \<lparr> t_roles = [], t_role_permissions = [], t_groups = [], t_group_roles = [],
     t_memberships = [], t_effective_roles = [], t_outbox = [] \<rparr>, rw_cache = [] \<rparr>"

theorem seeding_is_idempotent_witness:
  "\<exists>rs w' w2. seedBaselineSystemRoles sample_env ''t'' seed_ids empty_world = (Ok rs, w') \<and>
     seedBaselineSystemRoles sample_env ''t'' seed_ids w' = (Ok rs, w2) \<and> rw_db w2 = rw_db w'"
proof -
  have t: "re_tenant sample_env = ''t''" by (simp add: sample_env_def)
  have "is_ok (fst (seedBaselineSystemRoles sample_env ''t'' seed_ids empty_world))" by code_simp
  then obtain rs w' where s: "seedBaselineSystemRoles sample_env ''t'' seed_ids empty_world = (Ok rs, w')"
    by (metis is_ok_iff prod.collapse)
  have "inj seed_ids"
  proof (rule injI)
    fix a b assume "seed_ids a = seed_ids b"
    then show "a = b" by (cases a; cases b) (simp_all add: seed_ids_def system_role_key_string_def)
  qed
  from seeding_is_idempotent[of sample_env seed_ids empty_world rs w', unfolded t, OF s this]
  show ?thesis using s by (auto simp: empty_world_def)
qed

end
