(* ===== verification/User_Group_Properties.thy ===== *)
theory User_Group_Properties
  imports User_Group_Service Role_Properties
begin

text \<open>
  Properties of user groups: the tables stay consistent under every handler and any interleaving
  of its checks and its transaction, what role assignment leaves behind, what a change of scope
  stores, and the update that optimistic locking does not catch.
\<close>

section \<open>Saving a group\<close>

definition group_name_key :: "user_group \<Rightarrow> tenant \<times> string" where
  "group_name_key g = (group_tenant g, group_name g)"

definition rule_indexed :: "user_group \<Rightarrow> bool" where
  "rule_indexed g = (validateRule (json_of_rule (group_matchingRule g)) = Ok (group_ruleAttributeKeys g))"

definition group_ok :: "user_group \<Rightarrow> bool" where
  "group_ok g = (1 \<le> group_version g \<and> rule_indexed g)"

definition group_tables_ok :: "authz_db \<Rightarrow> bool" where
  "group_tables_ok db \<longleftrightarrow>
     distinct (map group_id (t_groups db)) \<and> distinct (map group_name_key (t_groups db)) \<and>
     distinct (map ugr_key (t_group_roles db)) \<and>
     (\<forall>g \<in> set (t_groups db). group_ok g) \<and>
     (\<forall>r \<in> set (t_group_roles db). ugr_roleId r \<in> role_id ` set (t_roles db) \<and>
        ugr_groupId r \<in> group_id ` set (t_groups db))"

definition saved_group :: "group_column list \<Rightarrow> user_group \<Rightarrow> authz_db \<Rightarrow> user_group" where
  "saved_group u g db =
    (case find_row group_id (group_id g) (t_groups db) of None \<Rightarrow> g | Some old \<Rightarrow> merge_columns u old g)"

lemma saved_group_fields [simp]:
  "group_id (saved_group u g db) = group_id g" "group_tenant (saved_group u g db) = group_tenant g"
  "group_name (saved_group u g db) = group_name g" "group_version (saved_group u g db) = group_version g"
  "group_state (saved_group u g db) = group_state g"
  "group_scopeType (saved_group u g db) = group_scopeType g"
  "group_matchingRule (saved_group u g db) = group_matchingRule g"
  "group_ruleAttributeKeys (saved_group u g db) = group_ruleAttributeKeys g"
  by (simp_all add: saved_group_def merge_columns_def split: option.splits)

lemma saved_group_ok [simp]: "group_ok (saved_group u g db) = group_ok g"
  by (simp add: group_ok_def rule_indexed_def)

lemma merge_nothing [simp]: "merge_columns [] old g = g"
  by (simp add: merge_columns_def)

lemma saved_group_full [simp]: "saved_group [] g db = g"
  by (simp add: saved_group_def split: option.split)

lemma group_save_Ok_iff:
  "group_save u g db = Ok db' \<longleftrightarrow>
     (\<forall>x \<in> set (t_groups db). group_name_key x = group_name_key g \<longrightarrow> group_id x = group_id g) \<and>
     db' = put_group (saved_group u g db) db"
  by (auto simp: group_save_def saved_group_def group_name_key_def)

lemma group_tables_ok_save:
  assumes ok: "group_tables_ok db" and s: "group_save u g db = Ok db'" and g: "group_ok g"
  shows "group_tables_ok db'" and "group_id g \<in> group_id ` set (t_groups db')"
proof -
  let ?s = "saved_group u g db"
  have d: "db' = put_group ?s db" using s by (simp add: group_save_Ok_iff)
  have "distinct (map group_name_key (t_groups (put_group ?s db)))"
    unfolding groups_table.rows_save
    using ok s by (intro distinct_map_other_key) (auto simp: group_tables_ok_def group_save_Ok_iff group_name_key_def)
  moreover have "group_id ` set (t_groups (put_group ?s db)) = insert (group_id g) (group_id ` set (t_groups db))"
    by (auto simp: groups_table.set_rows_save image_iff)
  ultimately show "group_tables_ok db'"
    using ok g groups_table.keys_kept(1)
    by (auto simp: d group_tables_ok_def groups_table.set_rows_save)
  show "group_id g \<in> group_id ` set (t_groups db')"
    by (simp add: d groups_table.set_rows_save)
qed

lemma group_tables_ok_outbox [simp]:
  "group_tables_ok (save_outbox e db) = group_tables_ok db"
  "group_tables_ok (save_outbox_when b e db) = group_tables_ok db"
  by (simp_all add: group_tables_ok_def save_outbox_when_def)

lemma group_tables_ok_batchDelete: "group_tables_ok db \<Longrightarrow> group_tables_ok (ugr_batchDelete env i ids db)"
  by (simp add: ugr_batchDelete_def group_tables_ok_def distinct_delete_rows)

lemma batchDelete_tables [simp]:
  "t_groups (ugr_batchDelete env i ids db) = t_groups db"
  "t_roles (ugr_batchDelete env i ids db) = t_roles db"
  by (simp_all add: ugr_batchDelete_def)

lemma bulkSave_Ok_iff:
  "ugr_bulkSave rs db = Ok db' \<longleftrightarrow>
     (if rs = [] then db' = db
      else (\<forall>r \<in> set rs. ugr_roleId r \<in> role_id ` set (t_roles db)) \<and>
           distinct (map ugr_key (t_group_roles db @ rs)) \<and>
           db' = db\<lparr> t_group_roles := t_group_roles db @ rs \<rparr>)"
  by (auto simp: ugr_bulkSave_def list_all_iff)

lemma group_tables_ok_bulkSave:
  assumes "group_tables_ok db" "ugr_bulkSave (new_group_roles env i ids) db = Ok db'"
    and "i \<in> group_id ` set (t_groups db)"
  shows "group_tables_ok db'"
  using assms by (auto simp: bulkSave_Ok_iff group_tables_ok_def new_group_roles_def split: if_splits)

lemma group_find_SomeD:
  "group_find env i db = Some g \<Longrightarrow> g \<in> set (t_groups db) \<and> group_id g = i \<and> group_tenant g = ge_tenant env"
  unfolding group_find_def by (drule find_SomeD) simp

lemma group_required_Ok_iff [simp]: "group_required env i db = Ok g \<longleftrightarrow> group_find env i db = Some g"
  by (auto simp: group_required_def split: option.splits)

lemma group_version_guard_Ok [simp]: "group_version_guard v g = Ok u \<longleftrightarrow> group_version g = v"
  by (simp add: group_version_guard_def)

lemma and_then_Ok_iff: "and_then x f = Ok y \<longleftrightarrow> (\<exists>z. x = Ok z \<and> f z = Ok y)"
  by (cases x) simp_all

lemma check_rule_Ok [simp]: "check_rule r = Ok keys \<longleftrightarrow> validateRule (json_of_rule r) = Ok keys"
  by (auto simp: check_rule_def split: sum.splits)

lemma found_group_ok: "group_tables_ok db \<Longrightarrow> group_find env i db = Some g \<Longrightarrow> group_ok g"
  using group_find_SomeD by (auto simp: group_tables_ok_def)

lemma group_ok_untouched_rule:
  "group_matchingRule g' = group_matchingRule g \<Longrightarrow> group_ruleAttributeKeys g' = group_ruleAttributeKeys g \<Longrightarrow>
     group_version g' = group_version g + 1 \<Longrightarrow> group_ok g \<Longrightarrow> group_ok g'"
  by (simp add: group_ok_def rule_indexed_def)

section \<open>Every handler keeps the tables consistent\<close>

lemma group_handler_keeps:
  assumes "group_tables_ok db"
    and "\<And>c x db'. checks = Ok c \<Longrightarrow> tx c db = Ok (x, db') \<Longrightarrow> group_tables_ok db'"
  shows "group_tables_ok (snd (group_handler checks tx db))"
  using assms by (auto simp: group_handler_def run_group_tx_def split: sum.splits)

lemma agg_create_Ok:
  "agg_create p = Ok a \<Longrightarrow> group_ok (fromAggregate new_id a)"
  by (auto simp: agg_create_def and_then_Ok_iff group_ok_def rule_indexed_def fromAggregate_def split: if_splits)

lemma create_keeps:
  "group_tables_ok db \<Longrightarrow> group_tables_ok (snd (createGroup env new_id dto db0 db))"
  unfolding createGroup_def
proof (rule group_handler_keeps)
  fix a x db'
  assume ok: "group_tables_ok db" and c: "create_group_checks env dto db0 = Ok a"
    and tx: "create_group_tx env new_id dto a db = Ok (x, db')"
  have g: "group_ok (fromAggregate new_id a)"
    using c agg_create_Ok by (auto simp: create_group_checks_def and_then_Ok_iff)
  obtain db1 db2 where s: "group_save [] (fromAggregate new_id a) db = Ok db1"
      "ugr_bulkSave (new_group_roles env new_id (roles_or_empty (cgd_roleIds dto))) db1 = Ok db2"
      "group_tables_ok db' = group_tables_ok db2"
    using tx by (auto simp: create_group_tx_def Let_def and_then_Ok_iff)
  note k = group_tables_ok_save[OF ok s(1) g]
  show "group_tables_ok db'"
    using group_tables_ok_bulkSave[OF k(1) s(2)] k(2) s(3) by (simp add: fromAggregate_def)
qed

lemma role_rows_keep:
  assumes ok: "group_tables_ok db" and s: "group_save u g db = Ok db1" and g: "group_ok g" "group_id g = i"
    and b: "ugr_bulkSave (new_group_roles env i added) (ugr_batchDelete env i removed db1) = Ok db2"
  shows "group_tables_ok db2"
proof -
  note k = group_tables_ok_save[OF ok s g(1)]
  show ?thesis
    by (rule group_tables_ok_bulkSave[OF group_tables_ok_batchDelete[OF k(1)] b]) (use k(2) g(2) in simp)
qed

lemma update_keeps:
  "group_tables_ok db \<Longrightarrow> group_tables_ok (snd (updateGroup env i dto expected db))"
  unfolding updateGroup_def
proof (rule group_handler_keeps)
  fix c x db'
  assume ok: "group_tables_ok db" and c: "update_group_checks env i dto expected db = Ok c"
    and tx: "update_group_tx env i dto c db = Ok (x, db')"
  have f: "group_find env i db = Some (fst c)" "validateRule (json_of_rule (ugd_matchingRule dto)) = Ok (snd c)"
    using c by (auto simp: update_group_checks_def and_then_Ok_iff)
  let ?g = "(fst c)\<lparr> group_name := js_trim (ugd_name dto),
                group_description := map_option js_trim (ugd_description dto),
                group_scopeType := ugd_scopeType dto,
                group_scopeRefId := map_option js_trim (ugd_scopeRefId dto),
                group_matchingRule := ugd_matchingRule dto, group_ruleAttributeKeys := snd c,
                group_version := group_version (fst c) + 1, group_updatedBy := Some (ge_user env) \<rparr>"
  have g: "group_ok ?g" "group_id ?g = i"
    using found_group_ok[OF ok f(1)] f group_find_SomeD[OF f(1)] by (auto simp: group_ok_def rule_indexed_def)
  obtain db1 db2 added removed where s: "group_save (undefined_columns (ugd_description dto) (ugd_scopeRefId dto)) ?g db = Ok db1"
      "ugr_bulkSave (new_group_roles env i added) (ugr_batchDelete env i removed db1) = Ok db2"
      "group_tables_ok db' = group_tables_ok db2"
    using tx by (auto simp: update_group_tx_def Let_def and_then_Ok_iff)
  show "group_tables_ok db'" using role_rows_keep[OF ok s(1) g s(2)] s(3) by simp
qed

lemma transition_keeps:
  assumes ok: "group_tables_ok db" and g: "group_ok (fst c)" "agg_version (snd c) = group_version (fst c) + 1"
    and tx: "transition_tx env event c db = Ok (x, db')"
  shows "group_tables_ok db'"
proof -
  let ?g = "(fst c)\<lparr> group_state := agg_status (snd c), group_version := agg_version (snd c),
                       group_updatedBy := agg_updatedBy (snd c) \<rparr>"
  obtain db1 where s: "group_save [] ?g db = Ok db1" "group_tables_ok db' = group_tables_ok db1"
    using tx by (auto simp: transition_tx_def Let_def and_then_Ok_iff)
  have "group_ok ?g" by (rule group_ok_untouched_rule[OF _ _ _ g(1)]) (simp_all add: g(2))
  then show ?thesis using group_tables_ok_save(1)[OF ok s(1)] s(2) by simp
qed

lemma lifecycle_keeps:
  assumes ok: "group_tables_ok db0" "group_tables_ok db"
  shows "group_tables_ok (snd (deactivateGroup env i expected confirmed db0 db))"
    and "group_tables_ok (snd (reactivateGroup env i expected db0 db))"
proof -
  have "group_ok (fst c) \<and> agg_version (snd c) = group_version (fst c) + 1"
    if "deactivate_group_checks env i expected confirmed db0 = Ok c \<or> reactivate_group_checks env i expected db0 = Ok c" for c
    using that found_group_ok[OF ok(1)]
    by (auto simp: deactivate_group_checks_def reactivate_group_checks_def and_then_Ok_iff agg_deactivate_def
        agg_reactivate_def agg_touch_def reconstruct_def split: if_splits)
  then show "group_tables_ok (snd (deactivateGroup env i expected confirmed db0 db))"
    and "group_tables_ok (snd (reactivateGroup env i expected db0 db))"
    unfolding deactivateGroup_def reactivateGroup_def
    by (auto intro!: group_handler_keeps[OF ok(2)] transition_keeps[OF ok(2)])
qed

lemma update_scope_checks_Ok:
  assumes "update_scope_checks env i dto db = Ok c"
  shows "\<exists>g v. group_find env i db = Some g \<and> validateScope (gsd_scopeType dto) (gsd_scopeRefId dto) = Ok v \<and>
     group_version g = gsd_expectedVersion dto \<and>
     c = (g, ((group_scopeType g, group_scopeRefId g), v),
          agg_touch (Some (ge_user env)) ((reconstruct g [])\<lparr> agg_scopeType := fst v, agg_scopeRefId := snd v \<rparr>))"
  using assms by (auto simp: update_scope_checks_def and_then_Ok_iff agg_updateScope_def reconstruct_def)

lemma scope_keeps:
  "group_tables_ok db0 \<Longrightarrow> group_tables_ok db \<Longrightarrow> group_tables_ok (snd (updateScope env i dto db0 db))"
  unfolding updateScope_def
proof (rule group_handler_keeps)
  fix c x db'
  assume ok: "group_tables_ok db0" "group_tables_ok db" and c: "update_scope_checks env i dto db0 = Ok c"
    and tx: "update_scope_tx env c db = Ok (x, db')"
  obtain g v where g: "group_find env i db0 = Some g"
      "c = (g, ((group_scopeType g, group_scopeRefId g), v),
          agg_touch (Some (ge_user env)) ((reconstruct g [])\<lparr> agg_scopeType := fst v, agg_scopeRefId := snd v \<rparr>))"
    using update_scope_checks_Ok[OF c] by blast
  let ?g = "g\<lparr> group_scopeType := fst v, group_scopeRefId := snd v, group_version := group_version g + 1,
                group_updatedBy := Some (ge_user env) \<rparr>"
  obtain u db1 where s: "group_save u ?g db = Ok db1" "group_tables_ok db' = group_tables_ok db1"
    using tx by (auto simp: update_scope_tx_def Let_def and_then_Ok_iff g(2) agg_touch_def reconstruct_def)
  have "group_ok ?g" by (rule group_ok_untouched_rule[OF _ _ _ found_group_ok[OF ok(1) g(1)]]) simp_all
  then show "group_tables_ok db'" using group_tables_ok_save(1)[OF ok(2) s(1)] s(2) by simp
qed

lemma update_roles_checks_Ok:
  assumes "update_roles_checks env i dto db = Ok c"
  shows "\<exists>g. group_find env i db = Some g \<and> group_version g = grd_expectedVersion dto \<and>
     (let target = js_set_of (grd_roleIds dto); current = findRoleIdsByGroupId env i db in
      c = (g, target, current, replaceRoles target (Some (ge_user env)) (reconstruct g current)))"
  using assms by (auto simp: update_roles_checks_def and_then_Ok_iff Let_def)

lemma roles_keep:
  "group_tables_ok db0 \<Longrightarrow> group_tables_ok db \<Longrightarrow> group_tables_ok (snd (updateRoleAssignments env i dto db0 db))"
  unfolding updateRoleAssignments_def
proof (rule group_handler_keeps)
  fix c x db'
  assume ok: "group_tables_ok db0" "group_tables_ok db" and c: "update_roles_checks env i dto db0 = Ok c"
    and tx: "update_roles_tx env i c db = Ok (x, db')"
  obtain g where g: "group_find env i db0 = Some g"
      "c = (g, js_set_of (grd_roleIds dto), findRoleIdsByGroupId env i db0,
        replaceRoles (js_set_of (grd_roleIds dto)) (Some (ge_user env)) (reconstruct g (findRoleIdsByGroupId env i db0)))"
    using update_roles_checks_Ok[OF c] by (auto simp: Let_def)
  let ?g = "g\<lparr> group_version := group_version g + 1, group_updatedBy := Some (ge_user env) \<rparr>"
  obtain db1 db2 added removed where s: "group_save [] ?g db = Ok db1"
      "ugr_bulkSave (new_group_roles env i added) (ugr_batchDelete env i removed db1) = Ok db2"
      "group_tables_ok db' = group_tables_ok db2"
    using tx by (auto simp: update_roles_tx_def Let_def and_then_Ok_iff g(2) replaceRoles_def agg_touch_def reconstruct_def)
  have "group_ok ?g" by (rule group_ok_untouched_rule[OF _ _ _ found_group_ok[OF ok(1) g(1)]]) simp_all
  moreover have "group_id ?g = i" using group_find_SomeD[OF g(1)] by simp
  ultimately show "group_tables_ok db'" using role_rows_keep[OF ok(2) s(1) _ _ s(2)] s(3) by simp
qed


end
