(* ===== verification/User_Group_Requests.thy ===== *)
theory User_Group_Requests
  imports User_Group_Properties
begin

text \<open>
  What one user-group request leaves behind: the scope and the roles it stores, and the overlap of
  two requests that name the same expected version.
\<close>

section \<open>Finding and saving\<close>

lemma group_find_iff:
  assumes "group_tables_ok db"
  shows "group_find env i db = Some g \<longleftrightarrow>
    g \<in> set (t_groups db) \<and> group_id g = i \<and> group_tenant g = ge_tenant env"
proof -
  have "distinct (map group_id gs) \<Longrightarrow>
      find (\<lambda>g. group_id g = i \<and> group_tenant g = t) gs = Some g
        \<longleftrightarrow> g \<in> set gs \<and> group_id g = i \<and> group_tenant g = t" for gs :: "user_group list" and t
    by (induction gs) (auto simp: rev_image_eqI)
  then show ?thesis using assms by (simp add: group_find_def group_tables_ok_def)
qed

lemma group_find_outbox [simp]:
  "group_find env i (save_outbox e db) = group_find env i db"
  "group_find env i (save_outbox_when b e db) = group_find env i db"
  by (simp_all add: group_find_def save_outbox_when_def)

lemma group_find_saved:
  assumes ok: "group_tables_ok db" and s: "group_save u g db = Ok db'" and g: "group_ok g"
    and t: "group_tenant g = ge_tenant env"
  shows "group_find env (group_id g) db' = Some (saved_group u g db)"
proof -
  note ok' = group_tables_ok_save(1)[OF ok s g]
  have "db' = put_group (saved_group u g db) db" using s by (simp add: group_save_Ok_iff)
  then have "saved_group u g db \<in> set (t_groups db')" by (simp add: groups_table.set_rows_save)
  then show ?thesis using t by (simp add: group_find_iff[OF ok'])
qed

text \<open>A group may be saved under the name its row already has.\<close>

lemma save_same_name:
  assumes ok: "group_tables_ok db" and f: "group_find env i db = Some old"
    and g: "group_id g = i" "group_name_key g = group_name_key old"
  shows "group_save u g db = Ok (put_group (saved_group u g db) db)"
proof -
  have "old \<in> set (t_groups db)" "group_id old = i" using group_find_SomeD[OF f] by simp_all
  then have "\<forall>x \<in> set (t_groups db). group_name_key x = group_name_key g \<longrightarrow> group_id x = group_id g"
    using ok g distinct_map_eqD[of group_name_key "t_groups db" _ old] by (auto simp: group_tables_ok_def)
  then show ?thesis by (simp add: group_save_Ok_iff)
qed

section \<open>Scope\<close>

lemma scope_of_string_iff: "scope_of_string s = Some t \<longleftrightarrow> s = scope_type_string t"
proof
  assume "scope_of_string s = Some t"
  then show "s = scope_type_string t" unfolding scope_of_string_def by (drule_tac find_SomeD) simp
next
  assume "s = scope_type_string t"
  then show "scope_of_string s = Some t"
    by (cases t) (simp_all add: scope_of_string_def all_scope_types_def scope_type_string_def)
qed

lemma scope_type_string_no_alias: "scope_type_string t \<noteq> ''TENANT''" "scope_type_string t \<noteq> []"
  by (cases t; simp add: scope_type_string_def)+

text \<open>
  A scope is accepted exactly when its type is the name of a scope type or the alias TENANT,
  and, for companies, locations and departments, it carries a reference that is not blank; the
  result holds the trimmed reference there and none for every other type.
\<close>

theorem scope_validation_exact:
  "validateScope st ref = Ok (t, r) \<longleftrightarrow>
     (st = scope_type_string t \<or> (st = ''TENANT'' \<and> t = TENANT_WIDE)) \<and>
     (if t \<in> {COMPANY, LOCATION, DEPARTMENT}
      then \<exists>x. ref = Some x \<and> js_trim x \<noteq> [] \<and> r = Some (js_trim x) else r = None)"
proof -
  have wide: "''TENANT_WIDE'' = scope_type_string s \<longleftrightarrow> s = TENANT_WIDE" for s
    by (cases s) (simp_all add: scope_type_string_def)
  have named: "scope_of_string (if st = ''TENANT'' then ''TENANT_WIDE'' else st) = Some s \<longleftrightarrow>
      st = scope_type_string s \<or> (st = ''TENANT'' \<and> s = TENANT_WIDE)" for s
    using scope_type_string_no_alias(1)[of s] by (auto simp: scope_of_string_iff wide)
  show ?thesis
  proof (cases "scope_of_string (if st = ''TENANT'' then ''TENANT_WIDE'' else st)")
    case None
    then have n: "\<not> (st = scope_type_string t \<or> (st = ''TENANT'' \<and> t = TENANT_WIDE))"
      using named[of t] by simp
    have "validateScope st ref \<noteq> Ok (t, r)"
      unfolding validateScope_def None option.case by simp
    then show ?thesis using n by blast
  next
    case (Some s)
    have "st \<noteq> []" using named[of s] Some scope_type_string_no_alias(2)[of s] by auto
    moreover have "(st = scope_type_string t \<or> (st = ''TENANT'' \<and> t = TENANT_WIDE)) \<longleftrightarrow> t = s"
      using named[of t] Some by auto
    ultimately show ?thesis using Some
      by (cases ref) (auto simp: validateScope_def ENTITY_ANCHORED_SCOPES_def simp del: if_split
          split: if_splits)
  qed
qed

definition rescoped :: "group_env \<Rightarrow> scope_type \<times> string option \<Rightarrow> user_group \<Rightarrow> user_group" where
  "rescoped env v g = g\<lparr> group_scopeType := fst v, group_scopeRefId := snd v,
     group_version := group_version g + 1, group_updatedBy := Some (ge_user env) \<rparr>"

lemma rescoped_fields [simp]:
  "group_id (rescoped env v g) = group_id g" "group_tenant (rescoped env v g) = group_tenant g"
  "group_name_key (rescoped env v g) = group_name_key g" "group_ok g \<Longrightarrow> group_ok (rescoped env v g)"
  "group_version (rescoped env v g) = group_version g + 1"
  "group_scopeType (rescoped env v g) = fst v" "group_scopeRefId (rescoped env v g) = snd v"
  using group_ok_untouched_rule[of "rescoped env v g" g]
  by (simp_all add: rescoped_def group_name_key_def)

definition scope_columns :: "string option \<Rightarrow> group_column list" where
  "scope_columns ref = (if ref = None then [Col_scopeRefId] else [])"

text \<open>The row saved by a scope change, and the two events that follow it.\<close>

definition scope_saved :: "group_env \<Rightarrow> scope_type \<times> string option \<Rightarrow> user_group \<Rightarrow> authz_db \<Rightarrow> authz_db" where
  "scope_saved env v g db =
    save_outbox (fromAuthorizationUserGroupUpdated (ge_now env) (group_ctx env) (rescoped env v g) None)
      (save_outbox (fromUserGroupScopeUpdated (ge_now env) (group_ctx env) (rescoped env v g)
          (json_of_scope (group_scopeType g) (group_scopeRefId g)) (json_of_scope (fst v) (snd v))) db)"

lemma scope_saved_facts [simp]:
  "group_tables_ok (scope_saved env v g db) = group_tables_ok db"
  "group_find env' i (scope_saved env v g db) = group_find env' i db"
  by (simp_all add: scope_saved_def)

definition scope_change_of :: "group_env \<Rightarrow> user_group \<Rightarrow> scope_type \<times> string option \<Rightarrow> scope_change" where
  "scope_change_of env g v = (g, ((group_scopeType g, group_scopeRefId g), v),
     agg_touch (Some (ge_user env)) ((reconstruct g [])\<lparr> agg_scopeType := fst v, agg_scopeRefId := snd v \<rparr>))"

lemma update_scope_tx_eq:
  "update_scope_tx env (scope_change_of env g v) db =
     and_then (group_save (scope_columns (snd v)) (rescoped env v g) db)
       (\<lambda>db1. Ok (scope_details_of (rescoped env v g), scope_saved env v g db1))"
  unfolding update_scope_tx_def scope_change_of_def Let_def fst_conv snd_conv scope_saved_def rescoped_def
    scope_columns_def agg_touch_def reconstruct_def
  by simp

lemma update_scope_Ok:
  assumes "updateScope env i dto db0 db = (Ok d, db')"
  shows "\<exists>g v db1. group_find env i db0 = Some g \<and> group_version g = gsd_expectedVersion dto \<and>
    validateScope (gsd_scopeType dto) (gsd_scopeRefId dto) = Ok v \<and>
    group_save (scope_columns (snd v)) (rescoped env v g) db = Ok db1 \<and>
    d = scope_details_of (rescoped env v g) \<and> db' = scope_saved env v g db1"
proof -
  obtain c where c: "update_scope_checks env i dto db0 = Ok c" "update_scope_tx env c db = Ok (d, db')"
    using assms by (auto simp: updateScope_def group_handler_def run_group_tx_def split: sum.splits)
  obtain g v where g: "group_find env i db0 = Some g" "validateScope (gsd_scopeType dto) (gsd_scopeRefId dto) = Ok v"
      "group_version g = gsd_expectedVersion dto" "c = scope_change_of env g v"
    using update_scope_checks_Ok[OF c(1)] by (auto simp: scope_change_of_def)
  from c(2) have "\<exists>db1. group_save (scope_columns (snd v)) (rescoped env v g) db = Ok db1 \<and>
      d = scope_details_of (rescoped env v g) \<and> db' = scope_saved env v g db1"
    unfolding g(4) update_scope_tx_eq and_then_Ok_iff by blast
  then show ?thesis using g by blast
qed

text \<open>
  A successful scope change stores the new type, and the new reference when there is one; a
  change to a type without reference answers that there is none but leaves the reference of the
  old scope in the row, because an undefined property is not written.
\<close>

theorem scope_change_keeps_stale_reference:
  assumes "group_tables_ok db0" "group_tables_ok db" "group_find env i db = Some old"
    and "updateScope env i dto db0 db = (Ok d, db')"
  shows "\<exists>g. group_find env i db' = Some g \<and> group_scopeType g = sd_scopeType d \<and>
    group_scopeRefId g = (case sd_scopeRefId d of Some r \<Rightarrow> Some r | None \<Rightarrow> group_scopeRefId old)"
proof -
  obtain g v db1 where g: "group_find env i db0 = Some g"
      "group_save (scope_columns (snd v)) (rescoped env v g) db = Ok db1"
      "d = scope_details_of (rescoped env v g)" "db' = scope_saved env v g db1"
    using update_scope_Ok[OF assms(4)] by blast
  have i: "group_id g = i" "group_tenant g = ge_tenant env" using group_find_SomeD[OF g(1)] by simp_all
  have old: "find_row group_id i (t_groups db) = Some old"
    using assms(2,3) group_find_SomeD[OF assms(3)] by (simp add: find_row_iff group_tables_ok_def)
  have "group_find env i db' = Some (saved_group (scope_columns (snd v)) (rescoped env v g) db)"
    using group_find_saved[OF assms(2) g(2), of env] found_group_ok[OF assms(1) g(1)] i
    by (simp add: g(4))
  then show ?thesis
    using i old by (auto simp: g(3) saved_group_def merge_columns_def scope_columns_def scope_details_of_def
        split: option.split)
qed

text \<open>
  C37: Two scope changes that were both checked against the same state and name the same expected
  version both commit: the second overwrites the first and both report the same new version.
\<close>

theorem overlapping_scope_change_lost:
  assumes "group_tables_ok db0" "ge_tenant env2 = ge_tenant env1"
    and "updateScope env1 i dto1 db0 db0 = (Ok d1, db1)"
    and "update_scope_checks env2 i dto2 db0 = Ok c"
  shows "\<exists>d2 db2 g. updateScope env2 i dto2 db0 db1 = (Ok d2, db2) \<and> sd_version d2 = sd_version d1 \<and>
    group_find env2 i db2 = Some g \<and> group_version g = sd_version d1 \<and>
    validateScope (gsd_scopeType dto2) (gsd_scopeRefId dto2) = Ok (group_scopeType g, sd_scopeRefId d2)"
proof -
  obtain g v db' where g: "group_find env1 i db0 = Some g"
      "group_save (scope_columns (snd v)) (rescoped env1 v g) db0 = Ok db'"
      "d1 = scope_details_of (rescoped env1 v g)" "db1 = scope_saved env1 v g db'"
    using update_scope_Ok[OF assms(3)] by blast
  have i: "group_id g = i" "group_tenant g = ge_tenant env1" using group_find_SomeD[OF g(1)] by simp_all
  have env: "group_find env2 j db = group_find env1 j db" for j db
    using assms(2) by (simp add: group_find_def)
  note gok = found_group_ok[OF assms(1) g(1)]
  have ok1: "group_tables_ok db1" using group_tables_ok_save(1)[OF assms(1) g(2)] gok g(4) by simp
  have f1: "group_find env1 i db1 = Some (saved_group (scope_columns (snd v)) (rescoped env1 v g) db0)"
    using group_find_saved[OF assms(1) g(2), of env1] gok i g(4) by simp
  obtain w where w: "validateScope (gsd_scopeType dto2) (gsd_scopeRefId dto2) = Ok w"
      "c = scope_change_of env2 g w"
    using update_scope_checks_Ok[OF assms(4)] g(1) env by (auto simp: scope_change_of_def)
  let ?u = "scope_columns (snd w)" and ?g = "rescoped env2 w g"
  have "group_name_key ?g = group_name_key (saved_group (scope_columns (snd v)) (rescoped env1 v g) db0)"
    by (simp add: group_name_key_def rescoped_def)
  then have s: "group_save ?u ?g db1 = Ok (put_group (saved_group ?u ?g db1) db1)"
    using save_same_name[OF ok1 f1] i by simp
  have f2: "group_find env2 i (put_group (saved_group ?u ?g db1) db1) = Some (saved_group ?u ?g db1)"
    using group_find_saved[OF ok1 s, of env2] gok i assms(2) by simp
  have "updateScope env2 i dto2 db0 db1 =
      (Ok (scope_details_of ?g), scope_saved env2 w g (put_group (saved_group ?u ?g db1) db1))"
    by (simp add: updateScope_def group_handler_def run_group_tx_def assms(4) w(2) update_scope_tx_eq s)
  then show ?thesis
    using f2 w(1) g(3) by (auto simp: scope_details_of_def)
qed

section \<open>Role assignment\<close>

definition group_role_ids :: "group_env \<Rightarrow> uuid \<Rightarrow> authz_db \<Rightarrow> uuid set" where
  "group_role_ids env i db = ugr_roleId ` set (group_role_rows env i db)"

lemma group_role_ids_outbox [simp]:
  "group_role_ids env i (save_outbox e db) = group_role_ids env i db"
  "group_role_ids env i (save_outbox_when b e db) = group_role_ids env i db"
  by (simp_all add: group_role_ids_def group_role_rows_def save_outbox_when_def)

lemma group_role_ids_put [simp]: "group_role_ids env i (put_group g db) = group_role_ids env i db"
  by (simp add: group_role_ids_def group_role_rows_def)

lemma role_row_iff:
  "i' \<in> group_role_ids env i db \<longleftrightarrow>
     \<lparr> ugr_tenant = ge_tenant env, ugr_groupId = i, ugr_roleId = i' \<rparr> \<in> set (t_group_roles db)"
proof
  assume "i' \<in> group_role_ids env i db"
  then obtain r where "r \<in> set (t_group_roles db)" "ugr_groupId r = i" "ugr_tenant r = ge_tenant env" "ugr_roleId r = i'"
    by (auto simp: group_role_ids_def group_role_rows_def)
  moreover from this have "r = \<lparr> ugr_tenant = ge_tenant env, ugr_groupId = i, ugr_roleId = i' \<rparr>" by simp
  ultimately show "\<lparr> ugr_tenant = ge_tenant env, ugr_groupId = i, ugr_roleId = i' \<rparr> \<in> set (t_group_roles db)"
    by simp
qed (auto simp: group_role_ids_def group_role_rows_def image_iff intro!: bexI)

lemma role_ids_batchDelete:
  "group_role_ids env i (ugr_batchDelete env i ids db) = group_role_ids env i db - set ids"
  by (auto simp: group_role_ids_def group_role_rows_def ugr_batchDelete_def)

lemma ugr_key_inj: "ugr_key a = ugr_key b \<longleftrightarrow> a = (b :: user_group_role)"
  by (cases a; cases b) (auto simp: ugr_key_def)

lemma bulkSave_new:
  assumes ok: "group_tables_ok db" and ids: "distinct ids" "set ids \<subseteq> role_id ` set (t_roles db)"
  shows "ugr_bulkSave (new_group_roles env i ids) db =
    (if set ids \<inter> group_role_ids env i db = {}
     then Ok (db\<lparr> t_group_roles := t_group_roles db @ new_group_roles env i ids \<rparr>)
     else Fail (Group_constraint ''uq_user_group_roles_tenant_group_role''))"
proof (cases "ids = []")
  case True
  then show ?thesis by (simp add: ugr_bulkSave_def new_group_roles_def)
next
  case False
  let ?new = "new_group_roles env i ids"
  have keys: "distinct (map ugr_key rs) \<longleftrightarrow> distinct rs" for rs :: "user_group_role list"
    by (auto simp: distinct_map inj_on_def ugr_key_inj)
  have "distinct ?new" using ids(1) by (auto simp: new_group_roles_def distinct_map inj_on_def)
  moreover have "distinct (t_group_roles db)" using ok keys by (simp add: group_tables_ok_def)
  moreover have "set (t_group_roles db) \<inter> set ?new = {} \<longleftrightarrow> set ids \<inter> group_role_ids env i db = {}"
    by (auto simp: new_group_roles_def role_row_iff)
  ultimately have "distinct (map ugr_key (t_group_roles db @ ?new)) \<longleftrightarrow> set ids \<inter> group_role_ids env i db = {}"
    by (simp only: keys distinct_append simp_thms)
  moreover have "list_all (\<lambda>r. ugr_roleId r \<in> role_id ` set (t_roles db)) ?new"
    using ids(2) by (auto simp: new_group_roles_def list_all_iff)
  ultimately show ?thesis using False by (simp add: ugr_bulkSave_def new_group_roles_def del: map_append)
qed

lemma role_ids_added:
  "group_role_ids env i (db\<lparr> t_group_roles := t_group_roles db @ new_group_roles env i ids \<rparr>)
     = group_role_ids env i db \<union> set ids"
  by (rule set_eqI) (auto simp: role_row_iff new_group_roles_def)

lemma assigned_roles_exist:
  "group_tables_ok db \<Longrightarrow> group_role_ids env i db \<subseteq> role_id ` set (t_roles db)"
  by (auto simp: group_tables_ok_def group_role_ids_def group_role_rows_def)

lemma save_outbox_when_tables [simp]:
  "t_roles (save_outbox_when b e db) = t_roles db" "t_groups (save_outbox_when b e db) = t_groups db"
  "t_group_roles (save_outbox_when b e db) = t_group_roles db"
  by (simp_all add: save_outbox_when_def)

text \<open>The roles the checks accept are all there.\<close>

lemma accepted_targets_exist:
  assumes "role_tables_ok db" "update_roles_checks env i dto db = Ok c"
  shows "set (grd_roleIds dto) \<subseteq> role_id ` set (t_roles db)"
proof -
  let ?t = "js_set_of (grd_roleIds dto)"
  let ?v = "filter (\<lambda>r. role_state r = Role_active) (roles_findByIds env ?t db)"
  have len: "length ?v = length ?t"
    using assms(2) by (auto simp: update_roles_checks_def and_then_Ok_iff Let_def)
  have d: "distinct (map role_id ?v)"
    using assms(1) by (simp add: role_tables_ok_def roles_findByIds_def distinct_map_filter)
  have sub: "role_id ` set ?v \<subseteq> set ?t" by (auto simp: roles_findByIds_def)
  have "card (role_id ` set ?v) = card (set ?t)"
    using distinct_card[OF d] len distinct_card[OF distinct_js_set_of, of "grd_roleIds dto"] by simp
  then have "role_id ` set ?v = set ?t" by (intro card_subset_eq[OF _ sub]) simp
  moreover have "set ?v \<subseteq> set (t_roles db)" by (auto simp: roles_findByIds_def)
  ultimately show ?thesis by auto
qed

definition bumped :: "group_env \<Rightarrow> user_group \<Rightarrow> user_group" where
  "bumped env g = g\<lparr> group_version := group_version g + 1, group_updatedBy := Some (ge_user env) \<rparr>"

lemma bumped_fields [simp]:
  "group_id (bumped env g) = group_id g" "group_tenant (bumped env g) = group_tenant g"
  "group_name_key (bumped env g) = group_name_key g" "group_version (bumped env g) = group_version g + 1"
  "group_ok g \<Longrightarrow> group_ok (bumped env g)"
  using group_ok_untouched_rule[of "bumped env g" g] by (simp_all add: bumped_def group_name_key_def)

text \<open>What the transaction does once the group is saved and its role rows are exchanged.\<close>

definition exchange_roles :: "group_env \<Rightarrow> uuid \<Rightarrow> uuid list \<Rightarrow> uuid list \<Rightarrow> authz_db \<Rightarrow> group_error + authz_db" where
  "exchange_roles env i added removed db =
    ugr_bulkSave (new_group_roles env i added) (ugr_batchDelete env i removed db)"

definition roles_delta :: "group_env \<Rightarrow> uuid \<Rightarrow> group_roles_dto \<Rightarrow> authz_db \<Rightarrow> uuid list \<times> uuid list" where
  "roles_delta env i dto db =
    (let target = js_set_of (grd_roleIds dto); current = findRoleIdsByGroupId env i db
     in (filter (\<lambda>r. r \<notin> set current) target, filter (\<lambda>r. r \<notin> set target) current))"

lemma roles_delta_sets:
  assumes "roles_delta env i dto db = (added, removed)"
  shows "distinct added" "set added = set (grd_roleIds dto) - set (findRoleIdsByGroupId env i db)"
    "set removed = set (findRoleIdsByGroupId env i db) - set (grd_roleIds dto)"
proof -
  have a: "added = filter (\<lambda>r. r \<notin> set (findRoleIdsByGroupId env i db)) (js_set_of (grd_roleIds dto))"
    and r: "removed = filter (\<lambda>r. r \<notin> set (js_set_of (grd_roleIds dto))) (findRoleIdsByGroupId env i db)"
    using assms unfolding roles_delta_def Let_def prod.inject by simp_all
  show "distinct added" "set added = set (grd_roleIds dto) - set (findRoleIdsByGroupId env i db)"
    "set removed = set (findRoleIdsByGroupId env i db) - set (grd_roleIds dto)"
    unfolding a r by auto
qed

lemma getAssigned_outcome:
  assumes "group_find env i db = Some g" "\<forall>r \<in> group_role_ids env i db. r \<in> role_id ` set (t_roles db)"
  shows "\<exists>items. getAssignedRoles env i db = Ok items \<and> ari_id ` set items = group_role_ids env i db"
proof -
  let ?look = "\<lambda>r. find_row role_id (ugr_roleId r) (t_roles db)"
  have some: "\<exists>x. ?look r = Some x \<and> role_id x = ugr_roleId r" if "r \<in> set (group_role_rows env i db)" for r
  proof -
    have "ugr_roleId r \<in> role_id ` set (t_roles db)" using assms(2) that by (auto simp: group_role_ids_def)
    then obtain x where "?look r = Some x" by (auto simp: find_row_def find_None_iff2 dest: find_None_iff[THEN iffD1])
      (metis (mono_tags, lifting) find_None_iff not_None_eq)
    then show ?thesis using find_row_SomeD by metis
  qed
  have "ari_id ` set (map assigned_item (List.map_filter ?look (group_role_rows env i db)))
      = group_role_ids env i db"
    using some by (force simp: List.map_filter_def group_role_ids_def assigned_item_def image_iff)
  then show ?thesis using assms(1) by (simp add: getAssignedRoles_def)
qed

lemma update_roles_outcome:
  assumes ok: "group_tables_ok db" and c: "update_roles_checks env i dto db = Ok c"
    and d: "roles_delta env i dto db = (added, removed)"
    and f: "group_find env i db = Some g"
  shows "case exchange_roles env i added removed (put_group (bumped env g) db) of
      Inl e \<Rightarrow> updateRoleAssignments env i dto db db = (Fail e, db)
    | Inr db2 \<Rightarrow> \<exists>items db'. updateRoleAssignments env i dto db db = (Ok items, db') \<and>
        ari_id ` set items = group_role_ids env i db2 \<and> group_role_ids env i db' = group_role_ids env i db2 \<and>
        t_group_roles db' = t_group_roles db2 \<and> group_find env i db' = Some (bumped env g)"
proof -
  have i: "group_id g = i" "group_tenant g = ge_tenant env" using group_find_SomeD[OF f] by simp_all
  let ?cur = "findRoleIdsByGroupId env i db" and ?t = "js_set_of (grd_roleIds dto)"
  have c': "c = (g, ?t, ?cur, replaceRoles ?t (Some (ge_user env)) (reconstruct g ?cur))"
    using update_roles_checks_Ok[OF c] f by (auto simp: Let_def)
  have s: "group_save [] (bumped env g) db = Ok (put_group (bumped env g) db)"
    using save_same_name[OF ok f, of "bumped env g" "[]"] i by simp
  have gok: "group_ok (bumped env g)" using found_group_ok[OF ok f] by simp
  note ok1 = group_tables_ok_save(1)[OF ok s gok]
  have f1: "group_find env i (put_group (bumped env g) db) = Some (bumped env g)"
    using group_find_saved[OF ok s gok] i by simp
  have run: "update_roles_tx env i c db =
      and_then (exchange_roles env i added removed (put_group (bumped env g) db)) (\<lambda>db2.
        let db3 = save_outbox_when (added \<noteq> []) (fromUserGroupRolesAssigned (ge_now env) (group_ctx env) (bumped env g) ?t added ?cur) db2;
            db4 = save_outbox_when (removed \<noteq> []) (fromUserGroupRoleUnassigned (ge_now env) (group_ctx env) (bumped env g) ?t removed ?cur) db3;
            db5 = save_outbox (fromAuthorizationUserGroupUpdated (ge_now env) (group_ctx env) (bumped env g) (Some (removed \<noteq> []))) db4
        in and_then (getAssignedRoles env i db5) (\<lambda>items. Ok (items, db5)))"
    using d s unfolding c' update_roles_tx_def exchange_roles_def roles_delta_def Let_def
    by (simp add: replaceRoles_def agg_touch_def reconstruct_def bumped_def)
  show ?thesis
  proof (cases "exchange_roles env i added removed (put_group (bumped env g) db)")
    case (Inl e)
    then show ?thesis using run c by (simp add: updateRoleAssignments_def group_handler_def run_group_tx_def)
  next
    case (Inr db2)
    let ?db5 = "save_outbox (fromAuthorizationUserGroupUpdated (ge_now env) (group_ctx env) (bumped env g) (Some (removed \<noteq> [])))
      (save_outbox_when (removed \<noteq> []) (fromUserGroupRoleUnassigned (ge_now env) (group_ctx env) (bumped env g) ?t removed ?cur)
      (save_outbox_when (added \<noteq> []) (fromUserGroupRolesAssigned (ge_now env) (group_ctx env) (bumped env g) ?t added ?cur) db2))"
    have ok2: "group_tables_ok db2"
      using role_rows_keep[OF ok s gok] i Inr unfolding exchange_roles_def by simp
    have tables: "t_groups db2 = t_groups (put_group (bumped env g) db)"
      using Inr by (auto simp: exchange_roles_def bulkSave_Ok_iff split: if_splits)
    have f5: "group_find env i ?db5 = Some (bumped env g)"
      using f1 tables unfolding group_find_outbox by (simp add: group_find_def)
    have "\<forall>r \<in> group_role_ids env i ?db5. r \<in> role_id ` set (t_roles ?db5)"
      using assigned_roles_exist[OF ok2, of env i] by auto
    from getAssigned_outcome[OF f5 this] obtain items where
      "getAssignedRoles env i ?db5 = Ok items" "ari_id ` set items = group_role_ids env i ?db5" by blast
    then show ?thesis
      using run c Inr f5
      by (auto simp: updateRoleAssignments_def group_handler_def run_group_tx_def Let_def save_outbox_when_def)
  qed
qed

lemma exchange_outcome:
  assumes ok: "group_tables_ok db" and f: "group_find env i db = Some g"
    and a: "distinct added" "set added \<subseteq> role_id ` set (t_roles db)"
  shows "case exchange_roles env i added removed (put_group (bumped env g) db) of
      Inr db2 \<Rightarrow> set added \<inter> (group_role_ids env i db - set removed) = {} \<and>
        group_role_ids env i db2 = (group_role_ids env i db - set removed) \<union> set added
    | Inl e \<Rightarrow> set added \<inter> (group_role_ids env i db - set removed) \<noteq> {} \<and>
        e = Group_constraint ''uq_user_group_roles_tenant_group_role''"
proof -
  have i: "group_id g = i" using group_find_SomeD[OF f] by simp
  have s: "group_save [] (bumped env g) db = Ok (put_group (bumped env g) db)"
    using save_same_name[OF ok f, of "bumped env g" "[]"] i by simp
  have "group_ok (bumped env g)" using found_group_ok[OF ok f] by simp
  note ok1 = group_tables_ok_batchDelete[OF group_tables_ok_save(1)[OF ok s this], of env i removed]
  have "set added \<subseteq> role_id ` set (t_roles (ugr_batchDelete env i removed (put_group (bumped env g) db)))"
    using a(2) by simp
  note b = bulkSave_new[OF ok1 a(1) this, of env i, unfolded role_ids_batchDelete group_role_ids_put]
  show ?thesis
  proof (cases "set added \<inter> (group_role_ids env i db - set removed) = {}")
    case True
    then show ?thesis
      unfolding exchange_roles_def b if_P[OF True] sum.case role_ids_added role_ids_batchDelete group_role_ids_put
      by blast
  next
    case False
    then show ?thesis unfolding exchange_roles_def b if_not_P[OF False] sum.case by blast
  qed
qed

text \<open>
  When the identifiers the base repository returns for group-role rows are their role
  identifiers, every role assignment that passes its checks commits and leaves the group with
  exactly the requested roles, answers with exactly these, and raises the version by one.
\<close>

theorem role_assignment_sets_roles:
  assumes "group_tables_ok db" "role_tables_ok db" "ge_only_id env = ugr_roleId"
    and "update_roles_checks env i dto db = Ok c"
  shows "\<exists>items db' g. updateRoleAssignments env i dto db db = (Ok items, db') \<and>
    group_role_ids env i db' = set (grd_roleIds dto) \<and> ari_id ` set items = set (grd_roleIds dto) \<and>
    group_find env i db' = Some g \<and> group_version g = grd_expectedVersion dto + 1"
proof -
  obtain g where g: "group_find env i db = Some g" "group_version g = grd_expectedVersion dto"
    using update_roles_checks_Ok[OF assms(4)] by blast
  obtain added removed where d: "roles_delta env i dto db = (added, removed)" by fastforce
  have cur: "set (findRoleIdsByGroupId env i db) = group_role_ids env i db"
    by (simp add: findRoleIdsByGroupId_def group_role_ids_def assms(3))
  have a: "distinct added" "set added = set (grd_roleIds dto) - group_role_ids env i db"
      "set removed = group_role_ids env i db - set (grd_roleIds dto)"
    using roles_delta_sets[OF d] unfolding cur by blast+
  have "set added \<subseteq> role_id ` set (t_roles db)" using accepted_targets_exist[OF assms(2,4)] a(2) by blast
  from exchange_outcome[OF assms(1) g(1) a(1) this, of removed]
  obtain db2 where x: "exchange_roles env i added removed (put_group (bumped env g) db) = Inr db2"
      "group_role_ids env i db2 = set (grd_roleIds dto)"
    using a by (cases "exchange_roles env i added removed (put_group (bumped env g) db)") auto
  show ?thesis using update_roles_outcome[OF assms(1,4) d g(1)] x g(2) by auto
qed

text \<open>
  When instead the base repository returns the rows' own identifiers, which are no role's, a
  role assignment never removes a role: it adds the requested roles if the group has none of them
  yet, and fails on the unique constraint, changing nothing, if it has one.
\<close>

theorem role_assignment_by_row_ids:
  assumes "group_tables_ok db" "role_tables_ok db"
    and "list_all (\<lambda>r. ge_only_id env r \<notin> role_id ` set (t_roles db)) (t_group_roles db)"
    and "update_roles_checks env i dto db = Ok c"
  shows "if set (grd_roleIds dto) \<inter> group_role_ids env i db = {}
    then \<exists>items db'. updateRoleAssignments env i dto db db = (Ok items, db') \<and>
      group_role_ids env i db' = group_role_ids env i db \<union> set (grd_roleIds dto)
    else updateRoleAssignments env i dto db db
      = (Fail (Group_constraint ''uq_user_group_roles_tenant_group_role''), db)"
proof -
  obtain g where g: "group_find env i db = Some g" using update_roles_checks_Ok[OF assms(4)] by blast
  obtain added removed where d: "roles_delta env i dto db = (added, removed)" by fastforce
  note targets = accepted_targets_exist[OF assms(2,4)]
  have cur: "set (findRoleIdsByGroupId env i db) \<inter> role_id ` set (t_roles db) = {}"
    using assms(3) by (auto simp: findRoleIdsByGroupId_def group_role_rows_def list_all_iff)
  have "set (grd_roleIds dto) \<inter> set (findRoleIdsByGroupId env i db) = {}"
    using cur targets by blast
  then have a: "distinct added" "set added = set (grd_roleIds dto)"
    unfolding roles_delta_sets(2)[OF d] by (simp_all add: roles_delta_sets(1)[OF d] Diff_triv)
  have a3: "set removed \<inter> role_id ` set (t_roles db) = {}"
    unfolding roles_delta_sets(3)[OF d] using cur by blast
  have "group_role_ids env i db - set removed = group_role_ids env i db"
    using assigned_roles_exist[OF assms(1), of env i] a3 by blast
  note x = exchange_outcome[OF assms(1) g a(1) targets[folded a(2)], of removed, unfolded this a(2)]
  show ?thesis
    using x update_roles_outcome[OF assms(1,4) d g]
    by (cases "exchange_roles env i added removed (put_group (bumped env g) db)") auto
qed

section \<open>A sample tenant\<close>

definition group_env0 :: group_env where
  "group_env0 = \<lparr> ge_tenant = ''t'', ge_user = ''u'', ge_now = ''now'', ge_queries_ok = True,
     ge_only_id = ugr_roleId \<rparr>"

definition plain_role :: "uuid \<Rightarrow> role" where
  "plain_role i = \<lparr> role_id = i, role_tenant = ''t'', role_name = i, role_description = None,
     role_kind = CUSTOM, role_state = Role_active, role_systemKey = None, role_version = 1,
     role_projectionVersion = 0, role_createdBy = None, role_updatedBy = None \<rparr>"

definition group0 :: user_group where
  "group0 = \<lparr> group_id = ''g1'', group_tenant = ''t'', group_name = ''Staff'', group_description = None,
     group_state = Group_active, group_scopeType = DEPARTMENT, group_scopeRefId = Some ''d1'',
     group_matchingRule = \<lparr> rule_combinator = None, rule_clauses =
       [\<lparr> clause_attribute = ''reporteesCount'', clause_operator = ''GTE'', clause_value = JNum 3,
          clause_values = None \<rparr>] \<rparr>,
     group_ruleAttributeKeys = [''reporteesCount''], group_version = 4, group_projectionVersion = 4,
     group_createdBy = None, group_updatedBy = None \<rparr>"

definition group_db0 :: authz_db where
  "group_db0 = \<lparr> t_roles = [plain_role ''a'', plain_role ''b'', plain_role ''c''], t_role_permissions = [],
     t_groups = [group0],
     t_group_roles = new_group_roles group_env0 ''g1'' [''a'', ''b''], t_memberships = [],
     t_effective_roles = [], t_outbox = [] \<rparr>"

lemma group_db0_ok: "group_tables_ok group_db0" "role_tables_ok group_db0"
  unfolding group_tables_ok_def by (intro conjI; code_simp)+ code_simp

definition widen_dto :: group_scope_dto where
  "widen_dto = \<lparr> gsd_scopeType = ''TENANT'', gsd_scopeRefId = None, gsd_expectedVersion = 4,
     gsd_confirmed = None \<rparr>"

definition assign_dto :: group_roles_dto where
  "assign_dto = \<lparr> grd_roleIds = [''b'', ''c''], grd_expectedVersion = 4, grd_confirmed = None \<rparr>"


lemma widen_ok: "\<exists>d db'. updateScope group_env0 ''g1'' widen_dto group_db0 group_db0 = (Ok d, db') \<and>
  sd_scopeRefId d = None"
proof -
  have "case updateScope group_env0 ''g1'' widen_dto group_db0 group_db0 of
      (Inr d, db') \<Rightarrow> sd_scopeRefId d = None | (Inl e, db') \<Rightarrow> False" by code_simp
  then show ?thesis by (auto split: prod.splits sum.splits)
qed

theorem scope_change_keeps_stale_reference_witness:
  "\<exists>d db' g. updateScope group_env0 ''g1'' widen_dto group_db0 group_db0 = (Ok d, db') \<and>
     sd_scopeRefId d = None \<and> group_find group_env0 ''g1'' db' = Some g \<and> group_scopeRefId g = Some ''d1''"
proof -
  obtain d db' where u: "updateScope group_env0 ''g1'' widen_dto group_db0 group_db0 = (Ok d, db')"
      "sd_scopeRefId d = None" using widen_ok by blast
  have f: "group_find group_env0 ''g1'' group_db0 = Some group0" by code_simp
  show ?thesis
    using scope_change_keeps_stale_reference[OF group_db0_ok(1) group_db0_ok(1) f u(1)] u
    by (auto simp: group0_def)
qed

theorem overlapping_scope_change_lost_witness:
  "\<exists>d1 db1 d2 db2. updateScope group_env0 ''g1'' widen_dto group_db0 group_db0 = (Ok d1, db1) \<and>
     updateScope group_env0 ''g1'' (widen_dto\<lparr> gsd_scopeType := ''SELF'' \<rparr>) group_db0 db1 = (Ok d2, db2) \<and>
     sd_version d2 = sd_version d1"
proof -
  obtain d1 db1 where u: "updateScope group_env0 ''g1'' widen_dto group_db0 group_db0 = (Ok d1, db1)"
    using widen_ok by blast
  have "is_ok (update_scope_checks group_env0 ''g1'' (widen_dto\<lparr> gsd_scopeType := ''SELF'' \<rparr>) group_db0)"
    by code_simp
  then obtain c where "update_scope_checks group_env0 ''g1'' (widen_dto\<lparr> gsd_scopeType := ''SELF'' \<rparr>) group_db0 = Ok c"
    unfolding is_ok_iff by blast
  from overlapping_scope_change_lost[OF group_db0_ok(1) refl u this] show ?thesis using u by blast
qed

definition row_id_env :: group_env where
  "row_id_env = group_env0\<lparr> ge_only_id := (\<lambda>r. ''row-'' @ ugr_roleId r) \<rparr>"

lemma assign_checks_ok:
  "\<exists>c. update_roles_checks group_env0 ''g1'' assign_dto group_db0 = Ok c"
  "\<exists>c. update_roles_checks row_id_env ''g1'' assign_dto group_db0 = Ok c"
proof -
  have "is_ok (update_roles_checks group_env0 ''g1'' assign_dto group_db0)"
    "is_ok (update_roles_checks row_id_env ''g1'' assign_dto group_db0)" by code_simp+
  then show "\<exists>c. update_roles_checks group_env0 ''g1'' assign_dto group_db0 = Ok c"
    "\<exists>c. update_roles_checks row_id_env ''g1'' assign_dto group_db0 = Ok c"
    by (simp_all add: is_ok_iff)
qed

theorem role_assignment_sets_roles_witness:
  "\<exists>items db'. updateRoleAssignments group_env0 ''g1'' assign_dto group_db0 group_db0 = (Ok items, db') \<and>
     group_role_ids group_env0 ''g1'' db' = {''b'', ''c''}"
proof -
  have "ge_only_id group_env0 = ugr_roleId" by (simp add: group_env0_def)
  from role_assignment_sets_roles[OF group_db0_ok this] assign_checks_ok(1)
  show ?thesis by (fastforce simp: assign_dto_def)
qed

theorem role_assignment_by_row_ids_witness:
  "updateRoleAssignments row_id_env ''g1'' assign_dto group_db0 group_db0
     = (Fail (Group_constraint ''uq_user_group_roles_tenant_group_role''), group_db0)"
proof -
  obtain c where c: "update_roles_checks row_id_env ''g1'' assign_dto group_db0 = Ok c"
    using assign_checks_ok(2) by blast
  have "list_all (\<lambda>r. ge_only_id row_id_env r \<notin> role_id ` set (t_roles group_db0)) (t_group_roles group_db0)"
    by code_simp
  note by_rows = role_assignment_by_row_ids[OF group_db0_ok this c]
  have "''b'' \<in> group_role_ids row_id_env ''g1'' group_db0" unfolding group_role_ids_def by code_simp
  then have "set (grd_roleIds assign_dto) \<inter> group_role_ids row_id_env ''g1'' group_db0 \<noteq> {}"
    by (auto simp: assign_dto_def)
  then show ?thesis using by_rows by simp
qed

end
