(* ===== verification/Group_Requests.thy ===== *)
theory Group_Requests
  imports User_Group_Requests
begin

text \<open>
  The user-group endpoints of \<^verbatim>\<open>UserGroupAdminController\<close>, the single read of
  \<^verbatim>\<open>UserGroupQueryService\<close> and the answers \<^verbatim>\<open>UserGroupDetailsDto\<close> makes
  of a group as far as its relations were loaded.
\<close>

section \<open>Answers\<close>

text \<open>
  A group entity with its role rows: undefined when the relation was not loaded, each with its role
  only when that was loaded too.
\<close>

record loaded_group =
  lg_group :: user_group
  lg_groupRoles :: "(user_group_role \<times> role option) list option"

record assigned_role_summary =
  ars_id :: uuid
  ars_name :: string
  ars_roleType :: role_type

record group_details =
  gd_id :: uuid
  gd_tenantCode :: tenant
  gd_name :: string
  gd_description :: "string option"
  gd_status :: group_status
  gd_scopeType :: scope_type
  gd_scopeRefId :: "string option"
  gd_matchingRule :: matching_rule
  gd_ruleAttributeKeys :: "string list"
  gd_version :: int
  gd_projectionVersion :: int
  gd_isPendingSync :: bool
  gd_hasNoAssignedRoles :: bool
  gd_assignedRoles :: "assigned_role_summary list"

definition role_summary :: "role \<Rightarrow> assigned_role_summary" where
  "role_summary r = \<lparr> ars_id = role_id r, ars_name = role_name r, ars_roleType = role_kind r \<rparr>"

definition mapToDetailsDto :: "loaded_group \<Rightarrow> group_details" where
  "mapToDetailsDto l =
    (let g = lg_group l;
         rows = (case lg_groupRoles l of None \<Rightarrow> [] | Some rs \<Rightarrow> rs);
         assigned = map role_summary (List.map_filter snd rows)
     in \<lparr> gd_id = group_id g, gd_tenantCode = group_tenant g, gd_name = group_name g,
          gd_description = group_description g, gd_status = group_state g,
          gd_scopeType = group_scopeType g, gd_scopeRefId = group_scopeRefId g,
          gd_matchingRule = group_matchingRule g, gd_ruleAttributeKeys = group_ruleAttributeKeys g,
          gd_version = group_version g, gd_projectionVersion = group_projectionVersion g,
          gd_isPendingSync = (group_version g > group_projectionVersion g),
          gd_hasNoAssignedRoles = (assigned = []), gd_assignedRoles = assigned \<rparr>)"

section \<open>The endpoints\<close>

definition loaded_roles_of :: "uuid \<Rightarrow> authz_db \<Rightarrow> (user_group_role \<times> role option) list" where
  "loaded_roles_of i db =
    map (\<lambda>r. (r, find_row role_id (ugr_roleId r) (t_roles db))) (filter (\<lambda>r. ugr_groupId r = i) (t_group_roles db))"

definition getUserGroupById :: "group_env \<Rightarrow> uuid \<Rightarrow> authz_db \<Rightarrow> group_error + group_details" where
  "getUserGroupById env i db =
    and_then (group_required env i db) (\<lambda>g.
      Ok (mapToDetailsDto \<lparr> lg_group = g, lg_groupRoles = Some (loaded_roles_of i db) \<rparr>))"

text \<open>
  What the services return: a created or saved entity.  Only the update had loaded the role rows,
  those from before the change and without their roles.
\<close>

definition answered :: "(user_group \<Rightarrow> loaded_group) \<Rightarrow> (group_error + user_group) \<times> authz_db \<Rightarrow> (group_error + group_details) \<times> authz_db" where
  "answered load p = (map_sum id (\<lambda>g. mapToDetailsDto (load g)) (fst p), snd p)"

definition without_relations :: "user_group \<Rightarrow> loaded_group" where
  "without_relations g = \<lparr> lg_group = g, lg_groupRoles = None \<rparr>"

definition with_old_rows :: "uuid \<Rightarrow> authz_db \<Rightarrow> user_group \<Rightarrow> loaded_group" where
  "with_old_rows i db g = \<lparr> lg_group = g,
     lg_groupRoles = Some (map (\<lambda>r. (r, None)) (filter (\<lambda>r. ugr_groupId r = i) (t_group_roles db))) \<rparr>"

definition createUserGroup ::
  "group_env \<Rightarrow> uuid \<Rightarrow> create_group_dto \<Rightarrow> authz_db \<Rightarrow> authz_db \<Rightarrow> (group_error + group_details) \<times> authz_db" where
  "createUserGroup env new_id dto db0 db = answered without_relations (createGroup env new_id dto db0 db)"

definition updateUserGroup ::
  "group_env \<Rightarrow> uuid \<Rightarrow> update_group_dto \<Rightarrow> int \<Rightarrow> authz_db \<Rightarrow> (group_error + group_details) \<times> authz_db" where
  "updateUserGroup env i dto version db = answered (with_old_rows i db) (updateGroup env i dto version db)"

text \<open>\<^verbatim>\<open>LifecycleTransitionDto\<close> has a version only: the service's third argument keeps its default.\<close>

definition deactivateUserGroup ::
  "group_env \<Rightarrow> uuid \<Rightarrow> int \<Rightarrow> authz_db \<Rightarrow> authz_db \<Rightarrow> (group_error + group_details) \<times> authz_db" where
  "deactivateUserGroup env i version db0 db =
    answered without_relations (deactivateGroup env i version False db0 db)"

definition reactivateUserGroup ::
  "group_env \<Rightarrow> uuid \<Rightarrow> int \<Rightarrow> authz_db \<Rightarrow> authz_db \<Rightarrow> (group_error + group_details) \<times> authz_db" where
  "reactivateUserGroup env i version db0 db =
    answered without_relations (reactivateGroup env i version db0 db)"

section \<open>What the answers show\<close>

definition shows_no_roles :: "(group_error + group_details) \<Rightarrow> bool" where
  "shows_no_roles r = (case r of Inl e \<Rightarrow> True | Inr d \<Rightarrow> gd_assignedRoles d = [] \<and> gd_hasNoAssignedRoles d)"

lemma unloaded_roles [simp]:
  "gd_assignedRoles (mapToDetailsDto (without_relations g)) = []"
  "gd_hasNoAssignedRoles (mapToDetailsDto (without_relations g))"
  "gd_assignedRoles (mapToDetailsDto (with_old_rows i db g)) = []"
  "gd_hasNoAssignedRoles (mapToDetailsDto (with_old_rows i db g))"
  by (simp_all add: mapToDetailsDto_def without_relations_def with_old_rows_def Let_def map_filter_def)

lemma changes_show_no_roles:
  "shows_no_roles (fst (createUserGroup env n cd db0 db))" "shows_no_roles (fst (updateUserGroup env i ud v db))"
  "shows_no_roles (fst (deactivateUserGroup env i v db0 db))" "shows_no_roles (fst (reactivateUserGroup env i v db0 db))"
  by (simp_all add: shows_no_roles_def createUserGroup_def updateUserGroup_def deactivateUserGroup_def
      reactivateUserGroup_def answered_def split: sum.splits)
     (auto split: sum.splits simp: map_sum_def)

section \<open>Reading a created group\<close>

lemma fresh_group_save:
  assumes "group_save u g db = Ok db'" "group_id g \<notin> group_id ` set (t_groups db)"
  shows "t_groups db' = t_groups db @ [g]" "t_group_roles db' = t_group_roles db" "t_roles db' = t_roles db"
proof -
  have "find_row group_id (group_id g) (t_groups db) = None"
    using assms(2) find_row_SomeD[of group_id "group_id g" "t_groups db"] by (metis image_eqI not_None_eq)
  then have "db' = put_group g db" using assms(1) by (simp add: group_save_def split: if_splits)
  then show "t_groups db' = t_groups db @ [g]" "t_group_roles db' = t_group_roles db" "t_roles db' = t_roles db"
    using assms(2) by (simp_all add: put_group_def save_row_def)
qed

lemma bulkSave_group_roles:
  "ugr_bulkSave rs db = Ok db' \<Longrightarrow> t_group_roles db' = t_group_roles db @ rs \<and> t_groups db' = t_groups db \<and>
     t_roles db' = t_roles db \<and> (\<forall>r \<in> set rs. ugr_roleId r \<in> role_id ` set (t_roles db))"
  by (auto simp: ugr_bulkSave_def list_all_iff split: if_splits)

lemma find_role_of_id:
  assumes "i \<in> role_id ` set rows"
  shows "\<exists>r. find_row role_id i rows = Some r \<and> role_id r = i"
proof (cases "find_row role_id i rows")
  case None
  then show ?thesis using assms by (auto simp: find_row_def find_None_iff)
next
  case (Some r)
  then show ?thesis using find_row_SomeD[OF Some] by simp
qed

lemma find_appended: "\<forall>x \<in> set xs. \<not> P x \<Longrightarrow> P y \<Longrightarrow> find P (xs @ [y]) = Some y"
  by (induction xs) auto

lemma summaries_of_rows:
  "\<forall>r \<in> set rs. ugr_roleId r \<in> role_id ` set roles \<Longrightarrow>
     map ars_id (map role_summary (List.map_filter snd (map (\<lambda>r. (r, find_row role_id (ugr_roleId r) roles)) rs)))
       = map ugr_roleId rs"
proof (induction rs)
  case (Cons r rs)
  obtain x where "find_row role_id (ugr_roleId r) roles = Some x" "role_id x = ugr_roleId r"
    using find_role_of_id[of "ugr_roleId r" roles] Cons.prems by auto
  then show ?case using Cons by (simp add: map_filter_simps role_summary_def)
qed (simp add: map_filter_simps)

lemma createGroup_Ok:
  assumes "createGroup env n dto db0 db = (Ok g, db')"
  obtains a db1 db2 where "g = fromAggregate n a" "agg_tenant a = ge_tenant env" "group_save [] g db = Ok db1"
    "ugr_bulkSave (new_group_roles env n (roles_or_empty (cgd_roleIds dto))) db1 = Ok db2"
    "t_groups db' = t_groups db2" "t_group_roles db' = t_group_roles db2" "t_roles db' = t_roles db2"
proof -
  obtain a where a: "create_group_checks env dto db0 = Ok a" "create_group_tx env n dto a db = Ok (g, db')"
    using assms by (auto simp: createGroup_def group_handler_def run_group_tx_def split: sum.splits)
  have "agg_tenant a = ge_tenant env"
    using a(1) by (auto simp: create_group_checks_def agg_create_def split: if_splits)
  then show ?thesis using a(2) that by (auto simp: create_group_tx_def Let_def)
qed

lemma created_group_read:
  assumes "group_tables_ok db" "n \<notin> group_id ` set (t_groups db)" "createGroup env n dto db0 db = (Ok g, db')"
  shows "getUserGroupById env n db' = Ok (mapToDetailsDto \<lparr> lg_group = g, lg_groupRoles = Some (loaded_roles_of n db') \<rparr>)"
    and "map ars_id (map role_summary (List.map_filter snd (loaded_roles_of n db'))) = roles_or_empty (cgd_roleIds dto)"
proof -
  obtain a db1 db2 where g: "g = fromAggregate n a" "agg_tenant a = ge_tenant env" "group_save [] g db = Ok db1"
      "ugr_bulkSave (new_group_roles env n (roles_or_empty (cgd_roleIds dto))) db1 = Ok db2"
      "t_groups db' = t_groups db2" "t_group_roles db' = t_group_roles db2" "t_roles db' = t_roles db2"
    using createGroup_Ok[OF assms(3)] by blast
  have id: "group_id g = n" "group_tenant g = ge_tenant env" using g(1,2) by (simp_all add: fromAggregate_def)
  note saved = fresh_group_save[OF g(3)] and roles = bulkSave_group_roles[OF g(4)]
  have "group_find env n db' = Some g"
    using saved(1) roles g(5) assms(2) id by (auto simp: group_find_def image_iff intro!: find_appended)
  then show "getUserGroupById env n db' = Ok (mapToDetailsDto \<lparr> lg_group = g, lg_groupRoles = Some (loaded_roles_of n db') \<rparr>)"
    by (simp add: getUserGroupById_def group_required_def)
  have "filter (\<lambda>r. ugr_groupId r = n) (t_group_roles db) = []"
    using assms(1,2) by (auto simp: group_tables_ok_def filter_empty_conv)
  then have "filter (\<lambda>r. ugr_groupId r = n) (t_group_roles db') = new_group_roles env n (roles_or_empty (cgd_roleIds dto))"
    using saved(2) roles g(6) assms(2) id by (simp add: new_group_roles_def filter_map comp_def)
  then show "map ars_id (map role_summary (List.map_filter snd (loaded_roles_of n db'))) = roles_or_empty (cgd_roleIds dto)"
    unfolding loaded_roles_of_def using summaries_of_rows[of "new_group_roles env n (roles_or_empty (cgd_roleIds dto))" "t_roles db'"]
      roles saved(3) g(7) assms(2) id
    by (simp add: new_group_roles_def comp_def)
qed

lemma details_up_to_roles:
  "(mapToDetailsDto \<lparr> lg_group = g, lg_groupRoles = rs \<rparr>)\<lparr> gd_hasNoAssignedRoles := True, gd_assignedRoles := [] \<rparr>
    = mapToDetailsDto (without_relations g)"
  by (simp add: mapToDetailsDto_def without_relations_def Let_def map_filter_def)

lemma large_group_refused:
  assumes "countByGroup env i db0 \<ge> GROUP_IMPACT_THRESHOLD"
  shows "\<exists>e. deactivate_group_checks env i v False db0 = Inl e \<and>
    (e = Group_not_found i \<or> e = Concurrent_modification \<or>
     e = Group_confirmation_required (countByGroup env i db0) None GROUP_IMPACT_THRESHOLD)"
  using assms
  by (cases "group_find env i db0")
     (auto simp: deactivate_group_checks_def group_required_def group_version_guard_def guard_def)

section \<open>Properties\<close>

text \<open>
  A created group is read back exactly as requested: the read by id answers the same details as
  the creation, with exactly the requested roles in their order.  The creation itself answers, as
  every change does, that the group has no roles.
\<close>

theorem created_group_read_back:
  assumes "group_tables_ok db" "n \<notin> group_id ` set (t_groups db)"
    and "createUserGroup env n dto db0 db = (Ok d, db')"
  shows "gd_assignedRoles d = [] \<and> gd_hasNoAssignedRoles d \<and>
    (\<exists>d2. getUserGroupById env n db' = Ok d2 \<and>
       map ars_id (gd_assignedRoles d2) = roles_or_empty (cgd_roleIds dto) \<and>
       gd_hasNoAssignedRoles d2 = (roles_or_empty (cgd_roleIds dto) = []) \<and>
       d2\<lparr> gd_hasNoAssignedRoles := True, gd_assignedRoles := [] \<rparr> = d)"
proof -
  obtain g where g: "createGroup env n dto db0 db = (Ok g, db')" "d = mapToDetailsDto (without_relations g)"
    using assms(3) by (cases "createGroup env n dto db0 db")
      (auto simp: createUserGroup_def answered_def map_sum_def split: sum.splits)
  let ?d2 = "mapToDetailsDto \<lparr> lg_group = g, lg_groupRoles = Some (loaded_roles_of n db') \<rparr>"
  note read = created_group_read[OF assms(1,2) g(1)]
  have "map ars_id (gd_assignedRoles ?d2) = roles_or_empty (cgd_roleIds dto)"
    using read(2) by (simp add: mapToDetailsDto_def Let_def)
  moreover have "gd_hasNoAssignedRoles ?d2 = (map ars_id (gd_assignedRoles ?d2) = [])"
    by (simp add: mapToDetailsDto_def Let_def)
  ultimately show ?thesis
    using read(1) g(2) details_up_to_roles[of g "Some (loaded_roles_of n db')"] by auto
qed

text \<open>
  C39: A group with a hundred members or more cannot be deactivated through its endpoint: every
  request is refused and changes nothing, and one that names the right version is asked for a
  confirmation the request has no way to give, though the service would accept one.
\<close>

theorem large_group_never_deactivated:
  assumes "countByGroup env i db0 \<ge> GROUP_IMPACT_THRESHOLD"
  shows "snd (deactivateUserGroup env i v db0 db) = db \<and>
    fst (deactivateUserGroup env i v db0 db) \<in>
      {Inl (Group_not_found i), Inl Concurrent_modification,
       Inl (Group_confirmation_required (countByGroup env i db0) None GROUP_IMPACT_THRESHOLD)} \<and>
    (\<forall>g. group_find env i db0 = Some g \<and> group_version g = v \<longrightarrow>
       fst (deactivateUserGroup env i v db0 db)
         = Inl (Group_confirmation_required (countByGroup env i db0) None GROUP_IMPACT_THRESHOLD))"
proof (intro conjI allI impI)
  obtain e where e: "deactivate_group_checks env i v False db0 = Inl e"
      "e = Group_not_found i \<or> e = Concurrent_modification \<or>
       e = Group_confirmation_required (countByGroup env i db0) None GROUP_IMPACT_THRESHOLD"
    using large_group_refused[OF assms] by blast
  then have run: "deactivateUserGroup env i v db0 db = (Inl e, db)"
    by (simp add: deactivateUserGroup_def answered_def deactivateGroup_def group_handler_def)
  then show "snd (deactivateUserGroup env i v db0 db) = db"
    "fst (deactivateUserGroup env i v db0 db) \<in>
      {Inl (Group_not_found i), Inl Concurrent_modification,
       Inl (Group_confirmation_required (countByGroup env i db0) None GROUP_IMPACT_THRESHOLD)}"
    using e(2) by auto
  fix g assume "group_find env i db0 = Some g \<and> group_version g = v"
  then have "deactivate_group_checks env i v False db0
      = Inl (Group_confirmation_required (countByGroup env i db0) None GROUP_IMPACT_THRESHOLD)"
    using assms by (simp add: deactivate_group_checks_def group_required_def group_version_guard_def guard_def)
  then show "fst (deactivateUserGroup env i v db0 db)
      = Inl (Group_confirmation_required (countByGroup env i db0) None GROUP_IMPACT_THRESHOLD)"
    using e(1) run by simp
qed

section \<open>A created and a large group\<close>

definition new_group_dto :: create_group_dto where
  "new_group_dto = \<lparr> cgd_name = ''Leads'', cgd_description = None, cgd_scopeType = TENANT_WIDE, cgd_scopeRefId = None,
     cgd_matchingRule = \<lparr> rule_combinator = None, rule_clauses =
       [\<lparr> clause_attribute = ''reporteesCount'', clause_operator = ''GREATER_THAN'', clause_value = JNum 3,
          clause_values = None \<rparr>] \<rparr>,
     cgd_roleIds = Some [''a'', ''c''] \<rparr>"

theorem created_group_read_back_witness:
  "\<exists>d db'. createUserGroup group_env0 ''g2'' new_group_dto group_db0 group_db0 = (Ok d, db') \<and> gd_assignedRoles d = [] \<and>
     (\<exists>d2. getUserGroupById group_env0 ''g2'' db' = Ok d2 \<and> map ars_id (gd_assignedRoles d2) = [''a'', ''c''])"
proof -
  have "is_ok (fst (createUserGroup group_env0 ''g2'' new_group_dto group_db0 group_db0))" by code_simp
  then obtain d db' where c: "createUserGroup group_env0 ''g2'' new_group_dto group_db0 group_db0 = (Ok d, db')"
    by (cases "createUserGroup group_env0 ''g2'' new_group_dto group_db0 group_db0") (auto simp: is_ok_iff)
  have fresh: "''g2'' \<notin> group_id ` set (t_groups group_db0)" by (simp add: group_db0_def group0_def)
  from created_group_read_back[OF group_db0_ok(1) fresh c] c show ?thesis
    by (auto simp: new_group_dto_def roles_or_empty_def)
qed

definition crowd_db :: authz_db where
  "crowd_db = group_db0\<lparr> t_memberships := map (\<lambda>k.
     \<lparr> mem_tenant = ''t'', mem_groupId = ''g1'', mem_userId = replicate k CHR ''m'' \<rparr>) [0..<100] \<rparr>"

theorem large_group_never_deactivated_witness:
  "deactivateUserGroup group_env0 ''g1'' 4 crowd_db crowd_db
     = (Inl (Group_confirmation_required 100 None GROUP_IMPACT_THRESHOLD), crowd_db) \<and>
   is_ok (fst (deactivateGroup group_env0 ''g1'' 4 True crowd_db crowd_db))"
proof -
  have n: "countByGroup group_env0 ''g1'' crowd_db = 100"
    by (simp add: countByGroup_def crowd_db_def group_db0_def group_env0_def)
  have g: "group_find group_env0 ''g1'' crowd_db = Some group0"
    by (simp add: group_find_def crowd_db_def group_db0_def group_env0_def group0_def)
  have "is_ok (fst (deactivateGroup group_env0 ''g1'' 4 True crowd_db crowd_db))" by code_simp
  moreover have "deactivateUserGroup group_env0 ''g1'' 4 crowd_db crowd_db
     = (Inl (Group_confirmation_required 100 None GROUP_IMPACT_THRESHOLD), crowd_db)"
    using large_group_never_deactivated[of group_env0 "''g1''" crowd_db 4 crowd_db] n g
    by (simp add: GROUP_IMPACT_THRESHOLD_def prod_eq_iff group0_def)
  ultimately show ?thesis by simp
qed

end
