(* ===== verification/Role_Requests.thy ===== *)
theory Role_Requests
  imports Role_Properties
begin

text \<open>
  The role endpoints: \<^verbatim>\<open>RoleController\<close>, the decorated request bodies and
  \<^verbatim>\<open>RoleResponseDto.fromRole\<close>.  The validation pipe is a parameter: a predicate on the
  properties a body class decorates and the body.  The application installs it with
  \<^verbatim>\<open>whitelist\<close> and \<^verbatim>\<open>forbidNonWhitelisted\<close>, under which a body with a property
  that carries no validation decorator is refused.
\<close>

section \<open>Request bodies\<close>

type_synonym body = "(string \<times> json) list"
type_synonym pipe = "string list \<Rightarrow> body \<Rightarrow> bool"

definition strict_pipe :: "pipe \<Rightarrow> bool" where
  "strict_pipe accepts \<longleftrightarrow> (\<forall>ps b. accepts ps b \<longrightarrow> fst ` set b \<subseteq> set ps)"

text \<open>
  The properties with a validation decorator.  \<^verbatim>\<open>UpdateCustomRoleDto.version\<close> carries only
  the documentation decorator \<^verbatim>\<open>ApiProperty\<close>.
\<close>

definition create_properties :: "string list" where
  "create_properties = [''name'', ''description'', ''permissionCodes'']"

definition copy_properties :: "string list" where
  "copy_properties = [''name'', ''description'']"

definition update_properties :: "string list" where
  "update_properties = [''name'', ''description'', ''permissionCodes'', ''confirmed'']"

definition deactivate_properties :: "string list" where
  "deactivate_properties = [''version'', ''confirmed'']"

definition rename_properties :: "string list" where
  "rename_properties = [''name'', ''description'']"

text \<open>Reading an accepted body; the declared types are those its decorators check.\<close>

definition string_of :: "body \<Rightarrow> string \<Rightarrow> string option" where
  "string_of b k = (case map_of b k of Some (JStr s) \<Rightarrow> Some s | _ \<Rightarrow> None)"

definition name_of :: "body \<Rightarrow> string" where
  "name_of b = (case string_of b ''name'' of Some s \<Rightarrow> s | None \<Rightarrow> [])"

definition codes_of :: "body \<Rightarrow> string list" where
  "codes_of b = (case map_of b ''permissionCodes'' of
     Some (JArr cs) \<Rightarrow> concat (map (\<lambda>c. case c of JStr s \<Rightarrow> [s] | _ \<Rightarrow> []) cs) | _ \<Rightarrow> [])"

definition bool_of :: "body \<Rightarrow> string \<Rightarrow> bool option" where
  "bool_of b k = (case map_of b k of Some (JBool x) \<Rightarrow> Some x | _ \<Rightarrow> None)"

definition int_of_body :: "body \<Rightarrow> string \<Rightarrow> int option" where
  "int_of_body b k = (case map_of b k of Some (JNum n) \<Rightarrow> Some n | _ \<Rightarrow> None)"

definition create_of :: "body \<Rightarrow> create_role_dto" where
  "create_of b = \<lparr> crd_name = name_of b, crd_description = string_of b ''description'', crd_codes = codes_of b \<rparr>"

definition copy_of :: "body \<Rightarrow> copy_role_dto" where
  "copy_of b = \<lparr> cpd_name = name_of b, cpd_description = string_of b ''description'' \<rparr>"

definition update_of :: "body \<Rightarrow> update_role_dto" where
  "update_of b = \<lparr> urd_name = name_of b, urd_description = string_of b ''description'',
     urd_version = int_of_body b ''version'', urd_codes = codes_of b, urd_confirmed = bool_of b ''confirmed'' \<rparr>"

definition deactivate_of :: "body \<Rightarrow> deactivate_role_dto" where
  "deactivate_of b = \<lparr> drd_version = int_of_body b ''version'', drd_confirmed = bool_of b ''confirmed'' \<rparr>"

definition rename_of :: "body \<Rightarrow> rename_role_dto" where
  "rename_of b = \<lparr> rrd_name = name_of b, rrd_description = string_of b ''description'' \<rparr>"

section \<open>Responses\<close>

text \<open>
  A role object as \<^verbatim>\<open>fromRole\<close> sees it, every property possibly undefined.  The service
  returns spreads of a row with or without the counts, never with the permissions relation, or the
  literal that asks for confirmation.
\<close>

record role_object =
  ro_id :: "uuid option"
  ro_tenantCode :: "tenant option"
  ro_name :: "string option"
  ro_description :: "string option"
  ro_type :: "role_type option"
  ro_systemRoleKey :: "system_role_key option"
  ro_status :: "role_status option"
  ro_version :: "int option"
  ro_permissions :: "role_permission list option"
  ro_assignedUserGroupCount :: "int option"
  ro_activeUserReachCount :: "int option"
  ro_createdAt :: "string option"
  ro_updatedAt :: "string option"

record confirmation =
  hc_affectedUserCount :: int
  hc_affectedUserGroupCount :: "int option"

datatype service_object = A_role role_object | A_literal confirmation

record role_response =
  rsp_id :: "uuid option"
  rsp_tenantCode :: "tenant option"
  rsp_name :: "string option"
  rsp_description :: "string option"
  rsp_type :: "role_type option"
  rsp_systemRoleKey :: "system_role_key option"
  rsp_status :: "role_status option"
  rsp_version :: "int option"
  rsp_permissions :: "(string \<times> bool) list"
  rsp_userCount :: int
  rsp_isUnassigned :: "bool option"
  rsp_assignedUserGroupCount :: int
  rsp_activeUserReachCount :: int
  rsp_createdAt :: string
  rsp_updatedAt :: string

definition or_else :: "'a option \<Rightarrow> 'a \<Rightarrow> 'a" where
  "or_else x d = (case x of Some y \<Rightarrow> y | None \<Rightarrow> d)"

definition fromRole :: "string \<Rightarrow> role_object \<Rightarrow> role_response" where
  "fromRole now r =
    (let activeReach = or_else (ro_activeUserReachCount r) 0;
         unassigned = map_option (\<lambda>n. n = 0) (ro_assignedUserGroupCount r)
     in \<lparr> rsp_id = ro_id r, rsp_tenantCode = ro_tenantCode r, rsp_name = ro_name r,
          rsp_description = ro_description r, rsp_type = ro_type r, rsp_systemRoleKey = ro_systemRoleKey r,
          rsp_status = ro_status r, rsp_version = ro_version r,
          rsp_permissions = map (\<lambda>p. (rp_code p, rp_isProtected p)) (or_else (ro_permissions r) []),
          rsp_userCount = activeReach, rsp_isUnassigned = unassigned,
          rsp_assignedUserGroupCount = or_else (ro_assignedUserGroupCount r) 0,
          rsp_activeUserReachCount = activeReach,
          rsp_createdAt = or_else (ro_createdAt r) now, rsp_updatedAt = or_else (ro_updatedAt r) now \<rparr>)"

text \<open>The times of a row are kept by TypeORM and are a parameter.\<close>

record request_env =
  rq_role :: role_env
  rq_accepts :: pipe
  rq_now :: string
  rq_times :: "role \<Rightarrow> string \<times> string"

definition row_object :: "request_env \<Rightarrow> role \<Rightarrow> (int \<times> int) option \<Rightarrow> role_object" where
  "row_object q r counts =
    \<lparr> ro_id = Some (role_id r), ro_tenantCode = Some (role_tenant r), ro_name = Some (role_name r),
      ro_description = role_description r, ro_type = Some (role_kind r), ro_systemRoleKey = role_systemKey r,
      ro_status = Some (role_state r), ro_version = Some (role_version r), ro_permissions = None,
      ro_assignedUserGroupCount = map_option fst counts, ro_activeUserReachCount = map_option snd counts,
      ro_createdAt = Some (fst (rq_times q r)), ro_updatedAt = Some (snd (rq_times q r)) \<rparr>"

definition no_properties :: role_object where
  "no_properties =
    \<lparr> ro_id = None, ro_tenantCode = None, ro_name = None, ro_description = None, ro_type = None,
      ro_systemRoleKey = None, ro_status = None, ro_version = None, ro_permissions = None,
      ro_assignedUserGroupCount = None, ro_activeUserReachCount = None, ro_createdAt = None, ro_updatedAt = None \<rparr>"

fun service_object_of :: "request_env \<Rightarrow> role_reply \<Rightarrow> service_object" where
  "service_object_of q (Role_reply r counts) = A_role (row_object q r counts)"
| "service_object_of q (Confirm_users n) =
     A_literal \<lparr> hc_affectedUserCount = n, hc_affectedUserGroupCount = None \<rparr>"
| "service_object_of q (Confirm_groups g n) =
     A_literal \<lparr> hc_affectedUserCount = n, hc_affectedUserGroupCount = Some g \<rparr>"

text \<open>
  An object literal is no instance of a class whatever its declared type; read as a role it has none
  of the properties \<^verbatim>\<open>fromRole\<close> looks at.
\<close>

fun instanceof_confirmation :: "service_object \<Rightarrow> confirmation option" where
  "instanceof_confirmation (A_role r) = None"
| "instanceof_confirmation (A_literal c) = None"

fun read_as_role :: "service_object \<Rightarrow> role_object" where
  "read_as_role (A_role r) = r"
| "read_as_role (A_literal c) = no_properties"

datatype role_answer = Role_answer role_response | Confirmation_answer confirmation

definition role_answer_of :: "request_env \<Rightarrow> service_object \<Rightarrow> role_answer" where
  "role_answer_of q v =
    (case instanceof_confirmation v of
       Some c \<Rightarrow> Confirmation_answer c
     | None \<Rightarrow> Role_answer (fromRole (rq_now q) (read_as_role v)))"

section \<open>The endpoints\<close>

datatype request_error = Refused_body | Service_failed role_error

type_synonym 'a request_run = "(request_error + 'a) \<times> role_world"

definition piped :: "request_env \<Rightarrow> string list \<Rightarrow> body \<Rightarrow> 'a role_op \<Rightarrow> ('a \<Rightarrow> 'b) \<Rightarrow> role_world \<Rightarrow> 'b request_run" where
  "piped q ps b op present w =
    (if \<not> rq_accepts q ps b then (Inl Refused_body, w)
     else (map_sum Service_failed present (fst op), snd op))"

definition createCustomRole :: "request_env \<Rightarrow> uuid \<Rightarrow> body \<Rightarrow> authz_db \<Rightarrow> role_world \<Rightarrow> role_response request_run" where
  "createCustomRole q new_id b db0 w =
    piped q create_properties b (createCustom (rq_role q) new_id (create_of b) db0 w)
      (\<lambda>r. fromRole (rq_now q) (row_object q r None)) w"

definition copyRole_request ::
  "request_env \<Rightarrow> uuid \<Rightarrow> uuid \<Rightarrow> body \<Rightarrow> authz_db \<Rightarrow> role_world \<Rightarrow> role_response request_run" where
  "copyRole_request q new_id i b db0 w =
    piped q copy_properties b (copyRole (rq_role q) new_id i (copy_of b) db0 w)
      (\<lambda>r. fromRole (rq_now q) (row_object q r None)) w"

definition updateCustomRole :: "request_env \<Rightarrow> uuid \<Rightarrow> body \<Rightarrow> authz_db \<Rightarrow> role_world \<Rightarrow> role_answer request_run" where
  "updateCustomRole q i b db0 w =
    piped q update_properties b (updateCustom (rq_role q) i (update_of b) db0 w)
      (\<lambda>r. role_answer_of q (service_object_of q r)) w"

text \<open>The body of a permission change has an inline type, which the pipe does not look at.\<close>

definition updateRolePermissions ::
  "request_env \<Rightarrow> uuid \<Rightarrow> role_permissions_dto \<Rightarrow> authz_db \<Rightarrow> role_world \<Rightarrow> role_answer request_run" where
  "updateRolePermissions q i dto db0 w =
    (let op = updatePermissions (rq_role q) i dto db0 w
     in (map_sum Service_failed (\<lambda>r. role_answer_of q (service_object_of q r)) (fst op), snd op))"

definition deactivateRole :: "request_env \<Rightarrow> uuid \<Rightarrow> body \<Rightarrow> authz_db \<Rightarrow> role_world \<Rightarrow> role_answer request_run" where
  "deactivateRole q i b db0 w =
    piped q deactivate_properties b (deactivate (rq_role q) i (deactivate_of b) db0 w)
      (\<lambda>r. role_answer_of q (service_object_of q r)) w"

definition reactivateRole :: "request_env \<Rightarrow> uuid \<Rightarrow> authz_db \<Rightarrow> role_world \<Rightarrow> role_response request_run" where
  "reactivateRole q i db0 w =
    (let op = reactivate (rq_role q) i db0 w
     in (map_sum Service_failed (\<lambda>r. fromRole (rq_now q) (read_as_role (service_object_of q r))) (fst op), snd op))"

definition renameRole :: "request_env \<Rightarrow> uuid \<Rightarrow> body \<Rightarrow> role_world \<Rightarrow> role_response request_run" where
  "renameRole q i b w =
    piped q rename_properties b (rename (rq_role q) i (rename_of b) w)
      (\<lambda>r. fromRole (rq_now q) (row_object q r None)) w"

definition deleteRole_request :: "request_env \<Rightarrow> uuid \<Rightarrow> role_world \<Rightarrow> bool request_run" where
  "deleteRole_request q i w =
    (let op = deleteRole (rq_role q) i w in (map_sum Service_failed (\<lambda>_. True) (fst op), snd op))"

definition getById :: "request_env \<Rightarrow> uuid \<Rightarrow> authz_db \<Rightarrow> role_error + role_object" where
  "getById q i db =
    and_then (find_required (rq_role q) i db) (\<lambda>r.
      Ok (row_object q r (Some (countAssignedUserGroupAndUser (re_queries_ok (rq_role q))
        (re_tenant (rq_role q)) (role_id r) db))))"

definition getRoleById :: "request_env \<Rightarrow> uuid \<Rightarrow> authz_db \<Rightarrow> role_error + role_response" where
  "getRoleById q i db = and_then (getById q i db) (\<lambda>r. Ok (fromRole (rq_now q) r))"

section \<open>What a client can see\<close>

definition blank_response :: "string \<Rightarrow> role_response" where
  "blank_response now = fromRole now no_properties"

lemma role_answer_of_simps [simp]:
  "role_answer_of q (A_literal c) = Role_answer (blank_response (rq_now q))"
  "role_answer_of q (A_role r) = Role_answer (fromRole (rq_now q) r)"
  by (simp_all add: role_answer_of_def blank_response_def)

lemma role_is_not_blank [simp]: "fromRole now (row_object q r c) \<noteq> blank_response now'"
  by (simp add: fromRole_def row_object_def blank_response_def no_properties_def Let_def)

lemma answer_blank_iff:
  "role_answer_of q (service_object_of q rep) = Role_answer (blank_response (rq_now q))
    \<longleftrightarrow> (\<forall>r c. rep \<noteq> Role_reply r c)"
  by (cases rep) simp_all

lemma answer_is_role: "role_answer_of q (service_object_of q rep) \<noteq> Confirmation_answer c"
  by (cases rep) simp_all

lemma map_sum_Inr_iff: "map_sum f g x = Inr y \<longleftrightarrow> (\<exists>z. x = Inr z \<and> y = g z)"
  by (cases x) auto

lemma confirmation_keeps_world:
  "fst (updateCustom env i ud db0 w) = Ok (Confirm_users n) \<Longrightarrow> snd (updateCustom env i ud db0 w) = w"
  "fst (updatePermissions env i qd db0 w) = Ok (Confirm_users n) \<Longrightarrow> snd (updatePermissions env i qd db0 w) = w"
  "fst (deactivate env i dd db0 w) = Ok (Confirm_groups g n) \<Longrightarrow> snd (deactivate env i dd db0 w) = w"
  by (auto simp: updateCustom_def updatePermissions_def deactivate_def split: sum.splits prod.splits if_splits)

lemma update_never_asks_groups: "fst (updateCustom env i ud db0 w) \<noteq> Ok (Confirm_groups g n)"
  using run_role_tx_reply(2)
  by (simp add: updateCustom_def split: sum.splits prod.splits)

lemma permissions_never_ask_groups: "fst (updatePermissions env i qd db0 w) \<noteq> Ok (Confirm_groups g n)"
  using run_role_tx_reply(2)
  by (simp add: updatePermissions_def split: sum.splits prod.splits)

lemma deactivate_never_asks_users: "fst (deactivate env i dd db0 w) \<noteq> Ok (Confirm_users n)"
  using run_role_tx_reply(1)
  by (simp add: deactivate_def split: sum.splits prod.splits)

lemma unguarded [simp]: "version_guard None r = Ok ()"
  by (simp add: version_guard_def)

lemma checks_no_conflict:
  "urd_version dto = None \<Longrightarrow> updateCustom_checks env i dto db \<noteq> Inl (Role_version_conflict j v v')"
  by (auto simp: updateCustom_checks_def find_required_def update_name_check_def validateCodes_def Let_def guard_def
      split: option.splits)

lemma stores_no_conflict:
  "rp_bulkSave rows db \<noteq> Inl (Role_version_conflict j v v')"
  "save_with_event r ev db \<noteq> Inl (Role_version_conflict j v v')"
  by (auto simp: rp_bulkSave_def save_with_event_def role_save_def guard_def)

lemma and_then_no_error: "and_then m f = Inl e \<Longrightarrow> m \<noteq> Inl e \<Longrightarrow> \<exists>x. m = Inr x \<and> f x = Inl e"
  by (cases m) auto

lemma tx_no_conflict:
  "urd_version dto = None \<Longrightarrow> updateCustom_tx env i dto db \<noteq> Inl (Role_version_conflict j v v')"
  by (auto simp: updateCustom_tx_def find_required_def Let_def stores_no_conflict split: option.splits
      dest!: and_then_no_error)

lemma no_version_conflict:
  assumes "urd_version dto = None"
  shows "fst (updateCustom env i dto db0 w) \<noteq> Inl (Role_version_conflict j v v')"
  using checks_no_conflict[OF assms, of env i db0 j v v'] tx_no_conflict[OF assms, of env i "rw_db w" j v v']
  by (auto simp: updateCustom_def run_role_tx_def split: sum.splits prod.splits)

lemma committed_update:
  assumes "updateCustom env i dto db0 w = (Ok (Role_reply r' c), w')"
  shows "changes_one_role env i (rw_db w) r' (rw_db w') \<and> role_name r' = urd_name dto"
proof -
  have tx: "updateCustom_tx env i dto (rw_db w) = Ok (r', rw_db w')"
    using assms by (auto simp: updateCustom_def run_role_tx_def split: sum.splits prod.splits if_splits)
  have "role_name r' = urd_name dto"
    using tx by (auto simp: updateCustom_tx_def Let_def touch_def)
  then show ?thesis using updateCustom_tx_changes[OF tx] by simp
qed

section \<open>Properties\<close>


text \<open>
  C10: An update request cannot name the version it expects: under the strict pipe a body with a
  version is refused, no accepted update ever meets a version conflict, and one that answers with a
  role rewrites the row as the transaction finds it, whatever the client had read.
\<close>

theorem role_updates_cannot_name_version:
  assumes "strict_pipe (rq_accepts q)"
  shows "(''version'' \<in> fst ` set b \<longrightarrow> updateCustomRole q i b db0 w = (Inl Refused_body, w)) \<and>
     fst (updateCustomRole q i b db0 w) \<noteq> Inl (Service_failed (Role_version_conflict j v v')) \<and>
     (\<forall>a w'. updateCustomRole q i b db0 w = (Inr (Role_answer a), w') \<and> rsp_id a \<noteq> None \<longrightarrow>
        (\<exists>r. changes_one_role (rq_role q) i (rw_db w) r (rw_db w') \<and> role_name r = name_of b))"
proof -
  have unnamed: "''version'' \<notin> fst ` set b" if "rq_accepts q update_properties b"
  proof -
    have "fst ` set b \<subseteq> set update_properties" using assms that by (auto simp: strict_pipe_def)
    moreover have "''version'' \<notin> set update_properties" by (simp add: update_properties_def)
    ultimately show ?thesis by blast
  qed
  have none: "urd_version (update_of b) = None" if "rq_accepts q update_properties b"
    using unnamed[OF that]
    by (simp add: update_of_def int_of_body_def map_of_eq_None_iff[THEN iffD2])
  have 1: "''version'' \<in> fst ` set b \<longrightarrow> updateCustomRole q i b db0 w = (Inl Refused_body, w)"
    using unnamed by (auto simp: updateCustomRole_def piped_def)
  have 2: "fst (updateCustomRole q i b db0 w) \<noteq> Inl (Service_failed (Role_version_conflict j v v'))"
    using no_version_conflict[OF none, of "rq_role q" i db0 w j v v']
    by (cases "fst (updateCustom (rq_role q) i (update_of b) db0 w)") (auto simp: updateCustomRole_def piped_def)
  have 3: "\<exists>r. changes_one_role (rq_role q) i (rw_db w) r (rw_db w') \<and> role_name r = name_of b"
    if u: "updateCustomRole q i b db0 w = (Inr (Role_answer a), w')" "rsp_id a \<noteq> None" for a w'
  proof -
    obtain rep where rep: "updateCustom (rq_role q) i (update_of b) db0 w = (Ok rep, w')"
        "Role_answer a = role_answer_of q (service_object_of q rep)"
      using u(1) by (auto simp: updateCustomRole_def piped_def map_sum_Inr_iff prod_eq_iff split: if_splits)
    have "\<exists>r c. rep = Role_reply r c"
      using rep(2) u(2) by (cases rep) (auto simp: blank_response_def fromRole_def no_properties_def Let_def)
    then show ?thesis using committed_update rep(1) by (fastforce simp: update_of_def)
  qed
  show ?thesis using 1 2 3 by blast
qed

definition sample_request :: request_env where
  "sample_request = \<lparr> rq_role = sample_env\<lparr> re_graph := buildGraph (filter (\<lambda>d. perm_id d = ''employee.view'') platform_definitions) \<rparr>,
     rq_accepts = (\<lambda>ps b. list_all (\<lambda>p. fst p \<in> set ps) b), rq_now = ''now'', rq_times = (\<lambda>r. (''then'', ''then'')) \<rparr>"

definition rename_to :: "string \<Rightarrow> body" where
  "rename_to n = [(''name'', JStr n), (''permissionCodes'', JArr [JStr ''employee.view''])]"

definition two_updates :: "(request_error + role_answer) \<times> role_world" where
  "two_updates = updateCustomRole sample_request ''c1'' (rename_to ''Second'') sample_db
     (snd (updateCustomRole sample_request ''c1'' (rename_to ''First'') sample_db sample_world))"

text \<open>Two managers save the role they both read: the second overwrites the first.\<close>

theorem role_updates_cannot_name_version_witness:
  "updateCustomRole sample_request ''c1'' ((''version'', JNum 4) # rename_to ''Second'') sample_db sample_world
     = (Inl Refused_body, sample_world) \<and>
   (\<exists>r. changes_one_role (rq_role sample_request) ''c1''
      (rw_db (snd (updateCustomRole sample_request ''c1'' (rename_to ''First'') sample_db sample_world))) r
      (rw_db (snd two_updates)) \<and> role_name r = ''Second'') \<and>
   map role_version (t_roles (rw_db (snd two_updates))) = [1, 6]"
proof -
  have strict: "strict_pipe (rq_accepts sample_request)"
    by (auto simp: strict_pipe_def sample_request_def list_all_iff)
  have refused: "updateCustomRole sample_request ''c1'' ((''version'', JNum 4) # rename_to ''Second'') sample_db sample_world
      = (Inl Refused_body, sample_world)"
    using role_updates_cannot_name_version[OF strict, of "(''version'', JNum 4) # rename_to ''Second''" "''c1''"
        sample_db sample_world] by simp
  have "case two_updates of (Inr (Role_answer a), w) \<Rightarrow>
      rsp_id a \<noteq> None \<and> map role_version (t_roles (rw_db w)) = [1, 6] | _ \<Rightarrow> False" by code_simp
  then obtain a w where a: "two_updates = (Inr (Role_answer a), w)" "rsp_id a \<noteq> None"
      "map role_version (t_roles (rw_db w)) = [1, 6]"
    by (auto split: prod.splits sum.splits role_answer.splits)
  show ?thesis
    using refused role_updates_cannot_name_version[OF strict, of "rename_to ''Second''" "''c1''" sample_db
        "snd (updateCustomRole sample_request ''c1'' (rename_to ''First'') sample_db sample_world)"] a
    by (auto simp: two_updates_def name_of_def string_of_def rename_to_def sample_request_def)
qed

end
