(* ===== verification/Effective_Roles.thy ===== *)
theory Effective_Roles
  imports User_Group Role_Service
begin

text \<open>
  The projection of group memberships to effective roles: the grant keys, the difference
  synchronization of \<^verbatim>\<open>user_effective_roles\<close>, the projection service, the per-user
  authorization cache, the cumulative access evaluator and the capabilities a session starts with.
  The statements of one recomputation are not one transaction: what was written before a failing
  insert stays.
\<close>

section \<open>Grants\<close>

record grant_entry =
  grant_roleId :: uuid
  grant_groupId :: uuid
  grant_scopeType :: string
  grant_refId :: "string option"

text \<open>\<^verbatim>\<open>x || null\<close>: the empty text is dropped.\<close>

definition or_null :: "string option \<Rightarrow> string option" where
  "or_null x = (case x of Some (c # cs) \<Rightarrow> Some (c # cs) | _ \<Rightarrow> None)"

definition GenerateUserEffectiveRoleKey :: "uuid \<Rightarrow> uuid \<Rightarrow> string \<Rightarrow> string option \<Rightarrow> string" where
  "GenerateUserEffectiveRoleKey r g s e =
    r @ '':'' @ g @ '':'' @ s @ '':'' @ (case or_null e of None \<Rightarrow> ''null'' | Some x \<Rightarrow> x)"

definition row_key :: "user_effective_role \<Rightarrow> string" where
  "row_key r = GenerateUserEffectiveRoleKey (uer_roleId r) (uer_sourceGroupId r) (uer_scopeType r) (uer_scopeEntityId r)"

definition entry_key :: "grant_entry \<Rightarrow> string" where
  "entry_key e = GenerateUserEffectiveRoleKey (grant_roleId e) (grant_groupId e) (grant_scopeType e) (grant_refId e)"

definition GenerateUserAuthzVersionKey :: "tenant \<Rightarrow> uuid \<Rightarrow> string" where
  "GenerateUserAuthzVersionKey t u = ''authz:version:'' @ t @ '':'' @ u"

section \<open>Synchronizing one user's rows\<close>

text \<open>
  The identifier the database gives to a row inserted into a table, and how its \<^verbatim>\<open>uuid\<close> type reads a text: not at
  all, or as a canonical text.  The reference of a group's scope is free text, the column it is
  copied to is a \<^verbatim>\<open>uuid\<close>.
\<close>

record projection_env =
  pe_tenant :: tenant
  pe_new_id :: "user_effective_role list \<Rightarrow> uuid"
  pe_uuid :: "string \<Rightarrow> string option"

datatype projection_error = Invalid_uuid_text

definition user_rows :: "projection_env \<Rightarrow> uuid \<Rightarrow> authz_db \<Rightarrow> user_effective_role list" where
  "user_rows env u db = filter (\<lambda>r. uer_userId r = u \<and> uer_tenant r = pe_tenant env) (t_effective_roles db)"

definition js_map_of :: "('a \<Rightarrow> 'k) \<Rightarrow> 'a list \<Rightarrow> ('k, 'a) js_map" where
  "js_map_of f xs = fold (\<lambda>x. js_put (f x) x) xs []"

definition to_delete :: "(string, user_effective_role) js_map \<Rightarrow> (string, grant_entry) js_map \<Rightarrow> uuid list" where
  "to_delete cm tm = map (uer_id \<circ> snd) (filter (\<lambda>kv. \<not> js_has tm (fst kv)) cm)"

definition to_insert :: "(string, user_effective_role) js_map \<Rightarrow> (string, grant_entry) js_map \<Rightarrow> grant_entry list" where
  "to_insert cm tm = map snd (filter (\<lambda>kv. \<not> js_has cm (fst kv)) tm)"

definition deleteByIds :: "projection_env \<Rightarrow> uuid list \<Rightarrow> authz_db \<Rightarrow> authz_db" where
  "deleteByIds env ids db =
    db\<lparr> t_effective_roles := delete_rows (\<lambda>r. uer_tenant r = pe_tenant env \<and> uer_id r \<in> set ids) (t_effective_roles db) \<rparr>"

definition deleteByUserId :: "projection_env \<Rightarrow> uuid \<Rightarrow> authz_db \<Rightarrow> nat \<times> authz_db" where
  "deleteByUserId env u db =
    (length (user_rows env u db),
     db\<lparr> t_effective_roles := delete_rows (\<lambda>r. uer_userId r = u \<and> uer_tenant r = pe_tenant env) (t_effective_roles db) \<rparr>)"

definition deleteBySourceGroup :: "projection_env \<Rightarrow> uuid \<Rightarrow> authz_db \<Rightarrow> authz_db" where
  "deleteBySourceGroup env g db =
    db\<lparr> t_effective_roles := delete_rows (\<lambda>r. uer_tenant r = pe_tenant env \<and> uer_sourceGroupId r = g) (t_effective_roles db) \<rparr>"

definition countActiveHoldersByRoleId :: "projection_env \<Rightarrow> uuid \<Rightarrow> authz_db \<Rightarrow> nat" where
  "countActiveHoldersByRoleId env r db =
    length (js_set_of (map uer_userId (filter (\<lambda>x. uer_tenant x = pe_tenant env \<and> uer_roleId x = r) (t_effective_roles db))))"

definition countActiveHoldersExcludingSourceGroup :: "projection_env \<Rightarrow> uuid \<Rightarrow> uuid \<Rightarrow> authz_db \<Rightarrow> nat" where
  "countActiveHoldersExcludingSourceGroup env r g db =
    length (js_set_of (map uer_userId (filter (\<lambda>x. uer_tenant x = pe_tenant env \<and> uer_roleId x = r \<and> uer_sourceGroupId x \<noteq> g)
      (t_effective_roles db))))"

text \<open>The unique grant constraint; rows without a scope entity never conflict.\<close>

definition grant_conflict :: "user_effective_role \<Rightarrow> user_effective_role \<Rightarrow> bool" where
  "grant_conflict a b =
    (uer_scopeEntityId a \<noteq> None \<and> uer_tenant a = uer_tenant b \<and> uer_userId a = uer_userId b \<and>
     uer_roleId a = uer_roleId b \<and> uer_sourceGroupId a = uer_sourceGroupId b \<and>
     uer_scopeType a = uer_scopeType b \<and> uer_scopeEntityId a = uer_scopeEntityId b)"

fun insert_or_ignore ::
  "(user_effective_role list \<Rightarrow> uuid) \<Rightarrow> user_effective_role list \<Rightarrow> user_effective_role list \<Rightarrow> user_effective_role list" where
  "insert_or_ignore new_id [] rows = rows"
| "insert_or_ignore new_id (r # rs) rows =
    insert_or_ignore new_id rs
      (if list_ex (grant_conflict r) rows then rows else rows @ [r\<lparr> uer_id := new_id rows \<rparr>])"

definition entry_row :: "projection_env \<Rightarrow> uuid \<Rightarrow> grant_entry \<Rightarrow> user_effective_role" where
  "entry_row env u e =
    \<lparr> uer_id = [], uer_tenant = pe_tenant env, uer_userId = u,
      uer_roleId = grant_roleId e, uer_sourceGroupId = grant_groupId e, uer_scopeType = grant_scopeType e,
      uer_scopeEntityId = Option.bind (or_null (grant_refId e)) (pe_uuid env) \<rparr>"

definition insertable :: "projection_env \<Rightarrow> grant_entry \<Rightarrow> bool" where
  "insertable env e = (case or_null (grant_refId e) of None \<Rightarrow> True | Some x \<Rightarrow> pe_uuid env x \<noteq> None)"

definition insert_entries :: "projection_env \<Rightarrow> uuid \<Rightarrow> grant_entry list \<Rightarrow> authz_db \<Rightarrow> (projection_error + authz_db)" where
  "insert_entries env u es db =
    (if list_all (insertable env) es
     then Ok (db\<lparr> t_effective_roles := insert_or_ignore (pe_new_id env) (map (entry_row env u) es) (t_effective_roles db) \<rparr>)
     else Fail Invalid_uuid_text)"

text \<open>
  \<^verbatim>\<open>syncUserEffectiveRoles\<close> and its twin \<^verbatim>\<open>syncEffectiveRolesForUser\<close>: both take
  the difference of the two key maps, delete, then insert.
\<close>

definition syncUserEffectiveRoles ::
  "projection_env \<Rightarrow> uuid \<Rightarrow> grant_entry list \<Rightarrow> authz_db \<Rightarrow> (projection_error + nat \<times> nat) \<times> authz_db" where
  "syncUserEffectiveRoles env u targets db =
    (let cm = js_map_of row_key (user_rows env u db);
         tm = js_map_of entry_key targets;
         del = to_delete cm tm; ins = to_insert cm tm;
         db1 = (if del = [] then db else deleteByIds env del db)
     in if ins = [] then (Ok (length ins, length del), db1)
        else (case insert_entries env u ins db1 of
                Inl e \<Rightarrow> (Fail e, db1)
              | Inr db2 \<Rightarrow> (Ok (length ins, length del), db2)))"

definition syncEffectiveRolesForUser ::
  "projection_env \<Rightarrow> uuid \<Rightarrow> grant_entry list \<Rightarrow> authz_db \<Rightarrow> (projection_error + nat \<times> nat) \<times> authz_db" where
  "syncEffectiveRolesForUser = syncUserEffectiveRoles"

section \<open>The user's authorization cache\<close>

record authz_profile =
  prof_version :: int
  prof_roles :: "grant_entry list"

text \<open>The cache: whether its client is there, and which of its three operations work.\<close>

record authz_cache =
  ac_client :: bool
  ac_incr_ok :: bool
  ac_set_ok :: bool
  ac_get_ok :: bool
  ac_del_ok :: bool
  ac_versions :: "(string, int) js_map"
  ac_profiles :: "(string, authz_profile) js_map"

definition redis_incr :: "string \<Rightarrow> authz_cache \<Rightarrow> int \<times> authz_cache" where
  "redis_incr k c =
    (let v = js_get_or 0 (ac_versions c) k + 1 in (v, c\<lparr> ac_versions := js_put k v (ac_versions c) \<rparr>))"

definition next_version :: "tenant \<Rightarrow> uuid \<Rightarrow> authz_cache \<Rightarrow> int \<times> authz_cache" where
  "next_version t u c =
    (if ac_client c \<and> ac_incr_ok c then redis_incr (GenerateUserAuthzVersionKey t u) c else (1, c))"

definition rows_as_grants :: "user_effective_role list \<Rightarrow> grant_entry list" where
  "rows_as_grants rows =
    map (\<lambda>r. \<lparr> grant_roleId = uer_roleId r, grant_groupId = uer_sourceGroupId r,
                grant_scopeType = uer_scopeType r, grant_refId = or_null (uer_scopeEntityId r) \<rparr>) rows"

definition syncUserCache ::
  "(tenant \<Rightarrow> uuid \<Rightarrow> string) \<Rightarrow> projection_env \<Rightarrow> uuid \<Rightarrow> grant_entry list option \<Rightarrow> authz_db \<Rightarrow> authz_cache
     \<Rightarrow> authz_profile \<times> authz_cache" where
  "syncUserCache kb env u explicit db c =
    (let roles = (case explicit of Some rs \<Rightarrow> rs | None \<Rightarrow> rows_as_grants (user_rows env u db));
         (v, c1) = next_version (pe_tenant env) u c;
         payload = \<lparr> prof_version = v, prof_roles = roles \<rparr>
     in (payload, if ac_set_ok c1 then c1\<lparr> ac_profiles := js_put (kb (pe_tenant env) u) payload (ac_profiles c1) \<rparr>
                  else c1))"

definition getUserAuthorizationProfile ::
  "(tenant \<Rightarrow> uuid \<Rightarrow> string) \<Rightarrow> projection_env \<Rightarrow> uuid \<Rightarrow> authz_db \<Rightarrow> authz_cache \<Rightarrow> authz_profile \<times> authz_cache" where
  "getUserAuthorizationProfile kb env u db c =
    (case (if ac_get_ok c then js_get (ac_profiles c) (kb (pe_tenant env) u) else None) of
       Some p \<Rightarrow> (p, c)
     | None \<Rightarrow> syncUserCache kb env u None db c)"

definition invalidateUserCache ::
  "(tenant \<Rightarrow> uuid \<Rightarrow> string) \<Rightarrow> tenant \<Rightarrow> uuid \<Rightarrow> authz_cache \<Rightarrow> authz_cache" where
  "invalidateUserCache kb t u c =
    (if ac_del_ok c then c\<lparr> ac_profiles := AList.delete (kb t u) (ac_profiles c) \<rparr> else c)"

section \<open>Recomputing a user's effective roles\<close>

record authz_world =
  aw_db :: authz_db
  aw_cache :: authz_cache
  aw_outbox :: "outbox_row list"

definition tenant_group :: "tenant \<Rightarrow> uuid \<Rightarrow> authz_db \<Rightarrow> user_group option" where
  "tenant_group t i db = find (\<lambda>g. group_id g = i \<and> group_tenant g = t) (t_groups db)"

definition roles_of_group :: "tenant \<Rightarrow> uuid \<Rightarrow> authz_db \<Rightarrow> uuid list" where
  "roles_of_group t i db =
    map ugr_roleId (filter (\<lambda>r. ugr_groupId r = i \<and> ugr_tenant r = t) (t_group_roles db))"

definition group_grants :: "tenant \<Rightarrow> authz_db \<Rightarrow> uuid \<Rightarrow> grant_entry list" where
  "group_grants t db i =
    (case tenant_group t i db of
       None \<Rightarrow> []
     | Some g \<Rightarrow>
         if group_state g \<noteq> Group_active then []
         else map (\<lambda>r. \<lparr> grant_roleId = r, grant_groupId = group_id g,
                          grant_scopeType = scope_type_string (group_scopeType g),
                          grant_refId = or_null (group_scopeRefId g) \<rparr>) (roles_of_group t i db))"

definition findByUserId :: "tenant \<Rightarrow> uuid \<Rightarrow> authz_db \<Rightarrow> uuid list" where
  "findByUserId t u db =
    map mem_groupId (filter (\<lambda>m. mem_userId m = u \<and> mem_tenant m = t) (t_memberships db))"

definition recompute_targets :: "tenant \<Rightarrow> uuid \<Rightarrow> authz_db \<Rightarrow> grant_entry list" where
  "recompute_targets t u db = concat (map (group_grants t db) (findByUserId t u db))"

definition recomputeUserEffectiveRoles ::
  "(tenant \<Rightarrow> uuid \<Rightarrow> string) \<Rightarrow> projection_env \<Rightarrow> uuid \<Rightarrow> authz_world
     \<Rightarrow> (projection_error + nat \<times> nat \<times> nat) \<times> authz_world" where
  "recomputeUserEffectiveRoles kb env u w =
    (let targets = recompute_targets (pe_tenant env) u (aw_db w);
         (res, db1) = (if targets = []
           then (let (n, d) = deleteByUserId env u (aw_db w) in (Ok (0, n), d))
           else syncUserEffectiveRoles env u targets (aw_db w))
     in case res of
          Inl e \<Rightarrow> (Fail e, w\<lparr> aw_db := db1 \<rparr>)
        | Inr (ins, del) \<Rightarrow>
            (Ok (ins, del, length targets),
             w\<lparr> aw_db := db1, aw_cache := snd (syncUserCache kb env u (Some targets) db1 (aw_cache w)) \<rparr>))"

section \<open>The cumulative access evaluator\<close>

record resource_context =
  rc_employeeId :: "string option"
  rc_managerId :: "string option"
  rc_companyId :: "string option"
  rc_locationId :: "string option"
  rc_departmentId :: "string option"

definition same_text :: "string option \<Rightarrow> string option \<Rightarrow> bool" where
  "same_text a b =
    (case (or_null a, or_null b) of (Some x, Some y) \<Rightarrow> js_lower y = js_lower x | _ \<Rightarrow> False)"

definition is_text :: "string option \<Rightarrow> string \<Rightarrow> bool" where
  "is_text a s = (case or_null a of None \<Rightarrow> False | Some x \<Rightarrow> x = s)"

definition evaluateScope :: "string \<Rightarrow> string option \<Rightarrow> resource_context \<Rightarrow> string \<Rightarrow> bool" where
  "evaluateScope ty ref res emp =
    (if ty = ''TENANT'' \<or> ty = ''TENANT_WIDE'' then True
     else if ty = ''SELF'' then is_text (rc_employeeId res) emp
     else if ty = ''DIRECT_REPORTEES'' then is_text (rc_managerId res) emp
     else if ty = ''COMPANY'' then same_text ref (rc_companyId res)
     else if ty = ''LOCATION'' then same_text ref (rc_locationId res)
     else if ty = ''DEPARTMENT'' then same_text ref (rc_departmentId res)
     else False)"

definition evaluateAccess ::
  "string \<Rightarrow> grant_entry list \<Rightarrow> (string, string list) js_map \<Rightarrow> resource_context \<Rightarrow> string \<Rightarrow> bool" where
  "evaluateAccess perm roles perms res emp =
    (let granting = filter (\<lambda>g. case js_get perms (grant_roleId g) of None \<Rightarrow> False | Some ps \<Rightarrow> perm \<in> set ps) roles
     in list_ex (\<lambda>g. evaluateScope (grant_scopeType g) (grant_refId g) res emp) granting)"

section \<open>Bootstrap capabilities\<close>

record bootstrap_capabilities =
  bc_version :: int
  bc_permissions :: "string list"
  bc_modules :: "string list"
  bc_roles :: "string list"

definition module_of :: "string \<Rightarrow> string" where
  "module_of p = takeWhile (\<lambda>c. c \<noteq> CHR ''.'') p"

definition deriveModulesFromPermissions :: "string list \<Rightarrow> string list" where
  "deriveModulesFromPermissions ps = js_set_of (filter (\<lambda>m. m \<noteq> []) (map module_of ps))"

text \<open>A role's name and permissions: from the role cache when it has the role, else from the tables.\<close>

definition role_capabilities ::
  "role_key_builder \<Rightarrow> bool \<Rightarrow> tenant \<Rightarrow> role_cache \<Rightarrow> authz_db \<Rightarrow> uuid \<Rightarrow> string list \<times> string list" where
  "role_capabilities rkb cache_ok t cache db i =
    (case (if cache_ok then cache_getRole rkb t i cache else None) of
       Some c \<Rightarrow> (filter (\<lambda>n. n \<noteq> []) [cr_name c], filter (\<lambda>p. p \<noteq> []) (map fst (cr_permissions c)))
     | None \<Rightarrow>
         (case role_find t i db of
            None \<Rightarrow> ([], [])
          | Some r \<Rightarrow> ([role_name r], map rp_code (role_permissions_of (role_id r) db))))"

definition getBootstrapCapabilities ::
  "(tenant \<Rightarrow> uuid \<Rightarrow> string) \<Rightarrow> role_key_builder \<Rightarrow> bool \<Rightarrow> projection_env \<Rightarrow> uuid \<Rightarrow> role_cache \<Rightarrow> authz_world
     \<Rightarrow> bootstrap_capabilities \<times> authz_world" where
  "getBootstrapCapabilities kb rkb role_cache_ok env u rcache w =
    (let (p, c1) = getUserAuthorizationProfile kb env u (aw_db w) (aw_cache w);
         w1 = w\<lparr> aw_cache := c1 \<rparr>
     in if prof_roles p = []
        then (\<lparr> bc_version = (if prof_version p = 0 then 1 else prof_version p), bc_permissions = [],
                bc_modules = [], bc_roles = [] \<rparr>, w1)
        else (let caps = map (\<lambda>g. role_capabilities rkb role_cache_ok (pe_tenant env) rcache (aw_db w) (grant_roleId g))
                           (prof_roles p);
                  perms = js_set_of (concat (map snd caps))
              in (\<lparr> bc_version = prof_version p, bc_permissions = perms,
                    bc_modules = deriveModulesFromPermissions perms,
                    bc_roles = js_set_of (concat (map fst caps)) \<rparr>, w1)))"

end
