(* ===== verification/Effective_Roles_Properties.thy ===== *)
theory Effective_Roles_Properties
  imports Effective_Roles
begin

text \<open>
  The projection is exact: after a recomputation a user's grants are those of the active groups
  the user is a member of, a second recomputation changes nothing, and the evaluator's decision on
  them is the one the groups describe.
\<close>

section \<open>Maps built from lists\<close>

lemma js_map_of_keys: "js_keys (js_map_of f xs) = js_set_of (map f xs)"
  using js_map.keys_of_list[of f "\<lambda>x. x" xs] by (simp add: js_map_of_def)

lemma js_map_of_entries: "(k, x) \<in> set (js_map_of f xs) \<Longrightarrow> x \<in> set xs \<and> k = f x"
proof -
  have "(k, x) \<in> set (fold (\<lambda>x. js_put (f x) x) xs m) \<Longrightarrow> distinct (js_keys m) \<Longrightarrow>
      (k, x) \<in> set m \<or> (x \<in> set xs \<and> k = f x)" for m
  proof (induction xs arbitrary: m)
    case (Cons y ys)
    have d: "distinct (js_keys (js_put (f y) y m))" using Cons(3) by (simp add: distinct_js_add)
    have "(k, x) \<in> set (js_put (f y) y m) \<Longrightarrow> (k, x) \<in> set m \<or> (x = y \<and> k = f y)"
      using map_of_eq_Some_iff[OF d, of k x] map_of_eq_Some_iff[OF Cons(3), of k x]
      unfolding js_get_put by (simp split: if_splits)
    then show ?case using Cons(1)[OF _ d] Cons(2) by auto
  qed simp
  from this[of "[]"] show "(k, x) \<in> set (js_map_of f xs) \<Longrightarrow> x \<in> set xs \<and> k = f x"
    by (simp add: js_map_of_def)
qed

lemma js_map_of_distinct: "distinct (js_keys (js_map_of f xs))"
  by (simp add: js_map_of_keys)

lemma js_map_of_values:
  assumes "distinct (map f xs)"
  shows "snd ` set (js_map_of f xs) = set xs"
proof -
  have "x \<in> snd ` set (js_map_of f xs)" if "x \<in> set xs" for x
    using js_map.get_of_list_inj[OF that assms, of "\<lambda>x. x"] map_of_SomeD
    by (force simp: js_map_of_def)
  then show ?thesis using js_map_of_entries by fastforce
qed

section \<open>The difference\<close>

definition projection_ok :: "projection_env \<Rightarrow> uuid \<Rightarrow> authz_db \<Rightarrow> bool" where
  "projection_ok env u db \<longleftrightarrow>
     distinct (map row_key (user_rows env u db)) \<and> distinct (map uer_id (t_effective_roles db))"

definition canonical_refs :: "projection_env \<Rightarrow> grant_entry list \<Rightarrow> bool" where
  "canonical_refs env es =
    list_all (\<lambda>e. case or_null (grant_refId e) of None \<Rightarrow> True | Some x \<Rightarrow> pe_uuid env x = Some x) es"

lemma or_null_idem [simp]: "or_null (or_null x) = or_null x"
  by (auto simp: or_null_def split: option.splits list.splits)

lemma entry_row_key: "canonical_refs env [e] \<Longrightarrow> row_key (entry_row env u e) = entry_key e"
proof -
  assume "canonical_refs env [e]"
  then have "Option.bind (or_null (grant_refId e)) (pe_uuid env) = or_null (grant_refId e)"
    by (cases "or_null (grant_refId e)") (simp_all add: canonical_refs_def)
  then show ?thesis by (simp add: row_key_def entry_key_def entry_row_def GenerateUserEffectiveRoleKey_def)
qed

lemma canonical_insertable: "canonical_refs env [e] \<Longrightarrow> insertable env e"
  by (cases "or_null (grant_refId e)") (simp_all add: insertable_def canonical_refs_def)

lemma conflict_same_key: "grant_conflict a b \<Longrightarrow> row_key a = row_key b \<and> uer_userId b = uer_userId a \<and> uer_tenant b = uer_tenant a"
  by (auto simp: grant_conflict_def row_key_def)

text \<open>Rows with new keys are all inserted, under identifiers the table does not have.\<close>

definition fresh_ids :: "projection_env \<Rightarrow> bool" where
  "fresh_ids env \<longleftrightarrow> (\<forall>rows. pe_new_id env rows \<notin> set (map uer_id rows))"

lemma row_key_id [simp]: "row_key (r\<lparr> uer_id := i \<rparr>) = row_key r"
  by (simp add: row_key_def)

lemma insert_all:
  assumes "distinct (map row_key new)" "\<forall>r \<in> set new. uer_userId r = u \<and> uer_tenant r = t"
    and "\<forall>r \<in> set new. \<forall>x \<in> set rows. uer_userId x = u \<and> uer_tenant x = t \<longrightarrow> row_key x \<noteq> row_key r"
    and fresh: "fresh_ids env"
  shows "\<exists>ys. insert_or_ignore (pe_new_id env) new rows = rows @ ys \<and> map row_key ys = map row_key new \<and>
    (\<forall>r \<in> set ys. uer_userId r = u \<and> uer_tenant r = t) \<and>
    (distinct (map uer_id rows) \<longrightarrow> distinct (map uer_id (rows @ ys)))"
  using assms(1-3)
proof (induction new arbitrary: rows)
  case (Cons r new)
  let ?r = "r\<lparr> uer_id := pe_new_id env rows \<rparr>"
  have no: "\<not> list_ex (grant_conflict r) rows"
  proof
    assume "list_ex (grant_conflict r) rows"
    then obtain x where "x \<in> set rows" "grant_conflict r x" by (auto simp: list_ex_iff)
    then show False using conflict_same_key[of r x] Cons(3,4) by auto
  qed
  have "\<forall>q \<in> set new. \<forall>x \<in> set (rows @ [?r]). uer_userId x = u \<and> uer_tenant x = t \<longrightarrow> row_key x \<noteq> row_key q"
    using Cons(2,4) by (auto simp: image_iff)
  moreover have "distinct (map row_key new)" "\<forall>r \<in> set new. uer_userId r = u \<and> uer_tenant r = t"
    using Cons(2,3) by simp_all
  ultimately obtain ys where ys: "insert_or_ignore (pe_new_id env) new (rows @ [?r]) = (rows @ [?r]) @ ys"
      "map row_key ys = map row_key new" "\<forall>r \<in> set ys. uer_userId r = u \<and> uer_tenant r = t"
      "distinct (map uer_id (rows @ [?r])) \<longrightarrow> distinct (map uer_id ((rows @ [?r]) @ ys))"
    using Cons(1)[of "rows @ [?r]"] by blast
  have "distinct (map uer_id rows) \<longrightarrow> distinct (map uer_id (rows @ [?r]))"
    using fresh by (auto simp: fresh_ids_def)
  then show ?case using no ys Cons(3) by (intro exI[of _ "?r # ys"]) auto
qed simp

definition other_rows :: "projection_env \<Rightarrow> uuid \<Rightarrow> authz_db \<Rightarrow> user_effective_role list" where
  "other_rows env u db = filter (\<lambda>r. \<not> (uer_userId r = u \<and> uer_tenant r = pe_tenant env)) (t_effective_roles db)"

lemma user_rows_set: "r \<in> set (user_rows env u db) \<longleftrightarrow>
    r \<in> set (t_effective_roles db) \<and> uer_userId r = u \<and> uer_tenant r = pe_tenant env"
  by (auto simp: user_rows_def)

lemma deleted_rows:
  assumes ok: "projection_ok env u db"
    and del: "del = to_delete (js_map_of row_key (user_rows env u db)) tm"
  shows "t_effective_roles (deleteByIds env del db) =
      filter (\<lambda>r. \<not> (uer_userId r = u \<and> uer_tenant r = pe_tenant env) \<or> row_key r \<in> set (js_keys tm)) (t_effective_roles db)"
proof -
  let ?cm = "js_map_of row_key (user_rows env u db)"
  have ids: "inj_on uer_id (set (t_effective_roles db))"
    using ok by (simp add: projection_ok_def distinct_map)
  have vals: "snd ` set ?cm = set (user_rows env u db)"
    using ok by (intro js_map_of_values) (simp add: projection_ok_def)
  have "uer_id r \<in> set del \<longleftrightarrow> (uer_userId r = u \<and> uer_tenant r = pe_tenant env) \<and> row_key r \<notin> set (js_keys tm)"
    if r: "r \<in> set (t_effective_roles db)" for r
  proof
    assume "uer_id r \<in> set del"
    then obtain k x where x: "(k, x) \<in> set ?cm" "uer_id r = uer_id x" "k \<notin> set (js_keys tm)"
      by (auto simp: del to_delete_def)
    have "x \<in> set (user_rows env u db)" "k = row_key x" using js_map_of_entries[OF x(1)] by simp_all
    moreover from this have "r = x" using inj_onD[OF ids x(2) r] by (simp add: user_rows_set)
    ultimately show "(uer_userId r = u \<and> uer_tenant r = pe_tenant env) \<and> row_key r \<notin> set (js_keys tm)"
      using x(3) by (simp add: user_rows_set)
  next
    assume a: "(uer_userId r = u \<and> uer_tenant r = pe_tenant env) \<and> row_key r \<notin> set (js_keys tm)"
    then have "r \<in> snd ` set ?cm" using r vals by (simp add: user_rows_set)
    then obtain kr where kr: "kr \<in> set ?cm" "r = snd kr" by (rule imageE)
    then have "(row_key r, r) \<in> set ?cm" using js_map_of_entries[of "fst kr" r] by (metis prod.collapse)
    then have "(row_key r, r) \<in> set (filter (\<lambda>kv. \<not> js_has tm (fst kv)) ?cm)"
      using a unfolding set_filter js_has_iff by simp
    then have "(uer_id \<circ> snd) (row_key r, r) \<in> set del"
      unfolding del to_delete_def set_map by (rule imageI)
    then show "uer_id r \<in> set del" by simp
  qed
  note iff = this
  show ?thesis
    unfolding deleteByIds_def delete_rows_def
    by (simp, rule filter_cong[OF refl]) (use iff in \<open>auto simp: image_iff\<close>)
qed

text \<open>What a synchronization of one user leaves.\<close>

lemma sync_exact:
  assumes ok: "projection_ok env u db" and refs: "canonical_refs env targets" and fresh: "fresh_ids env"
  shows "\<exists>ins del db'. syncUserEffectiveRoles env u targets db = (Ok (ins, del), db') \<and>
     row_key ` set (user_rows env u db') = entry_key ` set targets \<and>
     distinct (map row_key (user_rows env u db')) \<and> other_rows env u db' = other_rows env u db \<and>
     distinct (map uer_id (t_effective_roles db')) \<and>
     t_groups db' = t_groups db \<and> t_group_roles db' = t_group_roles db \<and> t_memberships db' = t_memberships db"
proof -
  let ?cm = "js_map_of row_key (user_rows env u db)" and ?tm = "js_map_of entry_key targets"
  let ?mine = "\<lambda>r. uer_userId r = u \<and> uer_tenant r = pe_tenant env"
  define del where "del = to_delete ?cm ?tm"
  define ins where "ins = to_insert ?cm ?tm"
  define db1 where "db1 = (if del = [] then db else deleteByIds env del db)"
  define kept where "kept = filter (\<lambda>r. \<not> ?mine r \<or> row_key r \<in> set (js_keys ?tm)) (t_effective_roles db)"
  have keys: "set (js_keys ?cm) = row_key ` set (user_rows env u db)" "set (js_keys ?tm) = entry_key ` set targets"
    by (simp_all add: js_map_of_keys)
  have "t_effective_roles (deleteByIds env [] db) = t_effective_roles db"
    by (simp add: deleteByIds_def delete_rows_def)
  then have rows1: "t_effective_roles db1 = kept"
    using deleted_rows[OF ok del_def] by (auto simp: db1_def kept_def)
  have same1: "t_groups db1 = t_groups db" "t_group_roles db1 = t_group_roles db" "t_memberships db1 = t_memberships db"
    by (simp_all add: db1_def deleteByIds_def)
  have ins_t: "e \<in> set targets \<and> entry_key e \<notin> row_key ` set (user_rows env u db)" if e: "e \<in> set ins" for e
  proof -
    obtain k where "(k, e) \<in> set ?tm" "k \<notin> set (js_keys ?cm)"
      using e by (auto simp: ins_def to_insert_def)
    then show ?thesis using js_map_of_entries[of k e entry_key targets] keys(1) by auto
  qed
  have ins_keys: "map entry_key ins = filter (\<lambda>k. k \<notin> set (js_keys ?cm)) (js_keys ?tm)"
  proof -
    have "map entry_key (map snd xs) = map fst xs" if "set xs \<subseteq> set ?tm" for xs
      using that js_map_of_entries[of _ _ entry_key targets] by (induction xs) auto
    then have "map entry_key ins = map fst (filter (\<lambda>kv. \<not> js_has ?cm (fst kv)) ?tm)"
      unfolding ins_def to_insert_def by (metis filter_is_subset)
    also have "\<dots> = filter (\<lambda>k. k \<notin> set (js_keys ?cm)) (js_keys ?tm)"
      by (simp add: filter_map comp_def)
    finally show ?thesis .
  qed
  have can: "canonical_refs env [e]" if "e \<in> set ins" for e
    using refs ins_t[OF that] by (simp add: canonical_refs_def list_all_iff)
  have new_keys: "map row_key (map (entry_row env u) ins) = map entry_key ins"
    using can entry_row_key[of env _ u] by simp
  have insertable: "list_all (insertable env) ins"
    using can canonical_insertable by (simp add: list_all_iff)
  obtain new where new: "insert_or_ignore (pe_new_id env) (map (entry_row env u) ins) kept = kept @ new"
      "map row_key new = map entry_key ins" "\<forall>r \<in> set new. ?mine r"
      "distinct (map uer_id kept) \<longrightarrow> distinct (map uer_id (kept @ new))"
  proof -
    have "distinct (map row_key (map (entry_row env u) ins))"
      unfolding new_keys ins_keys using js_map_of_distinct by (rule distinct_filter)
    moreover have "\<forall>r \<in> set (map (entry_row env u) ins). ?mine r"
      by (auto simp: entry_row_def)
    moreover have "\<forall>r \<in> set (map (entry_row env u) ins). \<forall>x \<in> set kept. ?mine x \<longrightarrow> row_key x \<noteq> row_key r"
    proof (intro ballI impI)
      fix r x
      assume "r \<in> set (map (entry_row env u) ins)" and x: "x \<in> set kept" "?mine x"
      then obtain e where e: "e \<in> set ins" "row_key r = entry_key e"
        using can entry_row_key[of env _ u] by auto
      have "x \<in> set (user_rows env u db)" using x by (auto simp: kept_def user_rows_set)
      then show "row_key x \<noteq> row_key r" using ins_t[OF e(1)] e(2) by (metis imageI)
    qed
    ultimately show thesis using insert_all[OF _ _ _ fresh, of "map (entry_row env u) ins" u "pe_tenant env" kept] that new_keys
      by metis
  qed
  have ids: "distinct (map uer_id (kept @ new))"
    using new(4) ok by (simp add: kept_def projection_ok_def distinct_map_filter)
  define db2 where "db2 = db1\<lparr> t_effective_roles := kept @ new \<rparr>"
  have run: "\<exists>db'. syncUserEffectiveRoles env u targets db = (Ok (length ins, length del), db') \<and>
      t_effective_roles db' = kept @ new \<and> t_groups db' = t_groups db \<and>
      t_group_roles db' = t_group_roles db \<and> t_memberships db' = t_memberships db"
  proof (cases "ins = []")
    case True
    have "syncUserEffectiveRoles env u targets db = (Ok (length ins, length del), db1)"
      using True unfolding syncUserEffectiveRoles_def Let_def del_def[symmetric] ins_def[symmetric] db1_def[symmetric]
      by simp
    then show ?thesis using True rows1 same1 new(2) by simp
  next
    case False
    have "insert_entries env u ins db1 = Ok db2"
      using insertable new(1) rows1 by (simp add: insert_entries_def db2_def)
    then have "syncUserEffectiveRoles env u targets db = (Ok (length ins, length del), db2)"
      using False unfolding syncUserEffectiveRoles_def Let_def del_def[symmetric] ins_def[symmetric] db1_def[symmetric]
      by simp
    then show ?thesis using same1 by (simp add: db2_def)
  qed
  then obtain db' where db': "syncUserEffectiveRoles env u targets db = (Ok (length ins, length del), db')"
      "t_effective_roles db' = kept @ new" "t_groups db' = t_groups db"
      "t_group_roles db' = t_group_roles db" "t_memberships db' = t_memberships db" by blast
  let ?K = "filter (\<lambda>r. row_key r \<in> set (js_keys ?tm)) (user_rows env u db)"
  have mine: "user_rows env u db' = ?K @ new"
  proof -
    have "filter ?mine kept = ?K"
      unfolding kept_def user_rows_def filter_filter by (rule filter_cong[OF refl]) blast
    moreover have "filter ?mine (new) = new"
      by (rule filter_True) (use new(3) in auto)
    ultimately show ?thesis unfolding user_rows_def[of env u db'] db'(2) filter_append by simp
  qed
  have others: "other_rows env u db' = other_rows env u db"
  proof -
    have "filter (\<lambda>r. \<not> ?mine r) (new) = []"
      by (rule filter_False) (use new(3) in auto)
    then show ?thesis
      unfolding other_rows_def db'(2) filter_append kept_def filter_filter
      by (simp, intro filter_cong[OF refl]) blast
  qed
  have set_keys: "row_key ` set (user_rows env u db') = entry_key ` set targets"
  proof -
    have "row_key ` set (user_rows env u db') = row_key ` set ?K \<union> set (map entry_key ins)"
      unfolding mine set_append image_Un set_map[symmetric] new(2) by (rule refl)
    also have "set (map entry_key ins) = entry_key ` set targets - row_key ` set (user_rows env u db)"
      unfolding ins_keys set_filter keys by blast
    also have "row_key ` set ?K = row_key ` set (user_rows env u db) \<inter> entry_key ` set targets"
      unfolding set_filter keys by blast
    finally show ?thesis by blast
  qed
  have "distinct (map row_key (user_rows env u db'))"
  proof -
    have "distinct (map row_key ?K)" using ok by (simp add: projection_ok_def distinct_map_filter)
    moreover have "distinct (map entry_key ins)"
      unfolding ins_keys using js_map_of_distinct by (rule distinct_filter)
    moreover have "set (map row_key ?K) \<inter> set (map entry_key ins) = {}"
      unfolding ins_keys using keys(1) by auto
    ultimately show ?thesis unfolding mine map_append new(2) by (simp only: distinct_append simp_thms)
  qed
  then show ?thesis using db' others set_keys ids by metis
qed

section \<open>Recomputation\<close>

lemma user_rows_delete:
  "user_rows env u (snd (deleteByUserId env u db)) = []"
  "other_rows env u (snd (deleteByUserId env u db)) = other_rows env u db"
  by (auto simp: user_rows_def other_rows_def deleteByUserId_def delete_rows_def filter_empty_conv
      intro: filter_cong)

text \<open>
  C31: When a user's rows have distinct grant keys, the references of the user's active groups are
  canonical identifiers and new rows get unused identifiers, recomputing the user's effective roles succeeds; the user's rows then
  have, each once, exactly the keys of the grants of the active groups the user is a member of, no
  other row changes, and a working cache holds exactly these grants.
\<close>

theorem recomputation_exact:
  assumes "projection_ok env u (aw_db w)"
    and "canonical_refs env (recompute_targets (pe_tenant env) u (aw_db w))" and "fresh_ids env"
  shows "\<exists>ins del n w'. recomputeUserEffectiveRoles kb env u w = (Ok (ins, del, n), w') \<and>
    row_key ` set (user_rows env u (aw_db w')) = entry_key ` set (recompute_targets (pe_tenant env) u (aw_db w)) \<and>
    distinct (map row_key (user_rows env u (aw_db w'))) \<and>
    other_rows env u (aw_db w') = other_rows env u (aw_db w) \<and>
    (ac_set_ok (aw_cache w) \<longrightarrow> (\<exists>p. js_get (ac_profiles (aw_cache w')) (kb (pe_tenant env) u) = Some p \<and>
       prof_roles p = recompute_targets (pe_tenant env) u (aw_db w)))"
proof -
  let ?t = "recompute_targets (pe_tenant env) u (aw_db w)"
  have cache: "ac_set_ok c \<Longrightarrow> \<exists>p. js_get (ac_profiles (snd (syncUserCache kb env u (Some ts) db c))) (kb (pe_tenant env) u) = Some p \<and>
      prof_roles p = ts" for ts db c
    by (auto simp: syncUserCache_def next_version_def redis_incr_def Let_def split: prod.splits)
  show ?thesis
  proof (cases "?t = []")
    case True
    let ?w = "w\<lparr> aw_db := snd (deleteByUserId env u (aw_db w)),
        aw_cache := snd (syncUserCache kb env u (Some []) (snd (deleteByUserId env u (aw_db w))) (aw_cache w)) \<rparr>"
    have "recomputeUserEffectiveRoles kb env u w = (Ok (0, fst (deleteByUserId env u (aw_db w)), 0), ?w)"
      by (simp add: recomputeUserEffectiveRoles_def Let_def True split: prod.splits)
    then show ?thesis using user_rows_delete[of env u "aw_db w"] cache[of "aw_cache w" "[]"] True by auto
  next
    case False
    obtain ins del db' where s: "syncUserEffectiveRoles env u ?t (aw_db w) = (Ok (ins, del), db')"
        "row_key ` set (user_rows env u db') = entry_key ` set ?t" "distinct (map row_key (user_rows env u db'))"
        "other_rows env u db' = other_rows env u (aw_db w)"
      using sync_exact[OF assms] by blast
    let ?w = "w\<lparr> aw_db := db', aw_cache := snd (syncUserCache kb env u (Some ?t) db' (aw_cache w)) \<rparr>"
    have "recomputeUserEffectiveRoles kb env u w = (Ok (ins, del, length ?t), ?w)"
      using False s(1) by (simp add: recomputeUserEffectiveRoles_def Let_def)
    then show ?thesis using s cache[of "aw_cache w" ?t db'] by auto
  qed
qed

text \<open>A small tenant: one active group of one member, with one role; new rows get longer identifiers.\<close>

definition growing_ids :: "user_effective_role list \<Rightarrow> uuid" where
  "growing_ids rows = ''x'' @ concat (map uer_id rows)"

definition env0 :: projection_env where
  "env0 = \<lparr> pe_tenant = ''acme'', pe_new_id = growing_ids, pe_uuid = Some \<rparr>"

definition sample_group :: user_group where
  "sample_group =
    \<lparr> group_id = ''g1'', group_tenant = ''acme'', group_name = ''Managers'', group_description = None,
      group_state = Group_active, group_scopeType = COMPANY, group_scopeRefId = Some ''c1'',
      group_matchingRule = \<lparr> rule_combinator = None, rule_clauses = [] \<rparr>, group_ruleAttributeKeys = [],
      group_version = 2, group_projectionVersion = 1, group_createdBy = None, group_updatedBy = None \<rparr>"

definition sample_db :: authz_db where
  "sample_db =
    \<lparr> t_roles = [], t_role_permissions = [], t_groups = [sample_group],
      t_group_roles = [\<lparr> ugr_tenant = ''acme'', ugr_groupId = ''g1'', ugr_roleId = ''r1'' \<rparr>],
      t_memberships = [\<lparr> mem_tenant = ''acme'', mem_groupId = ''g1'', mem_userId = ''u1'' \<rparr>],
      t_effective_roles = [], t_outbox = [] \<rparr>"

definition sample_world :: authz_world where
  "sample_world =
    \<lparr> aw_db = sample_db,
      aw_cache = \<lparr> ac_client = True, ac_incr_ok = True, ac_set_ok = True, ac_get_ok = True, ac_del_ok = True,
                   ac_versions = [], ac_profiles = [] \<rparr>,
      aw_outbox = [] \<rparr>"

lemma growing_ids_fresh: "fresh_ids env0"
proof -
  have "x \<in> set rows \<Longrightarrow> length (uer_id x) \<le> length (concat (map uer_id rows))" for x rows
    by (induction rows) auto
  then have "uer_id x \<noteq> growing_ids rows" if "x \<in> set rows" for x rows
    using that unfolding growing_ids_def by (metis append_Cons append_Nil impossible_Cons)
  then show ?thesis by (auto simp: fresh_ids_def env0_def) metis
qed

lemma sample_targets:
  "recompute_targets ''acme'' ''u1'' sample_db =
     [\<lparr> grant_roleId = ''r1'', grant_groupId = ''g1'', grant_scopeType = ''COMPANY'', grant_refId = Some ''c1'' \<rparr>]"
  by (simp add: recompute_targets_def findByUserId_def sample_db_def group_grants_def tenant_group_def
      sample_group_def roles_of_group_def or_null_def scope_type_string_def)

theorem recomputation_exact_witness:
  "\<exists>ins del n w'. recomputeUserEffectiveRoles (\<lambda>t u. t @ u) env0 ''u1'' sample_world = (Ok (ins, del, n), w') \<and>
    row_key ` set (user_rows env0 ''u1'' (aw_db w')) = {''r1:g1:COMPANY:c1''}"
proof -
  have "projection_ok env0 ''u1'' (aw_db sample_world)"
    by (simp add: projection_ok_def user_rows_def sample_world_def sample_db_def)
  moreover have "canonical_refs env0 (recompute_targets (pe_tenant env0) ''u1'' (aw_db sample_world))"
    by (simp add: env0_def sample_world_def sample_targets canonical_refs_def or_null_def)
  moreover have "entry_key ` set (recompute_targets (pe_tenant env0) ''u1'' (aw_db sample_world)) = {''r1:g1:COMPANY:c1''}"
    by (simp add: env0_def sample_world_def sample_targets entry_key_def GenerateUserEffectiveRoleKey_def or_null_def)
  ultimately show ?thesis
    using recomputation_exact[OF _ _ growing_ids_fresh, of "''u1''" sample_world "\<lambda>t u. t @ u"] by metis
qed

text \<open>Synchronizing again what is there already writes nothing.\<close>

lemma sync_same_keys:
  assumes "row_key ` set (user_rows env u db) = entry_key ` set targets"
  shows "syncUserEffectiveRoles env u targets db = (Ok (0, 0), db)"
proof -
  let ?cm = "js_map_of row_key (user_rows env u db)" and ?tm = "js_map_of entry_key targets"
  have keys: "set (js_keys ?cm) = set (js_keys ?tm)" using assms by (simp add: js_map_of_keys)
  have "fst kv \<in> set (js_keys ?tm)" if kv: "kv \<in> set ?cm" for kv
    using imageI[OF kv, of fst] keys by simp
  then have d: "to_delete ?cm ?tm = []" by (auto simp: to_delete_def filter_empty_conv)
  have "fst kv \<in> set (js_keys ?cm)" if kv: "kv \<in> set ?tm" for kv
    using imageI[OF kv, of fst] keys by simp
  then have i: "to_insert ?cm ?tm = []" by (auto simp: to_insert_def filter_empty_conv)
  show ?thesis by (simp add: syncUserEffectiveRoles_def Let_def d i)
qed

section \<open>Access decisions\<close>

text \<open>Whether a group's scope covers a resource, for the current employee.\<close>

definition scope_covers :: "user_group \<Rightarrow> resource_context \<Rightarrow> string \<Rightarrow> bool" where
  "scope_covers g res emp =
    (case group_scopeType g of
       TENANT_WIDE \<Rightarrow> True
     | SELF \<Rightarrow> is_text (rc_employeeId res) emp
     | DIRECT_REPORTEES \<Rightarrow> is_text (rc_managerId res) emp
     | COMPANY \<Rightarrow> same_text (group_scopeRefId g) (rc_companyId res)
     | LOCATION \<Rightarrow> same_text (group_scopeRefId g) (rc_locationId res)
     | DEPARTMENT \<Rightarrow> same_text (group_scopeRefId g) (rc_departmentId res))"

lemma evaluateScope_group:
  "evaluateScope (scope_type_string (group_scopeType g)) (or_null (group_scopeRefId g)) res emp = scope_covers g res emp"
  by (cases "group_scopeType g")
     (simp_all add: evaluateScope_def scope_covers_def scope_type_string_def same_text_def)

definition grants_permission :: "(string, string list) js_map \<Rightarrow> uuid \<Rightarrow> string \<Rightarrow> bool" where
  "grants_permission perms r p = (case js_get perms r of None \<Rightarrow> False | Some ps \<Rightarrow> p \<in> set ps)"

text \<open>
  C32: The evaluator grants a permission on the projected grants of a user exactly when the user is
  a member of some active group whose scope covers the resource and which assigns a role that
  holds the permission.
\<close>

theorem projected_access_exact:
  "evaluateAccess p (recompute_targets t u db) perms res emp \<longleftrightarrow>
     (\<exists>i g r. i \<in> set (findByUserId t u db) \<and> tenant_group t i db = Some g \<and> group_state g = Group_active \<and>
        r \<in> set (roles_of_group t i db) \<and> grants_permission perms r p \<and> scope_covers g res emp)"
proof -
  have "e \<in> set (group_grants t db i) \<longleftrightarrow>
      (\<exists>g r. tenant_group t i db = Some g \<and> group_state g = Group_active \<and> r \<in> set (roles_of_group t i db) \<and>
        e = \<lparr> grant_roleId = r, grant_groupId = group_id g,
              grant_scopeType = scope_type_string (group_scopeType g), grant_refId = or_null (group_scopeRefId g) \<rparr>)"
    for e i
    by (cases "tenant_group t i db") (auto simp: group_grants_def)
  then have targets: "set (recompute_targets t u db) = {e. \<exists>i g r. i \<in> set (findByUserId t u db) \<and>
        tenant_group t i db = Some g \<and> group_state g = Group_active \<and> r \<in> set (roles_of_group t i db) \<and>
        e = \<lparr> grant_roleId = r, grant_groupId = group_id g,
              grant_scopeType = scope_type_string (group_scopeType g), grant_refId = or_null (group_scopeRefId g) \<rparr>}"
    unfolding recompute_targets_def by auto
  have "evaluateAccess p roles perms res emp \<longleftrightarrow>
      (\<exists>e \<in> set roles. grants_permission perms (grant_roleId e) p \<and>
        evaluateScope (grant_scopeType e) (grant_refId e) res emp)" for roles
    unfolding evaluateAccess_def grants_permission_def[symmetric] list_ex_iff Let_def by auto
  note decision = this[of "recompute_targets t u db", unfolded targets]
  show ?thesis
  proof
    assume "evaluateAccess p (recompute_targets t u db) perms res emp"
    then show "\<exists>i g r. i \<in> set (findByUserId t u db) \<and> tenant_group t i db = Some g \<and> group_state g = Group_active \<and>
        r \<in> set (roles_of_group t i db) \<and> grants_permission perms r p \<and> scope_covers g res emp"
      unfolding decision by (elim bexE CollectE exE conjE) (metis (no_types) grant_entry.select_convs evaluateScope_group)
  next
    assume "\<exists>i g r. i \<in> set (findByUserId t u db) \<and> tenant_group t i db = Some g \<and> group_state g = Group_active \<and>
        r \<in> set (roles_of_group t i db) \<and> grants_permission perms r p \<and> scope_covers g res emp"
    then obtain i g r where w: "i \<in> set (findByUserId t u db)" "tenant_group t i db = Some g" "group_state g = Group_active"
        "r \<in> set (roles_of_group t i db)" "grants_permission perms r p" "scope_covers g res emp" by blast
    let ?e = "\<lparr> grant_roleId = r, grant_groupId = group_id g,
              grant_scopeType = scope_type_string (group_scopeType g), grant_refId = or_null (group_scopeRefId g) \<rparr>"
    show "evaluateAccess p (recompute_targets t u db) perms res emp"
      unfolding decision
    proof (rule bexI[of _ ?e])
      show "grants_permission perms (grant_roleId ?e) p \<and> evaluateScope (grant_scopeType ?e) (grant_refId ?e) res emp"
        using w(5,6) by (simp add: evaluateScope_group)
      show "?e \<in> {e. \<exists>i g r. i \<in> set (findByUserId t u db) \<and>
        tenant_group t i db = Some g \<and> group_state g = Group_active \<and> r \<in> set (roles_of_group t i db) \<and>
        e = \<lparr> grant_roleId = r, grant_groupId = group_id g,
              grant_scopeType = scope_type_string (group_scopeType g), grant_refId = or_null (group_scopeRefId g) \<rparr>}"
        using w(1-4) by blast
    qed
  qed
qed

end
