(* ===== verification/Endpoint_Permissions.thy ===== *)
theory Endpoint_Permissions
  imports Role_Properties Effective_Roles_Properties
begin

text \<open>
  The permissions the guarded endpoints require, against those the role service can ever store.
  The guard itself belongs to the platform; whatever it reads goes back to the role tables and the
  role cache.
\<close>

section \<open>What the endpoints require\<close>

definition sync_permissions :: "string list" where
  "sync_permissions = [''user_group.sync'', ''role.sync'']"

definition retry_permissions :: "string list" where
  "retry_permissions = [''user_group.sync'', ''role.sync'']"

definition status_permissions :: "string list" where
  "status_permissions = [''user_group.read'', ''role.read'', ''user_group.view'', ''role.view'']"

definition resend_permissions :: "string list" where
  "resend_permissions = [''access.user.resend-invitation'']"

definition admin_reset_permissions :: "string list" where
  "admin_reset_permissions = [''user:security:manage'']"

section \<open>Runs of the role service\<close>

text \<open>
  Every handler, with its checks on any database of the run; the catalog is the platform's.
\<close>

inductive reachable_roles :: "role_world \<Rightarrow> bool" where
  start: "t_role_permissions (rw_db w) = [] \<Longrightarrow> rw_cache w = [] \<Longrightarrow> reachable_roles w"
| create: "reachable_roles v \<Longrightarrow> reachable_roles w \<Longrightarrow> re_graph env = buildGraph platform_definitions \<Longrightarrow>
    reachable_roles (snd (createCustom env n cd (rw_db v) w))"
| copy: "reachable_roles v \<Longrightarrow> reachable_roles w \<Longrightarrow> reachable_roles (snd (copyRole env n i pd (rw_db v) w))"
| update: "reachable_roles v \<Longrightarrow> reachable_roles w \<Longrightarrow> re_graph env = buildGraph platform_definitions \<Longrightarrow>
    reachable_roles (snd (updateCustom env i ud (rw_db v) w))"
| deactivate: "reachable_roles v \<Longrightarrow> reachable_roles w \<Longrightarrow> reachable_roles (snd (deactivate env i dd (rw_db v) w))"
| reactivate: "reachable_roles v \<Longrightarrow> reachable_roles w \<Longrightarrow> reachable_roles (snd (reactivate env i (rw_db v) w))"
| rename: "reachable_roles w \<Longrightarrow> reachable_roles (snd (rename env i rd w))"
| permissions: "reachable_roles v \<Longrightarrow> reachable_roles w \<Longrightarrow> re_graph env = buildGraph platform_definitions \<Longrightarrow>
    reachable_roles (snd (updatePermissions env i qd (rw_db v) w))"
| delete: "reachable_roles w \<Longrightarrow> reachable_roles (snd (deleteRole env i w))"
| seed: "reachable_roles w \<Longrightarrow> reachable_roles (snd (seedBaselineSystemRoles env t nids w))"
| other_writes: "reachable_roles w \<Longrightarrow> t_role_permissions db = t_role_permissions (rw_db w) \<Longrightarrow>
    reachable_roles (w\<lparr> rw_db := db \<rparr>)"

definition catalog_codes :: "string set" where
  "catalog_codes = perm_id ` set platform_definitions"

definition codes_known :: "authz_db \<Rightarrow> bool" where
  "codes_known db \<longleftrightarrow> rp_code ` set (t_role_permissions db) \<subseteq> catalog_codes"

definition cache_known :: "role_cache \<Rightarrow> bool" where
  "cache_known c \<longleftrightarrow> (\<forall>v \<in> set (map snd c). fst ` set (cr_permissions v) \<subseteq> catalog_codes)"

section \<open>Stored codes come from the catalog\<close>

lemma codes_known_simps [simp]:
  "codes_known (save_outbox e db) = codes_known db"
  "codes_known db \<Longrightarrow> codes_known (rp_deleteByRoleId t i db)"
  by (auto simp: codes_known_def rp_deleteByRoleId_def)

lemma codes_known_from:
  "codes_known db \<Longrightarrow> rp_code ` X \<subseteq> catalog_codes \<Longrightarrow> set (t_role_permissions db') \<subseteq> set (t_role_permissions db) \<union> X \<Longrightarrow>
     codes_known db'"
  unfolding codes_known_def by blast

lemma saved_role_rows: "role_save r db = Ok db' \<Longrightarrow> t_role_permissions db' = t_role_permissions db"
  by (auto simp: role_save_def put_role_def split: if_splits)

lemma codes_of_rows [simp]: "rp_code ` set (permission_rows env i p codes) = set codes"
  by (auto simp: permission_rows_def image_iff)

lemma validated_codes:
  assumes "validateCodes env codes = Ok ()" "re_graph env = buildGraph platform_definitions"
  shows "set codes \<subseteq> catalog_codes"
proof -
  have "isValid (validatePermissionSet (buildGraph platform_definitions) codes)"
    using assms by (simp add: validateCodes_def Let_def split: if_splits)
  then have "set codes \<subseteq> assignable_codes platform_definitions"
    using permission_set_verdict[of platform_definitions codes] by blast
  then show ?thesis
    by (auto simp: catalog_codes_def assignable_codes_def split: option.splits dest!: subsetD
        last_with_id_SomeD)
qed

lemma template_codes: "tpl_code ` set (tpl_permissions (SYSTEM_ROLE_TEMPLATES k)) \<subseteq> catalog_codes"
  unfolding catalog_codes_def by (induction k) (code_simp+)

section \<open>Every handler keeps it\<close>

definition all_known :: "role_world \<Rightarrow> bool" where
  "all_known w \<longleftrightarrow> codes_known (rw_db w) \<and> cache_known (rw_cache w)"

lemma cache_known_put:
  assumes "cache_known c" "fst ` set (cr_permissions v) \<subseteq> catalog_codes"
  shows "cache_known (js_put k v c)"
  using assms set_snd_js_put[of k v c] unfolding cache_known_def by blast

lemma cache_known_sync:
  assumes "cache_known c" "\<And>ps. perms = Some ps \<Longrightarrow> rp_code ` set ps \<subseteq> catalog_codes"
  shows "cache_known (syncRole kb now r perms c)"
  unfolding syncRole_def
  by (rule cache_known_put[OF assms(1)]) (use assms(2) in \<open>cases perms; simp add: image_image\<close>)

lemma run_tx_known:
  assumes "all_known w" "\<And>r db. tx (rw_db w) = Ok (r, db) \<Longrightarrow> codes_known db"
  shows "all_known (snd (run_role_tx env tx w))"
proof (cases "tx (rw_db w)")
  case (Inr p)
  then show ?thesis using assms(1) assms(2)[of "fst p" "snd p"] cache_known_sync[of "rw_cache w" None]
    by (cases p) (simp add: run_role_tx_def all_known_def sync_unloaded_def)
qed (simp add: run_role_tx_def assms(1))

lemma create_tx_rows:
  "create_tx env r codes ev db = Ok (r', db') \<Longrightarrow>
     t_role_permissions db' = t_role_permissions db @ permission_rows env (role_id r) unprotected codes"
  by (auto simp: create_tx_def dest!: bulkSave_rows saved_role_rows)

lemma create_tx_known:
  assumes "create_tx env r codes ev db = Ok (r', db')" "codes_known db" "set codes \<subseteq> catalog_codes"
  shows "codes_known db'"
proof (rule codes_known_from[OF assms(2)])
  show "rp_code ` set (permission_rows env (role_id r) unprotected codes) \<subseteq> catalog_codes" using assms(3) by simp
  show "set (t_role_permissions db')
      \<subseteq> set (t_role_permissions db) \<union> set (permission_rows env (role_id r) unprotected codes)"
    using create_tx_rows[OF assms(1)] by simp
qed

lemma copied_codes:
  "codes_known db \<Longrightarrow> set (map rp_code (role_permissions_of i db)) \<subseteq> catalog_codes"
  by (auto simp: role_permissions_of_def codes_known_def)

lemma updatePermissions_tx_rows:
  "updatePermissions_tx env i qd db = Ok (r, db') \<Longrightarrow> \<exists>p. set (t_role_permissions db')
     \<subseteq> set (t_role_permissions db) \<union> set (permission_rows env (role_id r) p (rpd_codes qd))"
  by (auto simp: updatePermissions_tx_def Let_def rp_deleteByRoleId_def touch_def
      dest!: bulkSave_rows saved_role_rows)

lemma update_tx_known:
  assumes "codes_known db"
  shows "updateCustom_tx env i ud db = Ok (r, db') \<Longrightarrow> set (urd_codes ud) \<subseteq> catalog_codes \<Longrightarrow> codes_known db'"
    and "updatePermissions_tx env i qd db = Ok (r, db') \<Longrightarrow> set (rpd_codes qd) \<subseteq> catalog_codes \<Longrightarrow> codes_known db'"
proof -
  show "codes_known db'" if "updateCustom_tx env i ud db = Ok (r, db')" "set (urd_codes ud) \<subseteq> catalog_codes"
  proof (rule codes_known_from[OF assms])
    show "rp_code ` set (permission_rows env (role_id r) unprotected (urd_codes ud)) \<subseteq> catalog_codes"
      using that(2) by simp
    show "set (t_role_permissions db')
        \<subseteq> set (t_role_permissions db) \<union> set (permission_rows env (role_id r) unprotected (urd_codes ud))"
      using updateCustom_tx_rows[OF that(1)] by auto
  qed
  show "codes_known db'" if u: "updatePermissions_tx env i qd db = Ok (r, db')" "set (rpd_codes qd) \<subseteq> catalog_codes"
  proof -
    obtain p where "set (t_role_permissions db')
        \<subseteq> set (t_role_permissions db) \<union> set (permission_rows env (role_id r) p (rpd_codes qd))"
      using updatePermissions_tx_rows[OF u(1)] by blast
    then show ?thesis
      using codes_known_from[OF assms, of "set (permission_rows env (role_id r) p (rpd_codes qd))"] u(2) by simp
  qed
qed

lemma row_tx_rows:
  "deactivate_tx env i dd imp db = Ok (r, db') \<Longrightarrow> t_role_permissions db' = t_role_permissions db"
  "reactivate_tx env i db = Ok (r, db') \<Longrightarrow> t_role_permissions db' = t_role_permissions db"
  "rename_tx env i rd db = Ok (r, db') \<Longrightarrow> t_role_permissions db' = t_role_permissions db"
  by (auto simp: deactivate_tx_def reactivate_tx_def rename_tx_def dest!: saved_role_rows split: if_splits)

lemma row_tx_known:
  "codes_known db \<Longrightarrow> t_role_permissions db' = t_role_permissions db \<Longrightarrow> codes_known db'"
  by (simp add: codes_known_def)

lemma delete_tx_known: "delete_tx env i db = Ok db' \<Longrightarrow> codes_known db \<Longrightarrow> codes_known db'"
  by (auto simp: delete_tx_def role_delete_def codes_known_def rp_deleteByRoleId_def split: if_splits)

lemma seed_one_known:
  assumes "seed_one env t ids k p = Ok p'" "codes_known (snd p)"
    and "\<forall>x \<in> set (fst p). rp_code ` set (snd x) \<subseteq> catalog_codes"
  shows "codes_known (snd p') \<and> (\<forall>x \<in> set (fst p'). rp_code ` set (snd x) \<subseteq> catalog_codes)"
proof (cases "role_findBySystemKey (re_tenant env) k (snd p)")
  case (Some r)
  then have "p' = (fst p @ [(r, role_permissions_of (role_id r) (snd p))], snd p)"
    using assms(1) by (simp add: seed_one_def Let_def)
  then show ?thesis using assms(2,3) copied_codes[OF assms(2), of "role_id r"] by simp
next
  case None
  then obtain r ps db1 db2 where d: "p' = (fst p @ [(r, ps)], db2)" "role_save r (snd p) = Ok db1"
      "rp_bulkSave ps db1 = Ok db2" "rp_code ` set ps = tpl_code ` set (tpl_permissions (SYSTEM_ROLE_TEMPLATES k))"
    using assms(1) by (auto simp: seed_one_def Let_def image_image)
  have "rp_code ` set ps \<subseteq> catalog_codes" using d(4) template_codes by simp
  moreover have "codes_known db2"
    using codes_known_from[OF assms(2) calculation] bulkSave_rows[OF d(3)] saved_role_rows[OF d(2)] by simp
  ultimately show ?thesis using d(1) assms(3) by auto
qed

lemma seed_all_known:
  "seed_all env t ids ks p = Ok p' \<Longrightarrow> codes_known (snd p) \<Longrightarrow>
     \<forall>x \<in> set (fst p). rp_code ` set (snd x) \<subseteq> catalog_codes \<Longrightarrow>
     codes_known (snd p') \<and> (\<forall>x \<in> set (fst p'). rp_code ` set (snd x) \<subseteq> catalog_codes)"
proof (induction ks arbitrary: p)
  case (Cons k ks)
  then obtain p1 where "seed_one env t ids k p = Ok p1" "seed_all env t ids ks p1 = Ok p'" by auto
  then show ?case using Cons.IH[of p1] seed_one_known[of env t ids k p p1] Cons.prems by blast
qed simp

lemma fold_sync_known:
  "cache_known c \<Longrightarrow> \<forall>x \<in> set created. rp_code ` set (snd x) \<subseteq> catalog_codes \<Longrightarrow>
     cache_known (fold (\<lambda>(r, ps). syncRole kb now r (Some ps)) created c)"
proof (induction created arbitrary: c)
  case (Cons x xs)
  then have "cache_known (syncRole kb now (fst x) (Some (snd x)) c)" by (intro cache_known_sync) auto
  then show ?case using Cons by (cases x) simp
qed simp

lemma createCustom_known:
  assumes "all_known w" "re_graph env = buildGraph platform_definitions"
  shows "all_known (snd (createCustom env n cd db0 w))"
proof (cases "and_then (validateCodes env (crd_codes cd)) (\<lambda>_. validateRoleName env (crd_name cd) db0)")
  case (Inl e)
  then show ?thesis using assms(1) by (simp add: createCustom_def)
next
  case (Inr u)
  then have "set (crd_codes cd) \<subseteq> catalog_codes"
    using validated_codes[OF _ assms(2)] by (cases "validateCodes env (crd_codes cd)") auto
  then show ?thesis using Inr run_tx_known[OF assms(1)] create_tx_known assms(1)
    by (simp add: createCustom_def all_known_def)
qed

lemma copyRole_known:
  assumes "all_known w" "codes_known db0"
  shows "all_known (snd (copyRole env n i pd db0 w))"
proof (cases "and_then (find_required env i db0) (\<lambda>src. and_then (validateRoleName env (cpd_name pd) db0) (\<lambda>_. Ok src))")
  case (Inl e)
  then show ?thesis using assms(1) by (simp add: copyRole_def)
next
  case (Inr src)
  have tx: "all_known (snd (run_role_tx env (create_tx env r (map rp_code (role_permissions_of i' db0)) ev) w))" for r i' ev
    by (rule run_tx_known[OF assms(1)])
       (use assms(1) create_tx_known copied_codes[OF assms(2)] in \<open>auto simp only: all_known_def\<close>)
  show ?thesis unfolding copyRole_def Inr Let_def sum.case by (rule tx)
qed

lemma snd_replied:
  "snd (case run_role_tx env tx w of (Inl e, w') \<Rightarrow> (Fail e, w') | (Inr r, w') \<Rightarrow> (Ok (f r w'), w'))
    = snd (run_role_tx env tx w)"
  by (simp split: prod.splits sum.splits)

lemma updateCustom_known:
  assumes "all_known w" "re_graph env = buildGraph platform_definitions"
  shows "all_known (snd (updateCustom env i ud db0 w))"
proof (cases "updateCustom_checks env i ud db0")
  case (Inl e)
  then show ?thesis using assms(1) by (simp add: updateCustom_def)
next
  case (Inr p)
  have known: "codes_known (rw_db w)" using assms(1) by (simp add: all_known_def)
  from Inr have "validateCodes env (urd_codes ud) = Ok ()" by (auto simp: updateCustom_checks_def)
  then have "all_known (snd (run_role_tx env (updateCustom_tx env i ud) w))"
    using update_tx_known(1)[OF known _ validated_codes[OF _ assms(2)]] by (intro run_tx_known[OF assms(1)])
  then show ?thesis using Inr assms(1) by (cases p) (simp add: updateCustom_def snd_replied)
qed

lemma updatePermissions_known:
  assumes "all_known w" "re_graph env = buildGraph platform_definitions"
  shows "all_known (snd (updatePermissions env i qd db0 w))"
proof (cases "updatePermissions_checks env i qd db0")
  case (Inl e)
  then show ?thesis using assms(1) by (simp add: updatePermissions_def)
next
  case (Inr p)
  have known: "codes_known (rw_db w)" using assms(1) by (simp add: all_known_def)
  from Inr have "validateCodes env (rpd_codes qd) = Ok ()" by (auto simp: updatePermissions_checks_def)
  then have "all_known (snd (run_role_tx env (updatePermissions_tx env i qd) w))"
    using update_tx_known(2)[OF known _ validated_codes[OF _ assms(2)]] by (intro run_tx_known[OF assms(1)])
  then show ?thesis using Inr assms(1) by (simp add: updatePermissions_def snd_replied)
qed

lemma row_handlers_known:
  assumes "all_known w"
  shows "all_known (snd (deactivate env i dd db0 w))" "all_known (snd (reactivate env i db0 w))"
    "all_known (snd (rename env i rd w))"
proof -
  have known: "codes_known (rw_db w)" using assms by (simp add: all_known_def)
  have tx: "all_known (snd (run_role_tx env (deactivate_tx env i dd imp) w))" for imp
    by (rule run_tx_known[OF assms]) (erule row_tx_known[OF known row_tx_rows(1)])
  show "all_known (snd (deactivate env i dd db0 w))"
    using tx assms by (simp add: deactivate_def snd_replied split: sum.splits prod.splits)
  have "all_known (snd (run_role_tx env (reactivate_tx env i) w))"
    by (rule run_tx_known[OF assms]) (erule row_tx_known[OF known row_tx_rows(2)])
  then show "all_known (snd (reactivate env i db0 w))"
    using assms by (simp add: reactivate_def snd_replied split: sum.splits)
  show "all_known (snd (rename env i rd w))"
    unfolding rename_def by (rule run_tx_known[OF assms]) (erule row_tx_known[OF known row_tx_rows(3)])
qed

lemma deleteRole_known:
  assumes "all_known w"
  shows "all_known (snd (deleteRole env i w))"
proof (cases "delete_tx env i (rw_db w)")
  case (Inl e)
  then show ?thesis using assms by (simp add: deleteRole_def)
next
  case (Inr db)
  have "cache_known (AList.delete k (rw_cache w))" for k
    using assms unfolding all_known_def cache_known_def by (force simp: AList.delete_eq)
  then show ?thesis using Inr assms delete_tx_known[OF Inr] by (simp add: deleteRole_def all_known_def invalidateRole_def)
qed

lemma seeded_known:
  assumes "all_known w"
  shows "all_known (snd (seedBaselineSystemRoles env t nids w))"
proof (cases "seed_all env t nids all_system_role_keys ([], rw_db w)")
  case (Inl e)
  then show ?thesis using assms by (simp add: seedBaselineSystemRoles_def)
next
  case (Inr p)
  have "codes_known (snd p) \<and> (\<forall>x \<in> set (fst p). rp_code ` set (snd x) \<subseteq> catalog_codes)"
    using seed_all_known[OF Inr] assms by (simp add: all_known_def)
  then show ?thesis using Inr assms fold_sync_known
    by (cases p) (simp add: seedBaselineSystemRoles_def all_known_def)
qed

lemma reachable_known: "reachable_roles w \<Longrightarrow> all_known w"
proof (induction rule: reachable_roles.induct)
  case (start w)
  then show ?case by (simp add: all_known_def codes_known_def cache_known_def)
next
  case (copy v w env n i pd)
  then show ?case by (intro copyRole_known) (simp_all add: all_known_def)
next
  case (other_writes w db)
  then show ?case by (simp add: all_known_def codes_known_def)
qed (intro createCustom_known updateCustom_known updatePermissions_known row_handlers_known deleteRole_known seeded_known,
     assumption+)+

section \<open>What users can hold\<close>

lemma capability_codes:
  assumes "all_known w"
  shows "set (snd (role_capabilities rkb ok t (rw_cache w) (rw_db w) i)) \<subseteq> catalog_codes"
proof (cases "if ok then cache_getRole rkb t i (rw_cache w) else None")
  case (Some c)
  then have "(rkb t i, c) \<in> set (rw_cache w)"
    by (auto simp: cache_getRole_def dest: map_of_SomeD split: if_splits)
  then have "c \<in> set (map snd (rw_cache w))" by force
  then have "fst ` set (cr_permissions c) \<subseteq> catalog_codes"
    using assms unfolding all_known_def cache_known_def by blast
  then show ?thesis using Some by (auto simp: role_capabilities_def)
next
  case None
  then show ?thesis using copied_codes[of "rw_db w"] assms
    by (auto simp: role_capabilities_def all_known_def split: option.splits)
qed

lemma bootstrap_codes:
  assumes "all_known w" "aw_db a = rw_db w"
  shows "set (bc_permissions (fst (getBootstrapCapabilities kb rkb ok env u (rw_cache w) a))) \<subseteq> catalog_codes"
proof -
  obtain p c where "getUserAuthorizationProfile kb env u (aw_db a) (aw_cache a) = (p, c)" by (meson surj_pair)
  then show ?thesis
    using capability_codes[OF assms(1), of rkb ok "pe_tenant env"] assms(2)
    by (auto simp: getBootstrapCapabilities_def Let_def subset_iff)
qed

lemma endpoint_codes_unknown:
  "set (sync_permissions @ retry_permissions @ resend_permissions @ admin_reset_permissions) \<inter> catalog_codes = {}"
  "set status_permissions \<inter> catalog_codes = {''role.view''}"
  unfolding catalog_codes_def by code_simp+

section \<open>Properties\<close>


definition empty_tenant :: role_world where
  "empty_tenant = \<lparr> rw_db = \<lparr> t_roles = [], t_role_permissions = [], t_groups = [], t_group_roles = [],
     t_memberships = [], t_effective_roles = [], t_outbox = [] \<rparr>, rw_cache = [] \<rparr>"

definition seeded_tenant :: role_world where
  "seeded_tenant = snd (seedBaselineSystemRoles sample_env ''t''
     (\<lambda>k. case k of EMPLOYEE \<Rightarrow> ''e'' | MANAGER \<Rightarrow> ''m'' | ADMINISTRATOR \<Rightarrow> ''a'') empty_tenant)"


end
