(* ===== verification/Outbox_Service.thy ===== *)
theory Outbox_Service
  imports Outbox
begin

text \<open>
  The instance side of \<^verbatim>\<open>OutboxEventService\<close>: one method per kind of event, which
  makes the event with the static factory and stores it through the repository's create.
\<close>

section \<open>The data of an event\<close>

datatype event_data =
    Role_created role "string list"
  | Role_copied role uuid "string list"
  | Role_deactivated role "int option" "int option"
  | Role_reactivated role
  | Role_renamed role string string
  | Permissions_updated role "string list"
  | Protected_violation role "string list"
  | Group_created user_group "uuid list option"
  | Group_updated user_group group_update_data
  | Group_deactivated user_group
  | Group_reactivated user_group
  | Roles_assigned user_group "uuid list" "uuid list" "uuid list"
  | Roles_unassigned user_group "uuid list" "uuid list" "uuid list"
  | Scope_updated user_group json json
  | Authorization_updated user_group "bool option"
  | Sync_requested sync_event_data
  | Sync_completed sync_event_data sync_completed_data
  | Sync_failed sync_event_data sync_failed_data

fun event_of :: "string \<Rightarrow> outbox_context \<Rightarrow> event_data \<Rightarrow> outbox_event" where
  "event_of now ctx (Role_created r codes) = fromRoleCreated now ctx r codes"
| "event_of now ctx (Role_copied r source codes) = fromRoleCopied now ctx r source codes"
| "event_of now ctx (Role_deactivated r groups users) =
     fromRoleDeactivated now ctx r (num_or_zero groups) (num_or_zero users)"
| "event_of now ctx (Role_reactivated r) = fromRoleReactivated now ctx r"
| "event_of now ctx (Role_renamed r old new) = fromRenameRole now ctx r old new"
| "event_of now ctx (Permissions_updated r codes) = fromPermissionsUpdated now ctx r codes"
| "event_of now ctx (Protected_violation r codes) = fromProtectedCapabilityViolation now ctx r codes"
| "event_of now ctx (Group_created g ids) =
     fromUserGroupCreated now ctx g (case ids of None \<Rightarrow> [] | Some xs \<Rightarrow> xs)"
| "event_of now ctx (Group_updated g d) = fromUserGroupUpdated now ctx g d"
| "event_of now ctx (Group_deactivated g) = fromUserGroupDeactivated now ctx g"
| "event_of now ctx (Group_reactivated g) = fromUserGroupReactivated now ctx g"
| "event_of now ctx (Roles_assigned g assigned added previous) = fromUserGroupRolesAssigned now ctx g assigned added previous"
| "event_of now ctx (Roles_unassigned g assigned removed previous) =
     fromUserGroupRoleUnassigned now ctx g assigned removed previous"
| "event_of now ctx (Scope_updated g previous new) = fromUserGroupScopeUpdated now ctx g previous new"
| "event_of now ctx (Authorization_updated g urgent) = fromAuthorizationUserGroupUpdated now ctx g urgent"
| "event_of now ctx (Sync_requested d) = fromAuthorizationSyncRequested now ctx d"
| "event_of now ctx (Sync_completed d c) = fromAuthorizationSyncCompleted now ctx d c"
| "event_of now ctx (Sync_failed d f) = fromAuthorizationSyncFailed now ctx d f"

section \<open>Storing\<close>

fun aggregate_type_string :: "aggregate_type \<Rightarrow> string" where
  "aggregate_type_string AGG_ROLE = ''ROLE''"
| "aggregate_type_string AGG_USER_GROUP = ''USER_GROUP''"
| "aggregate_type_string AGG_AUTHORIZATION = ''AUTHORIZATION''"
| "aggregate_type_string AGG_AUTHZ_SYNC = ''AUTHZ_SYNC''"
| "aggregate_type_string AGG_USER = ''USER''"
| "aggregate_type_string AGG_SECURITY = ''SECURITY''"

definition toPlainOutboxData :: "outbox_event \<Rightarrow> outbox_draft" where
  "toPlainOutboxData e =
    \<lparr> draft_tenant = Some (ev_tenant e), draft_aggregateType = Some (aggregate_type_string (ev_aggregateType e)),
      draft_aggregateId = Some (ev_aggregateId e), draft_userId = None, draft_payload = Some (ev_payload e),
      draft_sanitizedPayload = None, draft_status = Some (ev_status e),
      draft_eventType = event_type_string (ev_type e), draft_eventVersion = Some (ev_version e) \<rparr>"

definition create_event :: "tenant \<Rightarrow> outbox_draft \<Rightarrow> outbox_row list \<Rightarrow> outbox_row \<times> outbox_row list" where
  "create_event request_tenant d rows = (let r = outbox_create request_tenant d in (r, rows @ [r]))"

definition record_event ::
  "string \<Rightarrow> tenant \<Rightarrow> outbox_context \<Rightarrow> event_data \<Rightarrow> outbox_row list \<Rightarrow> outbox_row \<times> outbox_row list" where
  "record_event now request_tenant ctx d rows =
    create_event request_tenant (toPlainOutboxData (event_of now ctx d)) rows"

text \<open>What \<^verbatim>\<open>save\<close> stores for an event the static factories made.\<close>

definition row_of_event :: "outbox_event \<Rightarrow> outbox_row" where
  "row_of_event e =
    \<lparr> row_tenant = ev_tenant e, row_aggregateType = aggregate_type_string (ev_aggregateType e),
      row_aggregateId = ev_aggregateId e, row_payload = ev_payload e, row_status = ev_status e,
      row_eventType = event_type_string (ev_type e), row_eventVersion = ev_version e \<rparr>"

lemma event_of_pending [simp]:
  "ev_status (event_of now ctx d) = Outbox_pending" "ev_tenant (event_of now ctx d) = ctx_tenant ctx"
  "ev_version (event_of now ctx d) = 1"
  by (cases d; simp add: outbox_factories)+

lemma recorded_as_saved:
  "record_event now t ctx d rows = (row_of_event (event_of now ctx d), rows @ [row_of_event (event_of now ctx d)])"
  by (simp add: record_event_def create_event_def toPlainOutboxData_def outbox_create_def row_of_event_def
      first_some_def Let_def)

lemma recorded_pending:
  "row_status (fst (record_event now t ctx d rows)) = Outbox_pending \<and>
   row_tenant (fst (record_event now t ctx d rows)) = ctx_tenant ctx"
  by (simp add: recorded_as_saved row_of_event_def)

end
