(* ===== verification/User_Model.thy ===== *)
theory User_Model
  imports Access_Model
begin

text \<open>
  The users table: the row, its enumerations and the operations of \<^verbatim>\<open>UserRepository\<close>.
  Reads marked unscoped ignore the tenant of the request.
\<close>

datatype user_status =
  User_active | User_inactive | User_suspended | User_invited | User_disabled | User_archived | User_locked

definition user_status_string :: "user_status \<Rightarrow> string" where
  "user_status_string s =
    (case s of User_active \<Rightarrow> ''active'' | User_inactive \<Rightarrow> ''inactive'' | User_suspended \<Rightarrow> ''suspended''
     | User_invited \<Rightarrow> ''invited'' | User_disabled \<Rightarrow> ''disabled'' | User_archived \<Rightarrow> ''archived''
     | User_locked \<Rightarrow> ''locked'')"

datatype credential_status = Credential_active | Credential_pending | Credential_superseded

datatype employee_status = Employee_active | Employee_suspended | Employee_terminated | Employee_reactivated

definition employee_status_string :: "employee_status \<Rightarrow> string" where
  "employee_status_string s =
    (case s of Employee_active \<Rightarrow> ''active'' | Employee_suspended \<Rightarrow> ''suspended''
     | Employee_terminated \<Rightarrow> ''terminated'' | Employee_reactivated \<Rightarrow> ''reactivated'')"

record app_user =
  usr_id :: uuid
  usr_tenant :: tenant
  usr_employeeRefId :: "uuid option"
  usr_normalizedEmail :: string
  usr_displayEmail :: string
  usr_userType :: string
  usr_status :: user_status
  usr_credentialStatus :: credential_status
  usr_securityVersion :: int
  usr_protectedRootAdmin :: bool
  usr_mfaEnrollmentRequired :: bool
  usr_mfaReEnrollmentRequired :: bool
  usr_externalIdentityId :: "string option"

definition normalize_email :: "string \<Rightarrow> string" where
  "normalize_email e = js_trim (js_lower e)"

definition findByIdUnscoped :: "uuid \<Rightarrow> app_user list \<Rightarrow> app_user option" where
  "findByIdUnscoped i us = find (\<lambda>u. usr_id u = i) us"

definition findByEmailUnscoped :: "string \<Rightarrow> app_user list \<Rightarrow> app_user option" where
  "findByEmailUnscoped e us = find (\<lambda>u. usr_normalizedEmail u = normalize_email e) us"

definition findByEmailWithTenant :: "string \<Rightarrow> tenant \<Rightarrow> app_user list \<Rightarrow> app_user option" where
  "findByEmailWithTenant e t us = find (\<lambda>u. usr_normalizedEmail u = normalize_email e \<and> usr_tenant u = t) us"

definition findTenantCodeByEmail :: "string \<Rightarrow> app_user list \<Rightarrow> tenant list" where
  "findTenantCodeByEmail e us = map usr_tenant (filter (\<lambda>u. usr_normalizedEmail u = normalize_email e) us)"

definition findByEmployeeId :: "tenant \<Rightarrow> uuid \<Rightarrow> app_user list \<Rightarrow> app_user option" where
  "findByEmployeeId t e us = find (\<lambda>u. usr_employeeRefId u = Some e \<and> usr_tenant u = t) us"

definition findByTenantAndExternalIdentity :: "string \<Rightarrow> app_user list \<Rightarrow> app_user option" where
  "findByTenantAndExternalIdentity x us = find (\<lambda>u. usr_externalIdentityId u = Some x) us"

definition bump_version :: "app_user \<Rightarrow> app_user" where
  "bump_version u = u\<lparr> usr_securityVersion := usr_securityVersion u + 1 \<rparr>"

definition bumpSecurityVersion :: "tenant \<Rightarrow> uuid \<Rightarrow> app_user list \<Rightarrow> bool \<times> app_user list" where
  "bumpSecurityVersion t i us =
    (let hit = (\<lambda>u. usr_tenant u = t \<and> usr_id u = i \<and> usr_status u = User_active) in
     (list_ex hit us, map (\<lambda>u. if hit u then bump_version u else u) us))"

definition incrementSecurityVersionById :: "tenant \<Rightarrow> uuid \<Rightarrow> app_user list \<Rightarrow> nat \<times> app_user list" where
  "incrementSecurityVersionById t i us =
    (let hit = (\<lambda>u. usr_id u = i \<and> usr_tenant u = t) in
     (length (filter hit us), map (\<lambda>u. if hit u then bump_version u else u) us))"

definition active_users :: "tenant \<Rightarrow> app_user list \<Rightarrow> app_user list" where
  "active_users t us = filter (\<lambda>u. usr_tenant u = t \<and> usr_status u = User_active) us"

definition countActive :: "tenant \<Rightarrow> app_user list \<Rightarrow> nat" where
  "countActive t us = length (active_users t us)"

definition findBatchWithEmployee :: "tenant \<Rightarrow> nat \<Rightarrow> nat \<Rightarrow> app_user list \<Rightarrow> app_user list" where
  "findBatchWithEmployee t skip n us = take n (drop skip (active_users t us))"

end
