(* ===== verification/Effects.thy ===== *)
theory Effects
  imports Prelude
begin

text \<open>
  The effects of the authentication side: an operation reads and changes a state and returns a
  value or throws.  A throw keeps the changes made before it, as in the source, unless the
  operation ran in a transaction; which part of the state a transaction restores is the argument
  of \<open>act_tx\<close>.
\<close>

type_synonym ('w, 'e, 'a) act = "'w \<Rightarrow> ('e + 'a) \<times> 'w"

named_theorems act_simps \<open>running an operation on a state\<close>

definition act_ret :: "'a \<Rightarrow> ('w, 'e, 'a) act" where
  "act_ret x w = (Inr x, w)"

definition act_throw :: "'e \<Rightarrow> ('w, 'e, 'a) act" where
  "act_throw e w = (Inl e, w)"

definition act_get :: "('w \<Rightarrow> 'a) \<Rightarrow> ('w, 'e, 'a) act" where
  "act_get g w = (Inr (g w), w)"

definition act_put :: "('w \<Rightarrow> 'w) \<Rightarrow> ('w, 'e, unit) act" where
  "act_put h w = (Inr (), h w)"

definition act_bind :: "('w, 'e, 'a) act \<Rightarrow> ('a \<Rightarrow> ('w, 'e, 'b) act) \<Rightarrow> ('w, 'e, 'b) act" where
  "act_bind m f w = (case m w of (r, w') \<Rightarrow> (case r of Inl e \<Rightarrow> (Inl e, w') | Inr x \<Rightarrow> f x w'))"

definition act_then :: "('w, 'e, unit) act \<Rightarrow> ('w, 'e, 'b) act \<Rightarrow> ('w, 'e, 'b) act" where
  "act_then m k = act_bind m (\<lambda>_. k)"

definition act_when :: "bool \<Rightarrow> ('w, 'e, unit) act \<Rightarrow> ('w, 'e, unit) act" where
  "act_when b m = (if b then m else act_ret ())"

definition act_catch :: "('w, 'e, 'a) act \<Rightarrow> ('e \<Rightarrow> ('w, 'f, 'a) act) \<Rightarrow> ('w, 'f, 'a) act" where
  "act_catch m h w = (case m w of (r, w') \<Rightarrow> (case r of Inl e \<Rightarrow> h e w' | Inr x \<Rightarrow> (Inr x, w')))"

definition act_tx :: "('w \<Rightarrow> 'w \<Rightarrow> 'w) \<Rightarrow> ('w, 'e, 'a) act \<Rightarrow> ('w, 'e, 'a) act" where
  "act_tx restore m w =
    (case m w of (r, w') \<Rightarrow> (case r of Inl e \<Rightarrow> (Inl e, restore w w') | Inr x \<Rightarrow> (Inr x, w')))"

section \<open>Running\<close>

lemma act_run [act_simps]:
  "act_ret x w = (Inr x, w)"
  "act_throw e w = (Inl e, w)"
  "act_get g w = (Inr (g w), w)"
  "act_put h w = (Inr (), h w)"
  "act_when True m w = m w"
  "act_when False m w = (Inr (), w)"
  by (simp_all add: act_ret_def act_throw_def act_get_def act_put_def act_when_def)

lemma act_bind_run [act_simps]:
  "act_bind (act_ret x) f w = f x w"
  "act_bind (act_throw e) f w = (Inl e, w)"
  "act_bind (act_get g) f w = f (g w) w"
  "act_bind (act_put h) f' w = f' () (h w)"
  "act_bind (act_bind m g') f w = act_bind m (\<lambda>x. act_bind (g' x) f) w"
  "act_bind (act_then k m) f w = act_bind k (\<lambda>_. act_bind m f) w"
  by (simp_all add: act_bind_def act_then_def act_ret_def act_throw_def act_get_def act_put_def
        split: prod.splits sum.splits)

lemma act_then_run [act_simps]:
  "act_then (act_ret u) k w = k w"
  "act_then (act_throw e) k w = (Inl e, w)"
  "act_then (act_put h) k w = k (h w)"
  "act_then (act_bind m f) k w = act_bind m (\<lambda>x. act_then (f x) k) w"
  "act_then (act_then m m') k w = act_then m (act_then m' k) w"
  by (simp_all add: act_then_def act_bind_def act_ret_def act_throw_def act_put_def
        split: prod.splits sum.splits)

lemma act_when_run [act_simps]:
  "act_then (act_when b m) k w = (if b then act_then m k w else k w)"
  "act_bind (act_when b m) (\<lambda>_. k) w = (if b then act_then m k w else k w)"
  by (simp_all add: act_when_def act_then_def act_bind_def act_ret_def)

lemma act_if_run [act_simps]:
  "act_bind (if b then m else m') f w = (if b then act_bind m f w else act_bind m' f w)"
  "act_then (if b then k else k') j w = (if b then act_then k j w else act_then k' j w)"
  by (simp_all split: if_splits)

lemma act_bind_value:
  "m w = (Inr x, w') \<Longrightarrow> act_bind m f w = f x w'"
  "m w = (Inl e, w') \<Longrightarrow> act_bind m f w = (Inl e, w')"
  by (simp_all add: act_bind_def)

lemma act_then_value:
  "m w = (Inr u, w') \<Longrightarrow> act_then m k w = k w'"
  "m w = (Inl e, w') \<Longrightarrow> act_then m k w = (Inl e, w')"
  by (simp_all add: act_then_def act_bind_def)

lemma act_catch_value:
  "m w = (Inr x, w') \<Longrightarrow> act_catch m h w = (Inr x, w')"
  "m w = (Inl e, w') \<Longrightarrow> act_catch m h w = h e w'"
  by (simp_all add: act_catch_def)

lemma act_tx_value:
  "m w = (Inr x, w') \<Longrightarrow> act_tx restore m w = (Inr x, w')"
  "m w = (Inl e, w') \<Longrightarrow> act_tx restore m w = (Inl e, restore w w')"
  by (simp_all add: act_tx_def)

section \<open>Success\<close>

lemma act_bind_Inr_iff:
  "act_bind m f w = (Inr y, w'') \<longleftrightarrow> (\<exists>x w'. m w = (Inr x, w') \<and> f x w' = (Inr y, w''))"
  by (auto simp: act_bind_def split: prod.splits sum.splits)

lemma act_then_Inr_iff:
  "act_then m k w = (Inr y, w'') \<longleftrightarrow> (\<exists>w'. m w = (Inr (), w') \<and> k w' = (Inr y, w''))"
  by (simp add: act_then_def act_bind_Inr_iff)

lemma act_tx_Inr_iff: "act_tx restore m w = (Inr x, w') \<longleftrightarrow> m w = (Inr x, w')"
  by (auto simp: act_tx_def split: prod.splits sum.splits)

section \<open>What every operation keeps\<close>

text \<open>
  A relation between the state before and after that every step of an operation respects, whatever
  its outcome.  A reflexive and transitive relation passes through the combinators.
\<close>

definition keeps :: "('w \<Rightarrow> 'w \<Rightarrow> bool) \<Rightarrow> ('w, 'e, 'a) act \<Rightarrow> bool" where
  "keeps R m \<longleftrightarrow> (\<forall>w. R w (snd (m w)))"

lemma keepsI [intro?]: "(\<And>w. R w (snd (m w))) \<Longrightarrow> keeps R m"
  by (simp add: keeps_def)

lemma keepsD: "keeps R m \<Longrightarrow> m w = (r, w') \<Longrightarrow> R w w'"
  unfolding keeps_def by (metis snd_conv)

locale kept_relation =
  fixes R :: "'w \<Rightarrow> 'w \<Rightarrow> bool"
  assumes kept_refl: "R w w"
    and kept_trans: "R w w' \<Longrightarrow> R w' w'' \<Longrightarrow> R w w''"
begin

lemma keeps_pure: "keeps R (act_ret x)" "keeps R (act_throw e)" "keeps R (act_get g)"
  by (simp_all add: keeps_def act_simps kept_refl)

lemma keeps_put: "(\<And>w. R w (h w)) \<Longrightarrow> keeps R (act_put h)"
  by (simp add: keeps_def act_simps)

lemma keeps_bind:
  assumes "keeps R m" "\<And>x. keeps R (f x)"
  shows "keeps R (act_bind m f)"
proof
  fix w
  obtain r w' where m: "m w = (r, w')" by (cases "m w")
  show "R w (snd (act_bind m f w))"
  proof (cases r)
    case (Inl e)
    then show ?thesis using keepsD[OF assms(1) m] m by (simp add: act_bind_value)
  next
    case (Inr x)
    obtain r2 w2 where f: "f x w' = (r2, w2)" by (cases "f x w'")
    show ?thesis
      using kept_trans[OF keepsD[OF assms(1) m] keepsD[OF assms(2) f]] m f Inr
      by (simp add: act_bind_value)
  qed
qed

lemma keeps_then: "keeps R m \<Longrightarrow> keeps R k \<Longrightarrow> keeps R (act_then m k)"
  unfolding act_then_def by (rule keeps_bind)

lemma keeps_when: "keeps R m \<Longrightarrow> keeps R (act_when b m)"
  by (simp add: act_when_def keeps_pure)

lemma keeps_catch:
  assumes "keeps R m" "\<And>e. keeps R (h e)"
  shows "keeps R (act_catch m h)"
proof
  fix w
  obtain r w' where m: "m w = (r, w')" by (cases "m w")
  show "R w (snd (act_catch m h w))"
  proof (cases r)
    case (Inr x)
    then show ?thesis using keepsD[OF assms(1) m] m by (simp add: act_catch_value)
  next
    case (Inl e)
    obtain r2 w2 where f: "h e w' = (r2, w2)" by (cases "h e w'")
    show ?thesis
      using kept_trans[OF keepsD[OF assms(1) m] keepsD[OF assms(2) f]] m f Inl
      by (simp add: act_catch_value)
  qed
qed

lemmas keeps_rules = keeps_pure keeps_bind keeps_then keeps_when keeps_catch

end

end
