(* ===== verification/Auth_Model.thy ===== *)
theory Auth_Model
  imports User_Model Row_Store Effects
begin

text \<open>
  The state of the authentication side: the rows of the tables it reads and writes, the Redis
  store, and what a request brings with it.  Redis cells are typed by what the service keeps under
  their key; the time to live is the number of seconds given when the cell was written.  A request
  carries as parameters what comes from libraries: password hashing, token signing, the key
  builder, identifiers and the clock.
\<close>

section \<open>Rows\<close>

record credential =
  cr_id :: uuid
  cr_tenant :: tenant
  cr_userId :: uuid
  cr_passwordHash :: string
  cr_algorithm :: string
  cr_status :: credential_status
  cr_passwordChangedAt :: "timestamp option"

record auth_settings =
  as_id :: uuid
  as_tenant :: tenant
  as_restrictedMfaEnabled :: bool
  as_needAdminResetPassword :: bool
  as_accountLockoutEnabled :: bool
  as_maxFailedRetries :: int
  as_ipRestrictionEnabled :: bool
  as_allowedIpCidrs :: "string list"
  as_version :: int

record tenant_row =
  tn_tenantCode :: tenant
  tn_companyId :: string
  tn_status :: string

datatype mfa_factor_type = TOTP | EMAIL_FACTOR
datatype mfa_factor_status = Factor_pending | Factor_active | Factor_disabled

record mfa_method =
  mf_id :: uuid
  mf_tenant :: tenant
  mf_userId :: uuid
  mf_type :: mfa_factor_type
  mf_status :: mfa_factor_status
  mf_isPrimary :: bool
  mf_encryptedSecret :: "string option"
  mf_verifiedAt :: "timestamp option"
  mf_disabledAt :: "timestamp option"

datatype invitation_status = Inv_pending | Inv_sent | Inv_accepted | Inv_revoked | Inv_cancelled

record invitation =
  inv_id :: uuid
  inv_tenant :: tenant
  inv_userId :: uuid
  inv_tokenHash :: string
  inv_status :: invitation_status
  inv_version :: int
  inv_expiresAt :: timestamp
  inv_issuedBy :: "uuid option"
  inv_sentAt :: "timestamp option"
  inv_acceptedAt :: "timestamp option"
  inv_revokedAt :: "timestamp option"

text \<open>
  The session service writes its events by SQL into \<^verbatim>\<open>auth_security_events_outbox\<close>, not
  through the outbox repository.
\<close>

record session_event =
  sv_tenant :: tenant
  sv_userId :: uuid
  sv_eventType :: string
  sv_eventVersion :: int
  sv_payload :: json
  sv_publishStatus :: string
  sv_attemptCount :: int

record auth_db =
  d_users :: "app_user list"
  d_credentials :: "credential list"
  d_settings :: "auth_settings list"
  d_tenants :: "tenant_row list"
  d_mfa :: "mfa_method list"
  d_invitations :: "invitation list"
  d_employees :: "employee_reference list"
  d_outbox :: "outbox_row list"
  d_session_events :: "session_event list"

section \<open>Redis\<close>

record session_employee =
  se_employeeId :: uuid
  se_companyId :: "string option"
  se_locationId :: "string option"
  se_departmentId :: "string option"
  se_managerId :: "string option"

record session_data =
  sess_id :: uuid
  sess_userId :: uuid
  sess_tenant :: tenant
  sess_roles :: "string list"
  sess_scopes :: "string list"
  sess_permissions :: "string list"
  sess_employee :: "session_employee option"

record mfa_challenge =
  mc_id :: uuid
  mc_tenant :: tenant
  mc_userId :: uuid
  mc_attemptsLeft :: int
  mc_rememberMe :: "bool option"

record reset_challenge =
  rc_tenant :: tenant
  rc_userId :: uuid
  rc_hashedCode :: string
  rc_codeVerified :: bool
  rc_resetToken :: "string option"
  rc_attempts :: int

datatype redis_value =
    RV_count int
  | RV_set "string list"
  | RV_session session_data
  | RV_mfa mfa_challenge
  | RV_reset reset_challenge
  | RV_text string
  | RV_hash "(string \<times> string) list"

record redis_cell =
  cell_value :: redis_value
  cell_ttl :: "int option"

text \<open>
  The client object may be missing (\<^verbatim>\<open>getClient()\<close> is null) and a command may fail.
\<close>

record redis_store =
  rs_client :: bool
  rs_up :: bool
  rs_cells :: "(string \<times> redis_cell) list"

record auth_world =
  w_db :: auth_db
  w_redis :: redis_store

section \<open>Errors\<close>

datatype auth_error =
    InvalidCredentialsError
  | AccountDisabledError
  | AccountLockedError
  | IpRestrictedError
  | AuthStoreUnavailableError
  | Redis_error
  | Row_not_found
  | Unique_index_violation
  | CognitoProvisioningException string string
  | Thrown_undefined
  | UnauthorizedException string
  | ConflictException string
  | ServiceUnavailableException string
  | NotFoundException string
  | BadRequestException string
  | TooManyRequests string
  | SelfServiceResetDisabledException
  | InvalidResetCodeException
  | MaxAttemptsExceededException
  | InvalidResetChallengeException
  | CredentialAlreadyExistsError
  | AuthInvitationInvalidError
  | AuthSessionExpiredError
  | InvitationNotAllowedError
  | AuthSessionStoreUnavailableError
  | InvalidFirebaseTokenException
  | FirebaseProviderUnavailableException
  | ExternalIdentityNotMappedException
  | AmbiguousIdentityMappingException

type_synonym 'a auth_act = "(auth_world, auth_error, 'a) act"

section \<open>The request and the libraries\<close>

record parsed_ip =
  ip_v4 :: bool
  ip_parts :: "nat list"

record ip_library =
  ipl_parse :: "string \<Rightarrow> parsed_ip option"
  ipl_isIPv4Mapped :: "parsed_ip \<Rightarrow> bool"
  ipl_toIPv4 :: "parsed_ip \<Rightarrow> parsed_ip"
  ipl_match :: "parsed_ip \<Rightarrow> parsed_ip \<Rightarrow> int option \<Rightarrow> bool"

record auth_env =
  ae_tenant :: tenant
  ae_userId :: uuid
  ae_ip :: "string option"
  ae_agent :: "string option"
  ae_now :: timestamp
  ae_iso :: "timestamp \<Rightarrow> string"
  ae_row_id :: "uuid list \<Rightarrow> uuid"
  ae_uuid :: "nat \<Rightarrow> uuid"
  ae_session_key :: "string \<Rightarrow> string"
  ae_user_sessions_key :: "bool \<Rightarrow> tenant \<Rightarrow> uuid \<Rightarrow> string"
  ae_verify :: "string \<Rightarrow> string \<Rightarrow> bool"
  ae_hash :: "string \<Rightarrow> string"
  ae_jwt_key :: "string option"
  ae_sign :: "(string \<times> json) list \<Rightarrow> string \<Rightarrow> string \<Rightarrow> string option"
  ae_ip_lib :: ip_library
  ae_text :: "redis_value \<Rightarrow> string"
  ae_hmac :: "string \<Rightarrow> string"
  ae_otp :: string
  ae_sha256 :: "string \<Rightarrow> string"
  ae_random_token :: string
  ae_encrypt :: "string \<Rightarrow> string"

definition or_unknown :: "string option \<Rightarrow> string" where
  "or_unknown s = (case s of Some (c # cs) \<Rightarrow> c # cs | _ \<Rightarrow> ''unknown'')"

section \<open>Changing the state\<close>

definition upd_db :: "(auth_db \<Rightarrow> auth_db) \<Rightarrow> auth_world \<Rightarrow> auth_world" where
  "upd_db f w = w\<lparr> w_db := f (w_db w) \<rparr>"

definition upd_cells :: "((string \<times> redis_cell) list \<Rightarrow> (string \<times> redis_cell) list) \<Rightarrow> auth_world \<Rightarrow> auth_world" where
  "upd_cells f w = w\<lparr> w_redis := (w_redis w)\<lparr> rs_cells := f (rs_cells (w_redis w)) \<rparr> \<rparr>"

lemma upd_db_fields [simp]:
  "w_db (upd_db f w) = f (w_db w)" "w_redis (upd_db f w) = w_redis w"
  by (simp_all add: upd_db_def)

lemma upd_cells_fields [simp]:
  "w_db (upd_cells f w) = w_db w"
  "rs_client (w_redis (upd_cells f w)) = rs_client (w_redis w)"
  "rs_up (w_redis (upd_cells f w)) = rs_up (w_redis w)"
  "rs_cells (w_redis (upd_cells f w)) = f (rs_cells (w_redis w))"
  by (simp_all add: upd_cells_def)

text \<open>A failed transaction restores the database; Redis keeps what was written to it.\<close>

definition db_tx :: "'a auth_act \<Rightarrow> 'a auth_act" where
  "db_tx m = act_tx (\<lambda>w w'. w'\<lparr> w_db := w_db w \<rparr>) m"

definition db_read :: "(auth_db \<Rightarrow> 'a) \<Rightarrow> 'a auth_act" where
  "db_read q = act_get (\<lambda>w. q (w_db w))"

definition db_write :: "(auth_db \<Rightarrow> auth_db) \<Rightarrow> unit auth_act" where
  "db_write f = act_put (upd_db f)"

definition required :: "'a option \<Rightarrow> 'a auth_act" where
  "required r = (case r of None \<Rightarrow> act_throw Row_not_found | Some x \<Rightarrow> act_ret x)"

definition update_rows :: "('r \<Rightarrow> bool) \<Rightarrow> ('r \<Rightarrow> 'r) \<Rightarrow> 'r list \<Rightarrow> 'r list" where
  "update_rows P f rows = map (\<lambda>r. if P r then f r else r) rows"

lemma update_rows_simps [simp]:
  "update_rows P f [] = []"
  "update_rows P f (r # rs) = (if P r then f r else r) # update_rows P f rs"
  "length (update_rows P f rs) = length rs"
  by (simp_all add: update_rows_def)

lemma in_update_rows: "x \<in> set (update_rows P f rs) \<longleftrightarrow> (\<exists>r \<in> set rs. x = (if P r then f r else r))"
  by (auto simp: update_rows_def)

lemma map_update_rows: "(\<And>r. P r \<Longrightarrow> key (f r) = key r) \<Longrightarrow> map key (update_rows P f rs) = map key rs"
  by (simp add: update_rows_def)

lemma find_update_rows:
  assumes "\<And>r. key (f r) = key r"
  shows "find (\<lambda>r. key r = k) (update_rows (\<lambda>r. key r = k) f rs) =
    map_option f (find (\<lambda>r. key r = k) rs)"
  by (induction rs) (auto simp: assms)

lemma find_update_kept:
  assumes "\<And>r. Q (f r) = Q r" "find Q rs = Some c"
  shows "find Q (update_rows (\<lambda>r. key r = key c) f rs) = Some (f c)"
  using assms(2) by (induction rs) (auto simp: assms(1) split: if_splits)

definition update_user :: "uuid \<Rightarrow> (app_user \<Rightarrow> app_user) \<Rightarrow> unit auth_act" where
  "update_user i f = db_write (d_users_update (update_rows (\<lambda>u. usr_id u = i) f))"

section \<open>Redis commands\<close>

definition redis_cmd :: "((string \<times> redis_cell) list \<Rightarrow> (auth_error + 'a) \<times> (string \<times> redis_cell) list) \<Rightarrow> 'a auth_act" where
  "redis_cmd c w =
    (if rs_up (w_redis w)
     then (case c (rs_cells (w_redis w)) of (r, cells) \<Rightarrow> (r, upd_cells (\<lambda>_. cells) w))
     else (Inl Redis_error, w))"

definition redis_set :: "string \<Rightarrow> redis_value \<Rightarrow> int \<Rightarrow> unit auth_act" where
  "redis_set k v ttl =
    redis_cmd (\<lambda>cs. (Inr (), AList.update k \<lparr> cell_value = v, cell_ttl = Some ttl \<rparr> cs))"

definition redis_get :: "string \<Rightarrow> redis_value option auth_act" where
  "redis_get k = redis_cmd (\<lambda>cs. (Inr (map_option cell_value (map_of cs k)), cs))"

definition redis_del :: "string list \<Rightarrow> unit auth_act" where
  "redis_del ks = redis_cmd (\<lambda>cs. (Inr (), filter (\<lambda>c. fst c \<notin> set ks) cs))"

definition redis_members :: "string \<Rightarrow> string list auth_act" where
  "redis_members k = redis_cmd (\<lambda>cs.
    (case map_of cs k of
       None \<Rightarrow> (Inr [], cs)
     | Some c \<Rightarrow> (case cell_value c of RV_set xs \<Rightarrow> (Inr xs, cs) | _ \<Rightarrow> (Inl Redis_error, cs))))"

definition redis_sadd :: "string \<Rightarrow> string \<Rightarrow> unit auth_act" where
  "redis_sadd k x = redis_cmd (\<lambda>cs.
    (case map_of cs k of
       None \<Rightarrow> (Inr (), AList.update k \<lparr> cell_value = RV_set [x], cell_ttl = None \<rparr> cs)
     | Some c \<Rightarrow>
         (case cell_value c of
            RV_set xs \<Rightarrow> (Inr (), AList.update k (c\<lparr> cell_value := RV_set (js_add x xs) \<rparr>) cs)
          | _ \<Rightarrow> (Inl Redis_error, cs))))"

definition redis_expire :: "string \<Rightarrow> int \<Rightarrow> unit auth_act" where
  "redis_expire k ttl = redis_cmd (\<lambda>cs.
    (Inr (), map (\<lambda>c. if fst c = k then (k, (snd c)\<lparr> cell_ttl := Some ttl \<rparr>) else c) cs))"

definition redis_incr :: "string \<Rightarrow> int auth_act" where
  "redis_incr k = redis_cmd (\<lambda>cs.
    (case map_of cs k of
       None \<Rightarrow> (Inr 1, AList.update k \<lparr> cell_value = RV_count 1, cell_ttl = None \<rparr> cs)
     | Some c \<Rightarrow>
         (case cell_value c of
            RV_count n \<Rightarrow> (Inr (n + 1), AList.update k (c\<lparr> cell_value := RV_count (n + 1) \<rparr>) cs)
          | _ \<Rightarrow> (Inl Redis_error, cs))))"

definition redis_client :: "bool auth_act" where
  "redis_client = act_get (\<lambda>w. rs_client (w_redis w))"

definition redis_cells :: "auth_world \<Rightarrow> string \<Rightarrow> redis_cell option" where
  "redis_cells w k = map_of (rs_cells (w_redis w)) k"

lemma redis_cells_upd [simp]:
  "redis_cells (upd_cells f w) k = map_of (f (rs_cells (w_redis w))) k"
  "redis_cells (upd_db g w) k = redis_cells w k"
  by (simp_all add: redis_cells_def)

section \<open>Running the primitives\<close>

lemma act_assoc:
  "act_bind (act_bind m g) f w = act_bind m (\<lambda>x. act_bind (g x) f) w"
  "act_then (act_bind m h) k w = act_bind m (\<lambda>x. act_then (h x) k) w"
  by (simp_all add: act_bind_def act_then_def split: prod.splits sum.splits)

lemma db_run [act_simps]:
  "act_bind (db_read q) f w = f (q (w_db w)) w"
  "act_then (db_write g) k w = k (upd_db g w)"
  "act_bind (db_write g) f' w = f' () (upd_db g w)"
  "db_write g w = (Inr (), upd_db g w)"
  "db_read q w = (Inr (q (w_db w)), w)"
  by (simp_all add: db_read_def db_write_def act_simps)

lemma required_run [act_simps]:
  "required None = act_throw Row_not_found"
  "required (Some x) = act_ret x"
  by (simp_all add: required_def)

lemma redis_client_run [act_simps]:
  "act_bind redis_client f w = f (rs_client (w_redis w)) w"
  by (simp add: redis_client_def act_simps)

lemma redis_run:
  assumes "rs_up (w_redis w)"
  shows "redis_set k v ttl w = (Inr (), upd_cells (AList.update k \<lparr> cell_value = v, cell_ttl = Some ttl \<rparr>) w)"
    and "redis_get k w = (Inr (map_option cell_value (redis_cells w k)), w)"
    and "redis_del ks w = (Inr (), upd_cells (filter (\<lambda>c. fst c \<notin> set ks)) w)"
    and "redis_expire k ttl w =
      (Inr (), upd_cells (map (\<lambda>c. if fst c = k then (k, (snd c)\<lparr> cell_ttl := Some ttl \<rparr>) else c)) w)"
  using assms
  by (simp_all add: redis_set_def redis_get_def redis_del_def redis_expire_def redis_cmd_def
        redis_cells_def upd_cells_def)

lemma redis_down:
  assumes "\<not> rs_up (w_redis w)"
  shows "redis_cmd c w = (Inl Redis_error, w)"
  using assms by (simp add: redis_cmd_def)

lemma map_of_filter_fst:
  "map_of (filter (\<lambda>c. P (fst c)) cs) k = (if P k then map_of cs k else None)"
  by (induction cs) auto

lemmas map_of_filter_keys [simp] =
  map_of_filter_fst[of "\<lambda>x. x \<noteq> k'" for k']
  map_of_filter_fst[of "\<lambda>x. x \<notin> ks" for ks]
  map_of_filter_fst[of "\<lambda>x. x \<noteq> k' \<and> x \<notin> ks" for k' ks]

lemma redis_cells_del [simp]:
  "redis_cells (upd_cells (filter (\<lambda>c. fst c \<notin> ks)) w) k = (if k \<in> ks then None else redis_cells w k)"
  by (simp add: redis_cells_def)

lemma redis_cells_set [simp]:
  "redis_cells (upd_cells (AList.update k c) w) k' = (if k' = k then Some c else redis_cells w k')"
  by (auto simp: update_conv') (simp_all add: redis_cells_def)

end
