(* ===== verification/Security_Events.thy ===== *)
theory Security_Events
  imports Auth_Model
begin

text \<open>
  The security events of \<^verbatim>\<open>SecurityEventService\<close>: the draft each logging function hands to
  the outbox repository, and the statement that stores it.  An email is masked before it enters
  a failed-login event.
\<close>

definition js_split :: "char \<Rightarrow> string \<Rightarrow> string list" where
  "js_split sep s = foldr (\<lambda>c acc. if c = sep then [] # acc else (c # hd acc) # tl acc) s [[]]"

definition maskEmail :: "string \<Rightarrow> string" where
  "maskEmail email =
    (case js_split CHR ''@'' email of
       [nm, domain] \<Rightarrow>
         (if length nm \<le> 2 then ''***@'' @ domain
          else [hd nm] @ ''***'' @ [last nm] @ ''@'' @ domain)
     | _ \<Rightarrow> ''***'')"

definition security_draft :: "tenant \<Rightarrow> string option \<Rightarrow> string \<Rightarrow> (string \<times> json) list \<Rightarrow> outbox_draft" where
  "security_draft t u ty payload =
    \<lparr> draft_tenant = Some t, draft_aggregateType = None, draft_aggregateId = None, draft_userId = u,
      draft_payload = None, draft_sanitizedPayload = Some (JObj payload), draft_status = None,
      draft_eventType = ty, draft_eventVersion = None \<rparr>"

definition truthy_id :: "string option \<Rightarrow> string option" where
  "truthy_id u = (case u of Some (c # cs) \<Rightarrow> Some (c # cs) | _ \<Rightarrow> None)"

section \<open>The events\<close>

definition loginSucceeded ::
  "tenant \<Rightarrow> uuid \<Rightarrow> uuid \<Rightarrow> string \<Rightarrow> string option \<Rightarrow> bool option \<Rightarrow> outbox_draft" where
  "loginSucceeded t u sid ip agent remember =
    security_draft t (Some u) ''authentication.login-succeeded''
      [(''tenantCode'', JStr t), (''userId'', JStr u), (''sessionId'', JStr sid),
       (''authenticationMethod'', JStr ''PASSWORD''),
       (''rememberMe'', JBool (remember = Some True)), (''ipAddress'', JStr ip),
       (''userAgent'', JStr (or_unknown agent))]"

definition loginFailed ::
  "tenant \<Rightarrow> string \<Rightarrow> string \<Rightarrow> string \<Rightarrow> uuid option \<Rightarrow> string option \<Rightarrow> outbox_draft" where
  "loginFailed t email ip reason u agent =
    security_draft t (truthy_id u) ''authentication.login-failed''
      [(''tenantCode'', JStr t), (''userId'', jnullable (truthy_id u)),
       (''attemptedEmail'', JStr (maskEmail email)), (''failureReason'', JStr reason),
       (''authenticationMethod'', JStr ''PASSWORD''), (''ipAddress'', JStr ip),
       (''userAgent'', JStr (or_unknown agent))]"

definition accountLocked :: "tenant \<Rightarrow> uuid \<Rightarrow> string \<Rightarrow> string option \<Rightarrow> outbox_draft" where
  "accountLocked t u ip agent =
    security_draft t (Some u) ''authentication.account-locked''
      [(''tenantCode'', JStr t), (''userId'', JStr u), (''ipAddress'', JStr ip),
       (''userAgent'', JStr (or_unknown agent))]"

definition ssoLoginSucceeded ::
  "tenant \<Rightarrow> uuid \<Rightarrow> string \<Rightarrow> string \<Rightarrow> string \<Rightarrow> string option \<Rightarrow> outbox_draft" where
  "ssoLoginSucceeded t u subj authState ip agent =
    security_draft t (Some u) ''authentication.sso-login-succeeded''
      [(''tenantCode'', JStr t), (''userId'', JStr u), (''provider'', JStr ''firebase''),
       (''providerSubject'', JStr subj), (''authMethod'', JStr ''sso_firebase''),
       (''authState'', JStr authState), (''ipAddress'', JStr ip),
       (''userAgent'', JStr (or_unknown agent))]"

definition ssoLoginFailed ::
  "tenant \<Rightarrow> string \<Rightarrow> string \<Rightarrow> string \<Rightarrow> uuid option \<Rightarrow> string option \<Rightarrow> outbox_draft" where
  "ssoLoginFailed t subj reason ip u agent =
    security_draft t (truthy_id u) ''authentication.sso-login-failed''
      [(''tenantCode'', JStr t), (''userId'', jnullable (truthy_id u)), (''provider'', JStr ''firebase''),
       (''providerSubject'', JStr subj), (''failureReason'', JStr reason), (''ipAddress'', JStr ip),
       (''userAgent'', JStr (or_unknown agent))]"

definition userProvisioned :: "tenant \<Rightarrow> uuid \<Rightarrow> string \<Rightarrow> string \<Rightarrow> string \<Rightarrow> outbox_draft" where
  "userProvisioned t u email accountType status =
    security_draft t (Some u) (event_type_string AUTHENTICATION_USER_PROVISIONED)
      [(''userId'', JStr u), (''tenantCode'', JStr t), (''email'', JStr email),
       (''accountType'', JStr accountType), (''status'', JStr status)]"

definition sessionsRevoked :: "tenant \<Rightarrow> uuid \<Rightarrow> string \<Rightarrow> string \<Rightarrow> outbox_draft" where
  "sessionsRevoked t u reason newStatus =
    security_draft t (Some u) (event_type_string AUTHENTICATION_SESSIONS_REVOKED)
      [(''userId'', JStr u), (''tenantCode'', JStr t), (''reason'', JStr reason),
       (''newStatus'', JStr newStatus)]"

definition userInvited :: "tenant \<Rightarrow> uuid \<Rightarrow> uuid \<Rightarrow> string \<Rightarrow> outbox_draft" where
  "userInvited t u invId email =
    security_draft t (Some u) (event_type_string AUTHENTICATION_USER_INVITED)
      [(''userId'', JStr u), (''tenantCode'', JStr t), (''invitationId'', JStr invId),
       (''email'', JStr email)]"

definition invitationAccepted ::
  "tenant \<Rightarrow> uuid \<Rightarrow> uuid \<Rightarrow> string \<Rightarrow> string option \<Rightarrow> outbox_draft" where
  "invitationAccepted t u invId acceptedAt supersededBy =
    security_draft t (Some u) (event_type_string AUTHENTICATION_INVITATION_ACCEPTED)
      ([(''userId'', JStr u), (''tenantCode'', JStr t), (''invitationId'', JStr invId),
        (''acceptedAt'', JStr acceptedAt)]
       @ (case truthy_id supersededBy of Some s \<Rightarrow> [(''supersededBy'', JStr s)] | None \<Rightarrow> []))"

definition invitationResent :: "tenant \<Rightarrow> uuid \<Rightarrow> uuid \<Rightarrow> string \<Rightarrow> string \<Rightarrow> uuid \<Rightarrow> outbox_draft" where
  "invitationResent t u invId email expiresAt actor =
    security_draft t (Some u) (event_type_string AUTHENTICATION_INVITATION_RESENT)
      [(''invitationId'', JStr invId), (''recipientEmail'', JStr email), (''expiresAt'', JStr expiresAt),
       (''resentByActorId'', JStr actor)]"

definition passwordResetRequested :: "tenant \<Rightarrow> uuid \<Rightarrow> string \<Rightarrow> uuid \<Rightarrow> bool \<Rightarrow> outbox_draft" where
  "passwordResetRequested t u email challenge byAdmin =
    security_draft t (Some u) (event_type_string AUTHENTICATION_PASSWORD_RESET_REQUESTED)
      [(''tenantCode'', JStr t), (''userId'', JStr u), (''deliveryEmail'', JStr email),
       (''challengeId'', JStr challenge), (''initiatedByAdmin'', JBool byAdmin)]"

definition passwordResetCompleted :: "tenant \<Rightarrow> uuid \<Rightarrow> string \<Rightarrow> outbox_draft" where
  "passwordResetCompleted t u resetMethod =
    security_draft t (Some u) (event_type_string AUTHENTICATION_PASSWORD_RESET_COMPLETED)
      [(''tenantCode'', JStr t), (''userId'', JStr u), (''resetMethod'', JStr resetMethod)]"

definition passwordChanged :: "tenant \<Rightarrow> uuid \<Rightarrow> string \<Rightarrow> (uuid \<times> string) option \<Rightarrow> outbox_draft" where
  "passwordChanged t u reason actor =
    security_draft t (Some u) (event_type_string AUTHENTICATION_PASSWORD_CHANGED)
      [(''userId'', JStr u), (''changeReason'', JStr reason),
       (''actor'',
        (case actor of
           Some (i, ty) \<Rightarrow> JObj [(''userId'', JStr i), (''type'', JStr ty)]
         | None \<Rightarrow> JObj [(''userId'', JStr u), (''type'', JStr ''USER'')]))]"

definition cognitoUserProvisioned :: "tenant \<Rightarrow> uuid \<Rightarrow> string \<Rightarrow> string \<Rightarrow> string \<Rightarrow> outbox_draft" where
  "cognitoUserProvisioned t u email external action =
    security_draft t (Some u) (event_type_string AUTHENTICATION_COGNITO_USER_PROVISIONED)
      [(''userId'', JStr u), (''normalizedEmail'', JStr email), (''externalIdentityId'', JStr external),
       (''action'', JStr action)]"

definition cognitoProvisioningFailed ::
  "tenant \<Rightarrow> uuid \<Rightarrow> string \<Rightarrow> string \<Rightarrow> string \<Rightarrow> int \<Rightarrow> outbox_draft" where
  "cognitoProvisioningFailed t u email errorCode reason retryCount =
    security_draft t (Some u) (event_type_string AUTHENTICATION_COGNITO_PROVISIONING_FAILED)
      [(''userId'', JStr u), (''normalizedEmail'', JStr email), (''errorCode'', JStr errorCode),
       (''reason'', JStr reason), (''retryCount'', JNum retryCount)]"

section \<open>Storing an event\<close>

definition log_event :: "auth_env \<Rightarrow> outbox_draft \<Rightarrow> unit auth_act" where
  "log_event env d = db_write (\<lambda>db. db\<lparr> d_outbox := d_outbox db @ [outbox_create (ae_tenant env) d] \<rparr>)"

lemma log_event_run [act_simps]:
  "act_then (log_event env d) k w
    = k (upd_db (\<lambda>db. db\<lparr> d_outbox := d_outbox db @ [outbox_create (ae_tenant env) d] \<rparr>) w)"
  "act_bind (log_event env d) f w
    = f () (upd_db (\<lambda>db. db\<lparr> d_outbox := d_outbox db @ [outbox_create (ae_tenant env) d] \<rparr>) w)"
  "log_event env d w
    = (Inr (), upd_db (\<lambda>db. db\<lparr> d_outbox := d_outbox db @ [outbox_create (ae_tenant env) d] \<rparr>) w)"
  by (simp_all add: log_event_def act_simps)

lemma outbox_of_security_draft [simp]:
  "row_tenant (outbox_create rt (security_draft t u ty p)) = t"
  "row_eventType (outbox_create rt (security_draft t u ty p)) = ty"
  "row_payload (outbox_create rt (security_draft t u ty p)) = JObj p"
  "row_status (outbox_create rt (security_draft t u ty p)) = Outbox_pending"
  by (simp_all add: outbox_create_def security_draft_def first_some_def)

lemmas security_event_defs =
  loginSucceeded_def loginFailed_def accountLocked_def ssoLoginSucceeded_def ssoLoginFailed_def
  userProvisioned_def sessionsRevoked_def userInvited_def invitationAccepted_def
  invitationResent_def passwordResetRequested_def passwordResetCompleted_def passwordChanged_def
  cognitoUserProvisioned_def cognitoProvisioningFailed_def

section \<open>Masking\<close>

lemma js_split_nonempty: "js_split sep s \<noteq> []"
  by (induction s) (auto simp: js_split_def)

lemma js_split_Cons:
  "js_split sep (c # s) =
    (if c = sep then [] # js_split sep s else (c # hd (js_split sep s)) # tl (js_split sep s))"
  by (simp add: js_split_def)

lemma js_split_no_sep: "sep \<notin> set s \<Longrightarrow> js_split sep s = [s]"
  by (induction s) (auto simp: js_split_def)

lemma js_split_one_sep:
  "sep \<notin> set a \<Longrightarrow> sep \<notin> set b \<Longrightarrow> js_split sep (a @ sep # b) = [a, b]"
  by (induction a) (auto simp: js_split_Cons js_split_no_sep)

text \<open>
  A failed-login event never carries more of the account name than its first and last
  character: two addresses of the same domain whose names are longer than two characters and agree
  on those two are masked to the same text, and names of at most two characters are hidden
  altogether.
\<close>

theorem masked_email_hides_name:
  assumes "CHR ''@'' \<notin> set a" "CHR ''@'' \<notin> set b" "CHR ''@'' \<notin> set d"
    and "length a \<le> 2 \<longleftrightarrow> length b \<le> 2"
    and "2 < length a \<Longrightarrow> hd a = hd b \<and> last a = last b"
  shows "maskEmail (a @ ''@'' @ d) = maskEmail (b @ ''@'' @ d)"
  using assms by (auto simp: maskEmail_def js_split_one_sep)

theorem masked_email_hides_name_witness:
  "maskEmail ''alice@x.io'' = maskEmail ''ae3mke@x.io'' \<and> maskEmail ''alice@x.io'' = ''a***e@x.io''"
  using masked_email_hides_name[of "''alice''" "''ae3mke''" "''x.io''"]
  by (simp add: maskEmail_def js_split_def)

end
