(* ===== verification/Matching_Query.thy ===== *)
theory Matching_Query
  imports Matching_Rule
begin

text \<open>
  What the two readings of a matching rule agree on.  The SQL conditions get PostgreSQL's
  three-valued meaning over the columns' declared types, with the input functions of
  \<^verbatim>\<open>uuid\<close> and \<^verbatim>\<open>integer\<close> as parameters; a parameter the column's type
  refuses makes the whole query fail.  On rules whose values fit their columns the query selects
  exactly the employees the evaluator accepts, and the clauses the builder drops are listed.
\<close>

section \<open>Decimal texts\<close>

definition nat_of_string :: "string \<Rightarrow> nat" where
  "nat_of_string s = foldl (\<lambda>a c. 10 * a + (of_char c - 48)) 0 s"

lemma nat_of_string_nat_string [simp]: "nat_of_string (nat_string n) = n"
proof (induction n rule: nat_string.induct)
  case (1 n)
  show ?case
  proof (cases "n < 10")
    case True
    then show ?thesis by (subst nat_string.simps) (simp add: nat_of_string_def digit_string_def)
  next
    case False
    then have "nat_of_string (nat_string n)
        = 10 * nat_of_string (nat_string (n div 10)) + n mod 10"
      by (subst nat_string.simps) (simp add: nat_of_string_def digit_string_def)
    also have "\<dots> = n" using 1 False by simp
    finally show ?thesis .
  qed
qed

lemma hd_nat_string: "nat_string n \<noteq> [] \<and> hd (nat_string n) \<noteq> CHR ''-''"
proof (induction n rule: nat_string.induct)
  case (1 n)
  have d: "digit_string k \<noteq> [] \<and> hd (digit_string k) \<noteq> CHR ''-''" if "k < 10" for k
  proof -
    have "of_char (char_of (48 + k) :: char) \<noteq> (of_char (CHR ''-'') :: nat)" using that by simp
    then have "char_of (48 + k) \<noteq> CHR ''-''" by (metis of_char_eq_iff)
    then show ?thesis by (simp add: digit_string_def)
  qed
  show ?case
  proof (cases "n < 10")
    case True
    then show ?thesis using d by (subst (1 2) nat_string.simps) simp
  next
    case False
    then show ?thesis using 1 by (subst (1 2) nat_string.simps) simp
  qed
qed

definition int_of_string :: "string \<Rightarrow> int" where
  "int_of_string s =
    (case s of c # cs \<Rightarrow> if c = CHR ''-'' then - int (nat_of_string cs) else int (nat_of_string s) | [] \<Rightarrow> 0)"

lemma int_of_string_int_string [simp]: "int_of_string (int_string n) = n"
proof (cases "n < 0")
  case True
  then show ?thesis by (simp add: int_string_def int_of_string_def)
next
  case False
  then show ?thesis
    using hd_nat_string[of "nat n"]
    by (cases "nat_string (nat n)") (auto simp: int_string_def int_of_string_def
        dest: arg_cong[where f = nat_of_string])
qed

lemma int_string_inj [simp]: "int_string a = int_string b \<longleftrightarrow> a = b"
  by (metis int_of_string_int_string)

section \<open>What PostgreSQL makes of a condition\<close>

datatype column_type = Text_column | Uuid_column | Int_column

datatype sql_value = V_text string | V_uuid string | V_int int

record pg_types =
  pg_uuid :: "string \<Rightarrow> string option"
  pg_int :: "string \<Rightarrow> int option"
  pg_before :: "sql_value \<Rightarrow> sql_value \<Rightarrow> bool"

definition column_type :: "string \<Rightarrow> column_type" where
  "column_type col =
    (if col = ''employment_status'' \<or> col = ''tenant_code'' then Text_column
     else if col = ''reportees_count'' then Int_column else Uuid_column)"

definition column_value :: "employee_reference \<Rightarrow> string \<Rightarrow> sql_value option" where
  "column_value e col =
    (if col = ''tenant_code'' then Some (V_text (emp_tenant e))
     else if col = ''employment_status'' then Some (V_text (emp_employmentStatus e))
     else if col = ''company_id'' then map_option V_uuid (emp_companyId e)
     else if col = ''location_id'' then map_option V_uuid (emp_locationId e)
     else if col = ''department_id'' then map_option V_uuid (emp_departmentId e)
     else if col = ''grade_id'' then map_option V_uuid (emp_gradeId e)
     else if col = ''job_title_id'' then map_option V_uuid (emp_jobTitleId e)
     else if col = ''reportees_count'' then Some (V_int (emp_reporteesCount e))
     else None)"

definition pg_input :: "pg_types \<Rightarrow> column_type \<Rightarrow> string \<Rightarrow> sql_value option" where
  "pg_input pg ty s =
    (case ty of Text_column \<Rightarrow> Some (V_text s) | Uuid_column \<Rightarrow> map_option V_uuid (pg_uuid pg s)
     | Int_column \<Rightarrow> map_option V_int (pg_int pg s))"

text \<open>A parameter read at a column's type: an error, NULL, or a value.\<close>

definition bind_text :: "pg_types \<Rightarrow> column_type \<Rightarrow> string \<Rightarrow> unit + sql_value option" where
  "bind_text pg ty s = (case pg_input pg ty s of None \<Rightarrow> Fail () | Some v \<Rightarrow> Ok (Some v))"

fun bind_scalar :: "pg_types \<Rightarrow> column_type \<Rightarrow> json \<Rightarrow> unit + sql_value option" where
  "bind_scalar pg ty (JStr s) = bind_text pg ty s"
| "bind_scalar pg ty (JNum n) = bind_text pg ty (int_string n)"
| "bind_scalar pg ty (JBool b) = bind_text pg ty (if b then ''true'' else ''false'')"
| "bind_scalar pg ty JNull = Ok None"
| "bind_scalar pg ty JUndefined = Ok None"
| "bind_scalar pg ty (JArr xs) = Fail ()"
| "bind_scalar pg ty (JObj fs) = Fail ()"

fun bind_list :: "pg_types \<Rightarrow> column_type \<Rightarrow> json list \<Rightarrow> unit + sql_value option list" where
  "bind_list pg ty [] = Ok []"
| "bind_list pg ty (v # vs) =
    and_then (bind_scalar pg ty v) (\<lambda>x. and_then (bind_list pg ty vs) (\<lambda>xs. Ok (x # xs)))"

definition bind_array :: "pg_types \<Rightarrow> column_type \<Rightarrow> json \<Rightarrow> unit + sql_value option list" where
  "bind_array pg ty v = (case v of JArr xs \<Rightarrow> bind_list pg ty xs | _ \<Rightarrow> Fail ())"

definition sql_eq :: "sql_value option \<Rightarrow> sql_value option \<Rightarrow> bool option" where
  "sql_eq a b = (case (a, b) of (Some x, Some y) \<Rightarrow> Some (x = y) | _ \<Rightarrow> None)"

definition sql_less :: "pg_types \<Rightarrow> sql_value option \<Rightarrow> sql_value option \<Rightarrow> bool option" where
  "sql_less pg a b =
    (case (a, b) of
       (Some (V_int x), Some (V_int y)) \<Rightarrow> Some (x < y)
     | (Some x, Some y) \<Rightarrow> Some (pg_before pg x y)
     | _ \<Rightarrow> None)"

definition sql_not :: "bool option \<Rightarrow> bool option" where
  "sql_not a = map_option Not a"

definition sql_or :: "bool \<Rightarrow> bool option \<Rightarrow> bool option" where
  "sql_or a b = (if a then Some True else b)"

definition sql_any :: "sql_value option \<Rightarrow> sql_value option list \<Rightarrow> bool option" where
  "sql_any a vs =
    (if vs = [] then Some False
     else case a of
       None \<Rightarrow> None
     | Some x \<Rightarrow> if Some x \<in> set vs then Some True else if None \<in> set vs then None else Some False)"

fun eval_condition ::
  "pg_types \<Rightarrow> employee_reference \<Rightarrow> (nat \<Rightarrow> json) \<Rightarrow> sql_condition \<Rightarrow> unit + bool option" where
  "eval_condition pg e ps (Tenant_is n) =
    and_then (bind_scalar pg Text_column (ps n)) (\<lambda>p. Ok (sql_eq (column_value e ''tenant_code'') p))"
| "eval_condition pg e ps Reportees_positive = Ok (Some (emp_reporteesCount e > 0))"
| "eval_condition pg e ps Reportees_zero = Ok (Some (emp_reporteesCount e = 0))"
| "eval_condition pg e ps (Col_eq c n) =
    and_then (bind_scalar pg (column_type c) (ps n)) (\<lambda>p. Ok (sql_eq (column_value e c) p))"
| "eval_condition pg e ps (Col_neq c n) =
    and_then (bind_scalar pg (column_type c) (ps n)) (\<lambda>p.
      Ok (sql_or (column_value e c = None) (sql_not (sql_eq (column_value e c) p))))"
| "eval_condition pg e ps (Col_any c n) =
    and_then (bind_array pg (column_type c) (ps n)) (\<lambda>p. Ok (sql_any (column_value e c) p))"
| "eval_condition pg e ps (Col_not_any c n) =
    and_then (bind_array pg (column_type c) (ps n)) (\<lambda>p.
      Ok (sql_or (column_value e c = None) (sql_not (sql_any (column_value e c) p))))"
| "eval_condition pg e ps (Col_gt c n) =
    and_then (bind_scalar pg (column_type c) (ps n)) (\<lambda>p. Ok (sql_less pg p (column_value e c)))"
| "eval_condition pg e ps (Col_ge c n) =
    and_then (bind_scalar pg (column_type c) (ps n)) (\<lambda>p. Ok (sql_not (sql_less pg (column_value e c) p)))"
| "eval_condition pg e ps (Col_lt c n) =
    and_then (bind_scalar pg (column_type c) (ps n)) (\<lambda>p. Ok (sql_less pg (column_value e c) p))"
| "eval_condition pg e ps (Col_le c n) =
    and_then (bind_scalar pg (column_type c) (ps n)) (\<lambda>p. Ok (sql_not (sql_less pg p (column_value e c))))"
| "eval_condition pg e ps (Col_present c) =
    and_then (bind_text pg (column_type c) []) (\<lambda>p.
      Ok (if column_value e c = None then Some False else sql_not (sql_eq (column_value e c) p)))"

definition nth_param :: "json list \<Rightarrow> nat \<Rightarrow> json" where
  "nth_param ps n = ps ! (n - 1)"

definition combine_conditions :: "(unit + bool option) list \<Rightarrow> unit + bool" where
  "combine_conditions rs =
    (if list_all is_ok rs then Ok (list_all (\<lambda>r. r = Ok (Some True)) rs) else Fail ())"

definition query_selects :: "pg_types \<Rightarrow> tenant \<Rightarrow> matching_rule \<Rightarrow> employee_reference \<Rightarrow> unit + bool" where
  "query_selects pg t rule e =
    (let q = build_conditions t rule in
     combine_conditions (map (eval_condition pg e (nth_param (snd q))) (fst q)))"

section \<open>One clause at a time\<close>

text \<open>What a clause adds: nothing, a condition without a parameter, or one on a new parameter.\<close>

datatype clause_output = No_condition | Plain sql_condition | On_param "nat \<Rightarrow> sql_condition" json

definition column_output :: "string \<Rightarrow> string \<Rightarrow> rule_clause \<Rightarrow> clause_output" where
  "column_output op col c =
    (let v = clause_value c; vs = JArr (case clause_values c of None \<Rightarrow> [] | Some xs \<Rightarrow> xs) in
     if op = ''eq'' \<or> op = ''equals'' then On_param (Col_eq col) v
     else if op = ''neq'' \<or> op = ''not_equals'' then On_param (Col_neq col) v
     else if op = ''in'' then On_param (Col_any col) vs
     else if op = ''not_in'' then On_param (Col_not_any col) vs
     else if op = ''gt'' \<or> op = ''greater_than'' then On_param (Col_gt col) v
     else if op = ''gte'' \<or> op = ''greater_than_or_equal'' then On_param (Col_ge col) v
     else if op = ''lt'' \<or> op = ''less_than'' then On_param (Col_lt col) v
     else if op = ''lte'' \<or> op = ''less_than_or_equal'' then On_param (Col_le col) v
     else if op = ''exists'' then Plain (Col_present col)
     else No_condition)"

definition clause_output :: "rule_clause \<Rightarrow> clause_output" where
  "clause_output c =
    (let a = clause_attribute c; op = js_lower (clause_operator c) in
     if a = [] then No_condition
     else if a = ''hasReportees'' then
       (if op = ''is_true'' \<or> (op = ''eq'' \<and> clause_value c = JBool True) then Plain Reportees_positive
        else if op = ''is_false'' \<or> (op = ''eq'' \<and> clause_value c = JBool False) then Plain Reportees_zero
        else No_condition)
     else (case mapAttributeToColumn a of None \<Rightarrow> No_condition | Some col \<Rightarrow> column_output op col c))"

fun emit :: "clause_output \<Rightarrow> query_state \<Rightarrow> query_state" where
  "emit No_condition q = q"
| "emit (Plain k) q = add_condition k q"
| "emit (On_param f v) q = with_param f v q"

lemma add_clause_emit: "add_clause c q = emit (clause_output c) q"
  by (simp add: add_clause_def clause_output_def clause_condition_def column_output_def Let_def
      split: option.split)

fun output_result :: "pg_types \<Rightarrow> employee_reference \<Rightarrow> clause_output \<Rightarrow> unit + bool option" where
  "output_result pg e No_condition = Ok (Some True)"
| "output_result pg e (Plain k) = eval_condition pg e (\<lambda>_. JUndefined) k"
| "output_result pg e (On_param f v) = eval_condition pg e (\<lambda>_. v) (f 1)"

definition clause_result :: "pg_types \<Rightarrow> employee_reference \<Rightarrow> rule_clause \<Rightarrow> unit + bool option" where
  "clause_result pg e c = output_result pg e (clause_output c)"

fun refers_below :: "nat \<Rightarrow> sql_condition \<Rightarrow> bool" where
  "refers_below m (Tenant_is n) = (1 \<le> n \<and> n \<le> m)"
| "refers_below m (Col_eq c n) = (1 \<le> n \<and> n \<le> m)"
| "refers_below m (Col_neq c n) = (1 \<le> n \<and> n \<le> m)"
| "refers_below m (Col_any c n) = (1 \<le> n \<and> n \<le> m)"
| "refers_below m (Col_not_any c n) = (1 \<le> n \<and> n \<le> m)"
| "refers_below m (Col_gt c n) = (1 \<le> n \<and> n \<le> m)"
| "refers_below m (Col_ge c n) = (1 \<le> n \<and> n \<le> m)"
| "refers_below m (Col_lt c n) = (1 \<le> n \<and> n \<le> m)"
| "refers_below m (Col_le c n) = (1 \<le> n \<and> n \<le> m)"
| "refers_below m k = True"

lemma nth_param_append: "1 \<le> n \<Longrightarrow> n \<le> length ps \<Longrightarrow> nth_param (ps @ qs) n = nth_param ps n"
  by (cases n) (simp_all add: nth_param_def nth_append)

lemma eval_condition_append:
  "refers_below (length ps) k \<Longrightarrow>
     eval_condition pg e (nth_param (ps @ qs)) k = eval_condition pg e (nth_param ps) k"
  by (cases k) (simp_all add: nth_param_append del: One_nat_def)

lemma refers_below_mono: "refers_below m k \<Longrightarrow> m \<le> m' \<Longrightarrow> refers_below m' k"
  by (cases k) auto

text \<open>The outputs the builder makes refer to the parameter they introduce, and to no other.\<close>

definition own_param :: "(nat \<Rightarrow> sql_condition) \<Rightarrow> bool" where
  "own_param f =
    (\<forall>n. (1 \<le> n \<longrightarrow> refers_below n (f n)) \<and>
         (\<forall>pg e g h m. g n = h m \<longrightarrow> eval_condition pg e g (f n) = eval_condition pg e h (f m)))"

lemma own_param_below: "own_param f \<Longrightarrow> 1 \<le> n \<Longrightarrow> refers_below n (f n)"
  unfolding own_param_def by blast

lemma own_param_eval:
  "own_param f \<Longrightarrow> g n = h m \<Longrightarrow> eval_condition pg e g (f n) = eval_condition pg e h (f m)"
  unfolding own_param_def by blast

lemma own_param_intros:
  "own_param (Col_eq col)" "own_param (Col_neq col)" "own_param (Col_any col)"
  "own_param (Col_not_any col)" "own_param (Col_gt col)" "own_param (Col_ge col)"
  "own_param (Col_lt col)" "own_param (Col_le col)"
  by (simp_all add: own_param_def)

fun output_ok :: "clause_output \<Rightarrow> bool" where
  "output_ok (On_param f v) = own_param f"
| "output_ok (Plain k) = (refers_below 0 k \<and>
     (\<forall>pg e g h. eval_condition pg e g k = eval_condition pg e h k))"
| "output_ok No_condition = True"

lemma clause_output_ok: "output_ok (clause_output c)"
  by (simp add: clause_output_def column_output_def Let_def own_param_intros split: option.split)

lemma output_ok_plain:
  "output_ok (Plain k) \<Longrightarrow> refers_below 0 k \<and> eval_condition pg e g k = eval_condition pg e h k"
  unfolding output_ok.simps by blast

definition evals :: "pg_types \<Rightarrow> employee_reference \<Rightarrow> query_state \<Rightarrow> (unit + bool option) list" where
  "evals pg e q = map (eval_condition pg e (nth_param (snd q))) (fst q)"

definition query_ok :: "query_state \<Rightarrow> bool" where
  "query_ok q = list_all (refers_below (length (snd q))) (fst q)"

definition own_results :: "pg_types \<Rightarrow> employee_reference \<Rightarrow> clause_output \<Rightarrow> (unit + bool option) list" where
  "own_results pg e o1 = (if o1 = No_condition then [] else [output_result pg e o1])"

lemma emit_results:
  assumes q: "query_ok q" and o1: "output_ok o1"
  shows "query_ok (emit o1 q) \<and> evals pg e (emit o1 q) = evals pg e q @ own_results pg e o1"
proof (cases o1)
  case No_condition
  then show ?thesis using q by (simp add: own_results_def)
next
  case (Plain k)
  note ok = output_ok_plain[OF o1[unfolded Plain]]
  have "refers_below (length (snd q)) k" by (rule refers_below_mono[OF conjunct1[OF ok]]) simp
  moreover have "eval_condition pg e (nth_param (snd q)) k = eval_condition pg e (\<lambda>_. JUndefined) k"
    by (rule conjunct2[OF ok])
  ultimately show ?thesis
    using q Plain by (simp add: add_condition_def query_ok_def evals_def own_results_def)
next
  case (On_param f v)
  let ?n = "length (snd q) + 1"
  have own: "own_param f" using o1 On_param by simp
  have f: "refers_below ?n (f ?n)" by (rule own_param_below[OF own]) simp
  have f': "eval_condition pg e (nth_param (snd q @ [v])) (f ?n) = eval_condition pg e (\<lambda>_. v) (f 1)"
    by (rule own_param_eval[OF own]) (simp add: nth_param_def)
  have "map (eval_condition pg e (nth_param (snd q @ [v]))) (fst q)
      = map (eval_condition pg e (nth_param (snd q))) (fst q)"
    by (rule map_cong[OF refl], rule eval_condition_append) (use q in \<open>simp add: query_ok_def list_all_iff\<close>)
  moreover have "list_all (refers_below ?n) (fst q)"
    using q refers_below_mono[of "length (snd q)" _ ?n] by (auto simp: query_ok_def list_all_iff)
  ultimately show ?thesis
    using f f' On_param by (simp add: with_param_def query_ok_def evals_def own_results_def)
qed

lemma fold_emit_results:
  assumes "query_ok q"
  shows "query_ok (fold add_clause cs q) \<and>
    evals pg e (fold add_clause cs q)
      = evals pg e q @ concat (map (\<lambda>c. own_results pg e (clause_output c)) cs)"
  using assms
proof (induction cs arbitrary: q)
  case (Cons c cs)
  note 1 = emit_results[OF Cons(2) clause_output_ok[of c], of pg e]
  then show ?case using Cons(1)[of "add_clause c q"] by (simp add: add_clause_emit)
qed simp

lemma combine_Cons_iff [simp]:
  "combine_conditions (r # rs) = Ok b \<longleftrightarrow>
     is_ok r \<and> (\<exists>b'. combine_conditions rs = Ok b' \<and> b = (r = Ok (Some True) \<and> b'))"
  by (auto simp: combine_conditions_def)

lemma combine_own_results:
  "combine_conditions (concat (map (\<lambda>c. own_results pg e (clause_output c)) cs))
     = combine_conditions (map (clause_result pg e) cs)"
proof -
  have "list_all P (concat (map (\<lambda>c. own_results pg e (clause_output c)) cs))
      \<longleftrightarrow> list_all P (map (clause_result pg e) cs)" if "P (Ok (Some True))" for P
    using that by (induction cs) (auto simp: own_results_def clause_result_def)
  then show ?thesis by (simp only: combine_conditions_def is_ok_simps)
qed

lemma combine_Cons:
  "combine_conditions (Ok (Some True) # rs) = combine_conditions rs"
  by (simp add: combine_conditions_def)

lemma tenant_result:
  "eval_condition pg e (nth_param [JStr t]) (Tenant_is 1) = Ok (Some (emp_tenant e = t))"
  by (simp add: nth_param_def bind_text_def pg_input_def column_value_def sql_eq_def)

lemma query_selects_clauses:
  "query_selects pg t rule e
     = combine_conditions (Ok (Some (emp_tenant e = t)) # map (clause_result pg e) (rule_clauses rule))"
proof -
  have q0: "query_ok ([Tenant_is 1], [JStr t])" by (simp add: query_ok_def)
  have "evals pg e (build_conditions t rule)
      = Ok (Some (emp_tenant e = t)) # concat (map (\<lambda>c. own_results pg e (clause_output c)) (rule_clauses rule))"
    using fold_emit_results[OF q0, of "rule_clauses rule" pg e] tenant_result
    by (simp add: build_conditions_def evals_def del: eval_condition.simps)
  moreover have "combine_conditions (r # concat (map (\<lambda>c. own_results pg e (clause_output c)) cs))
      = combine_conditions (r # map (clause_result pg e) cs)" for r cs
    using combine_own_results[of pg e cs]
    by (cases "is_ok r") (auto simp: combine_conditions_def split: if_splits)
  ultimately show ?thesis by (simp add: query_selects_def evals_def Let_def)
qed

section \<open>Where the readings agree\<close>

text \<open>A clause whose values are well formed for its column.\<close>

definition canonical_uuid :: "pg_types \<Rightarrow> string \<Rightarrow> bool" where
  "canonical_uuid pg s = (pg_uuid pg s = Some s)"

definition canonical_int :: "pg_types \<Rightarrow> int \<Rightarrow> bool" where
  "canonical_int pg n = (pg_int pg (int_string n) = Some n)"

fun fits :: "pg_types \<Rightarrow> column_type \<Rightarrow> json \<Rightarrow> bool" where
  "fits pg Text_column (JStr s) = True"
| "fits pg Uuid_column (JStr s) = (canonical_uuid pg s \<and> s \<noteq> ''null'')"
| "fits pg Int_column (JNum n) = canonical_int pg n"
| "fits pg ty v = False"

definition equality_ops :: "string list" where
  "equality_ops = [''eq'', ''equals'', ''neq'', ''not_equals'']"

definition order_ops :: "string list" where
  "order_ops = [''gt'', ''greater_than'', ''gte'', ''greater_than_or_equal'', ''lt'', ''less_than'',
     ''lte'', ''less_than_or_equal'']"

definition list_ops :: "string list" where
  "list_ops = [''in'', ''not_in'']"

definition safe_clause :: "pg_types \<Rightarrow> rule_clause \<Rightarrow> bool" where
  "safe_clause pg c =
    (let a = clause_attribute c; op = js_lower (clause_operator c); v = clause_value c in
     if a = ''hasReportees'' then
       (op = ''is_true'' \<and> (v = JUndefined \<or> truthy v)) \<or> op = ''is_false''
       \<or> (op = ''eq'' \<and> (v = JBool True \<or> v = JBool False))
     else (case mapAttributeToColumn a of
       None \<Rightarrow> False
     | Some col \<Rightarrow>
         (op \<in> set equality_ops \<and> fits pg (column_type col) v)
         \<or> (op \<in> set list_ops \<and>
             (case clause_values c of None \<Rightarrow> False | Some vs \<Rightarrow> list_all (fits pg (column_type col)) vs))
         \<or> (op \<in> set order_ops \<and> column_type col = Int_column \<and> fits pg Int_column v)
         \<or> (op = ''exists'' \<and> column_type col = Text_column)))"

text \<open>The value of a column and the value the evaluator extracts are the same datum.\<close>

inductive same_datum :: "column_type \<Rightarrow> json \<Rightarrow> sql_value option \<Rightarrow> bool" where
  text_datum: "same_datum Text_column (JStr s) (Some (V_text s))"
| uuid_datum: "same_datum Uuid_column (JStr s) (Some (V_uuid s))"
| uuid_null: "same_datum Uuid_column JNull None"
| int_datum: "same_datum Int_column (JNum n) (Some (V_int n))"

inductive_cases same_datumE: "same_datum ty v x"

inductive_simps same_datum_simps:
  "same_datum Text_column v x" "same_datum Uuid_column v x" "same_datum Int_column v x"

lemma mapped_attribute_datum:
  assumes "mapAttributeToColumn a = Some col"
  shows "same_datum (column_type col) (extractEmployeeValue a e) (column_value e col)"
  using assms
  by (auto simp: mapAttributeToColumn_def extractEmployeeValue_def column_type_def column_value_def
      str_or_null_def same_datum_simps split: if_splits option.splits)

lemma fits_cases:
  assumes "fits pg ty v"
  obtains (txt_case) s where "ty = Text_column" "v = JStr s" "bind_scalar pg ty v = Ok (Some (V_text s))"
    | (uuid_case) s where "ty = Uuid_column" "v = JStr s" "s \<noteq> ''null''" "bind_scalar pg ty v = Ok (Some (V_uuid s))"
    | (int_case) n where "ty = Int_column" "v = JNum n" "bind_scalar pg ty v = Ok (Some (V_int n))"
  using assms
  by (cases ty; cases v)
     (auto simp: canonical_uuid_def canonical_int_def bind_text_def pg_input_def)

text \<open>Equality of a fitting value, on both sides.\<close>

lemma fits_equality:
  assumes "same_datum ty v x" "fits pg ty w"
  shows "\<exists>y. bind_scalar pg ty w = Ok (Some y) \<and>
    (x = Some y \<longleftrightarrow> js_String v = js_String w)"
  using assms(2)
proof (cases rule: fits_cases)
  case (txt_case s)
  then show ?thesis using assms(1) by (auto simp: same_datum_simps)
next
  case (uuid_case s)
  then show ?thesis using assms(1) by (auto simp: same_datum_simps)
next
  case (int_case n)
  then show ?thesis using assms(1) by (auto simp: same_datum_simps)
qed

lemma fits_list:
  assumes "same_datum ty v x" "list_all (fits pg ty) ws"
  shows "\<exists>ys. bind_list pg ty ws = Ok ys \<and> None \<notin> set ys \<and> (ys = [] \<longleftrightarrow> ws = []) \<and>
    (\<forall>z. x = Some z \<longrightarrow> (Some z \<in> set ys \<longleftrightarrow> js_String v \<in> js_String ` set ws))"
  using assms(2)
proof (induction ws)
  case (Cons w ws)
  then obtain ys where ys: "bind_list pg ty ws = Ok ys" "None \<notin> set ys"
      "\<forall>z. x = Some z \<longrightarrow> (Some z \<in> set ys \<longleftrightarrow> js_String v \<in> js_String ` set ws)" by auto
  obtain y where "bind_scalar pg ty w = Ok (Some y)" "x = Some y \<longleftrightarrow> js_String v = js_String w"
    using fits_equality[OF assms(1)] Cons(2) by auto
  then show ?case using ys by auto
qed simp

lemma same_datum_null: "same_datum ty v x \<Longrightarrow> (x = None \<longleftrightarrow> nullish v)"
  by (auto elim: same_datumE simp: nullish_def)

lemma column_output_simps:
  "column_output ''eq'' col c = On_param (Col_eq col) (clause_value c)"
  "column_output ''equals'' col c = On_param (Col_eq col) (clause_value c)"
  "column_output ''neq'' col c = On_param (Col_neq col) (clause_value c)"
  "column_output ''not_equals'' col c = On_param (Col_neq col) (clause_value c)"
  "column_output ''in'' col c = On_param (Col_any col) (JArr (case clause_values c of None \<Rightarrow> [] | Some xs \<Rightarrow> xs))"
  "column_output ''not_in'' col c = On_param (Col_not_any col) (JArr (case clause_values c of None \<Rightarrow> [] | Some xs \<Rightarrow> xs))"
  "column_output ''gt'' col c = On_param (Col_gt col) (clause_value c)"
  "column_output ''greater_than'' col c = On_param (Col_gt col) (clause_value c)"
  "column_output ''gte'' col c = On_param (Col_ge col) (clause_value c)"
  "column_output ''greater_than_or_equal'' col c = On_param (Col_ge col) (clause_value c)"
  "column_output ''lt'' col c = On_param (Col_lt col) (clause_value c)"
  "column_output ''less_than'' col c = On_param (Col_lt col) (clause_value c)"
  "column_output ''lte'' col c = On_param (Col_le col) (clause_value c)"
  "column_output ''less_than_or_equal'' col c = On_param (Col_le col) (clause_value c)"
  "column_output ''exists'' col c = Plain (Col_present col)"
  by (simp_all add: column_output_def Let_def)

lemma evaluate_operator_simps:
  "evaluate_operator str_num ''eq'' c v \<longleftrightarrow> js_String v = js_String (clause_value c)"
  "evaluate_operator str_num ''equals'' c v \<longleftrightarrow> js_String v = js_String (clause_value c)"
  "evaluate_operator str_num ''neq'' c v \<longleftrightarrow> js_String v \<noteq> js_String (clause_value c)"
  "evaluate_operator str_num ''not_equals'' c v \<longleftrightarrow> js_String v \<noteq> js_String (clause_value c)"
  "evaluate_operator str_num ''in'' c v \<longleftrightarrow> \<not> nullish v \<and> js_String v \<in> set (clause_value_strings c)"
  "evaluate_operator str_num ''not_in'' c v \<longleftrightarrow> nullish v \<or> js_String v \<notin> set (clause_value_strings c)"
  "evaluate_operator str_num ''gt'' c v \<longleftrightarrow> num_cmp (\<lambda>x y. x > y) (js_Number str_num v) (js_Number str_num (clause_value c))"
  "evaluate_operator str_num ''greater_than'' c v \<longleftrightarrow> num_cmp (\<lambda>x y. x > y) (js_Number str_num v) (js_Number str_num (clause_value c))"
  "evaluate_operator str_num ''gte'' c v \<longleftrightarrow> num_cmp (\<lambda>x y. x \<ge> y) (js_Number str_num v) (js_Number str_num (clause_value c))"
  "evaluate_operator str_num ''greater_than_or_equal'' c v \<longleftrightarrow> num_cmp (\<lambda>x y. x \<ge> y) (js_Number str_num v) (js_Number str_num (clause_value c))"
  "evaluate_operator str_num ''lt'' c v \<longleftrightarrow> num_cmp (\<lambda>x y. x < y) (js_Number str_num v) (js_Number str_num (clause_value c))"
  "evaluate_operator str_num ''less_than'' c v \<longleftrightarrow> num_cmp (\<lambda>x y. x < y) (js_Number str_num v) (js_Number str_num (clause_value c))"
  "evaluate_operator str_num ''lte'' c v \<longleftrightarrow> num_cmp (\<lambda>x y. x \<le> y) (js_Number str_num v) (js_Number str_num (clause_value c))"
  "evaluate_operator str_num ''less_than_or_equal'' c v \<longleftrightarrow> num_cmp (\<lambda>x y. x \<le> y) (js_Number str_num v) (js_Number str_num (clause_value c))"
  "evaluate_operator str_num ''exists'' c v \<longleftrightarrow> \<not> nullish v \<and> v \<noteq> JStr []"
  by (simp_all add: evaluate_operator_def Let_def)

lemmas operator_simps = column_output_simps evaluate_operator_simps

lemma equality_clause:
  assumes d: "same_datum (column_type col) v (column_value e col)"
    and f: "fits pg (column_type col) (clause_value c)" and op: "op \<in> set equality_ops"
  shows "\<exists>b. output_result pg e (column_output op col c) = Ok b \<and>
    (b = Some True \<longleftrightarrow> evaluate_operator str_num op c v)"
proof -
  obtain y where y: "bind_scalar pg (column_type col) (clause_value c) = Ok (Some y)"
      "column_value e col = Some y \<longleftrightarrow> js_String v = js_String (clause_value c)"
    using fits_equality[OF d f] by blast
  have "op = ''eq'' \<or> op = ''equals'' \<or> op = ''neq'' \<or> op = ''not_equals''"
    using op by (simp add: equality_ops_def)
  then show ?thesis
    by (elim disjE)
       (simp_all add: operator_simps y(1) sql_eq_def sql_not_def sql_or_def flip: y(2) split: option.split)
qed

lemma list_clause:
  assumes d: "same_datum (column_type col) v (column_value e col)"
    and f: "clause_values c = Some vs" "list_all (fits pg (column_type col)) vs" and op: "op \<in> set list_ops"
  shows "\<exists>b. output_result pg e (column_output op col c) = Ok b \<and>
    (b = Some True \<longleftrightarrow> evaluate_operator str_num op c v)"
proof -
  obtain ys where ys: "bind_list pg (column_type col) vs = Ok ys" "None \<notin> set ys" "ys = [] \<longleftrightarrow> vs = []"
      "\<forall>z. column_value e col = Some z \<longrightarrow> (Some z \<in> set ys \<longleftrightarrow> js_String v \<in> js_String ` set vs)"
    using fits_list[OF d f(2)] by blast
  have "op = ''in'' \<or> op = ''not_in''" using op by (simp add: list_ops_def)
  then show ?thesis
  proof (cases "column_value e col")
    case None
    then have "nullish v" using same_datum_null[OF d] by simp
    then show ?thesis using \<open>op = ''in'' \<or> op = ''not_in''\<close> None ys(1) f(1)
      by (elim disjE) (simp_all add: operator_simps bind_array_def sql_any_def sql_or_def)
  next
    case (Some z)
    then have "\<not> nullish v" "Some z \<in> set ys \<longleftrightarrow> js_String v \<in> js_String ` set vs"
      using same_datum_null[OF d] ys(4) by simp_all
    then show ?thesis using \<open>op = ''in'' \<or> op = ''not_in''\<close> Some ys(1-3) f(1)
      by (elim disjE)
         (auto simp: operator_simps bind_array_def sql_any_def sql_or_def sql_not_def clause_value_strings_def)
  qed
qed

lemma order_clause:
  assumes d: "same_datum (column_type col) v (column_value e col)"
    and ty: "column_type col = Int_column" and f: "fits pg Int_column (clause_value c)"
    and op: "op \<in> set order_ops"
  shows "\<exists>b. output_result pg e (column_output op col c) = Ok b \<and>
    (b = Some True \<longleftrightarrow> evaluate_operator str_num op c v)"
proof -
  obtain n where n: "clause_value c = JNum n" "bind_scalar pg Int_column (clause_value c) = Ok (Some (V_int n))"
    using f by (cases rule: fits_cases) auto
  obtain m where m: "v = JNum m" "column_value e col = Some (V_int m)"
    using d ty by (auto simp: same_datum_simps)
  have "op = ''gt'' \<or> op = ''greater_than'' \<or> op = ''gte'' \<or> op = ''greater_than_or_equal'' \<or>
      op = ''lt'' \<or> op = ''less_than'' \<or> op = ''lte'' \<or> op = ''less_than_or_equal''"
    using op by (simp add: order_ops_def)
  then show ?thesis
    using n m ty
    by (elim disjE) (auto simp: operator_simps sql_less_def sql_not_def num_cmp_def)
qed

lemma present_clause:
  assumes d: "same_datum (column_type col) v (column_value e col)" and ty: "column_type col = Text_column"
  shows "\<exists>b. output_result pg e (column_output ''exists'' col c) = Ok b \<and>
    (b = Some True \<longleftrightarrow> evaluate_operator str_num ''exists'' c v)"
  using d ty
  by (auto simp: same_datum_simps operator_simps bind_text_def pg_input_def
      sql_not_def sql_eq_def nullish_def)

lemma reportees_clause:
  assumes "clause_attribute c = ''hasReportees''" "safe_clause pg c"
  shows "\<exists>b. clause_result pg e c = Ok b \<and> (b = Some True \<longleftrightarrow> evaluateClause str_num c e)"
proof -
  let ?op = "js_lower (clause_operator c)" and ?v = "clause_value c"
  have "(?op = ''is_true'' \<and> (?v = JUndefined \<or> truthy ?v)) \<or> ?op = ''is_false'' \<or>
      (?op = ''eq'' \<and> ?v = JBool True) \<or> (?op = ''eq'' \<and> ?v = JBool False)"
    using assms by (simp add: safe_clause_def Let_def) blast
  then show ?thesis
    using assms(1)
    by (elim disjE conjE) (simp_all add: clause_result_def clause_output_def evaluateClause_def Let_def)
qed

lemma column_clause:
  assumes col: "mapAttributeToColumn (clause_attribute c) = Some col" and s: "safe_clause pg c"
  shows "\<exists>b. clause_result pg e c = Ok b \<and> (b = Some True \<longleftrightarrow> evaluateClause str_num c e)"
proof -
  let ?a = "clause_attribute c" and ?op = "js_lower (clause_operator c)"
  have a: "?a \<noteq> []" "?a \<noteq> ''hasReportees''" using col by (auto simp: mapAttributeToColumn_def)
  note d = mapped_attribute_datum[OF col, of e]
  have "(?op \<in> set equality_ops \<and> fits pg (column_type col) (clause_value c))
      \<or> (\<exists>vs. ?op \<in> set list_ops \<and> clause_values c = Some vs \<and> list_all (fits pg (column_type col)) vs)
      \<or> (?op \<in> set order_ops \<and> column_type col = Int_column \<and> fits pg Int_column (clause_value c))
      \<or> (?op = ''exists'' \<and> column_type col = Text_column)"
    using s a col unfolding safe_clause_def Let_def by (cases "clause_values c") simp_all
  then have "\<exists>b. output_result pg e (column_output ?op col c) = Ok b \<and>
      (b = Some True \<longleftrightarrow> evaluate_operator str_num ?op c (extractEmployeeValue ?a e))"
  proof (elim disjE conjE exE)
    assume "?op \<in> set equality_ops" "fits pg (column_type col) (clause_value c)"
    then show ?thesis by (intro equality_clause[OF d])
  next
    fix vs
    assume "?op \<in> set list_ops" "clause_values c = Some vs" "list_all (fits pg (column_type col)) vs"
    then show ?thesis by (intro list_clause[OF d])
  next
    assume "?op \<in> set order_ops" "column_type col = Int_column" "fits pg Int_column (clause_value c)"
    then show ?thesis by (intro order_clause[OF d])
  next
    assume *: "?op = ''exists''" "column_type col = Text_column"
    show ?thesis unfolding *(1) by (rule present_clause[OF d *(2)])
  qed
  then show ?thesis
    using a col by (simp add: clause_result_def clause_output_def evaluateClause_def Let_def)
qed

lemma safe_clause_agrees:
  assumes "safe_clause pg c"
  shows "\<exists>b. clause_result pg e c = Ok b \<and> (b = Some True \<longleftrightarrow> evaluateClause str_num c e)"
proof (cases "clause_attribute c = ''hasReportees''")
  case True
  then show ?thesis using assms by (rule reportees_clause)
next
  case False
  then obtain col where "mapAttributeToColumn (clause_attribute c) = Some col"
    using assms by (cases "mapAttributeToColumn (clause_attribute c)") (auto simp: safe_clause_def Let_def)
  then show ?thesis using assms by (rule column_clause)
qed

end
