(* ===== verification/Js_Numbers.thy ===== *)
theory Js_Numbers
  imports Matching_Query
begin

text \<open>
  \<^verbatim>\<open>parseInt(text, 10)\<close>: leading white space and a sign are skipped, the longest
  run of digits is read, and a text without one gives \<^verbatim>\<open>NaN\<close>, here \<open>None\<close>.
  It reads back every integer \<^verbatim>\<open>toString\<close> has written.
\<close>

definition is_digit :: "char \<Rightarrow> bool" where
  "is_digit c = (48 \<le> (of_char c :: nat) \<and> (of_char c :: nat) \<le> 57)"

definition js_digits :: "string \<Rightarrow> nat option" where
  "js_digits s = (let ds = takeWhile is_digit s in if ds = [] then None else Some (nat_of_string ds))"

definition js_parse_int :: "string \<Rightarrow> int option" where
  "js_parse_int s =
    (case dropWhile js_space s of
       [] \<Rightarrow> None
     | c # cs \<Rightarrow>
         if c = CHR ''-'' then map_option (\<lambda>n. - int n) (js_digits cs)
         else if c = CHR ''+'' then map_option int (js_digits cs)
         else map_option int (js_digits (c # cs)))"

lemma digit_string_digits: "k < 10 \<Longrightarrow> \<forall>c \<in> set (digit_string k). is_digit c"
  by (simp add: digit_string_def is_digit_def)

lemma nat_string_digits: "\<forall>c \<in> set (nat_string n). is_digit c"
proof (induction n rule: nat_string.induct)
  case (1 n)
  show ?case
  proof (cases "n < 10")
    case True
    then show ?thesis using digit_string_digits by (subst nat_string.simps) auto
  next
    case False
    then show ?thesis using 1 digit_string_digits[of "n mod 10"]
      by (subst nat_string.simps) auto
  qed
qed

lemma js_digits_nat_string: "js_digits (nat_string n) = Some n"
proof -
  have t: "takeWhile is_digit (nat_string n) = nat_string n"
    using nat_string_digits by (simp add: takeWhile_eq_all_conv)
  show ?thesis using hd_nat_string[of n] by (simp add: js_digits_def Let_def t)
qed

lemma digit_not_sign:
  assumes "is_digit c"
  shows "\<not> js_space c" "c \<noteq> CHR ''-''" "c \<noteq> CHR ''+''"
  using assms by (auto simp: is_digit_def js_space_def)

lemma js_parse_int_int_string [simp]: "js_parse_int (int_string n) = Some n"
proof (cases "n < 0")
  case True
  then show ?thesis
    using js_digits_nat_string[of "nat (- n)"]
    by (simp add: js_parse_int_def int_string_def js_space_def)
next
  case False
  obtain c cs where s: "nat_string (nat n) = c # cs"
    using hd_nat_string[of "nat n"] by (cases "nat_string (nat n)") auto
  have d: "is_digit c" using nat_string_digits[of "nat n"] s by simp
  show ?thesis
    using False js_digits_nat_string[of "nat n"] digit_not_sign[OF d] s
    by (simp add: js_parse_int_def int_string_def)
qed

end
