(* ===== verification/Lockout.thy ===== *)
theory Lockout
  imports Security_Events Js_Numbers
begin

text \<open>
  Failure counters and the account lockout: \<^verbatim>\<open>RedisLockoutAdapter\<close>,
  \<^verbatim>\<open>LockoutService\<close> and the Lua script behind them.
\<close>

section \<open>The counters\<close>

definition failure_key :: "tenant \<Rightarrow> uuid \<Rightarrow> string" where
  "failure_key t u = ''auth:login-failure:{'' @ t @ ''}:'' @ u"

definition ip_failure_key :: "tenant \<Rightarrow> uuid \<Rightarrow> string" where
  "ip_failure_key t u = ''auth:ip-failure:{'' @ t @ ''}:'' @ u"

definition incr_counter :: "string \<Rightarrow> int \<Rightarrow> int auth_act" where
  "incr_counter k ttl =
    act_bind (redis_incr k) (\<lambda>current.
      act_then (act_when (current = 1) (redis_expire k ttl)) (act_ret current))"

definition with_adapter :: "'a auth_act \<Rightarrow> 'a auth_act" where
  "with_adapter m =
    act_catch (act_bind redis_client (\<lambda>client. if client then m else act_throw AuthStoreUnavailableError))
      (\<lambda>_. act_throw AuthStoreUnavailableError)"

definition getFailureCount :: "tenant \<Rightarrow> uuid \<Rightarrow> int auth_act" where
  "getFailureCount t u = with_adapter (act_bind (redis_get (failure_key t u)) (\<lambda>v.
     act_ret (case v of Some (RV_count n) \<Rightarrow> n | _ \<Rightarrow> 0)))"

definition incrementFailureCount :: "tenant \<Rightarrow> uuid \<Rightarrow> int auth_act" where
  "incrementFailureCount t u = with_adapter (incr_counter (failure_key t u) 900)"

definition recordIpFailure :: "auth_env \<Rightarrow> tenant \<Rightarrow> uuid \<Rightarrow> string \<Rightarrow> int auth_act" where
  "recordIpFailure env t u ip = with_adapter
     (act_bind (incr_counter (ip_failure_key t u) 900) (\<lambda>count.
        act_then (act_when (count \<ge> 10) (log_event env
          (loginFailed t ''ip-restriction-alert'' ip ''UNAPPROVED_IP_SPIKE'' (Some u) (Some ''system''))))
        (act_ret count)))"

definition resetFailureCount :: "tenant \<Rightarrow> uuid \<Rightarrow> unit auth_act" where
  "resetFailureCount t u = with_adapter (redis_del [failure_key t u])"

section \<open>The lockout\<close>

definition lockout_threshold :: "auth_settings \<Rightarrow> int" where
  "lockout_threshold s = (if as_maxFailedRetries s = 0 then 5 else as_maxFailedRetries s)"

definition locked_row :: "app_user \<Rightarrow> app_user \<Rightarrow> app_user" where
  "locked_row found row = row\<lparr> usr_status := User_locked,
     usr_securityVersion := (if usr_securityVersion found = 0 then 1 else usr_securityVersion found) + 1 \<rparr>"

definition handleFailure :: "tenant \<Rightarrow> uuid \<Rightarrow> auth_settings option \<Rightarrow> bool auth_act" where
  "handleFailure t u settings =
    (case settings of
       None \<Rightarrow> act_ret False
     | Some s \<Rightarrow>
         if \<not> as_accountLockoutEnabled s then act_ret False
         else act_bind (incrementFailureCount t u) (\<lambda>count.
           if count \<ge> lockout_threshold s
           then db_tx (act_bind (db_read (\<lambda>db. findByIdUnscoped u (d_users db))) (\<lambda>found.
             (case found of
                None \<Rightarrow> act_ret False
              | Some usr \<Rightarrow>
                  if usr_status usr \<noteq> User_locked
                  then act_then (update_user (usr_id usr) (locked_row usr))
                         (act_then (resetFailureCount t u) (act_ret True))
                  else act_ret False)))
           else act_ret False))"

section \<open>How the counters run\<close>

abbreviation redis_ready :: "auth_world \<Rightarrow> bool" where
  "redis_ready w \<equiv> rs_client (w_redis w) \<and> rs_up (w_redis w)"

definition counter_at :: "auth_world \<Rightarrow> string \<Rightarrow> int \<Rightarrow> bool" where
  "counter_at w k n =
    (case redis_cells w k of None \<Rightarrow> n = 0 | Some c \<Rightarrow> cell_value c = RV_count n \<and> n \<noteq> 0)"

lemma with_adapter_ready:
  assumes "redis_ready w" "m w = (Inr x, w')"
  shows "with_adapter m w = (Inr x, w')"
  using assms by (simp add: with_adapter_def act_catch_def act_simps)

lemma with_adapter_down:
  assumes "\<not> rs_client (w_redis w)"
  shows "with_adapter m w = (Inl AuthStoreUnavailableError, w)"
  using assms by (simp add: with_adapter_def act_catch_def act_simps)

lemma map_of_expire:
  "map_of (map (\<lambda>c. if fst c = k then (k, f (snd c)) else c) cs) k'
    = (if k' = k then map_option f (map_of cs k) else map_of cs k')"
  by (induction cs) auto

lemma redis_incr_run:
  assumes "rs_up (w_redis w)" "counter_at w k n"
  shows "\<exists>f. redis_incr k w = (Inr (n + 1), upd_cells f w) \<and>
    (\<forall>k'. map_of (f (rs_cells (w_redis w))) k' =
      (if k' = k then Some \<lparr> cell_value = RV_count (n + 1),
          cell_ttl = (case redis_cells w k of None \<Rightarrow> None | Some c \<Rightarrow> cell_ttl c) \<rparr>
       else redis_cells w k'))"
proof (cases "redis_cells w k")
  case None
  then have n: "n = 0" using assms(2) by (simp add: counter_at_def)
  have "redis_incr k w =
      (Inr (n + 1), upd_cells (\<lambda>_. AList.update k \<lparr> cell_value = RV_count 1, cell_ttl = None \<rparr>
        (rs_cells (w_redis w))) w)"
    using None n assms(1) by (simp add: redis_incr_def redis_cmd_def redis_cells_def upd_cells_def)
  then show ?thesis using n None
    by (intro exI[of _ "\<lambda>_. AList.update k \<lparr> cell_value = RV_count 1, cell_ttl = None \<rparr>
        (rs_cells (w_redis w))"]) (simp add: redis_cells_def update_conv')
next
  case (Some c)
  then have v: "cell_value c = RV_count n" using assms(2) by (simp add: counter_at_def)
  have "redis_incr k w =
      (Inr (n + 1), upd_cells (\<lambda>_. AList.update k (c\<lparr> cell_value := RV_count (n + 1) \<rparr>)
        (rs_cells (w_redis w))) w)"
    using Some v assms(1) by (simp add: redis_incr_def redis_cmd_def redis_cells_def upd_cells_def)
  then show ?thesis using Some
    by (intro exI[of _ "\<lambda>_. AList.update k (c\<lparr> cell_value := RV_count (n + 1) \<rparr>)
        (rs_cells (w_redis w))"]) (cases c, simp add: redis_cells_def update_conv')
qed

lemma incr_counter_run:
  assumes "rs_up (w_redis w)" "counter_at w k n" "0 \<le> n"
  shows "\<exists>f. incr_counter k ttl w = (Inr (n + 1), upd_cells f w) \<and>
    (\<forall>k'. map_of (f (rs_cells (w_redis w))) k' =
      (if k' = k then Some \<lparr> cell_value = RV_count (n + 1),
          cell_ttl = (if n = 0 then Some ttl else (case redis_cells w k of None \<Rightarrow> None | Some c \<Rightarrow> cell_ttl c)) \<rparr>
       else redis_cells w k'))"
proof -
  obtain f where f: "redis_incr k w = (Inr (n + 1), upd_cells f w)"
    and c: "\<And>k'. map_of (f (rs_cells (w_redis w))) k' =
      (if k' = k then Some \<lparr> cell_value = RV_count (n + 1),
          cell_ttl = (case redis_cells w k of None \<Rightarrow> None | Some c \<Rightarrow> cell_ttl c) \<rparr>
       else redis_cells w k')"
    using redis_incr_run[OF assms(1,2)] by blast
  show ?thesis
  proof (cases "n = 0")
    case True
    define e :: "(string \<times> redis_cell) list \<Rightarrow> (string \<times> redis_cell) list" where
      "e = map (\<lambda>c. if fst c = k then (k, (snd c)\<lparr> cell_ttl := Some ttl \<rparr>) else c)"
    have up: "rs_up (w_redis (upd_cells f w))" using assms(1) by simp
    have "incr_counter k ttl w = (Inr (n + 1), upd_cells e (upd_cells f w))"
      using f True redis_run(4)[OF up, of k ttl]
      by (simp add: incr_counter_def act_bind_def act_then_def act_simps e_def)
    then have "incr_counter k ttl w = (Inr (n + 1), upd_cells (\<lambda>x. e (f x)) w)"
      by (simp add: upd_cells_def)
    then show ?thesis
      by (intro exI[of _ "\<lambda>x. e (f x)"])
         (auto simp: e_def map_of_expire c True)
  next
    case False
    then have "incr_counter k ttl w = (Inr (n + 1), upd_cells f w)"
      using f by (simp add: incr_counter_def act_bind_def act_then_def act_simps)
    then show ?thesis using c False by auto
  qed
qed

lemma incr_counter_counts:
  assumes "redis_ready w" "counter_at w k n" "0 \<le> n"
  obtains w' where "incr_counter k ttl w = (Inr (n + 1), w')" "w_db w' = w_db w" "redis_ready w'"
    "counter_at w' k (n + 1)"
proof -
  obtain f where f: "incr_counter k ttl w = (Inr (n + 1), upd_cells f w)"
    and c: "map_of (f (rs_cells (w_redis w))) k = Some \<lparr> cell_value = RV_count (n + 1),
          cell_ttl = (if n = 0 then Some ttl else (case redis_cells w k of None \<Rightarrow> None | Some c \<Rightarrow> cell_ttl c)) \<rparr>"
    using incr_counter_run[of w k n ttl] assms by fastforce
  show thesis using that[OF f] assms c by (simp add: counter_at_def)
qed

lemma handleFailure_below:
  assumes r: "redis_ready w" and e: "as_accountLockoutEnabled s"
    and c: "counter_at w (failure_key t u) n" "0 \<le> n" and below: "n + 1 < lockout_threshold s"
  obtains w' where "handleFailure t u (Some s) w = (Inr False, w')" "w_db w' = w_db w"
    "redis_ready w'" "counter_at w' (failure_key t u) (n + 1)"
proof -
  obtain w' where i: "incr_counter (failure_key t u) 900 w = (Inr (n + 1), w')"
    and w': "w_db w' = w_db w" "redis_ready w'" "counter_at w' (failure_key t u) (n + 1)"
    by (rule incr_counter_counts[OF r c])
  have "incrementFailureCount t u w = (Inr (n + 1), w')"
    unfolding incrementFailureCount_def by (rule with_adapter_ready[where m = "incr_counter (failure_key t u) 900", OF r i])
  then have "handleFailure t u (Some s) w = (Inr False, w')"
    using e below by (simp add: handleFailure_def act_bind_def act_simps)
  then show thesis using that w' by blast
qed

lemma handleFailure_reaching:
  assumes r: "redis_ready w" and e: "as_accountLockoutEnabled s"
    and c: "counter_at w (failure_key t u) n" "0 \<le> n" and reach: "lockout_threshold s \<le> n + 1"
    and usr: "findByIdUnscoped u (d_users (w_db w)) = Some usr" "usr_status usr \<noteq> User_locked"
  obtains w' where "handleFailure t u (Some s) w = (Inr True, w')"
    "w_db w' = d_users_update (update_rows (\<lambda>x. usr_id x = u) (locked_row usr)) (w_db w)"
    "redis_ready w'" "counter_at w' (failure_key t u) 0"
proof -
  obtain w1 where i: "incr_counter (failure_key t u) 900 w = (Inr (n + 1), w1)"
    and w1: "w_db w1 = w_db w" "redis_ready w1" "counter_at w1 (failure_key t u) (n + 1)"
    by (rule incr_counter_counts[OF r c])
  have inc: "incrementFailureCount t u w = (Inr (n + 1), w1)"
    unfolding incrementFailureCount_def by (rule with_adapter_ready[where m = "incr_counter (failure_key t u) 900", OF r i])
  have idu: "usr_id usr = u" using usr(1) by (auto simp: findByIdUnscoped_def dest: find_SomeD)
  define w2 where "w2 = upd_db (d_users_update (update_rows (\<lambda>x. usr_id x = u) (locked_row usr))) w1"
  define w3 where "w3 = upd_cells (filter (\<lambda>c. fst c \<notin> set [failure_key t u])) w2"
  have r2: "redis_ready w2" using w1(2) by (simp add: w2_def)
  have "redis_del [failure_key t u] w2 = (Inr (), w3)"
    using redis_run(3)[of w2 "[failure_key t u]"] r2 unfolding w3_def by blast
  then have res: "resetFailureCount t u w2 = (Inr (), w3)"
    unfolding resetFailureCount_def
    by (rule with_adapter_ready[where m = "redis_del [failure_key t u]", OF r2])
  have body: "update_user u (locked_row usr) w1 = (Inr (), w2)"
    by (simp add: update_user_def act_simps w2_def)
  have "act_then (resetFailureCount t u) (act_ret True) w2 = (Inr True, w3)"
    using res by (simp add: act_then_value act_simps)
  then have t: "act_then (update_user u (locked_row usr))
      (act_then (resetFailureCount t u) (act_ret True)) w1 = (Inr True, w3)"
    using body by (simp add: act_then_value)
  have "handleFailure t u (Some s) w = (Inr True, w3)"
    unfolding handleFailure_def
    using e reach usr w1(1) idu t
    by (simp add: act_bind_def[of "incrementFailureCount t u"] inc act_simps db_tx_def act_tx_def)
  moreover have "w_db w3 = d_users_update (update_rows (\<lambda>x. usr_id x = u) (locked_row usr)) (w_db w)"
    using w1(1) by (simp add: w3_def w2_def)
  moreover have "redis_ready w3" using r2 by (simp add: w3_def)
  moreover have "counter_at w3 (failure_key t u) 0" by (simp add: w3_def counter_at_def)
  ultimately show thesis using that by blast
qed

section \<open>The lockout after a run of failures\<close>

fun failures :: "nat \<Rightarrow> tenant \<Rightarrow> uuid \<Rightarrow> auth_settings option \<Rightarrow> bool auth_act" where
  "failures 0 t u s = act_ret False"
| "failures (Suc k) t u s = act_bind (failures k t u s) (\<lambda>_. handleFailure t u s)"

lemma failures_below:
  assumes r: "redis_ready w" and e: "as_accountLockoutEnabled s"
    and c: "counter_at w (failure_key t u) 0"
  shows "int k < lockout_threshold s \<Longrightarrow>
    \<exists>w'. failures k t u (Some s) w = (Inr False, w') \<and> w_db w' = w_db w \<and> redis_ready w' \<and>
      counter_at w' (failure_key t u) (int k)"
proof (induction k)
  case 0
  then show ?case using r c by (simp add: act_simps)
next
  case (Suc k)
  then obtain w1 where f: "failures k t u (Some s) w = (Inr False, w1)" and w1: "w_db w1 = w_db w"
    "redis_ready w1" "counter_at w1 (failure_key t u) (int k)" by auto
  obtain w2 where "handleFailure t u (Some s) w1 = (Inr False, w2)" "w_db w2 = w_db w1"
    "redis_ready w2" "counter_at w2 (failure_key t u) (int k + 1)"
    using handleFailure_below[OF w1(2) e w1(3)] Suc.prems by auto
  then show ?case using f w1(1)
    by (intro exI[of _ w2]) (simp add: act_bind_def add.commute)
qed

text \<open>
  C7: With the lockout enabled and the store up, an account whose counter is clear survives every
  run of failures shorter than the configured threshold unchanged, and the failure that reaches the
  threshold locks it, raises its security version by one and clears the counter.
\<close>

theorem lockout_at_threshold:
  assumes "redis_ready w" "as_accountLockoutEnabled s" "counter_at w (failure_key t u) 0"
    and "findByIdUnscoped u (d_users (w_db w)) = Some usr" "usr_status usr \<noteq> User_locked"
    and n: "lockout_threshold s = int (Suc n)"
  shows "(\<forall>k \<le> n. \<exists>w'. failures k t u (Some s) w = (Inr False, w') \<and> w_db w' = w_db w \<and>
            counter_at w' (failure_key t u) (int k)) \<and>
         (\<exists>w'. failures (Suc n) t u (Some s) w = (Inr True, w') \<and>
            w_db w' = d_users_update (update_rows (\<lambda>x. usr_id x = u) (locked_row usr)) (w_db w) \<and>
            findByIdUnscoped u (d_users (w_db w')) = Some (locked_row usr usr) \<and>
            counter_at w' (failure_key t u) 0)"
proof (intro conjI allI impI)
  fix k assume "k \<le> n"
  then show "\<exists>w'. failures k t u (Some s) w = (Inr False, w') \<and> w_db w' = w_db w \<and>
            counter_at w' (failure_key t u) (int k)"
    using failures_below[OF assms(1-3), of k] n by auto
next
  obtain w1 where f: "failures n t u (Some s) w = (Inr False, w1)" and w1: "w_db w1 = w_db w"
    "redis_ready w1" "counter_at w1 (failure_key t u) (int n)"
    using failures_below[OF assms(1-3), of n] n by auto
  obtain w2 where h: "handleFailure t u (Some s) w1 = (Inr True, w2)"
    "w_db w2 = d_users_update (update_rows (\<lambda>x. usr_id x = u) (locked_row usr)) (w_db w1)"
    "counter_at w2 (failure_key t u) 0"
    using handleFailure_reaching[OF w1(2) assms(2) w1(3)] n assms(4,5) w1(1) by auto
  have idu: "usr_id usr = u" using assms(4) by (auto simp: findByIdUnscoped_def dest: find_SomeD)
  have "find (\<lambda>x. usr_id x = u) us = Some usr \<Longrightarrow>
      find (\<lambda>x. usr_id x = u) (update_rows (\<lambda>x. usr_id x = u) (locked_row usr) us) = Some (locked_row usr usr)"
    for us using idu by (induction us) (auto simp: locked_row_def split: if_splits)
  then have "findByIdUnscoped u (d_users (w_db w2)) = Some (locked_row usr usr)"
    using assms(4) h(2) w1(1) by (simp add: findByIdUnscoped_def)
  then show "\<exists>w'. failures (Suc n) t u (Some s) w = (Inr True, w') \<and>
            w_db w' = d_users_update (update_rows (\<lambda>x. usr_id x = u) (locked_row usr)) (w_db w) \<and>
            findByIdUnscoped u (d_users (w_db w')) = Some (locked_row usr usr) \<and>
            counter_at w' (failure_key t u) 0"
    using f h w1(1) by (intro exI[of _ w2]) (simp add: act_bind_def)
qed

definition sample_user :: app_user where
  "sample_user = \<lparr> usr_id = ''u1'', usr_tenant = ''acme'', usr_employeeRefId = None,
     usr_normalizedEmail = ''ann@acme.io'', usr_displayEmail = ''Ann@acme.io'', usr_userType = ''employee'',
     usr_status = User_active, usr_credentialStatus = Credential_active, usr_securityVersion = 3,
     usr_protectedRootAdmin = False, usr_mfaEnrollmentRequired = False,
     usr_mfaReEnrollmentRequired = False, usr_externalIdentityId = None \<rparr>"

definition sample_settings :: auth_settings where
  "sample_settings = \<lparr> as_id = ''s1'', as_tenant = ''acme'', as_restrictedMfaEnabled = False,
     as_needAdminResetPassword = False, as_accountLockoutEnabled = True, as_maxFailedRetries = 2,
     as_ipRestrictionEnabled = False, as_allowedIpCidrs = [], as_version = 1 \<rparr>"

definition sample_auth_db :: auth_db where
  "sample_auth_db = \<lparr> d_users = [sample_user], d_credentials = [], d_settings = [sample_settings],
     d_tenants = [\<lparr> tn_tenantCode = ''acme'', tn_companyId = ''c1'', tn_status = ''active'' \<rparr>],
     d_mfa = [], d_invitations = [], d_employees = [], d_outbox = [], d_session_events = [] \<rparr>"

definition sample_auth_world :: auth_world where
  "sample_auth_world = \<lparr> w_db = sample_auth_db,
     w_redis = \<lparr> rs_client = True, rs_up = True, rs_cells = [] \<rparr> \<rparr>"

lemmas sample_auth_defs = sample_user_def sample_settings_def sample_auth_db_def sample_auth_world_def

theorem lockout_at_threshold_witness:
  "\<exists>w'. failures 2 ''acme'' ''u1'' (Some sample_settings) sample_auth_world = (Inr True, w') \<and>
     findByIdUnscoped ''u1'' (d_users (w_db w')) = Some (locked_row sample_user sample_user)"
  using lockout_at_threshold[of sample_auth_world sample_settings "''acme''" "''u1''" sample_user 1]
  by (auto simp: sample_auth_defs counter_at_def redis_cells_def findByIdUnscoped_def
      lockout_threshold_def numeral_2_eq_2)

end
