(* ===== verification/Ip_Restriction.thy ===== *)
theory Ip_Restriction
  imports Security_Events Js_Numbers
begin

text \<open>
  The network policy: \<^verbatim>\<open>IpRangePolicy\<close>, \<^verbatim>\<open>IpRestrictionService\<close> and
  the counter of \<^verbatim>\<open>IpLockoutRedisAdapter\<close>.  Parsing and matching of addresses is
  the library's.
\<close>

section \<open>Ranges\<close>

datatype auth_action = PASSWORD_LOGIN | MFA_VERIFY | SSO_LOGIN | INVITATION_VALIDATION | PASSWORD_RESET

definition isExemptAction :: "auth_action option \<Rightarrow> bool" where
  "isExemptAction a = (a = Some INVITATION_VALIDATION \<or> a = Some PASSWORD_RESET)"

definition normalizeIp :: "string \<Rightarrow> string" where
  "normalizeIp ip = (if js_starts_with ip ''::ffff:'' then drop 7 ip else ip)"

definition isIpInCidr :: "ip_library \<Rightarrow> string \<Rightarrow> string \<Rightarrow> bool" where
  "isIpInCidr lib ip cidr =
    (case ipl_parse lib (normalizeIp ip) of
       None \<Rightarrow> False
     | Some p \<Rightarrow>
         (let parts = js_split CHR ''/'' cidr in
          (case ipl_parse lib (hd parts) of
             None \<Rightarrow> False
           | Some r \<Rightarrow>
               (let prefix = (case tl parts of (c # cs) # _ \<Rightarrow> js_parse_int (c # cs)
                              | _ \<Rightarrow> Some (if ip_v4 r then 32 else 128)) in
                if (case prefix of None \<Rightarrow> False | Some n \<Rightarrow> n < 0 \<or> n > (if ip_v4 r then 32 else 128))
                then False
                else if ip_v4 p \<noteq> ip_v4 r
                then (if \<not> ip_v4 p \<and> ipl_isIPv4Mapped lib p \<and> ip_v4 r
                      then ipl_match lib (ipl_toIPv4 lib p) r prefix else False)
                else ipl_match lib p r prefix))))"

definition isIpAllowed :: "ip_library \<Rightarrow> string \<Rightarrow> string list \<Rightarrow> auth_action option \<Rightarrow> bool" where
  "isIpAllowed lib ip cidrs a =
    (if isExemptAction a then True
     else if cidrs = [] then False
     else list_ex (isIpInCidr lib ip) cidrs)"

section \<open>The service\<close>

definition ip_evaluate :: "ip_library \<Rightarrow> string \<Rightarrow> auth_settings option \<Rightarrow> auth_action option \<Rightarrow> auth_error + unit" where
  "ip_evaluate lib ip settings a =
    (if isExemptAction a then Ok ()
     else (case settings of
             None \<Rightarrow> Ok ()
           | Some s \<Rightarrow>
               if \<not> as_ipRestrictionEnabled s then Ok ()
               else guard IpRestrictedError (isIpAllowed lib ip (as_allowedIpCidrs s) a)))"

definition ip_lockout_key :: "tenant \<Rightarrow> uuid \<Rightarrow> string" where
  "ip_lockout_key t u = ''auth:ip-failure:'' @ t @ '':'' @ u"

definition incrementIpFailureCounter :: "tenant \<Rightarrow> uuid \<Rightarrow> int auth_act" where
  "incrementIpFailureCounter t u =
    act_bind redis_client (\<lambda>client.
      if client
      then act_bind (redis_incr (ip_lockout_key t u)) (\<lambda>count.
             act_then (act_when (count = 1) (redis_expire (ip_lockout_key t u) 3600)) (act_ret count))
      else act_ret 1)"

definition getIpFailureCount :: "tenant \<Rightarrow> uuid \<Rightarrow> int auth_act" where
  "getIpFailureCount t u =
    act_bind redis_client (\<lambda>client.
      if client
      then act_bind (redis_get (ip_lockout_key t u)) (\<lambda>v.
             act_ret (case v of Some (RV_count n) \<Rightarrow> n | _ \<Rightarrow> 0))
      else act_ret 0)"

definition resetIpFailureCounter :: "tenant \<Rightarrow> uuid \<Rightarrow> unit auth_act" where
  "resetIpFailureCounter t u =
    act_bind redis_client (\<lambda>client. act_when client (redis_del [ip_lockout_key t u]))"

record location_request =
  lr_tenant :: tenant
  lr_ip :: string
  lr_action :: "auth_action option"
  lr_userId :: "uuid option"
  lr_agent :: "string option"

text \<open>
  The counter and the event log are optional collaborators of the service; the flags say whether
  the module wires them.
\<close>

definition validateRequestLocation ::
  "bool \<Rightarrow> bool \<Rightarrow> auth_env \<Rightarrow> location_request \<Rightarrow> auth_settings option \<Rightarrow> bool auth_act" where
  "validateRequestLocation has_counter has_events env q settings =
    (if isExemptAction (lr_action q) then act_ret True
     else (case settings of
             None \<Rightarrow> act_ret True
           | Some s \<Rightarrow>
               if \<not> as_ipRestrictionEnabled s then act_ret True
               else if isIpAllowed (ae_ip_lib env) (lr_ip q) (as_allowedIpCidrs s) (lr_action q)
               then act_ret True
               else act_then
                 (case (if has_counter then truthy_id (lr_userId q) else None) of
                    None \<Rightarrow> act_ret ()
                  | Some u \<Rightarrow>
                      act_bind (incrementIpFailureCounter (lr_tenant q) u) (\<lambda>failures.
                        act_when has_events (act_then (log_event env
                          (loginFailed (lr_tenant q) ''unapproved-ip@domain.com'' (lr_ip q)
                            ''IP_NOT_ALLOWED'' (Some u) (lr_agent q)))
                        (act_when (failures \<ge> 10) (log_event env
                          (loginFailed (lr_tenant q) ''ip-spike-alert@domain.com'' (lr_ip q)
                            ''UNUSUAL_IP_FAILURE_SPIKE'' (Some u) (lr_agent q)))))))
                 (act_throw IpRestrictedError)))"

section \<open>What the policy decides\<close>

lemma ip_evaluate_denies_iff:
  "ip_evaluate lib ip settings a = Fail e \<longleftrightarrow>
     e = IpRestrictedError \<and> \<not> isExemptAction a \<and>
     (\<exists>s. settings = Some s \<and> as_ipRestrictionEnabled s \<and>
       \<not> (\<exists>c \<in> set (as_allowedIpCidrs s). isIpInCidr lib ip c))"
  by (auto simp: ip_evaluate_def isIpAllowed_def list_ex_iff split: option.splits)

lemma ip_evaluate_cases: "ip_evaluate lib ip settings a = Ok () \<or> ip_evaluate lib ip settings a = Fail IpRestrictedError"
  by (auto simp: ip_evaluate_def guard_def split: option.splits)

end
