(* ===== verification/Login.thy ===== *)
theory Login
  imports Lockout Ip_Restriction
begin

text \<open>
  Logging in: \<^verbatim>\<open>AuthApplicationService\<close> with the Firebase sign-on in front of it, and the
  session store it writes.  Steps run in the source's order: network policy, tenant, user and
  status, password, second factor, tokens, session.
\<close>

section \<open>Reads\<close>

definition findByTenantCode :: "tenant \<Rightarrow> auth_settings list \<Rightarrow> auth_settings option" where
  "findByTenantCode t ss = find (\<lambda>s. as_tenant s = t) ss"

definition tenant_exists :: "tenant \<Rightarrow> tenant_row list \<Rightarrow> bool" where
  "tenant_exists t ts = (length (filter (\<lambda>r. tn_tenantCode r = t) ts) > 0)"

definition findActiveByUseUnscope :: "uuid \<Rightarrow> credential list \<Rightarrow> credential option" where
  "findActiveByUseUnscope u cs = find (\<lambda>c. cr_userId c = u \<and> cr_status c = Credential_active) cs"

definition findActiveByUserId :: "uuid \<Rightarrow> mfa_method list \<Rightarrow> mfa_method list" where
  "findActiveByUserId u ms = filter (\<lambda>m. mf_userId m = u \<and> mf_status m = Factor_active) ms"

definition verifyPassword :: "auth_env \<Rightarrow> string \<Rightarrow> string \<Rightarrow> bool" where
  "verifyPassword env hash plain = ae_verify env hash plain"

definition preventBruteForceAttack :: "auth_env \<Rightarrow> unit auth_act" where
  "preventBruteForceAttack env =
    (let _ = verifyPassword env ''$2b$10$e8p.9p56x8P90Q2m7qX67eO0jU5vK.hZl4u/eZzN7cZ5.0J6.y7iW'' ''12345678@Tc''
     in act_ret ())"

section \<open>The guards\<close>

definition validateIpPolicy :: "auth_env \<Rightarrow> tenant \<Rightarrow> string \<Rightarrow> auth_settings option auth_act" where
  "validateIpPolicy env t email =
    (let ip = or_unknown (ae_ip env) in
     act_bind (db_read (\<lambda>db. findByTenantCode t (d_settings db))) (\<lambda>settings.
       (case ip_evaluate (ae_ip_lib env) ip settings None of
          Inr _ \<Rightarrow> act_ret settings
        | Inl err \<Rightarrow>
            act_bind (db_read (\<lambda>db. findByEmailUnscoped email (d_users db))) (\<lambda>user.
              act_then (case user of
                          None \<Rightarrow> act_ret ()
                        | Some u \<Rightarrow> act_bind (recordIpFailure env t (usr_id u) ip) (\<lambda>_. act_ret ()))
              (act_then (log_event env
                 (loginFailed t email ip ''IP_RESTRICTION_DENIED'' (map_option usr_id user)
                   (Some (or_unknown (ae_agent env)))))
              (act_throw err))))))"

definition verifyTenantExistence :: "tenant \<Rightarrow> unit auth_act" where
  "verifyTenantExistence t =
    act_bind (db_read (\<lambda>db. tenant_exists t (d_tenants db))) (\<lambda>b.
      if \<not> b then act_throw InvalidCredentialsError else act_ret ())"

definition login_failure :: "auth_env \<Rightarrow> tenant \<Rightarrow> string \<Rightarrow> string \<Rightarrow> uuid option \<Rightarrow> auth_error \<Rightarrow> 'a auth_act" where
  "login_failure env t email reason u err =
    act_then (log_event env
       (loginFailed t email (or_unknown (ae_ip env)) reason u (Some (or_unknown (ae_agent env)))))
    (act_throw err)"

definition fetchAndValidateUser :: "auth_env \<Rightarrow> tenant \<Rightarrow> string \<Rightarrow> app_user auth_act" where
  "fetchAndValidateUser env t email =
    act_bind (db_read (\<lambda>db. findByEmailWithTenant email t (d_users db))) (\<lambda>found.
      (case found of
         None \<Rightarrow> act_then (preventBruteForceAttack env)
                   (login_failure env t email ''INVALID_CREDENTIALS'' None InvalidCredentialsError)
       | Some u \<Rightarrow>
           if usr_status u \<noteq> User_active
           then act_then (preventBruteForceAttack env)
             (if usr_status u = User_suspended
              then login_failure env t email ''ACCOUNT_DISABLED'' (Some (usr_id u)) AccountDisabledError
              else if usr_status u = User_locked
              then login_failure env t email ''ACCOUNT_LOCKED'' (Some (usr_id u)) AccountLockedError
              else login_failure env t email ''INVALID_CREDENTIALS'' (Some (usr_id u)) InvalidCredentialsError)
           else act_ret u))"

definition verifyUserPassword ::
  "auth_env \<Rightarrow> app_user \<Rightarrow> string \<Rightarrow> string \<Rightarrow> auth_settings option \<Rightarrow> unit auth_act" where
  "verifyUserPassword env u password email settings =
    act_bind (db_read (\<lambda>db. findActiveByUseUnscope (usr_id u) (d_credentials db))) (\<lambda>cred.
      if \<not> (case cred of None \<Rightarrow> False | Some c \<Rightarrow> verifyPassword env (cr_passwordHash c) password)
      then act_bind (handleFailure (usr_tenant u) (usr_id u) settings) (\<lambda>locked.
             act_then (act_when locked (log_event env
                (accountLocked (usr_tenant u) (usr_id u) (or_unknown (ae_ip env))
                  (Some (or_unknown (ae_agent env))))))
             (login_failure env (usr_tenant u) email ''INVALID_CREDENTIALS'' (Some (usr_id u))
                InvalidCredentialsError))
      else resetFailureCount (usr_tenant u) (usr_id u))"

section \<open>Second factor, tokens, session\<close>

datatype login_result =
    MFA_REQUIRED uuid
  | AUTHENTICATED string string

definition GenerateAuthMfaChallengeKey :: "tenant \<Rightarrow> uuid \<Rightarrow> uuid \<Rightarrow> string" where
  "GenerateAuthMfaChallengeKey t u c = ''auth:mfa-challenge:'' @ t @ '':'' @ u @ '':'' @ c"

definition mfa_required :: "app_user \<Rightarrow> auth_settings option \<Rightarrow> mfa_method list \<Rightarrow> bool" where
  "mfa_required u settings methods =
    ((case settings of None \<Rightarrow> False | Some s \<Rightarrow> as_restrictedMfaEnabled s) \<or>
     usr_mfaEnrollmentRequired u \<or> usr_mfaReEnrollmentRequired u \<or> length methods > 0)"

definition evaluateMfa ::
  "uuid \<Rightarrow> app_user \<Rightarrow> auth_settings option \<Rightarrow> bool option \<Rightarrow> login_result option auth_act" where
  "evaluateMfa challengeId u settings remember =
    act_bind (db_read (\<lambda>db. findActiveByUserId (usr_id u) (d_mfa db))) (\<lambda>methods.
      if mfa_required u settings methods
      then act_then
        (act_catch (redis_set (GenerateAuthMfaChallengeKey (usr_tenant u) (usr_id u) challengeId)
           (RV_mfa \<lparr> mc_id = challengeId, mc_tenant = usr_tenant u, mc_userId = usr_id u,
              mc_attemptsLeft = 0, mc_rememberMe = remember \<rparr>) 300)
           (\<lambda>_. act_throw AuthStoreUnavailableError))
        (act_ret (Some (MFA_REQUIRED challengeId)))
      else act_ret None)"

definition token_payload :: "app_user \<Rightarrow> uuid \<Rightarrow> string \<Rightarrow> (string \<times> json) list" where
  "token_payload u sid ty =
    [(''sub'', JStr (usr_id u)), (''sid'', JStr sid), (''tenantCode'', JStr (usr_tenant u)), (''type'', JStr ty)]"

definition generateAuthTokens ::
  "auth_env \<Rightarrow> uuid \<Rightarrow> app_user \<Rightarrow> bool option \<Rightarrow> auth_error + (string \<times> string)" where
  "generateAuthTokens env sessionId u remember =
    (case truthy_id (ae_jwt_key env) of
       None \<Rightarrow> Fail AuthStoreUnavailableError
     | Some key \<Rightarrow>
         (case ae_sign env (token_payload u sessionId ''access'') key ''2h'' of
            None \<Rightarrow> Fail AuthStoreUnavailableError
          | Some access \<Rightarrow>
              (case ae_sign env (token_payload u sessionId ''refresh'') key
                      (if remember = Some True then ''30d'' else ''7d'') of
                 None \<Rightarrow> Fail AuthStoreUnavailableError
               | Some refresh \<Rightarrow> Ok (access, refresh))))"

definition session_employee_of :: "auth_env \<Rightarrow> app_user \<Rightarrow> employee_reference list \<Rightarrow> session_employee option" where
  "session_employee_of env u es =
    (case truthy_id (usr_employeeRefId u) of
       None \<Rightarrow> None
     | Some i \<Rightarrow>
         (case find (\<lambda>e. emp_id e = i \<and> emp_tenant e = ae_tenant env) es of
            None \<Rightarrow> None
          | Some e \<Rightarrow> Some \<lparr> se_employeeId = emp_id e, se_companyId = emp_companyId e,
              se_locationId = emp_locationId e, se_departmentId = emp_departmentId e,
              se_managerId = emp_managerId e \<rparr>))"

definition session_of :: "app_user \<Rightarrow> uuid \<Rightarrow> session_employee option \<Rightarrow> session_data" where
  "session_of u sid e =
    \<lparr> sess_id = sid, sess_userId = usr_id u, sess_tenant = usr_tenant u, sess_roles = [],
      sess_scopes = [], sess_permissions = [], sess_employee = e \<rparr>"

definition storeSessionAndLogSuccess :: "auth_env \<Rightarrow> app_user \<Rightarrow> uuid \<Rightarrow> bool option \<Rightarrow> unit auth_act" where
  "storeSessionAndLogSuccess env u sid remember =
    (let ttl = (if remember = Some True then 2592000 else 604800);
         index = ae_user_sessions_key env False (usr_tenant u) (usr_id u) in
     act_bind (db_read (\<lambda>db. session_employee_of env u (d_employees db))) (\<lambda>emp.
       act_then
         (act_catch
            (act_then (redis_set (ae_session_key env sid) (RV_session (session_of u sid emp)) ttl)
              (act_bind redis_client (\<lambda>client.
                 act_when client (act_then (redis_sadd index sid) (redis_expire index ttl)))))
            (\<lambda>_. act_throw AuthStoreUnavailableError))
         (log_event env
           (loginSucceeded (usr_tenant u) (usr_id u) sid (or_unknown (ae_ip env))
             (Some (or_unknown (ae_agent env))) remember))))"

section \<open>The login\<close>

definition lift_result :: "auth_error + 'a \<Rightarrow> 'a auth_act" where
  "lift_result r = (case r of Inl e \<Rightarrow> act_throw e | Inr x \<Rightarrow> act_ret x)"

definition processLogin ::
  "auth_env \<Rightarrow> uuid \<Rightarrow> tenant \<Rightarrow> string \<Rightarrow> string option \<Rightarrow> bool option \<Rightarrow> login_result auth_act" where
  "processLogin env newId t email password remember =
    act_bind (validateIpPolicy env t email) (\<lambda>settings.
    act_then (verifyTenantExistence t) (
    act_bind (fetchAndValidateUser env t email) (\<lambda>u.
    act_then (case password of
                Some (c # cs) \<Rightarrow> verifyUserPassword env u (c # cs) email settings
              | _ \<Rightarrow> act_ret ()) (
    act_bind (evaluateMfa newId u settings remember) (\<lambda>mfa.
      (case mfa of
         Some r \<Rightarrow> act_ret r
       | None \<Rightarrow>
           act_bind (lift_result (generateAuthTokens env newId u remember)) (\<lambda>tokens.
           act_then (storeSessionAndLogSuccess env u newId remember)
           (act_ret (AUTHENTICATED (fst tokens) (snd tokens))))))))))"

fun login_attempts ::
  "auth_env \<Rightarrow> nat \<Rightarrow> tenant list \<Rightarrow> string \<Rightarrow> string \<Rightarrow> bool option \<Rightarrow> auth_error \<Rightarrow> login_result auth_act" where
  "login_attempts env i [] email password remember err = act_throw err"
| "login_attempts env i (t # ts) email password remember err =
     act_catch (processLogin env (ae_uuid env i) t email (Some password) remember)
       (\<lambda>e. login_attempts env (Suc i) ts email password remember e)"

definition loginWithPassword :: "auth_env \<Rightarrow> string \<Rightarrow> string \<Rightarrow> bool option \<Rightarrow> login_result auth_act" where
  "loginWithPassword env email password remember =
    act_bind (db_read (\<lambda>db. findTenantCodeByEmail email (d_users db))) (\<lambda>ts.
      login_attempts env 0 ts email password remember Thrown_undefined)"

section \<open>Firebase\<close>

record firebase_token =
  fb_uid :: string
  fb_email :: "string option"
  fb_email_verified :: "bool option"
  fb_tenant_code :: "tenant option"

text \<open>
  What \<^verbatim>\<open>verifyIdToken\<close> of the SDK does with a token: it is absent, or it returns the decoded
  fields, times out, or fails with a code.
\<close>

datatype sdk_outcome = Sdk_token firebase_token | Sdk_timeout | Sdk_error "string option"

definition verifyIdToken :: "(string \<Rightarrow> sdk_outcome) option \<Rightarrow> string \<Rightarrow> auth_error + firebase_token" where
  "verifyIdToken sdk idToken =
    (case sdk of
       Some verify \<Rightarrow>
         (case verify idToken of
            Sdk_token tok \<Rightarrow> Ok tok
          | Sdk_timeout \<Rightarrow> Fail FirebaseProviderUnavailableException
          | Sdk_error code \<Rightarrow>
              if (case code of Some c \<Rightarrow> js_starts_with c ''auth/'' | None \<Rightarrow> False)
              then Fail InvalidFirebaseTokenException
              else Fail FirebaseProviderUnavailableException)
     | None \<Rightarrow>
         if idToken = ''MOCK_TIMEOUT_TOKEN'' then Fail FirebaseProviderUnavailableException
         else if js_includes idToken ''INVALID'' then Fail InvalidFirebaseTokenException
         else Ok \<lparr> fb_uid = ''fb_uid_998877'', fb_email = Some ''sso.user@company.com'',
                   fb_email_verified = Some True, fb_tenant_code = None \<rparr>)"

definition authenticate :: "tenant \<Rightarrow> auth_env \<Rightarrow> (string \<Rightarrow> sdk_outcome) option \<Rightarrow> string \<Rightarrow> app_user auth_act" where
  "authenticate DEFAULT_TENANT_CODE env sdk idToken =
    act_bind (lift_result (verifyIdToken sdk idToken)) (\<lambda>tok.
      let ip = or_unknown (ae_ip env); agent = Some (or_unknown (ae_agent env)) in
      act_bind (db_read (\<lambda>db. findByTenantAndExternalIdentity (fb_uid tok) (d_users db))) (\<lambda>found.
        (case found of
           None \<Rightarrow>
             act_then (log_event env (ssoLoginFailed
                (case truthy_id (fb_tenant_code tok) of Some t \<Rightarrow> t | None \<Rightarrow> DEFAULT_TENANT_CODE)
                (fb_uid tok) ''UNMAPPED_EXTERNAL_IDENTITY'' ip None agent))
             (act_throw ExternalIdentityNotMappedException)
         | Some u \<Rightarrow>
             if Some (usr_normalizedEmail u) \<noteq> fb_email tok
             then act_then (log_event env (ssoLoginFailed
                (case truthy_id (fb_tenant_code tok) of Some t \<Rightarrow> t | None \<Rightarrow> DEFAULT_TENANT_CODE)
                (fb_uid tok) ''UNMAPPED_EXTERNAL_IDENTITY'' ip None agent))
               (act_throw ExternalIdentityNotMappedException)
             else if fb_tenant_code tok \<noteq> Some (usr_tenant u)
             then act_then (log_event env (ssoLoginFailed (usr_tenant u) (fb_uid tok)
                ''IDENTITY_AMBIGUITY_CONFLICT'' ip None agent))
               (act_throw AmbiguousIdentityMappingException)
             else act_then (log_event env (ssoLoginSucceeded (usr_tenant u) (usr_id u) (fb_uid tok)
                ''ACTIVE'' ip agent))
               (act_ret u))))"

text \<open>
  \<^verbatim>\<open>processLogin\<close> is returned, not awaited, inside the try block: its errors pass
  through unmapped.
\<close>

definition firebase_error :: "auth_error \<Rightarrow> auth_error" where
  "firebase_error e =
    (if e = InvalidFirebaseTokenException \<or> e = ExternalIdentityNotMappedException
     then UnauthorizedException ''Authentication failed via Single Sign-On. Please try again or contact your administrator.''
     else if e = AmbiguousIdentityMappingException
     then ConflictException ''Authentication failed due to ambiguous identity mappings. Please contact your administrator.''
     else if e = FirebaseProviderUnavailableException
     then ServiceUnavailableException ''Single Sign-On service is temporarily unavailable. Please try logging in with your password.''
     else e)"

definition loginWithFirebase ::
  "tenant \<Rightarrow> auth_env \<Rightarrow> (string \<Rightarrow> sdk_outcome) option \<Rightarrow> string \<Rightarrow> login_result auth_act" where
  "loginWithFirebase DEFAULT_TENANT_CODE env sdk idToken =
    act_bind (act_catch (authenticate DEFAULT_TENANT_CODE env sdk idToken)
                (\<lambda>e. act_throw (firebase_error e)))
      (\<lambda>u. processLogin env (ae_uuid env 0) (usr_tenant u) (usr_normalizedEmail u) None None)"

end
