(* ===== verification/Login_Safety.thy ===== *)
theory Login_Safety
  imports Login_Properties
begin

text \<open>
  The two sides of the password login: tokens are issued only when every check of the sequence
  passed, and when they all pass the login goes through.
\<close>

definition cleared ::
  "auth_env \<Rightarrow> uuid \<Rightarrow> tenant \<Rightarrow> string \<Rightarrow> string \<Rightarrow> bool option \<Rightarrow> app_user \<Rightarrow> auth_world \<Rightarrow> string \<Rightarrow> string \<Rightarrow> bool" where
  "cleared env sid t email password remember u w access refresh \<longleftrightarrow>
     (let settings = findByTenantCode t (d_settings (w_db w)) in
      ip_evaluate (ae_ip_lib env) (or_unknown (ae_ip env)) settings None = Ok () \<and>
      tenant_exists t (d_tenants (w_db w)) \<and>
      (password \<noteq> [] \<longrightarrow>
        (\<exists>c. findActiveByUseUnscope (usr_id u) (d_credentials (w_db w)) = Some c \<and>
          verifyPassword env (cr_passwordHash c) password)) \<and>
      \<not> mfa_required u settings (findActiveByUserId (usr_id u) (d_mfa (w_db w))) \<and>
      generateAuthTokens env sid u remember = Ok (access, refresh))"

lemma lift_result_Inr [simp]: "lift_result r w = (Inr x, w') \<longleftrightarrow> r = Inr x \<and> w' = w"
  by (auto simp: lift_result_def act_simps split: sum.splits)

lemma processLogin_Inr:
  assumes "processLogin env sid t email (Some password) remember w = (Inr (AUTHENTICATED access refresh), w')"
  obtains u where "findByEmailWithTenant email t (d_users (w_db w)) = Some u" "usr_status u = User_active"
    "cleared env sid t email password remember u w access refresh"
    "d_users (w_db w') = d_users (w_db w)"
    "\<exists>c. redis_cells w' (ae_session_key env sid) = Some c \<and>
       cell_value c = RV_session (session_of u sid (session_employee_of env u (d_employees (w_db w))))"
proof -
  let ?s = "findByTenantCode t (d_settings (w_db w))"
  let ?pw = "\<lambda>u s. case Some password of Some (c # cs) \<Rightarrow> verifyUserPassword env u (c # cs) email s | _ \<Rightarrow> act_ret ()"
  obtain s0 wa wb wc u w1 mfa w2 where v: "validateIpPolicy env t email w = (Inr s0, wa)"
    and e: "verifyTenantExistence t wa = (Inr (), wb)"
    and f: "fetchAndValidateUser env t email wb = (Inr u, wc)"
    and p0: "?pw u s0 wc = (Inr (), w1)" and m0: "evaluateMfa sid u s0 remember w1 = (Inr mfa, w2)"
    and rest: "(case mfa of Some r \<Rightarrow> act_ret r
       | None \<Rightarrow> act_bind (lift_result (generateAuthTokens env sid u remember)) (\<lambda>tokens.
           act_then (storeSessionAndLogSuccess env u sid remember)
           (act_ret (AUTHENTICATED (fst tokens) (snd tokens))))) w2
       = (Inr (AUTHENTICATED access refresh), w')"
    using assms unfolding processLogin_def act_bind_Inr_iff act_then_Inr_iff by blast
  have ip: "ip_evaluate (ae_ip_lib env) (or_unknown (ae_ip env)) ?s None = Ok ()"
    and tn: "tenant_exists t (d_tenants (w_db w))"
    and u: "findByEmailWithTenant email t (d_users (w_db w)) = Some u" "usr_status u = User_active"
    and p: "?pw u ?s w = (Inr (), w1)" and m: "evaluateMfa sid u ?s remember w1 = (Inr mfa, w2)"
    using validateIpPolicy_Inr[OF v] verifyTenantExistence_Inr[OF e] fetchAndValidateUser_Inr[OF f] p0 m0
    by auto
  have pw: "w_db w1 = w_db w \<and> (password \<noteq> [] \<longrightarrow>
      (\<exists>c. findActiveByUseUnscope (usr_id u) (d_credentials (w_db w)) = Some c \<and>
        verifyPassword env (cr_passwordHash c) password))"
    using p by (cases password) (auto dest: verifyUserPassword_Inr)
  have none: "mfa = None" using rest evaluateMfa_Some[of sid u ?s remember w1 _ w2] m by (cases mfa) fastforce+
  have m': "w2 = w1" "\<not> mfa_required u ?s (findActiveByUserId (usr_id u) (d_mfa (w_db w)))"
    using evaluateMfa_None[of sid u ?s remember w1 w2] m none pw by auto
  obtain w3 where g: "generateAuthTokens env sid u remember = Ok (access, refresh)"
    and s: "storeSessionAndLogSuccess env u sid remember w1 = (Inr (), w3)" and w': "w' = w3"
    using rest none m'(1) by (auto simp: act_bind_Inr_iff act_then_Inr_iff)
  show thesis
  proof (rule that)
    show "cleared env sid t email password remember u w access refresh"
      using ip tn pw m' g by (auto simp: cleared_def Let_def)
    show "d_users (w_db w') = d_users (w_db w)" using storeSession_Inr(1)[OF s] w' pw by simp
    show "\<exists>c. redis_cells w' (ae_session_key env sid) = Some c \<and>
       cell_value c = RV_session (session_of u sid (session_employee_of env u (d_employees (w_db w))))"
      using storeSession_Inr(2)[OF s] w' pw by simp
  qed (use u in auto)
qed

lemma login_attempts_Inr:
  "login_attempts env i ts email password remember e w = (Inr r, w') \<Longrightarrow>
     \<exists>t \<in> set ts. \<exists>j w1. login_kept w w1 \<and>
       processLogin env (ae_uuid env j) t email (Some password) remember w1 = (Inr r, w')"
proof (induction ts arbitrary: i e w)
  case Nil
  then show ?case by (simp add: act_simps)
next
  case (Cons t ts)
  obtain q w1 where p: "processLogin env (ae_uuid env i) t email (Some password) remember w = (q, w1)"
    by fastforce
  show ?case
  proof (cases q)
    case (Inr x)
    then show ?thesis using Cons.prems p login_frame.kept_refl[of w]
      by (auto simp: act_catch_def)
  next
    case (Inl err)
    have k: "login_kept w w1" using keepsD[OF keeps_processLogin p] .
    have "login_attempts env (Suc i) ts email password remember err w1 = (Inr r, w')"
      using Cons.prems p Inl by (simp add: act_catch_def)
    then show ?thesis using Cons.IH login_frame.kept_trans[OF k] by fastforce
  qed
qed

lemma cleared_kept:
  "login_kept w w1 \<Longrightarrow> cleared env sid t email password remember u w1 a r = cleared env sid t email password remember u w a r"
  by (simp add: cleared_def login_kept_def)

text \<open>
  C6: A password login that returns tokens has passed every check: the tokens are those of an
  active user with this email in one of the email's tenants, the tenant exists and its network
  policy admits the caller, a non-empty password matches the user's active credential, no second
  factor is required of the user, and the session the tokens name is in the store for that user.
\<close>

theorem login_requires_every_check:
  assumes "loginWithPassword env email password remember w = (Inr (AUTHENTICATED access refresh), w')"
  shows "\<exists>t u i. t \<in> set (findTenantCodeByEmail email (d_users (w_db w))) \<and>
    findByEmailWithTenant email t (d_users (w_db w')) = Some u \<and> usr_status u = User_active \<and>
    cleared env (ae_uuid env i) t email password remember u w access refresh \<and>
    (\<exists>c. redis_cells w' (ae_session_key env (ae_uuid env i)) = Some c \<and>
       cell_value c = RV_session (session_of u (ae_uuid env i)
         (session_employee_of env u (d_employees (w_db w)))))"
proof -
  obtain t i w1 where t: "t \<in> set (findTenantCodeByEmail email (d_users (w_db w)))"
    and k: "login_kept w w1"
    and p: "processLogin env (ae_uuid env i) t email (Some password) remember w1
      = (Inr (AUTHENTICATED access refresh), w')"
    using login_attempts_Inr assms by (fastforce simp: loginWithPassword_def act_simps)
  have e: "d_employees (w_db w1) = d_employees (w_db w)" using k by (simp add: login_kept_def)
  show ?thesis
    by (rule processLogin_Inr[OF p]) (use t k e in \<open>fastforce simp: cleared_kept\<close>)
qed

section \<open>The login that goes through\<close>

lemma verifyUserPassword_right:
  assumes "redis_ready w" "findActiveByUseUnscope (usr_id u) (d_credentials (w_db w)) = Some c"
    and "verifyPassword env (cr_passwordHash c) password"
  shows "verifyUserPassword env u password email s w =
    (Inr (), upd_cells (filter (\<lambda>c. fst c \<noteq> failure_key (usr_tenant u) (usr_id u))) w)"
proof -
  have "redis_del [failure_key (usr_tenant u) (usr_id u)] w =
      (Inr (), upd_cells (filter (\<lambda>c. fst c \<notin> set [failure_key (usr_tenant u) (usr_id u)])) w)"
    using redis_run(3)[of w] assms(1) by blast
  then have "redis_del [failure_key (usr_tenant u) (usr_id u)] w =
      (Inr (), upd_cells (filter (\<lambda>c. fst c \<noteq> failure_key (usr_tenant u) (usr_id u))) w)"
    by simp
  then have "resetFailureCount (usr_tenant u) (usr_id u) w =
      (Inr (), upd_cells (filter (\<lambda>c. fst c \<noteq> failure_key (usr_tenant u) (usr_id u))) w)"
    unfolding resetFailureCount_def
    by (rule with_adapter_ready[where m = "redis_del [failure_key (usr_tenant u) (usr_id u)]", OF assms(1)])
  then show ?thesis using assms(2,3) by (simp add: verifyUserPassword_def act_simps)
qed

definition is_set_cell :: "redis_cell option \<Rightarrow> string list \<Rightarrow> bool" where
  "is_set_cell c xs = (case c of None \<Rightarrow> xs = [] | Some d \<Rightarrow> cell_value d = RV_set xs)"

lemma redis_sadd_run:
  assumes "rs_up (w_redis w)" "is_set_cell (redis_cells w k) xs"
  obtains c where "redis_sadd k x w = (Inr (), upd_cells (AList.update k c) w)"
    "cell_value c = RV_set (js_add x xs)"
proof (cases "redis_cells w k")
  case None
  then show thesis using assms that[of "\<lparr> cell_value = RV_set [x], cell_ttl = None \<rparr>"]
    by (simp add: redis_sadd_def redis_cmd_def redis_cells_def upd_cells_def is_set_cell_def js_add_def)
next
  case (Some d)
  then show thesis using assms that[of "d\<lparr> cell_value := RV_set (js_add x xs) \<rparr>"]
    by (simp add: redis_sadd_def redis_cmd_def redis_cells_def upd_cells_def is_set_cell_def)
qed

lemma storeSession_run:
  assumes r: "redis_ready w" and k: "ae_session_key env sid \<noteq> ae_user_sessions_key env False (usr_tenant u) (usr_id u)"
    and i: "is_set_cell (redis_cells w (ae_user_sessions_key env False (usr_tenant u) (usr_id u))) xs"
  obtains w' where "storeSessionAndLogSuccess env u sid remember w = (Inr (), w')"
    "is_set_cell (redis_cells w' (ae_user_sessions_key env False (usr_tenant u) (usr_id u))) (js_add sid xs)"
    "\<exists>c. redis_cells w' (ae_session_key env sid) = Some c \<and>
      cell_value c = RV_session (session_of u sid (session_employee_of env u (d_employees (w_db w))))"
    "redis_ready w'"
proof -
  let ?ttl = "if remember = Some True then 2592000 else 604800 :: int"
  let ?v = "RV_session (session_of u sid (session_employee_of env u (d_employees (w_db w))))"
  let ?s = "ae_session_key env sid" and ?k = "ae_user_sessions_key env False (usr_tenant u) (usr_id u)"
  define w1 where "w1 = upd_cells (AList.update ?s \<lparr> cell_value = ?v, cell_ttl = Some ?ttl \<rparr>) w"
  have s1: "redis_set ?s ?v ?ttl w = (Inr (), w1)" using redis_run(1)[of w] r by (simp add: w1_def)
  have r1: "redis_ready w1" using r by (simp add: w1_def)
  have i1: "is_set_cell (redis_cells w1 ?k) xs" using i k by (simp add: w1_def redis_cells_def update_conv')
  obtain c where a: "redis_sadd ?k sid w1 = (Inr (), upd_cells (AList.update ?k c) w1)"
    and c: "cell_value c = RV_set (js_add sid xs)"
    using redis_sadd_run[of w1 ?k xs sid] r1 i1 by blast
  define w2 where "w2 = upd_cells (AList.update ?k c) w1"
  define e :: "(string \<times> redis_cell) list \<Rightarrow> (string \<times> redis_cell) list" where
    "e = map (\<lambda>c. if fst c = ?k then (?k, (snd c)\<lparr> cell_ttl := Some ?ttl \<rparr>) else c)"
  define w3 where "w3 = upd_cells e w2"
  have r2: "redis_ready w2" using r1 by (simp add: w2_def)
  have e3: "redis_expire ?k ?ttl w2 = (Inr (), w3)" using redis_run(4)[of w2 ?k ?ttl] r2 by (simp add: w3_def e_def)
  let ?d = "loginSucceeded (usr_tenant u) (usr_id u) sid (or_unknown (ae_ip env)) (Some (or_unknown (ae_agent env))) remember"
  define w4 where "w4 = upd_db (\<lambda>db. db\<lparr> d_outbox := d_outbox db @ [outbox_create (ae_tenant env) ?d] \<rparr>) w3"
  have "act_then (redis_sadd ?k sid) (redis_expire ?k ?ttl) w1 = (Inr (), w3)"
    using a e3 by (simp add: act_then_def act_bind_def w2_def)
  then have "act_then (redis_set ?s ?v ?ttl) (act_bind redis_client (\<lambda>client.
      act_when client (act_then (redis_sadd ?k sid) (redis_expire ?k ?ttl)))) w = (Inr (), w3)"
    using s1 r1 by (simp add: act_then_def[of "redis_set ?s ?v ?ttl"] act_bind_def[of "redis_set ?s ?v ?ttl"] act_simps)
  then have run: "storeSessionAndLogSuccess env u sid remember w = (Inr (), w4)"
    by (simp add: storeSessionAndLogSuccess_def Let_def act_simps act_then_def act_bind_def act_catch_def w4_def)
  show thesis
  proof (rule that[OF run])
    show "is_set_cell (redis_cells w4 ?k) (js_add sid xs)"
      by (simp add: w4_def w3_def e_def map_of_expire w2_def update_conv' is_set_cell_def c)
    show "\<exists>c. redis_cells w4 ?s = Some c \<and> cell_value c = ?v"
      using k by (simp add: w4_def w3_def e_def map_of_expire w2_def w1_def update_conv')
    show "redis_ready w4" using r2 by (simp add: w4_def w3_def)
  qed
qed

text \<open>
  When the store is up, the caller is admitted, the account is active, the password is right
  and no second factor is due, the password login of an email's first tenant succeeds: it returns
  the signed tokens, the session is stored under its key and listed in the user's session index.
\<close>

theorem login_goes_through:
  assumes "redis_ready w"
    and "findTenantCodeByEmail email (d_users (w_db w)) = t # ts"
    and "findByEmailWithTenant email t (d_users (w_db w)) = Some u" "usr_status u = User_active"
    and "cleared env (ae_uuid env 0) t email password remember u w access refresh"
    and "password \<noteq> []"
    and "ae_session_key env (ae_uuid env 0) \<noteq> ae_user_sessions_key env False (usr_tenant u) (usr_id u)"
    and "failure_key (usr_tenant u) (usr_id u) \<noteq> ae_user_sessions_key env False (usr_tenant u) (usr_id u)"
    and "is_set_cell (redis_cells w (ae_user_sessions_key env False (usr_tenant u) (usr_id u))) xs"
  shows "\<exists>w' c. loginWithPassword env email password remember w = (Inr (AUTHENTICATED access refresh), w') \<and>
    redis_cells w' (ae_session_key env (ae_uuid env 0)) = Some c \<and>
    cell_value c = RV_session (session_of u (ae_uuid env 0) (session_employee_of env u (d_employees (w_db w)))) \<and>
    is_set_cell (redis_cells w' (ae_user_sessions_key env False (usr_tenant u) (usr_id u)))
      (js_add (ae_uuid env 0) xs)"
proof -
  let ?sid = "ae_uuid env 0" and ?s = "findByTenantCode t (d_settings (w_db w))"
  let ?k = "ae_user_sessions_key env False (usr_tenant u) (usr_id u)"
  define w1 where "w1 = upd_cells (filter (\<lambda>c. fst c \<noteq> failure_key (usr_tenant u) (usr_id u))) w"
  have w1: "w_db w1 = w_db w" "redis_ready w1" "is_set_cell (redis_cells w1 ?k) xs"
    using assms(1,8,9) by (simp_all add: w1_def) (simp add: redis_cells_def)
  obtain c cs where pw: "password = c # cs" using assms(6) by (cases password) auto
  have v: "validateIpPolicy env t email w = (Inr ?s, w)"
    using assms(5) by (simp add: cleared_def Let_def validateIpPolicy_def act_simps)
  have e: "verifyTenantExistence t w = (Inr (), w)"
    using assms(5) by (simp add: cleared_def Let_def verifyTenantExistence_def act_simps)
  have f: "fetchAndValidateUser env t email w = (Inr u, w)"
    using assms(3,4) by (simp add: fetchAndValidateUser_def act_simps)
  have p: "verifyUserPassword env u (c # cs) email ?s w = (Inr (), w1)"
    using verifyUserPassword_right[OF assms(1)] assms(5,6)
    unfolding w1_def cleared_def Let_def pw by blast
  have m: "evaluateMfa ?sid u ?s remember w1 = (Inr None, w1)"
    using assms(5) w1(1) by (simp add: cleared_def Let_def evaluateMfa_def act_simps)
  have g: "generateAuthTokens env ?sid u remember = Ok (access, refresh)"
    using assms(5) by (simp add: cleared_def Let_def)
  obtain w2 where s: "storeSessionAndLogSuccess env u ?sid remember w1 = (Inr (), w2)"
    and i: "is_set_cell (redis_cells w2 ?k) (js_add ?sid xs)"
    and q: "\<exists>c. redis_cells w2 (ae_session_key env ?sid) = Some c \<and>
      cell_value c = RV_session (session_of u ?sid (session_employee_of env u (d_employees (w_db w1))))"
    by (rule storeSession_run[OF w1(2) assms(7) w1(3)])
  have tail: "act_bind (lift_result (generateAuthTokens env ?sid u remember)) (\<lambda>tokens.
      act_then (storeSessionAndLogSuccess env u ?sid remember)
        (act_ret (AUTHENTICATED (fst tokens) (snd tokens)))) w1 = (Inr (AUTHENTICATED access refresh), w2)"
    using s by (simp add: g lift_result_def act_simps act_then_def act_bind_def)
  have "processLogin env ?sid t email (Some password) remember w = (Inr (AUTHENTICATED access refresh), w2)"
    unfolding processLogin_def act_bind_Inr_iff act_then_Inr_iff
    using v e f p m tail pw by fastforce
  then have "loginWithPassword env email password remember w = (Inr (AUTHENTICATED access refresh), w2)"
    using assms(2) by (simp add: loginWithPassword_def act_simps act_catch_def)
  then show ?thesis using i q w1(1) by auto
qed

section \<open>Firebase\<close>

text \<open>
  A Firebase token without a tenant never logs anyone in: whatever user its subject is linked
  to, the sign-on ends in a conflict or an unmapped identity, so the built-in fallback, whose
  tokens carry no tenant, admits nobody.
\<close>

theorem tenantless_token_refused:
  assumes "verifyIdToken sdk idToken = Ok tok" "fb_tenant_code tok = None"
  shows "\<exists>e w'. loginWithFirebase dt env sdk idToken w = (Inl e, w') \<and>
    (e = firebase_error AmbiguousIdentityMappingException \<or> e = firebase_error ExternalIdentityNotMappedException) \<and>
    w_redis w' = w_redis w"
  using assms
  by (auto simp: loginWithFirebase_def authenticate_def lift_result_def act_simps act_bind_def
      act_catch_def Let_def split: option.splits)

definition sample_ip_library :: ip_library where
  "sample_ip_library = \<lparr> ipl_parse = (\<lambda>s. if s = [] then None else Some \<lparr> ip_v4 = True, ip_parts = [10, 0, 0, 1] \<rparr>),
     ipl_isIPv4Mapped = (\<lambda>_. False), ipl_toIPv4 = (\<lambda>p. p), ipl_match = (\<lambda>p q n. ip_parts p = ip_parts q) \<rparr>"

definition sample_env :: auth_env where
  "sample_env = \<lparr> ae_tenant = ''acme'', ae_userId = ''u1'', ae_ip = Some ''10.0.0.1'', ae_agent = None,
     ae_now = 1000, ae_iso = (\<lambda>_. ''2026-01-01T00:00:00Z''),
     ae_row_id = (\<lambda>ids. concat ids @ ''n''), ae_uuid = (\<lambda>n. ''sid'' @ replicate n CHR ''x''),
     ae_session_key = (\<lambda>s. ''session:'' @ s),
     ae_user_sessions_key = (\<lambda>tag t u. (if tag then ''tagged:'' else ''user-sessions:'') @ t @ '':'' @ u),
     ae_verify = (\<lambda>h p. h = ''h:'' @ p), ae_hash = (\<lambda>p. ''h:'' @ p), ae_jwt_key = Some ''key'',
     ae_sign = (\<lambda>p k e. Some e), ae_ip_lib = sample_ip_library, ae_text = (\<lambda>v. ''text''),
     ae_hmac = (\<lambda>c. ''m:'' @ c), ae_otp = ''654321'', ae_sha256 = (\<lambda>c. ''s:'' @ c),
     ae_random_token = ''rnd'', ae_encrypt = (\<lambda>c. ''e:'' @ c) \<rparr>"

definition sample_credential :: credential where
  "sample_credential = \<lparr> cr_id = ''c1'', cr_tenant = ''acme'', cr_userId = ''u1'', cr_passwordHash = ''h:pw'',
     cr_algorithm = ''argon2id'', cr_status = Credential_active, cr_passwordChangedAt = None \<rparr>"

definition login_world :: auth_world where
  "login_world = sample_auth_world\<lparr> w_db := sample_auth_db\<lparr> d_credentials := [sample_credential] \<rparr> \<rparr>"

lemmas login_sample_defs = sample_auth_defs sample_env_def sample_ip_library_def sample_credential_def
  login_world_def

lemma sample_email [simp]: "normalize_email ''ann@acme.io'' = ''ann@acme.io''"
  by (simp add: normalize_email_def js_lower_def js_lower_char_def js_trim_def js_space_def Let_def)

theorem login_goes_through_witness:
  "\<exists>w' c. loginWithPassword sample_env ''ann@acme.io'' ''pw'' None login_world = (Inr (AUTHENTICATED ''2h'' ''7d''), w') \<and>
     redis_cells w' ''session:sid'' = Some c"
  using login_goes_through[of login_world "''ann@acme.io''" "''acme''" "[]" sample_user sample_env "''pw''" None "''2h''" "''7d''" "[]"]
  by (force simp: login_sample_defs findTenantCodeByEmail_def findByEmailWithTenant_def cleared_def
      findByTenantCode_def ip_evaluate_def isExemptAction_def tenant_exists_def findActiveByUseUnscope_def
      verifyPassword_def mfa_required_def findActiveByUserId_def generateAuthTokens_def truthy_id_def
      failure_key_def is_set_cell_def redis_cells_def)

theorem login_requires_every_check_witness:
  "\<exists>w' access refresh. loginWithPassword sample_env ''ann@acme.io'' ''pw'' None login_world
       = (Inr (AUTHENTICATED access refresh), w') \<and>
     (\<exists>t u i. findByEmailWithTenant ''ann@acme.io'' t (d_users (w_db w')) = Some u \<and>
       cleared sample_env (ae_uuid sample_env i) t ''ann@acme.io'' ''pw'' None u login_world access refresh)"
proof -
  let ?w = "snd (loginWithPassword sample_env ''ann@acme.io'' ''pw'' None login_world)"
  have "loginWithPassword sample_env ''ann@acme.io'' ''pw'' None login_world = (Inr (AUTHENTICATED ''2h'' ''7d''), ?w)"
    by (simp add: login_sample_defs loginWithPassword_def findTenantCodeByEmail_def act_simps act_catch_def
      processLogin_def validateIpPolicy_def findByTenantCode_def ip_evaluate_def isExemptAction_def
      verifyTenantExistence_def tenant_exists_def fetchAndValidateUser_def findByEmailWithTenant_def
      verifyUserPassword_def findActiveByUseUnscope_def verifyPassword_def resetFailureCount_def
      with_adapter_def redis_del_def redis_cmd_def failure_key_def evaluateMfa_def findActiveByUserId_def
      mfa_required_def lift_result_def generateAuthTokens_def truthy_id_def storeSessionAndLogSuccess_def
      session_employee_of_def redis_set_def redis_sadd_def redis_expire_def upd_cells_def
      act_then_def act_bind_def redis_client_def Let_def)
  then show ?thesis using login_requires_every_check by blast
qed

theorem tenantless_token_refused_witness:
  "\<exists>e w'. loginWithFirebase ''default'' sample_env None ''tok'' login_world = (Inl e, w')"
  using tenantless_token_refused[of None "''tok''" _ "''default''" sample_env login_world]
  by (force simp: verifyIdToken_def js_starts_with_def)

end
