(* ===== verification/Sessions.thy ===== *)
theory Sessions
  imports Login_Safety
begin

text \<open>
  Ending sessions: \<^verbatim>\<open>SessionApplicationService\<close>, \<^verbatim>\<open>RedisSessionAdapter\<close> with its
  Lua scripts, and \<^verbatim>\<open>SessionService\<close>.  The login lists a session in the index under the
  plain key; the adapter reads the index under the hash-tagged key.
\<close>

section \<open>Revoking from the application\<close>

definition revokeAllSessions :: "auth_env \<Rightarrow> tenant \<Rightarrow> uuid \<Rightarrow> unit auth_act" where
  "revokeAllSessions env t u =
    act_bind redis_client (\<lambda>client.
      if \<not> client then act_ret ()
      else (let setKey = ae_user_sessions_key env False t u in
        act_bind (redis_members setKey) (\<lambda>ids.
          act_when (ids \<noteq> []) (redis_del (map (ae_session_key env) ids @ [setKey])))))"

section \<open>The adapter\<close>

text \<open>A script runs as one command.  Removing the last member of a set removes its key.\<close>

definition srem_cells :: "string \<Rightarrow> string \<Rightarrow> (string \<times> redis_cell) list \<Rightarrow> (auth_error + int) \<times> (string \<times> redis_cell) list" where
  "srem_cells k x cs =
    (case map_of cs k of
       None \<Rightarrow> (Inr 0, cs)
     | Some c \<Rightarrow>
         (case cell_value c of
            RV_set xs \<Rightarrow>
              (if x \<in> set xs
               then (let ys = filter (\<lambda>y. y \<noteq> x) xs in
                     (Inr 1, if ys = [] then filter (\<lambda>c. fst c \<noteq> k) cs
                             else AList.update k (c\<lparr> cell_value := RV_set ys \<rparr>) cs))
               else (Inr 0, cs))
          | _ \<Rightarrow> (Inl Redis_error, cs)))"

definition deleteSession :: "auth_env \<Rightarrow> tenant \<Rightarrow> uuid \<Rightarrow> uuid \<Rightarrow> int auth_act" where
  "deleteSession env t u sid =
    act_bind (redis_cmd (\<lambda>cs.
        srem_cells (ae_user_sessions_key env True t u) sid
          (filter (\<lambda>c. fst c \<noteq> ae_session_key env sid) cs)))
      (\<lambda>removed. act_ret (if removed = 0 then 1 else removed))"

definition purgeAllUserSessions :: "auth_env \<Rightarrow> tenant \<Rightarrow> uuid \<Rightarrow> int auth_act" where
  "purgeAllUserSessions env t u =
    (let k = ae_user_sessions_key env True t u in
     redis_cmd (\<lambda>cs.
       (case map_of cs k of
          None \<Rightarrow> (Inr 0, cs)
        | Some c \<Rightarrow>
            (case cell_value c of
               RV_set xs \<Rightarrow>
                 (Inr (int (length xs)),
                  filter (\<lambda>c. fst c \<notin> insert k ((\<lambda>sid. ae_session_key env [] @ sid) ` set xs)) cs)
             | _ \<Rightarrow> (Inl Redis_error, cs)))))"

section \<open>The session service\<close>

definition session_store_unavailable :: auth_error where
  "session_store_unavailable = ServiceUnavailableException ''Session store unavailable''"

definition insert_session_event :: "session_event \<Rightarrow> unit auth_act" where
  "insert_session_event e = db_write (\<lambda>db. db\<lparr> d_session_events := d_session_events db @ [e] \<rparr>)"

definition session_row :: "tenant \<Rightarrow> uuid \<Rightarrow> string \<Rightarrow> (string \<times> json) list \<Rightarrow> session_event" where
  "session_row t u ty payload =
    \<lparr> sv_tenant = t, sv_userId = u, sv_eventType = ty, sv_eventVersion = 1, sv_payload = JObj payload,
      sv_publishStatus = ''pending'', sv_attemptCount = 0 \<rparr>"

text \<open>
  The error of a failed command is rethrown unless its message mentions Redis, which the argument
  tells.
\<close>

definition logoutCurrentSession :: "bool \<Rightarrow> auth_env \<Rightarrow> tenant \<Rightarrow> uuid \<Rightarrow> uuid \<Rightarrow> int auth_act" where
  "logoutCurrentSession mentions_redis env t u sid =
    act_catch
      (act_bind (deleteSession env t u sid) (\<lambda>revoked.
        act_then (db_tx (insert_session_event (session_row t u ''authentication.session-revoked''
           [(''userId'', JStr u), (''sessionId'', JStr sid), (''revokedAt'', JStr (ae_iso env (ae_now env)))])))
        (act_ret (if revoked = 0 then 1 else revoked))))
      (\<lambda>e. act_throw (if e = Redis_error \<and> mentions_redis then session_store_unavailable else e))"

definition revokeAllUserSessions :: "auth_env \<Rightarrow> tenant \<Rightarrow> uuid \<Rightarrow> uuid \<Rightarrow> string option \<Rightarrow> int auth_act" where
  "revokeAllUserSessions env t target admin reason =
    act_then
      (db_tx (act_bind (db_read (\<lambda>db. bumpSecurityVersion t target (d_users db))) (\<lambda>res.
         if \<not> fst res then act_throw (NotFoundException ''User not found within tenant scope'')
         else act_then (db_write (d_users_update (\<lambda>_. snd res)))
           (insert_session_event (session_row t target ''authentication.sessions-revoked''
             [(''userId'', JStr target), (''revokedByUserId'', JStr admin),
              (''reason'', JStr (case truthy_id reason of None \<Rightarrow> ''FORCE_LOGOUT'' | Some r \<Rightarrow> r)),
              (''revokedAt'', JStr (ae_iso env (ae_now env)))])))))
      (act_catch (purgeAllUserSessions env t target) (\<lambda>_. act_throw session_store_unavailable))"

section \<open>What the two revocations reach\<close>

definition redis_only :: "auth_world \<Rightarrow> auth_world \<Rightarrow> bool" where
  "redis_only w w' \<longleftrightarrow> w_db w' = w_db w \<and> rs_client (w_redis w') = rs_client (w_redis w) \<and>
     rs_up (w_redis w') = rs_up (w_redis w)"

interpretation redis_frame: kept_relation redis_only
  by unfold_locales (simp_all add: redis_only_def)

lemma keeps_cmd_redis: "keeps redis_only (redis_cmd c)"
  by (rule keepsI) (simp add: redis_cmd_def redis_only_def split: prod.splits)

lemma keeps_redis_only:
  "keeps redis_only (redis_set k v ttl)" "keeps redis_only (redis_get k)" "keeps redis_only (redis_del ks)"
  "keeps redis_only (redis_members k)" "keeps redis_only redis_client"
  by (simp_all add: redis_set_def redis_get_def redis_del_def redis_members_def redis_client_def
        keeps_cmd_redis redis_frame.keeps_pure)

lemma keeps_revokeAllSessions: "keeps redis_only (revokeAllSessions env t u)"
  unfolding revokeAllSessions_def Let_def
  by (auto intro!: redis_frame.keeps_rules keeps_redis_only)

lemma redis_members_run:
  assumes "rs_up (w_redis w)" "is_set_cell (redis_cells w k) xs"
  shows "redis_members k w = (Inr xs, w)"
  using assms
  by (auto simp: redis_members_def redis_cmd_def redis_cells_def is_set_cell_def upd_cells_def
      split: option.splits)

lemma revokeAllSessions_run:
  assumes "redis_ready w" "is_set_cell (redis_cells w (ae_user_sessions_key env False t u)) xs"
  shows "revokeAllSessions env t u w = (Inr (),
    if xs = [] then w
    else upd_cells (filter (\<lambda>c. fst c \<notin> set (map (ae_session_key env) xs @ [ae_user_sessions_key env False t u]))) w)"
proof (cases "xs = []")
  case True
  then show ?thesis using assms redis_members_run[of w "ae_user_sessions_key env False t u" xs]
    by (simp add: revokeAllSessions_def Let_def act_simps act_bind_def[of "redis_members k" for k])
next
  case False
  then show ?thesis
    using assms redis_members_run[of w "ae_user_sessions_key env False t u" xs]
      redis_run(3)[of w "map (ae_session_key env) xs @ [ae_user_sessions_key env False t u]"]
    by (simp add: revokeAllSessions_def Let_def act_simps act_bind_def[of "redis_members k" for k])
qed

lemma purge_unindexed:
  assumes "rs_up (w_redis w)" "redis_cells w (ae_user_sessions_key env True t u) = None"
  shows "purgeAllUserSessions env t u w = (Inr 0, w)"
  using assms by (simp add: purgeAllUserSessions_def redis_cmd_def redis_cells_def upd_cells_def Let_def)


definition session_world :: auth_world where
  "session_world = login_world\<lparr> w_redis := \<lparr> rs_client = True, rs_up = True,
     rs_cells = [(''session:sid'', \<lparr> cell_value = RV_session (session_of sample_user ''sid'' None), cell_ttl = Some 604800 \<rparr>),
       (''user-sessions:acme:u1'', \<lparr> cell_value = RV_set [''sid''], cell_ttl = Some 604800 \<rparr>)] \<rparr> \<rparr>"


end
