(* ===== verification/Mfa.thy ===== *)
theory Mfa
  imports Sessions
begin

text \<open>
  The second factor: \<^verbatim>\<open>MfaMethodRepository\<close>, the challenge store
  \<^verbatim>\<open>RedisMfaChallengeAdapter\<close>, \<^verbatim>\<open>MfaApplicationService\<close> and the administrator's
  reset.  The only code the service accepts is the constant in its source.
\<close>

section \<open>Factors\<close>

definition findActivePrimary :: "tenant \<Rightarrow> uuid \<Rightarrow> mfa_method list \<Rightarrow> mfa_method option" where
  "findActivePrimary t u ms =
    find (\<lambda>m. mf_userId m = u \<and> mf_isPrimary m \<and> mf_status m = Factor_active \<and> mf_tenant m = t) ms"

definition disableAllUserFactors :: "auth_env \<Rightarrow> uuid \<Rightarrow> unit auth_act" where
  "disableAllUserFactors env u =
    db_write (d_mfa_update (update_rows (\<lambda>m. mf_userId m = u \<and> mf_tenant m = ae_tenant env)
      (\<lambda>m. m\<lparr> mf_status := Factor_disabled, mf_disabledAt := Some (ae_now env), mf_isPrimary := False \<rparr>)))"

definition factor_type_string :: "mfa_factor_type \<Rightarrow> string" where
  "factor_type_string ty = (case ty of TOTP \<Rightarrow> ''totp'' | EMAIL_FACTOR \<Rightarrow> ''email'')"

section \<open>Enrolment\<close>

record enroll_response =
  er_factorId :: uuid
  er_factorType :: mfa_factor_type
  er_status :: mfa_factor_status
  er_qrCodeUrl :: "string option"

definition totp_secret :: string where
  "totp_secret = ''JBSWY3DPEHPK3PXP''"

definition initiateEnrollment :: "auth_env \<Rightarrow> mfa_factor_type \<Rightarrow> enroll_response auth_act" where
  "initiateEnrollment env ty =
    act_bind (db_read (\<lambda>db. findActivePrimary (ae_tenant env) (ae_userId env) (d_mfa db))) (\<lambda>existing.
      if existing \<noteq> None then act_throw (ConflictException ''Active primary MFA factor already exists'')
      else act_bind (db_read (\<lambda>db. ae_row_id env (map mf_id (d_mfa db)))) (\<lambda>i.
        act_then (db_write (\<lambda>db. db\<lparr> d_mfa := d_mfa db @
          [\<lparr> mf_id = i, mf_tenant = ae_tenant env, mf_userId = ae_userId env, mf_type = ty,
             mf_status = Factor_pending, mf_isPrimary = False,
             mf_encryptedSecret = Some (ae_encrypt env totp_secret), mf_verifiedAt = None,
             mf_disabledAt = None \<rparr>] \<rparr>))
        (act_ret \<lparr> er_factorId = i, er_factorType = ty, er_status = Factor_pending,
           er_qrCodeUrl = (if ty = TOTP
             then Some (''otpauth://totp/HRMS:'' @ ae_userId env @ ''?secret='' @ totp_secret @ ''&issuer=HRMS'')
             else None) \<rparr>)))"

definition accepted_code :: string where
  "accepted_code = ''123456''"

definition mfa_enrolled_event :: "auth_env \<Rightarrow> mfa_method \<Rightarrow> outbox_draft" where
  "mfa_enrolled_event env f =
    security_draft (ae_tenant env) (Some (ae_userId env)) ''authentication.mfa-enrolled''
      [(''tenantCode'', JStr (ae_tenant env)), (''userId'', JStr (ae_userId env)),
       (''factorType'', JStr (factor_type_string (mf_type f))), (''isPrimary'', JBool True),
       (''enrolledAt'', JStr (ae_iso env (ae_now env)))]"

text \<open>The schema has a unique index on the active primary factor of a user.\<close>

definition other_primary :: "mfa_method \<Rightarrow> mfa_method \<Rightarrow> bool" where
  "other_primary f m = (mf_userId m = mf_userId f \<and> mf_id m \<noteq> mf_id f \<and> mf_isPrimary m \<and> mf_status m = Factor_active)"

definition activate_factor :: "auth_env \<Rightarrow> mfa_method \<Rightarrow> unit auth_act" where
  "activate_factor env f = act_bind (db_read d_mfa) (\<lambda>ms.
     if list_ex (other_primary f) ms then act_throw Unique_index_violation
     else db_write (d_mfa_update (update_rows (\<lambda>m. mf_id m = mf_id f)
       (\<lambda>m. m\<lparr> mf_status := Factor_active, mf_isPrimary := True, mf_verifiedAt := Some (ae_now env) \<rparr>))))"

definition verifyAndActivateFactor :: "auth_env \<Rightarrow> uuid \<Rightarrow> string \<Rightarrow> unit auth_act" where
  "verifyAndActivateFactor env factorId code =
    act_bind (db_read (\<lambda>db. find (\<lambda>m. mf_id m = factorId \<and> mf_tenant m = ae_tenant env) (d_mfa db))) (\<lambda>found.
    act_bind (required found) (\<lambda>f.
      if mf_userId f \<noteq> ae_userId env
      then act_throw (UnauthorizedException ''MFA factor enrollment not belong user'')
      else if mf_status f = Factor_active
      then act_throw (ConflictException ''MFA factor is already activated'')
      else if code \<noteq> accepted_code
      then act_throw (UnauthorizedException ''Invalid or expired MFA verification code'')
      else db_tx (act_then (activate_factor env f) (log_event env (mfa_enrolled_event env f)))))"

section \<open>The login challenge\<close>

definition mfa_lookup_failed :: auth_error where
  "mfa_lookup_failed = ServiceUnavailableException ''AUTH_STORE_UNAVAILABLE: Redis unavailable during MFA challenge lookup''"

definition mfa_decrement_failed :: auth_error where
  "mfa_decrement_failed = ServiceUnavailableException ''AUTH_STORE_UNAVAILABLE: Redis unavailable during attempt decrement''"

definition getMfaChallenge :: "tenant \<Rightarrow> uuid \<Rightarrow> uuid \<Rightarrow> mfa_challenge option auth_act" where
  "getMfaChallenge t u c =
    act_catch (act_bind (redis_get (GenerateAuthMfaChallengeKey t u c)) (\<lambda>raw.
      (case raw of
         None \<Rightarrow> act_ret None
       | Some (RV_mfa d) \<Rightarrow> act_ret (Some d)
       | Some _ \<Rightarrow> act_throw Redis_error))) (\<lambda>_. act_throw mfa_lookup_failed)"

definition deleteMfaChallenge :: "tenant \<Rightarrow> uuid \<Rightarrow> uuid \<Rightarrow> unit auth_act" where
  "deleteMfaChallenge t u c =
    act_catch (redis_del [GenerateAuthMfaChallengeKey t u c]) (\<lambda>_. act_ret ())"

definition decrementAttempts :: "mfa_challenge \<Rightarrow> int auth_act" where
  "decrementAttempts d =
    (let d' = d\<lparr> mc_attemptsLeft := mc_attemptsLeft d - 1 \<rparr> in
     act_catch
       (act_then (if mc_attemptsLeft d' \<le> 0
                  then deleteMfaChallenge (mc_tenant d) (mc_userId d) (mc_id d)
                  else redis_set (GenerateAuthMfaChallengeKey (mc_tenant d) (mc_userId d) (mc_id d)) (RV_mfa d') 300)
         (act_ret (mc_attemptsLeft d')))
       (\<lambda>_. act_throw mfa_decrement_failed))"

definition challenge_gone :: auth_error where
  "challenge_gone = UnauthorizedException ''INVALID_MFA_CODE: Challenge code expired or invalid''"

definition challenge_locked :: auth_error where
  "challenge_locked = TooManyRequests ''MFA_CHALLENGE_LOCKED: Maximum attempts exceeded''"

definition verifyLoginChallenge :: "auth_env \<Rightarrow> uuid \<Rightarrow> string \<Rightarrow> (string \<times> string) auth_act" where
  "verifyLoginChallenge env challengeId code =
    act_bind (db_read (\<lambda>db. find (\<lambda>u. usr_id u = ae_userId env \<and> usr_tenant u = ae_tenant env) (d_users db))) (\<lambda>found.
    act_bind (required found) (\<lambda>user.
    act_bind (getMfaChallenge (ae_tenant env) (ae_userId env) challengeId) (\<lambda>challenge.
      (case challenge of
         None \<Rightarrow> act_throw challenge_gone
       | Some d \<Rightarrow>
           if code \<noteq> accepted_code
           then act_bind (decrementAttempts d) (\<lambda>remaining.
             if remaining \<le> 0 then act_throw challenge_locked
             else act_throw (UnauthorizedException ''INVALID_MFA_CODE: Incorrect verification code''))
           else act_then (deleteMfaChallenge (ae_tenant env) (ae_userId env) challengeId)
             (act_bind (lift_result (generateAuthTokens env (ae_uuid env 0) user (mc_rememberMe d))) (\<lambda>tokens.
              act_then (storeSessionAndLogSuccess env user (ae_uuid env 0) (mc_rememberMe d))
              (act_ret tokens)))))))"

section \<open>The administrator's reset\<close>

definition mfa_reset_event :: "auth_env \<Rightarrow> uuid \<Rightarrow> outbox_draft" where
  "mfa_reset_event env target =
    security_draft (ae_tenant env) (Some target) ''authentication.mfa-reset''
      [(''tenantCode'', JStr (ae_tenant env)), (''targetUserId'', JStr target),
       (''adminUserId'', JStr (ae_userId env)), (''resetAt'', JStr (ae_iso env (ae_now env)))]"

fun del_each :: "string list \<Rightarrow> unit auth_act" where
  "del_each [] = act_ret ()"
| "del_each (k # ks) = act_then (redis_del [k]) (del_each ks)"

definition revoke_listed :: "auth_env \<Rightarrow> uuid \<Rightarrow> nat auth_act" where
  "revoke_listed env target =
    (let key = ae_user_sessions_key env False (ae_tenant env) target in
     act_bind redis_client (\<lambda>client.
       if \<not> client then act_ret 0
       else act_bind (redis_members key) (\<lambda>sids.
         if sids = [] then act_ret 0
         else act_then (del_each (map (ae_session_key env) sids))
           (act_then (redis_del [key]) (act_ret (length sids))))))"

definition resetUserMfa :: "auth_env \<Rightarrow> uuid \<Rightarrow> nat auth_act" where
  "resetUserMfa env target =
    db_tx (act_then (disableAllUserFactors env target)
      (act_bind (db_read (\<lambda>db. incrementSecurityVersionById (ae_tenant env) target (d_users db))) (\<lambda>res.
        act_then (db_write (d_users_update (\<lambda>_. snd res)))
        (if fst res = 0 then act_throw (NotFoundException ''Target user not found in admin tenant context'')
         else act_then (log_event env (mfa_reset_event env target)) (revoke_listed env target)))))"

section \<open>One wrong code\<close>

lemma getMfaChallenge_run:
  assumes "rs_up (w_redis w)" "redis_cells w (GenerateAuthMfaChallengeKey t u c) = Some x" "cell_value x = RV_mfa d"
  shows "getMfaChallenge t u c w = (Inr (Some d), w)"
  using assms redis_run(2)[OF assms(1), of "GenerateAuthMfaChallengeKey t u c"]
  by (simp add: getMfaChallenge_def act_catch_def act_bind_def act_simps)

lemma getMfaChallenge_none:
  assumes "rs_up (w_redis w)" "redis_cells w (GenerateAuthMfaChallengeKey t u c) = None"
  shows "getMfaChallenge t u c w = (Inr None, w)"
  using assms redis_run(2)[OF assms(1), of "GenerateAuthMfaChallengeKey t u c"]
  by (simp add: getMfaChallenge_def act_catch_def act_bind_def act_simps)

lemma evaluateMfa_challenge:
  assumes "evaluateMfa i u s remember w = (Inr (Some r), w')"
  shows "rs_up (w_redis w') \<and> d_users (w_db w') = d_users (w_db w) \<and> r = MFA_REQUIRED i \<and>
    (\<exists>x. redis_cells w' (GenerateAuthMfaChallengeKey (usr_tenant u) (usr_id u) i) = Some x \<and>
      cell_value x = RV_mfa \<lparr> mc_id = i, mc_tenant = usr_tenant u, mc_userId = usr_id u,
        mc_attemptsLeft = 0, mc_rememberMe = remember \<rparr>)"
proof -
  let ?k = "GenerateAuthMfaChallengeKey (usr_tenant u) (usr_id u) i"
  let ?v = "RV_mfa \<lparr> mc_id = i, mc_tenant = usr_tenant u, mc_userId = usr_id u,
        mc_attemptsLeft = 0, mc_rememberMe = remember \<rparr>"
  have s: "redis_set ?k ?v 300 w = (Inr (), w')" and r: "r = MFA_REQUIRED i"
    using assms
    by (auto simp: evaluateMfa_def act_simps act_then_Inr_iff act_catch_def
        split: if_splits prod.splits sum.splits)
  have up: "rs_up (w_redis w)" using s by (auto simp: redis_set_def redis_cmd_def split: if_splits)
  show ?thesis using s r redis_run(1)[OF up, of ?k ?v 300] up by auto
qed

text \<open>
  C18: A login stopped for its second factor stores the challenge with no attempt left: the first
  wrong code deletes it and is answered as too many attempts, and from then on even the accepted
  code is refused.
\<close>

theorem first_wrong_code_ends_challenge:
  assumes "processLogin env sid t email password remember w = (Inr (MFA_REQUIRED c), w1)"
  shows "\<exists>u. findByEmailWithTenant email t (d_users (w_db w1)) = Some u \<and>
    (\<forall>env' code. ae_tenant env' = usr_tenant u \<and> ae_userId env' = usr_id u \<and> code \<noteq> accepted_code \<longrightarrow>
      (\<exists>w2. verifyLoginChallenge env' c code w1 = (Inl challenge_locked, w2) \<and>
        (\<forall>code'. verifyLoginChallenge env' c code' w2 = (Inl challenge_gone, w2))))"
proof -
  let ?pw = "\<lambda>u s. case password of Some (c # cs) \<Rightarrow> verifyUserPassword env u (c # cs) email s | _ \<Rightarrow> act_ret ()"
  obtain s0 wa wb wc u wd mfa we where v: "validateIpPolicy env t email w = (Inr s0, wa)"
    and e: "verifyTenantExistence t wa = (Inr (), wb)"
    and f: "fetchAndValidateUser env t email wb = (Inr u, wc)"
    and p: "?pw u s0 wc = (Inr (), wd)" and m: "evaluateMfa sid u s0 remember wd = (Inr mfa, we)"
    and rest: "(case mfa of Some r \<Rightarrow> act_ret r
       | None \<Rightarrow> act_bind (lift_result (generateAuthTokens env sid u remember)) (\<lambda>tokens.
           act_then (storeSessionAndLogSuccess env u sid remember)
           (act_ret (AUTHENTICATED (fst tokens) (snd tokens))))) we
       = (Inr (MFA_REQUIRED c), w1)"
    using assms unfolding processLogin_def act_bind_Inr_iff act_then_Inr_iff by blast
  have u: "findByEmailWithTenant email t (d_users (w_db w)) = Some u" and wc: "wc = w"
    using validateIpPolicy_Inr[OF v] verifyTenantExistence_Inr[OF e] fetchAndValidateUser_Inr[OF f] by auto
  have wd: "w_db wd = w_db w"
    using p wc by (auto split: option.splits list.splits dest: verifyUserPassword_Inr)
  have mf: "mfa = Some (MFA_REQUIRED c)" "we = w1"
    using rest by (auto simp: act_bind_Inr_iff act_then_Inr_iff split: option.splits)
  obtain x where up: "rs_up (w_redis w1)" and us: "d_users (w_db w1) = d_users (w_db w)" and c: "c = sid"
    and x: "redis_cells w1 (GenerateAuthMfaChallengeKey (usr_tenant u) (usr_id u) sid) = Some x"
    "cell_value x = RV_mfa \<lparr> mc_id = sid, mc_tenant = usr_tenant u, mc_userId = usr_id u,
        mc_attemptsLeft = 0, mc_rememberMe = remember \<rparr>"
    using evaluateMfa_challenge m mf wd by fastforce
  let ?k = "GenerateAuthMfaChallengeKey (usr_tenant u) (usr_id u) sid"
  define w2 where "w2 = upd_cells (filter (\<lambda>c. fst c \<noteq> ?k)) w1"
  have "u \<in> set (d_users (w_db w1))" using u us by (auto simp: findByEmailWithTenant_def dest: find_SomeD)
  then obtain q where q: "find (\<lambda>r. usr_id r = usr_id u \<and> usr_tenant r = usr_tenant u) (d_users (w_db w1)) = Some q"
    by (cases "find (\<lambda>r. usr_id r = usr_id u \<and> usr_tenant r = usr_tenant u) (d_users (w_db w1))")
       (auto simp: find_None_iff)
  have del: "redis_del [?k] w1 = (Inr (), w2)" using redis_run(3)[OF up, of "[?k]"] by (simp add: w2_def)
  have get: "getMfaChallenge (usr_tenant u) (usr_id u) sid w1 = (Inr (Some \<lparr> mc_id = sid,
      mc_tenant = usr_tenant u, mc_userId = usr_id u, mc_attemptsLeft = 0, mc_rememberMe = remember \<rparr>), w1)"
    by (rule getMfaChallenge_run[OF up x])
  have get2: "getMfaChallenge (usr_tenant u) (usr_id u) sid w2 = (Inr None, w2)"
    by (rule getMfaChallenge_none) (use up in \<open>simp_all add: w2_def\<close>)
  have q2: "find (\<lambda>r. usr_id r = usr_id u \<and> usr_tenant r = usr_tenant u) (d_users (w_db w2)) = Some q"
    using q by (simp add: w2_def)
  have wrong: "verifyLoginChallenge env' sid code w1 = (Inl challenge_locked, w2)"
    if "ae_tenant env' = usr_tenant u" "ae_userId env' = usr_id u" "code \<noteq> accepted_code" for env' code
    using that by (simp add: verifyLoginChallenge_def act_simps act_bind_def q required_def get
        decrementAttempts_def deleteMfaChallenge_def Let_def act_then_def act_catch_def del)
  have gone: "verifyLoginChallenge env' sid code w2 = (Inl challenge_gone, w2)"
    if "ae_tenant env' = usr_tenant u" "ae_userId env' = usr_id u" for env' code
    using that by (simp add: verifyLoginChallenge_def act_simps act_bind_def q2 required_def get2)
  have "\<exists>w2. verifyLoginChallenge env' c code w1 = (Inl challenge_locked, w2) \<and>
        (\<forall>code'. verifyLoginChallenge env' c code' w2 = (Inl challenge_gone, w2))"
    if "ae_tenant env' = usr_tenant u" "ae_userId env' = usr_id u" "code \<noteq> accepted_code" for env' code
    using wrong[OF that] gone[OF that(1,2)] c by blast
  then show ?thesis using u us by auto
qed

section \<open>Activating a factor\<close>

definition primaries_of :: "uuid \<Rightarrow> mfa_method list \<Rightarrow> mfa_method list" where
  "primaries_of u ms = filter (\<lambda>m. mf_userId m = u \<and> mf_isPrimary m \<and> mf_status m = Factor_active) ms"


definition sample_factor :: "uuid \<Rightarrow> mfa_factor_status \<Rightarrow> mfa_method" where
  "sample_factor i st = \<lparr> mf_id = i, mf_tenant = ''acme'', mf_userId = ''u1'', mf_type = TOTP, mf_status = st,
     mf_isPrimary = (st = Factor_active), mf_encryptedSecret = None, mf_verifiedAt = None, mf_disabledAt = None \<rparr>"

definition mfa_world :: auth_world where
  "mfa_world = login_world\<lparr> w_db := (w_db login_world)\<lparr>
     d_mfa := [sample_factor ''f1'' Factor_active, sample_factor ''f2'' Factor_pending] \<rparr> \<rparr>"

theorem first_wrong_code_ends_challenge_witness:
  "\<exists>w1 w2 u. processLogin sample_env ''cid'' ''acme'' ''ann@acme.io'' (Some ''pw'') None mfa_world = (Inr (MFA_REQUIRED ''cid''), w1) \<and>
     findByEmailWithTenant ''ann@acme.io'' ''acme'' (d_users (w_db w1)) = Some u \<and>
     verifyLoginChallenge sample_env ''cid'' ''000000'' w1 = (Inl challenge_locked, w2) \<and>
     verifyLoginChallenge sample_env ''cid'' accepted_code w2 = (Inl challenge_gone, w2)"
proof -
  let ?w = "snd (processLogin sample_env ''cid'' ''acme'' ''ann@acme.io'' (Some ''pw'') None mfa_world)"
  have "processLogin sample_env ''cid'' ''acme'' ''ann@acme.io'' (Some ''pw'') None mfa_world = (Inr (MFA_REQUIRED ''cid''), ?w)"
    by (simp add: mfa_world_def sample_factor_def login_sample_defs act_simps act_catch_def
      processLogin_def validateIpPolicy_def findByTenantCode_def ip_evaluate_def isExemptAction_def
      verifyTenantExistence_def tenant_exists_def fetchAndValidateUser_def findByEmailWithTenant_def
      verifyUserPassword_def findActiveByUseUnscope_def verifyPassword_def resetFailureCount_def
      with_adapter_def redis_del_def redis_cmd_def failure_key_def evaluateMfa_def findActiveByUserId_def
      mfa_required_def redis_set_def upd_cells_def act_then_def act_bind_def redis_client_def Let_def)
  from first_wrong_code_ends_challenge[OF this] obtain u where
    u: "findByEmailWithTenant ''ann@acme.io'' ''acme'' (d_users (w_db ?w)) = Some u"
    and q: "\<forall>env' code. ae_tenant env' = usr_tenant u \<and> ae_userId env' = usr_id u \<and> code \<noteq> accepted_code \<longrightarrow>
      (\<exists>w2. verifyLoginChallenge env' ''cid'' code ?w = (Inl challenge_locked, w2) \<and>
        (\<forall>code'. verifyLoginChallenge env' ''cid'' code' w2 = (Inl challenge_gone, w2)))"
    by blast
  have "''000000'' \<noteq> accepted_code" by (simp add: accepted_code_def)
  moreover have "ae_tenant sample_env = usr_tenant u \<and> ae_userId sample_env = usr_id u"
  proof -
    have "login_kept mfa_world ?w"
      by (rule keepsD[OF keeps_processLogin \<open>processLogin sample_env ''cid'' ''acme'' ''ann@acme.io'' (Some ''pw'') None mfa_world = _\<close>])
    moreover have "d_users (w_db mfa_world) = [sample_user]" by (simp add: mfa_world_def login_world_def sample_auth_defs)
    ultimately obtain x where "d_users (w_db ?w) = [x]" and x: "same_identity sample_user x"
      unfolding login_kept_def by (auto simp: list_all2_Cons1)
    then have "u = x" using u by (simp add: findByEmailWithTenant_def split: if_splits)
    moreover have "usr_id x = usr_id sample_user" "usr_tenant x = usr_tenant sample_user"
      by (subst x[unfolded same_identity_def], simp)+
    ultimately show ?thesis by (simp add: sample_env_def sample_user_def)
  qed
  ultimately show ?thesis
    using \<open>processLogin sample_env ''cid'' ''acme'' ''ann@acme.io'' (Some ''pw'') None mfa_world = (Inr (MFA_REQUIRED ''cid''), ?w)\<close> u q
    by blast
qed

section \<open>The administrator's reset is complete\<close>

text \<open>
  After an administrator's reset no factor of the user is active or primary in the tenant, the
  user's security version went up by one, and a target without a user row in the tenant changes
  nothing in the database.
\<close>

theorem mfa_reset_exact:
  shows "case resetUserMfa env target w of
    (Inr n, w') \<Rightarrow> findActivePrimary (ae_tenant env) target (d_mfa (w_db w')) = None \<and>
      filter (\<lambda>m. mf_tenant m = ae_tenant env) (findActiveByUserId target (d_mfa (w_db w'))) = [] \<and>
      d_users (w_db w') = snd (incrementSecurityVersionById (ae_tenant env) target (d_users (w_db w))) \<and>
      (\<exists>u \<in> set (d_users (w_db w)). usr_id u = target \<and> usr_tenant u = ae_tenant env)
  | (Inl e, w') \<Rightarrow> w_db w' = w_db w"
proof (cases "resetUserMfa env target w")
  case (Pair r w')
  show ?thesis
  proof (cases r)
    case (Inl e)
    then show ?thesis using Pair by (auto simp: resetUserMfa_def db_tx_def act_tx_def split: prod.splits sum.splits)
  next
    case (Inr n)
    define w2 where "w2 = upd_db (d_users_update (\<lambda>_. snd (incrementSecurityVersionById (ae_tenant env) target (d_users (w_db w)))))
      (upd_db (d_mfa_update (update_rows (\<lambda>m. mf_userId m = target \<and> mf_tenant m = ae_tenant env)
        (\<lambda>m. m\<lparr> mf_status := Factor_disabled, mf_disabledAt := Some (ae_now env), mf_isPrimary := False \<rparr>))) w)"
    have hit: "fst (incrementSecurityVersionById (ae_tenant env) target (d_users (w_db w))) \<noteq> 0"
      and rest: "act_then (log_event env (mfa_reset_event env target)) (revoke_listed env target) w2 = (Inr n, w')"
      using Pair Inr
      by (auto simp: resetUserMfa_def db_tx_def act_tx_Inr_iff disableAllUserFactors_def act_simps w2_def
          split: if_splits)
    have "keeps redis_only (del_each ks)" for ks
      by (induction ks) (auto intro!: redis_frame.keeps_rules keeps_redis_only)
    then have "keeps redis_only (revoke_listed env target)"
      unfolding revoke_listed_def Let_def by (auto intro!: redis_frame.keeps_rules keeps_redis_only)
    then have db: "d_users (w_db w') = d_users (w_db w2)" "d_mfa (w_db w') = d_mfa (w_db w2)"
      using rest by (auto simp: act_simps redis_only_def dest!: keepsD)
    have off: "mf_status m = Factor_disabled \<and> \<not> mf_isPrimary m"
      if m: "m \<in> set (d_mfa (w_db w'))" and own: "mf_userId m = target" "mf_tenant m = ae_tenant env" for m
    proof -
      obtain r where "r \<in> set (d_mfa (w_db w))" "m = (if mf_userId r = target \<and> mf_tenant r = ae_tenant env
          then r\<lparr> mf_status := Factor_disabled, mf_disabledAt := Some (ae_now env), mf_isPrimary := False \<rparr> else r)"
        using m unfolding db w2_def by (simp add: in_update_rows) blast
      then show ?thesis using own by (auto split: if_splits)
    qed
    have "findActivePrimary (ae_tenant env) target (d_mfa (w_db w')) = None"
      using off by (auto simp: findActivePrimary_def find_None_iff)
    moreover have "filter (\<lambda>m. mf_tenant m = ae_tenant env) (findActiveByUserId target (d_mfa (w_db w'))) = []"
      using off by (auto simp: findActiveByUserId_def filter_empty_conv)
    moreover have "\<exists>u \<in> set (d_users (w_db w)). usr_id u = target \<and> usr_tenant u = ae_tenant env"
      using hit by (auto simp: incrementSecurityVersionById_def Let_def filter_empty_conv)
    ultimately show ?thesis using Pair Inr db(1) by (simp add: w2_def)
  qed
qed

end
