(* ===== verification/Auth_Requests.thy ===== *)
theory Auth_Requests
  imports Mfa
begin

text \<open>
  The endpoints of the authentication side: \<^verbatim>\<open>AuthController\<close>,
  \<^verbatim>\<open>MfaController\<close>, \<^verbatim>\<open>MfaAdminController\<close> and
  \<^verbatim>\<open>SessionController\<close>.  An answer is its body and the cookies it sets.
\<close>

section \<open>Answers\<close>

record login_answer =
  la_authState :: string
  la_accessToken :: "string option"
  la_challengeId :: "uuid option"

record cookie =
  ck_name :: string
  ck_value :: string
  ck_httpOnly :: bool
  ck_secure :: bool
  ck_sameSite :: string
  ck_path :: string

definition refresh_cookie :: "string \<Rightarrow> cookie" where
  "refresh_cookie refreshToken =
    \<lparr> ck_name = ''__Host-refresh-token'', ck_value = refreshToken, ck_httpOnly = True, ck_secure = True,
      ck_sameSite = ''lax'', ck_path = ''/'' \<rparr>"

definition refresh_cookies :: "string \<Rightarrow> cookie list" where
  "refresh_cookies refreshToken = (if refreshToken = [] then [] else [refresh_cookie refreshToken])"

fun login_answer_of :: "login_result \<Rightarrow> login_answer \<times> cookie list" where
  "login_answer_of (AUTHENTICATED access refresh) =
     (\<lparr> la_authState = ''AUTHENTICATED'', la_accessToken = Some access, la_challengeId = None \<rparr>,
      refresh_cookies refresh)"
| "login_answer_of (MFA_REQUIRED challenge) =
     (\<lparr> la_authState = ''MFA_REQUIRED'', la_accessToken = None, la_challengeId = Some challenge \<rparr>, [])"

section \<open>Logging in\<close>

definition login :: "auth_env \<Rightarrow> string \<Rightarrow> string \<Rightarrow> bool option \<Rightarrow> (login_answer \<times> cookie list) auth_act" where
  "login env email password remember =
    act_bind (loginWithPassword env email password remember) (\<lambda>result. act_ret (login_answer_of result))"

definition login_firebase ::
  "tenant \<Rightarrow> auth_env \<Rightarrow> (string \<Rightarrow> sdk_outcome) option \<Rightarrow> string \<Rightarrow> (login_answer \<times> cookie list) auth_act" where
  "login_firebase DEFAULT_TENANT_CODE env sdk idToken =
    act_bind (loginWithFirebase DEFAULT_TENANT_CODE env sdk idToken) (\<lambda>result. act_ret (login_answer_of result))"

definition verifyChallenge :: "auth_env \<Rightarrow> uuid \<Rightarrow> string \<Rightarrow> (string \<times> cookie list) auth_act" where
  "verifyChallenge env challengeId code =
    act_bind (verifyLoginChallenge env challengeId code) (\<lambda>tokens.
      act_ret (fst tokens, refresh_cookies (snd tokens)))"

text \<open>The endpoint is declared public; it passes the identifier on with no check of the caller.\<close>

definition resetUserMfa_request :: "auth_env \<Rightarrow> uuid \<Rightarrow> nat auth_act" where
  "resetUserMfa_request env target = resetUserMfa env target"

section \<open>Sessions\<close>

text \<open>
  The user the platform attached to the request, if any; what it lacks is filled in with the
  platform's default identity.
\<close>

record request_user =
  ru_tenantCode :: "tenant option"
  ru_userId :: "uuid option"
  ru_sessionId :: "uuid option"

record default_identity =
  di_tenantCode :: tenant
  di_userId :: uuid
  di_sessionId :: uuid

definition or_default :: "string option \<Rightarrow> string \<Rightarrow> string" where
  "or_default x d = (case truthy_id x of None \<Rightarrow> d | Some y \<Rightarrow> y)"

definition user_field :: "(request_user \<Rightarrow> string option) \<Rightarrow> request_user option \<Rightarrow> string option" where
  "user_field f u = (case u of None \<Rightarrow> None | Some r \<Rightarrow> f r)"

definition logout :: "bool \<Rightarrow> default_identity \<Rightarrow> auth_env \<Rightarrow> request_user option \<Rightarrow> int auth_act" where
  "logout mentions_redis d env user =
    logoutCurrentSession mentions_redis env
      (or_default (user_field ru_tenantCode user) (di_tenantCode d))
      (or_default (user_field ru_userId user) (di_userId d))
      (or_default (user_field ru_sessionId user) (di_sessionId d))"

definition forceLogout ::
  "default_identity \<Rightarrow> auth_env \<Rightarrow> request_user option \<Rightarrow> uuid \<Rightarrow> string option \<Rightarrow> int auth_act" where
  "forceLogout d env user target reason =
    revokeAllUserSessions env (or_default (user_field ru_tenantCode user) (di_tenantCode d)) target
      (or_default (user_field ru_userId user) (di_userId d)) reason"

section \<open>What a body carries\<close>

lemma login_answer_split:
  "login env email password remember w = (case loginWithPassword env email password remember w of
     (Inl e, w') \<Rightarrow> (Inl e, w') | (Inr r, w') \<Rightarrow> (Inr (login_answer_of r), w'))"
  by (simp add: login_def act_bind_def act_simps split: prod.splits sum.splits)

section \<open>Completing the challenge\<close>

definition cell_kept :: "string \<Rightarrow> auth_world \<Rightarrow> auth_world \<Rightarrow> bool" where
  "cell_kept k w w' \<longleftrightarrow> redis_cells w' k = redis_cells w k \<and> d_users (w_db w') = d_users (w_db w)"

interpretation cell: kept_relation "cell_kept k" for k
  by unfold_locales (simp_all add: cell_kept_def)

lemma cell_kept_commands:
  "keeps (cell_kept k) (db_read q)" "keeps (cell_kept k) (log_event env d)" "keeps (cell_kept k) redis_client"
  "k' \<noteq> k \<Longrightarrow> keeps (cell_kept k) (redis_set k' v ttl)" "k' \<noteq> k \<Longrightarrow> keeps (cell_kept k) (redis_sadd k' x)"
  "k' \<noteq> k \<Longrightarrow> keeps (cell_kept k) (redis_expire k' ttl)"
proof -
  show "keeps (cell_kept k) (db_read q)" "keeps (cell_kept k) (log_event env d)" "keeps (cell_kept k) redis_client"
    by (simp_all add: keeps_def cell_kept_def db_run redis_client_def act_simps redis_cells_def log_event_def
        db_write_def upd_db_def)
qed (auto simp: keeps_def cell_kept_def redis_set_def redis_sadd_def redis_expire_def redis_cmd_def
      redis_cells_def upd_cells_def update_conv' map_of_expire split: option.splits redis_value.splits prod.splits)

lemma storeSession_frame:
  assumes "ae_session_key env sid \<noteq> k" "ae_user_sessions_key env False (usr_tenant u) (usr_id u) \<noteq> k"
  shows "keeps (cell_kept k) (storeSessionAndLogSuccess env u sid remember)"
  unfolding storeSessionAndLogSuccess_def Let_def
  by (intro cell.keeps_rules cell_kept_commands assms)

text \<open>
  C12: A stored login challenge answered with the accepted code gives tokens and a listed session
  whatever became of the account since: its status is not looked at.  The refresh token leaves in
  the cookie only and the challenge is spent.
\<close>

theorem challenge_admits_any_status:
  assumes "redis_ready w"
    and "find (\<lambda>r. usr_id r = ae_userId env \<and> usr_tenant r = ae_tenant env) (d_users (w_db w)) = Some u"
    and "redis_cells w (GenerateAuthMfaChallengeKey (ae_tenant env) (ae_userId env) challengeId) = Some x"
    and "cell_value x = RV_mfa d"
    and "generateAuthTokens env (ae_uuid env 0) u (mc_rememberMe d) = Ok (access, refresh)" "refresh \<noteq> []"
    and keys: "distinct [GenerateAuthMfaChallengeKey (ae_tenant env) (ae_userId env) challengeId,
      ae_session_key env (ae_uuid env 0), ae_user_sessions_key env False (usr_tenant u) (usr_id u)]"
    and "is_set_cell (redis_cells w (ae_user_sessions_key env False (usr_tenant u) (usr_id u))) xs"
  shows "\<exists>w' c. verifyChallenge env challengeId accepted_code w = (Inr (access, [refresh_cookie refresh]), w') \<and>
    redis_cells w' (ae_session_key env (ae_uuid env 0)) = Some c \<and>
    cell_value c = RV_session (session_of u (ae_uuid env 0) (session_employee_of env u (d_employees (w_db w)))) \<and>
    is_set_cell (redis_cells w' (ae_user_sessions_key env False (usr_tenant u) (usr_id u))) (js_add (ae_uuid env 0) xs) \<and>
    (\<forall>code. verifyChallenge env challengeId code w' = (Inl challenge_gone, w'))"
proof -
  let ?k = "GenerateAuthMfaChallengeKey (ae_tenant env) (ae_userId env) challengeId" and ?sid = "ae_uuid env 0"
  let ?i = "ae_user_sessions_key env False (usr_tenant u) (usr_id u)"
  define w1 where "w1 = upd_cells (filter (\<lambda>c. fst c \<noteq> ?k)) w"
  have up: "rs_up (w_redis w)" using assms(1) by simp
  have w1: "redis_ready w1" "w_db w1 = w_db w" "redis_cells w1 ?k = None"
    using assms(1) by (simp_all add: w1_def)
  have del: "deleteMfaChallenge (ae_tenant env) (ae_userId env) challengeId w = (Inr (), w1)"
    using redis_run(3)[OF up, of "[?k]"] by (simp add: deleteMfaChallenge_def act_catch_def w1_def)
  have index: "is_set_cell (redis_cells w1 ?i) xs" using assms(8) keys by (auto simp: w1_def redis_cells_def)
  obtain w2 where s: "storeSessionAndLogSuccess env u ?sid (mc_rememberMe d) w1 = (Inr (), w2)"
    and i: "is_set_cell (redis_cells w2 ?i) (js_add ?sid xs)"
    and c: "\<exists>c. redis_cells w2 (ae_session_key env ?sid) = Some c \<and>
      cell_value c = RV_session (session_of u ?sid (session_employee_of env u (d_employees (w_db w1))))"
    and r2: "redis_ready w2"
    using storeSession_run[OF w1(1) _ index, of ?sid] keys by auto
  have "cell_kept ?k w1 w2"
    using keepsD[OF storeSession_frame s] keys by auto
  then have gone: "redis_cells w2 ?k = None" and us: "d_users (w_db w2) = d_users (w_db w)"
    using w1 by (simp_all add: cell_kept_def)
  have "verifyLoginChallenge env challengeId accepted_code w = (Inr (access, refresh), w2)"
    using assms(2,5) del s getMfaChallenge_run[OF up assms(3,4)]
    by (simp add: verifyLoginChallenge_def required_def act_simps act_bind_value act_then_value lift_result_def)
  then have "verifyChallenge env challengeId accepted_code w = (Inr (access, [refresh_cookie refresh]), w2)"
    using assms(6) by (simp add: verifyChallenge_def act_bind_value refresh_cookies_def act_simps)
  moreover have "verifyChallenge env challengeId code w2 = (Inl challenge_gone, w2)" for code
    using us assms(2) getMfaChallenge_none[OF _ gone] r2
    by (simp add: verifyChallenge_def verifyLoginChallenge_def required_def act_simps act_bind_value)
  ultimately show ?thesis using i c w1(2) by auto
qed

definition locked_world :: auth_world where
  "locked_world = login_world\<lparr> w_db := (w_db login_world)\<lparr> d_users := [sample_user\<lparr> usr_status := User_locked \<rparr>] \<rparr>,
     w_redis := (w_redis login_world)\<lparr> rs_cells := [(GenerateAuthMfaChallengeKey ''acme'' ''u1'' ''ch'',
       \<lparr> cell_value = RV_mfa \<lparr> mc_id = ''ch'', mc_tenant = ''acme'', mc_userId = ''u1'', mc_attemptsLeft = 0,
           mc_rememberMe = None \<rparr>, cell_ttl = Some 300 \<rparr>)] \<rparr> \<rparr>"

text \<open>An account locked between its password and its code.\<close>

theorem challenge_admits_any_status_witness:
  "map usr_status (d_users (w_db locked_world)) = [User_locked] \<and>
   (\<exists>w' c. verifyChallenge sample_env ''ch'' accepted_code locked_world = (Inr (''2h'', [refresh_cookie ''7d'']), w') \<and>
      redis_cells w' ''session:sid'' = Some c)"
  using challenge_admits_any_status[of locked_world sample_env "sample_user\<lparr> usr_status := User_locked \<rparr>" "''ch''" _ _ "''2h''" "''7d''" "[]"]
  by (force simp: locked_world_def login_sample_defs generateAuthTokens_def truthy_id_def
      GenerateAuthMfaChallengeKey_def is_set_cell_def redis_cells_def)

end
