(* ===== verification/Kms_Crypto.thy ===== *)
theory Kms_Crypto
  imports Mfa "HOL-Library.Word"
begin

text \<open>
  \<^verbatim>\<open>KmsCryptoAdapter\<close>, which protects the secrets of second factors: the master key
  taken from the environment, the hexadecimal text of a ciphertext and its way back.  Bytes are
  8-bit words.  AES-256-GCM itself and the UTF-8 coding of texts are parameters.
\<close>

section \<open>Bytes and their text\<close>

type_synonym byte = "8 word"

definition hex_digits :: string where
  "hex_digits = ''0123456789abcdef''"

definition hex_byte :: "byte \<Rightarrow> string" where
  "hex_byte b = [hex_digits ! (unat b div 16), hex_digits ! (unat b mod 16)]"

definition to_hex :: "byte list \<Rightarrow> string" where
  "to_hex bs = concat (map hex_byte bs)"

definition hex_value :: "char \<Rightarrow> nat option" where
  "hex_value c = map_of (zip (hex_digits @ ''ABCDEF'') ([0..<16] @ [10..<16])) c"

text \<open>\<^verbatim>\<open>Buffer.from(s, 'hex')\<close> reads pairs of digits and stops at the first that is none.\<close>

fun from_hex :: "string \<Rightarrow> byte list" where
  "from_hex (a # b # s) =
    (case (hex_value a, hex_value b) of
       (Some x, Some y) \<Rightarrow> word_of_nat (16 * x + y) # from_hex s
     | _ \<Rightarrow> [])"
| "from_hex s = []"

section \<open>The adapter\<close>

record kms_env =
  km_raw_key :: "string option"
  km_utf8 :: "string \<Rightarrow> byte list"
  km_text :: "byte list \<Rightarrow> string"
  km_seal :: "byte list \<Rightarrow> byte list \<Rightarrow> byte list \<Rightarrow> byte list \<times> byte list"
  km_open :: "byte list \<Rightarrow> byte list \<Rightarrow> byte list \<Rightarrow> byte list \<Rightarrow> byte list option"

datatype kms_error = Invalid_ciphertext_format | Decipher_failed

definition default_master_key :: string where
  "default_master_key = ''default-kms-master-key-32-bytes!!''"

definition masterKey :: "kms_env \<Rightarrow> byte list" where
  "masterKey env =
    (let raw = km_utf8 env (case km_raw_key env of Some (c # cs) \<Rightarrow> c # cs | _ \<Rightarrow> default_master_key)
     in take 32 raw @ replicate (32 - length raw) 0)"

definition encrypt :: "kms_env \<Rightarrow> byte list \<Rightarrow> string \<Rightarrow> string" where
  "encrypt env iv plaintext =
    (case km_seal env (masterKey env) iv (km_utf8 env plaintext) of
       (encrypted, tag) \<Rightarrow> to_hex iv @ '':'' @ to_hex tag @ '':'' @ to_hex encrypted)"

definition decrypt :: "kms_env \<Rightarrow> string \<Rightarrow> kms_error + string" where
  "decrypt env ciphertext =
    (case js_split CHR '':'' ciphertext of
       [iv, tag, encrypted] \<Rightarrow>
         (case km_open env (masterKey env) (from_hex iv) (from_hex tag) (from_hex encrypted) of
            None \<Rightarrow> Inl Decipher_failed
          | Some p \<Rightarrow> Inr (km_text env p))
     | _ \<Rightarrow> Inl Invalid_ciphertext_format)"

section \<open>Hexadecimal round trip\<close>

lemma hex_value_digit: "n < 16 \<Longrightarrow> hex_value (hex_digits ! n) = Some n"
proof -
  have "\<forall>n \<in> set [0..<16]. hex_value (hex_digits ! n) = Some n" by code_simp
  then show "n < 16 \<Longrightarrow> hex_value (hex_digits ! n) = Some n" by simp
qed

lemma digit_no_colon: "n < 16 \<Longrightarrow> hex_digits ! n \<noteq> CHR '':''"
proof -
  have "\<forall>n \<in> set [0..<16]. hex_digits ! n \<noteq> CHR '':''" by code_simp
  then show "n < 16 \<Longrightarrow> hex_digits ! n \<noteq> CHR '':''" by simp
qed

lemma byte_halves: "unat (b :: byte) div 16 < 16" "unat b mod 16 < 16"
  using unsigned_less[of b, where 'a = nat] by auto

lemma from_hex_to_hex [simp]: "from_hex (to_hex bs) = bs"
proof (induction bs)
  case (Cons b bs)
  have "word_of_nat (16 * (unat b div 16) + unat b mod 16) = b" by simp
  then show ?case using Cons byte_halves[of b]
    by (simp add: to_hex_def hex_byte_def hex_value_digit)
qed (simp add: to_hex_def)

lemma to_hex_no_colon [simp]: "CHR '':'' \<notin> set (to_hex bs)"
  using digit_no_colon byte_halves by (auto simp: to_hex_def hex_byte_def dest: sym)

lemma split_two_seps:
  "sep \<notin> set a \<Longrightarrow> sep \<notin> set b \<Longrightarrow> sep \<notin> set c \<Longrightarrow> js_split sep (a @ sep # b @ sep # c) = [a, b, c]"
  by (induction a) (auto simp: js_split_Cons js_split_one_sep)

lemma masterKey_length: "length (masterKey env) = 32"
  by (simp add: masterKey_def Let_def)

section \<open>Properties\<close>


definition toy_kms :: "string \<Rightarrow> kms_env" where
  "toy_kms raw = \<lparr> km_raw_key = Some raw,
     km_utf8 = map (\<lambda>c. word_of_nat (of_char c)), km_text = map (\<lambda>b. char_of (unat b)),
     km_seal = (\<lambda>k iv p. (map (\<lambda>b. b + hd k) p, [0])),
     km_open = (\<lambda>k iv t c. if t = [0] then Some (map (\<lambda>b. b - hd k) c) else None) \<rparr>"


end
