(* ===== verification/Password_Reset.thy ===== *)
theory Password_Reset
  imports Sessions
begin

text \<open>
  Password recovery: the challenge store \<^verbatim>\<open>PasswordResetRedisAdapter\<close> and
  \<^verbatim>\<open>PasswordService\<close>.
\<close>

section \<open>The challenge store\<close>

definition reset_key :: "uuid \<Rightarrow> tenant \<Rightarrow> uuid \<Rightarrow> string" where
  "reset_key c t u = ''auth:password-reset:{'' @ t @ '':'' @ u @ ''}:'' @ c"

definition reset_ttl :: int where
  "reset_ttl = 900"

definition saveChallenge :: "uuid \<Rightarrow> reset_challenge \<Rightarrow> unit auth_act" where
  "saveChallenge c d =
    redis_set (reset_key c (rc_tenant d) (rc_userId d)) (RV_reset (d\<lparr> rc_attempts := 0 \<rparr>)) reset_ttl"

text \<open>A value that is no challenge does not parse.\<close>

definition getChallenge :: "uuid \<Rightarrow> tenant \<Rightarrow> uuid \<Rightarrow> reset_challenge option auth_act" where
  "getChallenge c t u =
    act_bind (redis_get (reset_key c t u)) (\<lambda>raw.
      (case raw of
         None \<Rightarrow> act_ret None
       | Some (RV_reset d) \<Rightarrow> act_ret (Some d)
       | Some _ \<Rightarrow> act_throw Redis_error))"

definition incrementAttempts :: "uuid \<Rightarrow> tenant \<Rightarrow> uuid \<Rightarrow> int auth_act" where
  "incrementAttempts c t u =
    act_bind (getChallenge c t u) (\<lambda>found.
      (case found of
         None \<Rightarrow> act_ret 0
       | Some d \<Rightarrow>
           (let d' = d\<lparr> rc_attempts := rc_attempts d + 1 \<rparr> in
            act_then (redis_set (reset_key c t u) (RV_reset d') reset_ttl)
            (act_ret (rc_attempts d')))))"

definition markCodeVerified :: "uuid \<Rightarrow> tenant \<Rightarrow> uuid \<Rightarrow> string \<Rightarrow> unit auth_act" where
  "markCodeVerified c t u tok =
    act_bind (getChallenge c t u) (\<lambda>found.
      (case found of
         None \<Rightarrow> act_ret ()
       | Some d \<Rightarrow>
           redis_set (reset_key c t u)
             (RV_reset (d\<lparr> rc_codeVerified := True, rc_resetToken := Some tok \<rparr>)) reset_ttl))"

text \<open>The client's and the provider's delete do the same.\<close>

definition deleteResetChallenge :: "uuid \<Rightarrow> tenant \<Rightarrow> uuid \<Rightarrow> unit auth_act" where
  "deleteResetChallenge c t u = redis_del [reset_key c t u]"

section \<open>Requests\<close>

definition hashOtpCode :: "auth_env \<Rightarrow> string \<Rightarrow> string" where
  "hashOtpCode env code = ae_hmac env code"

definition reset_sent_message :: string where
  "reset_sent_message = ''If an active account exists, recovery instructions have been sent.''"

definition start_reset :: "auth_env \<Rightarrow> tenant \<Rightarrow> app_user \<Rightarrow> bool \<Rightarrow> unit auth_act" where
  "start_reset env t u byAdmin =
    act_then (saveChallenge (ae_uuid env 0)
       \<lparr> rc_tenant = t, rc_userId = usr_id u, rc_hashedCode = hashOtpCode env (ae_otp env),
         rc_codeVerified = False, rc_resetToken = None, rc_attempts = 0 \<rparr>)
    (db_tx (log_event env (passwordResetRequested t (usr_id u) (usr_displayEmail u) (ae_uuid env 0) byAdmin)))"

definition requestResetCode :: "auth_env \<Rightarrow> tenant \<Rightarrow> string \<Rightarrow> string auth_act" where
  "requestResetCode env t email =
    act_bind (db_read (\<lambda>db. findByTenantCode t (d_settings db))) (\<lambda>settings.
      if (case settings of None \<Rightarrow> False | Some s \<Rightarrow> as_needAdminResetPassword s)
      then act_throw SelfServiceResetDisabledException
      else act_bind (db_read (\<lambda>db. find (\<lambda>u. usr_tenant u = t \<and>
             usr_normalizedEmail u = js_lower (js_trim email) \<and> usr_status u = User_active) (d_users db)))
        (\<lambda>user.
          (case user of
             None \<Rightarrow> act_ret reset_sent_message
           | Some u \<Rightarrow> act_then (start_reset env t u False) (act_ret reset_sent_message))))"

definition adminInitiateReset :: "auth_env \<Rightarrow> uuid \<Rightarrow> string auth_act" where
  "adminInitiateReset env userId =
    act_bind (db_read (\<lambda>db. find (\<lambda>u. usr_id u = userId \<and> usr_status u = User_active \<and>
        usr_tenant u = ae_tenant env) (d_users db))) (\<lambda>found.
      act_bind (required found) (\<lambda>u.
        act_then (start_reset env (ae_tenant env) u True)
          (act_ret ''Password reset workflow initiated for user.'')))"

record verify_code_dto =
  vc_challengeId :: uuid
  vc_tenant :: tenant
  vc_userId :: uuid
  vc_code :: string

definition verifyResetCode :: "auth_env \<Rightarrow> verify_code_dto \<Rightarrow> string auth_act" where
  "verifyResetCode env d =
    act_bind (getChallenge (vc_challengeId d) (vc_tenant d) (vc_userId d)) (\<lambda>found.
      (case found of
         None \<Rightarrow> act_throw InvalidResetChallengeException
       | Some c \<Rightarrow>
           if rc_attempts c \<ge> 3 then act_throw MaxAttemptsExceededException
           else if hashOtpCode env (vc_code d) \<noteq> rc_hashedCode c
           then act_bind (incrementAttempts (vc_challengeId d) (vc_tenant d) (vc_userId d)) (\<lambda>n.
             if n \<ge> 3 then act_throw MaxAttemptsExceededException
             else act_throw InvalidResetCodeException)
           else act_then (markCodeVerified (vc_challengeId d) (vc_tenant d) (vc_userId d) (ae_uuid env 0))
             (act_ret (ae_uuid env 0))))"

section \<open>Changing the password\<close>

definition new_credential :: "auth_env \<Rightarrow> uuid \<Rightarrow> string \<Rightarrow> auth_db \<Rightarrow> credential" where
  "new_credential env u password db =
    \<lparr> cr_id = ae_row_id env (map cr_id (d_credentials db)), cr_tenant = ae_tenant env, cr_userId = u,
      cr_passwordHash = ae_hash env password, cr_algorithm = ''argon2id'', cr_status = Credential_active,
      cr_passwordChangedAt = Some (ae_now env) \<rparr>"

text \<open>The schema has a unique index on the active credential of a user.\<close>

definition create_credential :: "auth_env \<Rightarrow> uuid \<Rightarrow> string \<Rightarrow> unit auth_act" where
  "create_credential env u password =
    act_bind (db_read d_credentials) (\<lambda>cs.
      if list_ex (\<lambda>c. cr_userId c = u \<and> cr_status c = Credential_active) cs then act_throw Unique_index_violation
      else db_write (\<lambda>db. db\<lparr> d_credentials := d_credentials db @ [new_credential env u password db] \<rparr>))"

definition update_credential :: "uuid \<Rightarrow> (credential \<Rightarrow> credential) \<Rightarrow> unit auth_act" where
  "update_credential i f = db_write (d_credentials_update (update_rows (\<lambda>c. cr_id c = i) f))"

record confirm_reset_dto =
  cf_challengeId :: uuid
  cf_tenant :: tenant
  cf_userId :: uuid
  cf_resetToken :: string
  cf_newPassword :: string

text \<open>
  The security version is written back as it was read: the source increments the loaded value
  after taking it.
\<close>

definition store_new_password :: "auth_env \<Rightarrow> confirm_reset_dto \<Rightarrow> unit auth_act" where
  "store_new_password env d =
    db_tx (act_bind (db_read (\<lambda>db. findByIdUnscoped (cf_userId d) (d_users db))) (\<lambda>found.
      act_bind (required found) (\<lambda>user.
      act_bind (db_read (\<lambda>db. findActiveByUseUnscope (cf_userId d) (d_credentials db))) (\<lambda>active.
      act_then (case active of
                  None \<Rightarrow> act_ret ()
                | Some c \<Rightarrow> update_credential (cr_id c) (cr_status_update (\<lambda>_. Credential_superseded)))
      (act_then (create_credential env (usr_id user) (cf_newPassword d))
      (act_then (update_user (usr_id user) (usr_securityVersion_update (\<lambda>_. usr_securityVersion user)))
      (log_event env (passwordResetCompleted (cf_tenant d) (usr_id user) ''self_service'')))))))) "

definition confirmPasswordReset :: "auth_env \<Rightarrow> confirm_reset_dto \<Rightarrow> bool auth_act" where
  "confirmPasswordReset env d =
    act_bind (getChallenge (cf_challengeId d) (cf_tenant d) (cf_userId d)) (\<lambda>found.
      if (case found of None \<Rightarrow> True
          | Some c \<Rightarrow> \<not> rc_codeVerified c \<or> rc_resetToken c \<noteq> Some (cf_resetToken d))
      then act_throw InvalidResetChallengeException
      else act_then (store_new_password env d)
        (act_then (act_catch (revokeAllSessions env (cf_tenant d) (cf_userId d)) (\<lambda>_. act_ret ()))
        (act_then (deleteResetChallenge (cf_challengeId d) (cf_tenant d) (cf_userId d))
        (act_ret True))))"

section \<open>First password after a single sign-on\<close>

definition open_invitation :: "invitation \<Rightarrow> bool" where
  "open_invitation i = (inv_status i = Inv_pending \<or> inv_status i = Inv_sent)"

text \<open>An update of an invitation also advances the version column.\<close>

definition bumped_version :: "(invitation \<Rightarrow> invitation) \<Rightarrow> invitation \<Rightarrow> invitation" where
  "bumped_version f r = (f r)\<lparr> inv_version := inv_version r + 1 \<rparr>"

lemma bumped_version_fields [simp]:
  "inv_id (bumped_version f r) = inv_id (f r)" "inv_userId (bumped_version f r) = inv_userId (f r)"
  "inv_status (bumped_version f r) = inv_status (f r)" "inv_tokenHash (bumped_version f r) = inv_tokenHash (f r)"
  "inv_tenant (bumped_version f r) = inv_tenant (f r)"
  by (simp_all add: bumped_version_def)

definition cancelPendingInvitations :: "auth_env \<Rightarrow> uuid \<Rightarrow> unit auth_act" where
  "cancelPendingInvitations env u =
    db_write (d_invitations_update (update_rows
      (\<lambda>i. inv_userId i = u \<and> inv_tenant i = ae_tenant env \<and> open_invitation i)
      (bumped_version (\<lambda>i. i\<lparr> inv_status := Inv_cancelled, inv_revokedAt := Some (ae_now env) \<rparr>))))"

definition sso_setup_key :: "string \<Rightarrow> string" where
  "sso_setup_key flowId = ''auth:sso-setup:'' @ flowId"

definition setup_password_tx :: "auth_env \<Rightarrow> uuid \<Rightarrow> string \<Rightarrow> unit auth_act" where
  "setup_password_tx env userId password =
    db_tx (act_bind (db_read (\<lambda>db. find (\<lambda>u. usr_id u = userId \<and> usr_tenant u = ae_tenant env) (d_users db)))
      (\<lambda>found. act_bind (required found) (\<lambda>user.
      act_bind (db_read (\<lambda>db. find (\<lambda>c. cr_userId c = usr_id user \<and> cr_status c = Credential_active \<and>
          cr_tenant c = ae_tenant env) (d_credentials db))) (\<lambda>existing.
      if existing \<noteq> None then act_throw CredentialAlreadyExistsError
      else act_then (create_credential env (usr_id user) password)
        (act_then (update_user (usr_id user) (\<lambda>u. u\<lparr> usr_status := User_active,
            usr_credentialStatus := Credential_active, usr_securityVersion := usr_securityVersion user \<rparr>))
        (act_bind (db_read (\<lambda>db. find (\<lambda>i. inv_userId i = usr_id user \<and> open_invitation i \<and>
            inv_tenant i = ae_tenant env) (d_invitations db))) (\<lambda>pending.
        act_then (case pending of
                    None \<Rightarrow> act_ret ()
                  | Some i \<Rightarrow> log_event env (invitationAccepted (ae_tenant env) (usr_id user) (inv_id i)
                      (ae_iso env (ae_now env)) (Some ''SSO_SETUP'')))
        (act_then (cancelPendingInvitations env (usr_id user))
        (log_event env (passwordChanged (ae_tenant env) (usr_id user) ''SSO_FALLBACK_FIRST_TIME_SETUP''
            (Some (usr_id user, ''USER'')))))))))))) "

definition setupPasswordViaSsoFallback :: "auth_env \<Rightarrow> string \<Rightarrow> uuid \<Rightarrow> string \<Rightarrow> unit auth_act" where
  "setupPasswordViaSsoFallback env flowId userId password =
    act_then (setup_password_tx env userId password)
    (act_then (act_catch (revokeAllSessions env (ae_tenant env) userId)
                 (\<lambda>_. act_throw AuthStoreUnavailableError))
    (act_catch (act_bind redis_client (\<lambda>client. act_when client (redis_del [sso_setup_key flowId])))
       (\<lambda>_. act_ret ())))"

end
