(* ===== verification/Invitations.thy ===== *)
theory Invitations
  imports Password_Reset
begin

text \<open>
  Invitations: the entity's expiry, \<^verbatim>\<open>InvitationRepository\<close> and
  \<^verbatim>\<open>InvitationApplicationService\<close>.  An invitation is open while it is pending or sent.
\<close>

section \<open>The entity and its reads\<close>

definition isExpired :: "timestamp \<Rightarrow> invitation \<Rightarrow> bool" where
  "isExpired now i = ((inv_status i \<noteq> Inv_pending \<and> inv_status i \<noteq> Inv_sent) \<or> inv_expiresAt i < now)"

definition findByTokenHashUnscoped :: "string \<Rightarrow> invitation list \<Rightarrow> invitation option" where
  "findByTokenHashUnscoped h is = find (\<lambda>i. inv_tokenHash i = h) is"

text \<open>Descending order puts rows without a date first; rows of equal date keep the table order.\<close>

definition sent_before :: "invitation \<Rightarrow> invitation \<Rightarrow> bool" where
  "sent_before i j =
    (case inv_sentAt j of
       None \<Rightarrow> inv_sentAt i \<noteq> None
     | Some b \<Rightarrow> (case inv_sentAt i of None \<Rightarrow> False | Some a \<Rightarrow> a < b))"

fun latest_sent :: "invitation list \<Rightarrow> invitation option" where
  "latest_sent [] = None"
| "latest_sent (i # is) =
    (case latest_sent is of None \<Rightarrow> Some i | Some j \<Rightarrow> Some (if sent_before i j then j else i))"

definition findPreviousByUser :: "uuid \<Rightarrow> invitation list \<Rightarrow> invitation option" where
  "findPreviousByUser u is = latest_sent (filter (\<lambda>i. inv_userId i = u \<and> open_invitation i) is)"

definition findActiveInvitation :: "uuid \<Rightarrow> invitation list \<Rightarrow> invitation option" where
  "findActiveInvitation u is =
    find (\<lambda>i. (inv_userId i = u \<and> inv_status i = Inv_pending) \<or> (inv_userId i = u \<and> inv_status i = Inv_sent)) is"

definition update_invitation :: "uuid \<Rightarrow> (invitation \<Rightarrow> invitation) \<Rightarrow> unit auth_act" where
  "update_invitation i f = db_write (d_invitations_update (update_rows (\<lambda>r. inv_id r = i) (bumped_version f)))"

text \<open>The schema has unique indexes on the token hash and on the open invitation of a user.\<close>

definition clashing_invitation :: "invitation \<Rightarrow> invitation \<Rightarrow> bool" where
  "clashing_invitation i j =
    (inv_tokenHash j = inv_tokenHash i \<or>
     (inv_userId j = inv_userId i \<and> open_invitation j \<and> open_invitation i))"

definition insert_invitation :: "invitation \<Rightarrow> unit auth_act" where
  "insert_invitation i = act_bind (db_read d_invitations) (\<lambda>is.
     if list_ex (clashing_invitation i) is then act_throw Unique_index_violation
     else db_write (\<lambda>db. db\<lparr> d_invitations := d_invitations db @ [i] \<rparr>))"

section \<open>Tokens\<close>

definition hashToken :: "auth_env \<Rightarrow> string \<Rightarrow> string" where
  "hashToken env tok = ae_sha256 env tok"

definition generateToken :: "auth_env \<Rightarrow> string \<times> string" where
  "generateToken env = (ae_random_token env, hashToken env (ae_random_token env))"

section \<open>Validating\<close>

record invitation_view =
  iv_userId :: uuid
  iv_email :: string
  iv_tenant :: tenant

definition validateInvitation :: "auth_env \<Rightarrow> string \<Rightarrow> invitation_view auth_act" where
  "validateInvitation env tok =
    act_bind (db_read (\<lambda>db. findByTokenHashUnscoped (hashToken env tok) (d_invitations db))) (\<lambda>found.
    act_bind (required found) (\<lambda>i.
      if isExpired (ae_now env) i then act_throw AuthInvitationInvalidError
      else act_bind (db_read (\<lambda>db. findByIdUnscoped (inv_userId i) (d_users db))) (\<lambda>u.
        act_bind (required u) (\<lambda>user.
          act_ret \<lparr> iv_userId = inv_userId i, iv_email = usr_displayEmail user, iv_tenant = usr_tenant user \<rparr>))))"

section \<open>Accepting\<close>

fun delete_user_challenges :: "auth_env \<Rightarrow> uuid \<Rightarrow> string list \<Rightarrow> unit auth_act" where
  "delete_user_challenges env u [] = act_ret ()"
| "delete_user_challenges env u (k # ks) =
    act_bind (redis_get k) (\<lambda>v.
      act_then (act_when (case v of None \<Rightarrow> False
                          | Some x \<Rightarrow> ae_text env x \<noteq> [] \<and> js_includes (ae_text env x) u)
                  (redis_del [k]))
        (delete_user_challenges env u ks))"

definition redis_keys :: "string \<Rightarrow> string list auth_act" where
  "redis_keys p = redis_cmd (\<lambda>cs. (Inr (filter (\<lambda>k. js_starts_with k p) (map fst cs)), cs))"

definition revokeSessionsAndChallenges :: "auth_env \<Rightarrow> tenant \<Rightarrow> uuid \<Rightarrow> unit auth_act" where
  "revokeSessionsAndChallenges env t u =
    act_bind redis_client (\<lambda>client.
      if \<not> client then act_throw AuthSessionStoreUnavailableError
      else act_catch
        (let index = ae_user_sessions_key env False t u in
         act_bind (redis_members index) (\<lambda>sids.
           act_then (act_when (sids \<noteq> []) (redis_del (map (ae_session_key env) sids @ [index])))
           (act_bind (redis_keys ''auth:mfa-challenge:'') (\<lambda>ks. delete_user_challenges env u ks))))
        (\<lambda>_. act_throw AuthSessionStoreUnavailableError))"

definition set_password :: "auth_env \<Rightarrow> uuid \<Rightarrow> string \<Rightarrow> unit auth_act" where
  "set_password env u password =
    act_bind (db_read (\<lambda>db. findActiveByUseUnscope u (d_credentials db))) (\<lambda>existing.
      (case existing of
         Some c \<Rightarrow> update_credential (cr_id c) (\<lambda>r. r\<lparr> cr_passwordHash := ae_hash env password,
             cr_algorithm := ''argon2id'', cr_passwordChangedAt := Some (ae_now env) \<rparr>)
       | None \<Rightarrow> create_credential env u password))"

definition accept_steps :: "auth_env \<Rightarrow> string \<Rightarrow> invitation \<Rightarrow> app_user \<Rightarrow> uuid auth_act" where
  "accept_steps env password i user =
    act_then (set_password env (usr_id user) password)
    (act_then (update_invitation (inv_id i)
       (\<lambda>r. r\<lparr> inv_status := Inv_accepted, inv_acceptedAt := Some (ae_now env) \<rparr>))
    (act_then (update_user (usr_id user) (\<lambda>u. u\<lparr> usr_status := User_active,
         usr_credentialStatus := Credential_active, usr_securityVersion := usr_securityVersion user \<rparr>))
    (act_then (log_event env (invitationAccepted (usr_tenant user) (usr_id user) (inv_id i)
         (ae_iso env (ae_now env)) None))
    (act_then (revokeSessionsAndChallenges env (usr_tenant user) (usr_id user))
    (act_ret (usr_id user))))))"

definition acceptInvitation :: "auth_env \<Rightarrow> string \<Rightarrow> string \<Rightarrow> uuid auth_act" where
  "acceptInvitation env tok password =
    db_tx (act_bind (db_read (\<lambda>db. findByTokenHashUnscoped (hashToken env tok) (d_invitations db))) (\<lambda>found.
    act_bind (required found) (\<lambda>i.
      if isExpired (ae_now env) i then act_throw AuthInvitationInvalidError
      else act_bind (db_read (\<lambda>db. findByIdUnscoped (inv_userId i) (d_users db))) (\<lambda>u.
        act_bind (required u) (\<lambda>user. accept_steps env password i user)))))"

section \<open>Sending again\<close>

definition invitation_lifetime :: int where
  "invitation_lifetime = 24 * 60 * 60 * 1000"

record resend_result =
  rr_invitationId :: uuid
  rr_rawToken :: string
  rr_expiresAt :: timestamp

definition resent_invitation :: "auth_env \<Rightarrow> uuid \<Rightarrow> invitation option \<Rightarrow> auth_db \<Rightarrow> invitation" where
  "resent_invitation env u old db =
    \<lparr> inv_id = ae_row_id env (map inv_id (d_invitations db)), inv_tenant = ae_tenant env, inv_userId = u,
      inv_tokenHash = snd (generateToken env), inv_status = Inv_pending,
      inv_version = (case old of None \<Rightarrow> 1 | Some i \<Rightarrow> inv_version i + 1),
      inv_expiresAt = ae_now env + invitation_lifetime, inv_issuedBy = Some (ae_userId env),
      inv_sentAt = Some (ae_now env), inv_acceptedAt = None, inv_revokedAt = None \<rparr>"

definition resendInvitation :: "auth_env \<Rightarrow> uuid \<Rightarrow> resend_result auth_act" where
  "resendInvitation env target =
    db_tx (act_bind (db_read (\<lambda>db. findByIdUnscoped target (d_users db))) (\<lambda>found.
    act_bind (required found) (\<lambda>user.
    act_bind (db_read (\<lambda>db. findActiveByUseUnscope (usr_id user) (d_credentials db))) (\<lambda>cred.
      if cred \<noteq> None then act_throw InvitationNotAllowedError
      else act_bind (db_read (\<lambda>db. findPreviousByUser (usr_id user) (d_invitations db))) (\<lambda>old.
        act_then (case old of
                    None \<Rightarrow> act_ret ()
                  | Some i \<Rightarrow> update_invitation (inv_id i)
                      (\<lambda>r. r\<lparr> inv_status := Inv_revoked, inv_revokedAt := Some (ae_now env) \<rparr>))
        (act_bind (db_read (resent_invitation env (usr_id user) old)) (\<lambda>saved.
        act_then (insert_invitation saved)
        (act_then (log_event env (invitationResent (usr_tenant user) (usr_id user) (inv_id saved)
            (usr_displayEmail user) (ae_iso env (inv_expiresAt saved)) (ae_userId env)))
        (act_ret \<lparr> rr_invitationId = inv_id saved, rr_rawToken = fst (generateToken env),
           rr_expiresAt = inv_expiresAt saved \<rparr>)))))))))"

section \<open>Accepting once\<close>

lemma keeps_delete_challenges: "keeps redis_only (delete_user_challenges env u ks)"
  by (induction ks) (auto intro!: redis_frame.keeps_rules keeps_redis_only)

lemma keeps_revokeSessionsAndChallenges: "keeps redis_only (revokeSessionsAndChallenges env t u)"
  unfolding revokeSessionsAndChallenges_def redis_keys_def Let_def
  by (auto intro!: redis_frame.keeps_rules keeps_redis_only keeps_delete_challenges keeps_cmd_redis)

lemma act_tx_failed: "act_tx r m w = (Inl e, w') \<Longrightarrow> \<exists>w2. m w = (Inl e, w2) \<and> w' = r w w2"
  by (auto simp: act_tx_def split: prod.splits sum.splits)

lemma db_tx_failed: "db_tx m w = (Inl e, w') \<Longrightarrow> w_db w' = w_db w"
  unfolding db_tx_def by (drule act_tx_failed) auto

lemma set_password_run:
  "\<exists>cs. set_password env u password w = (Inr (), upd_db (d_credentials_update (\<lambda>_. cs)) w) \<and>
    (\<forall>c. findActiveByUseUnscope u (d_credentials (w_db w)) = Some c \<longrightarrow>
       cs = update_rows (\<lambda>r. cr_id r = cr_id c) (\<lambda>r. r\<lparr> cr_passwordHash := ae_hash env password,
             cr_algorithm := ''argon2id'', cr_passwordChangedAt := Some (ae_now env) \<rparr>) (d_credentials (w_db w))) \<and>
    (findActiveByUseUnscope u (d_credentials (w_db w)) = None \<longrightarrow>
       cs = d_credentials (w_db w) @ [new_credential env u password (w_db w)])"
proof (cases "findActiveByUseUnscope u (d_credentials (w_db w))")
  case None
  then have "\<not> list_ex (\<lambda>c. cr_userId c = u \<and> cr_status c = Credential_active) (d_credentials (w_db w))"
    by (auto simp: findActiveByUseUnscope_def find_None_iff list_ex_iff)
  then show ?thesis using None
    by (auto simp: set_password_def act_simps create_credential_def upd_db_def)
next
  case (Some c)
  then show ?thesis by (auto simp: set_password_def act_simps update_credential_def upd_db_def)
qed

lemma accept_Inr:
  assumes "acceptInvitation env tok password w = (Inr i', w')"
  obtains i user cs where
    "findByTokenHashUnscoped (hashToken env tok) (d_invitations (w_db w)) = Some i"
    "\<not> isExpired (ae_now env) i" "findByIdUnscoped (inv_userId i) (d_users (w_db w)) = Some user"
    "i' = usr_id user"
    "d_invitations (w_db w') = update_rows (\<lambda>r. inv_id r = inv_id i)
       (bumped_version (\<lambda>r. r\<lparr> inv_status := Inv_accepted, inv_acceptedAt := Some (ae_now env) \<rparr>)) (d_invitations (w_db w))"
    "d_users (w_db w') = update_rows (\<lambda>u. usr_id u = usr_id user) (\<lambda>u. u\<lparr> usr_status := User_active,
         usr_credentialStatus := Credential_active, usr_securityVersion := usr_securityVersion user \<rparr>) (d_users (w_db w))"
    "set_password env (usr_id user) password w = (Inr (), upd_db (d_credentials_update (\<lambda>_. cs)) w)"
    "d_credentials (w_db w') = cs"
proof -
  obtain i user where i: "findByTokenHashUnscoped (hashToken env tok) (d_invitations (w_db w)) = Some i"
    and e: "\<not> isExpired (ae_now env) i" and u: "findByIdUnscoped (inv_userId i) (d_users (w_db w)) = Some user"
    and a: "accept_steps env password i user w = (Inr i', w')"
    using assms
    by (auto simp: acceptInvitation_def db_tx_def act_tx_Inr_iff act_simps required_def split: option.splits if_splits)
  obtain cs where p: "set_password env (usr_id user) password w = (Inr (), upd_db (d_credentials_update (\<lambda>_. cs)) w)"
    using set_password_run by blast
  obtain wa wb wc w1 w2 where pa: "set_password env (usr_id user) password w = (Inr (), wa)"
    and pb: "update_invitation (inv_id i)
       (\<lambda>r. r\<lparr> inv_status := Inv_accepted, inv_acceptedAt := Some (ae_now env) \<rparr>) wa = (Inr (), wb)"
    and pc: "update_user (usr_id user) (\<lambda>u. u\<lparr> usr_status := User_active,
         usr_credentialStatus := Credential_active, usr_securityVersion := usr_securityVersion user \<rparr>) wb = (Inr (), wc)"
    and pd: "log_event env (invitationAccepted (usr_tenant user) (usr_id user) (inv_id i)
         (ae_iso env (ae_now env)) None) wc = (Inr (), w1)"
    and s: "revokeSessionsAndChallenges env (usr_tenant user) (usr_id user) w1 = (Inr (), w2)"
    and w': "w' = w2" "i' = usr_id user"
    using a unfolding accept_steps_def act_then_Inr_iff act_ret_Inr_iff by blast
  have wa: "wa = upd_db (d_credentials_update (\<lambda>_. cs)) w" using p pa by simp
  have wb: "wb = upd_db (d_invitations_update (update_rows (\<lambda>r. inv_id r = inv_id i)
       (bumped_version (\<lambda>r. r\<lparr> inv_status := Inv_accepted, inv_acceptedAt := Some (ae_now env) \<rparr>)))) wa"
    using pb by (simp add: update_invitation_def db_run)
  have wc: "wc = upd_db (d_users_update (update_rows (\<lambda>u. usr_id u = usr_id user) (\<lambda>u. u\<lparr> usr_status := User_active,
       usr_credentialStatus := Credential_active, usr_securityVersion := usr_securityVersion user \<rparr>))) wb"
    using pc by (simp add: update_user_def db_run)
  have w1: "d_invitations (w_db w1) = d_invitations (w_db wc)" "d_users (w_db w1) = d_users (w_db wc)"
    "d_credentials (w_db w1) = d_credentials (w_db wc)"
    using pd by (auto simp: log_event_run)
  have "w_db w2 = w_db w1"
    using keepsD[OF keeps_revokeSessionsAndChallenges s] by (simp add: redis_only_def)
  then show thesis using that[OF i e u w'(2) _ _ p] w1 w'(1) wa wb wc by simp
qed

text \<open>
  C14: Accepting an invitation works once and whatever state the account is in: a successful
  acceptance found an open, unexpired invitation, leaves its user active even if it was suspended,
  locked or archived before, and consumes the invitation, so that the same token is refused from
  then on.
\<close>

theorem invitation_accepted_once:
  assumes "acceptInvitation env tok password w = (Inr i', w')"
    and "ae_sha256 later = ae_sha256 env"
  shows "(\<exists>i user. findByTokenHashUnscoped (hashToken env tok) (d_invitations (w_db w)) = Some i \<and>
      open_invitation i \<and> ae_now env \<le> inv_expiresAt i \<and>
      findByIdUnscoped (inv_userId i) (d_users (w_db w)) = Some user \<and> i' = usr_id user \<and>
      findByIdUnscoped i' (d_users (w_db w')) = Some (user\<lparr> usr_status := User_active, usr_credentialStatus := Credential_active \<rparr>)) \<and>
    acceptInvitation later tok password2 w' = (Inl AuthInvitationInvalidError, w')"
proof (rule accept_Inr[OF assms(1)])
  fix i user cs
  assume i: "findByTokenHashUnscoped (hashToken env tok) (d_invitations (w_db w)) = Some i"
    and e: "\<not> isExpired (ae_now env) i" and u: "findByIdUnscoped (inv_userId i) (d_users (w_db w)) = Some user"
    and i': "i' = usr_id user"
    and inv: "d_invitations (w_db w') = update_rows (\<lambda>r. inv_id r = inv_id i)
       (bumped_version (\<lambda>r. r\<lparr> inv_status := Inv_accepted, inv_acceptedAt := Some (ae_now env) \<rparr>)) (d_invitations (w_db w))"
    and us: "d_users (w_db w') = update_rows (\<lambda>u. usr_id u = usr_id user) (\<lambda>u. u\<lparr> usr_status := User_active,
         usr_credentialStatus := Credential_active, usr_securityVersion := usr_securityVersion user \<rparr>) (d_users (w_db w))"
  have uid: "usr_id user = inv_userId i" using u by (auto simp: findByIdUnscoped_def dest: find_SomeD)
  have "findByIdUnscoped i' (d_users (w_db w')) = Some (user\<lparr> usr_status := User_active, usr_credentialStatus := Credential_active \<rparr>)"
    using u unfolding us i' uid findByIdUnscoped_def by (subst find_update_rows) (simp_all)
  moreover have f: "find (\<lambda>r. inv_tokenHash r = h) (update_rows (\<lambda>r. inv_id r = inv_id i) g is) = Some (g i)"
    if "find (\<lambda>r. inv_tokenHash r = h) is = Some i" "\<And>r. inv_tokenHash (g r) = inv_tokenHash r" for h g "is"
    using that by (induction "is") (auto split: if_splits)
  have "acceptInvitation later tok password2 w' = (Inl AuthInvitationInvalidError, w')"
    using f[OF i[unfolded findByTokenHashUnscoped_def], of "bumped_version (\<lambda>r. r\<lparr> inv_status := Inv_accepted, inv_acceptedAt := Some (ae_now env) \<rparr>)"] assms(2)
    by (simp add: acceptInvitation_def db_tx_def act_tx_def act_simps findByTokenHashUnscoped_def inv isExpired_def hashToken_def)
  ultimately show ?thesis using i e u i' by (auto simp: isExpired_def open_invitation_def not_less)
qed

definition sample_invitation :: invitation where
  "sample_invitation = \<lparr> inv_id = ''i1'', inv_tenant = ''acme'', inv_userId = ''u1'', inv_tokenHash = ''s:tok'',
     inv_status = Inv_pending, inv_version = 1, inv_expiresAt = 5000, inv_issuedBy = None, inv_sentAt = None,
     inv_acceptedAt = None, inv_revokedAt = None \<rparr>"

definition invited_world :: auth_world where
  "invited_world = login_world\<lparr> w_db := (w_db login_world)\<lparr> d_invitations := [sample_invitation],
     d_credentials := [], d_users := [sample_user\<lparr> usr_status := User_archived \<rparr>] \<rparr> \<rparr>"

lemma invited_world_accepts: "fst (acceptInvitation sample_env ''tok'' ''pw'' invited_world) = Inr ''u1''"
  by (simp add: acceptInvitation_def db_tx_def act_tx_def act_simps hashToken_def findByTokenHashUnscoped_def
      isExpired_def required_def invited_world_def sample_invitation_def login_sample_defs findByIdUnscoped_def
      accept_steps_def act_bind_def act_then_def set_password_def findActiveByUseUnscope_def
      create_credential_def update_invitation_def update_user_def log_event_run
      revokeSessionsAndChallenges_def redis_client_def redis_members_def redis_cmd_def redis_keys_def
      act_catch_def upd_cells_def Let_def)

theorem invitation_accepted_once_witness:
  "\<exists>w'. acceptInvitation sample_env ''tok'' ''pw'' invited_world = (Inr ''u1'', w') \<and>
     acceptInvitation sample_env ''tok'' ''pw2'' w' = (Inl AuthInvitationInvalidError, w') \<and>
     map usr_status (d_users (w_db invited_world)) = [User_archived]"
proof -
  let ?w = "snd (acceptInvitation sample_env ''tok'' ''pw'' invited_world)"
  have "acceptInvitation sample_env ''tok'' ''pw'' invited_world = (Inr ''u1'', ?w)"
    using invited_world_accepts by (metis prod.collapse)
  then show ?thesis using invitation_accepted_once[of sample_env "''tok''" "''pw''" invited_world "''u1''" ?w sample_env]
    by (auto simp: invited_world_def)
qed

section \<open>Open invitations\<close>

lemma latest_sent_Some: "latest_sent is = Some i \<Longrightarrow> i \<in> set is"
  by (induction "is" arbitrary: i) (auto split: option.splits if_splits)

lemma latest_sent_None: "latest_sent is = None \<longleftrightarrow> is = []"
  by (cases "is") (auto split: option.splits)

definition open_count :: "uuid \<Rightarrow> invitation list \<Rightarrow> nat" where
  "open_count u is = length (filter (\<lambda>i. inv_userId i = u \<and> open_invitation i) is)"

definition revoked_previous :: "auth_env \<Rightarrow> invitation option \<Rightarrow> invitation list \<Rightarrow> invitation list" where
  "revoked_previous env old is =
    (case old of
       None \<Rightarrow> is
     | Some i \<Rightarrow> update_rows (\<lambda>r. inv_id r = inv_id i)
         (bumped_version (\<lambda>r. r\<lparr> inv_status := Inv_revoked, inv_revokedAt := Some (ae_now env) \<rparr>)) is)"

text \<open>
  Sending an invitation again leaves the user exactly one open invitation, the new one: it is
  pending, expires a day later and answers to the token returned.  This succeeds only for a user
  without an active credential, and every invitation that was open before is closed.
\<close>

theorem resend_leaves_one_open:
  assumes "resendInvitation env target w = (Inr r, w')"
  shows "open_count target (d_invitations (w_db w')) = 1 \<and>
    findActiveByUseUnscope target (d_credentials (w_db w)) = None \<and>
    rr_expiresAt r = ae_now env + 24 * 60 * 60 * 1000 \<and>
    (\<exists>i \<in> set (d_invitations (w_db w')). inv_id i = rr_invitationId r \<and> inv_userId i = target \<and>
       inv_status i = Inv_pending \<and> inv_expiresAt i = rr_expiresAt r \<and> inv_tokenHash i = hashToken env (rr_rawToken r))"
proof -
  obtain user where u: "findByIdUnscoped target (d_users (w_db w)) = Some user"
    using assms by (auto simp: resendInvitation_def db_tx_def act_tx_Inr_iff act_simps required_def
        split: option.splits)
  have uid: "usr_id user = target" using u by (auto simp: findByIdUnscoped_def dest: find_SomeD)
  let ?old = "findPreviousByUser target (d_invitations (w_db w))"
  let ?base = "revoked_previous env ?old (d_invitations (w_db w))"
  have c: "findActiveByUseUnscope target (d_credentials (w_db w)) = None"
    using assms u uid by (auto simp: resendInvitation_def db_tx_def act_tx_Inr_iff act_simps required_def split: if_splits)
  obtain saved where inv: "d_invitations (w_db w') = ?base @ [saved]"
    and free: "\<not> list_ex (clashing_invitation saved) ?base"
    and s: "inv_userId saved = target" "inv_status saved = Inv_pending" "inv_id saved = rr_invitationId r"
      "inv_expiresAt saved = ae_now env + invitation_lifetime" "rr_expiresAt r = inv_expiresAt saved"
      "inv_tokenHash saved = hashToken env (rr_rawToken r)"
    using assms u uid c
    by (cases ?old)
       (auto simp: resendInvitation_def db_tx_def act_tx_Inr_iff act_simps act_assoc required_def update_invitation_def
         insert_invitation_def resent_invitation_def generateToken_def revoked_previous_def split: if_splits)
  have "filter (\<lambda>i. inv_userId i = target \<and> open_invitation i) ?base = []"
    using free s(1,2) by (auto simp: list_ex_iff clashing_invitation_def filter_empty_conv open_invitation_def)
  then have "open_count target (d_invitations (w_db w')) = 1"
    using inv s(1,2) by (simp add: open_count_def open_invitation_def)
  then show ?thesis using c s inv by (auto simp: invitation_lifetime_def)
qed

theorem resend_leaves_one_open_witness:
  "\<exists>r w'. resendInvitation sample_env ''u1'' invited_world = (Inr r, w') \<and>
     open_count ''u1'' (d_invitations (w_db w')) = 1 \<and> length (d_invitations (w_db w')) = 2"
proof -
  obtain r w' where run: "resendInvitation sample_env ''u1'' invited_world = (Inr r, w')"
    and l: "length (d_invitations (w_db w')) = 2"
    by (simp add: resendInvitation_def db_tx_def act_tx_def act_simps act_assoc required_def invited_world_def
        sample_invitation_def login_sample_defs findByIdUnscoped_def findActiveByUseUnscope_def
        findPreviousByUser_def open_invitation_def update_invitation_def insert_invitation_def
        clashing_invitation_def resent_invitation_def generateToken_def hashToken_def)
  show ?thesis using resend_leaves_one_open[OF run] run l by blast
qed

end
