(* ===== verification/Cognito.thy ===== *)
theory Cognito
  imports Password_Reset
begin

text \<open>
  The provisioning of Cognito users (\<^verbatim>\<open>user/services/cognito-user-provisioning.service.ts\<close>):
  the retry loop, creating a user and linking an existing one.  The Cognito client is a parameter
  that answers the n-th call of an operation; what it throws is described by the fields the service
  looks at.
\<close>

section \<open>What the client answers\<close>

datatype cognito_class = Already_exists | Cognito_internal | Cognito_other | Not_cognito

record thrown_error =
  te_class :: cognito_class
  te_code :: string
  te_name :: "string option"
  te_message :: "string option"

text \<open>The attributes the service reads of a user record.\<close>

record cognito_user =
  cu_sub :: "string option"
  cu_tenant_code :: "string option"

record create_user_input =
  ci_username :: string
  ci_email :: string
  ci_email_verified :: string
  ci_tenant_code :: tenant
  ci_messageAction :: "string option"

record cognito_api =
  cg_createUser :: "create_user_input \<Rightarrow> nat \<Rightarrow> thrown_error + cognito_user"
  cg_getUser :: "string \<Rightarrow> nat \<Rightarrow> thrown_error + cognito_user"

section \<open>Retrying\<close>

definition cognitoMaxRetries :: nat where
  "cognitoMaxRetries = 3"

definition initialBackoffMs :: nat where
  "initialBackoffMs = 50"

definition isRetryableError :: "thrown_error \<Rightarrow> bool" where
  "isRetryableError e =
    (te_class e = Cognito_internal \<or>
     (let nm = (case te_name e of None \<Rightarrow> [] | Some s \<Rightarrow> s);
          msg = (case te_message e of None \<Rightarrow> [] | Some s \<Rightarrow> s)
      in js_includes nm ''Throttling'' \<or> js_includes nm ''TooManyRequests'' \<or> js_includes nm ''Internal'' \<or>
         js_includes nm ''Timeout'' \<or> js_includes msg ''timeout'' \<or> js_includes msg ''ETIMEDOUT'' \<or>
         js_includes msg ''ECONNRESET''))"

text \<open>The value of a variable nothing was assigned to, thrown after a loop that never ran.\<close>

definition no_error :: thrown_error where
  "no_error = \<lparr> te_class = Not_cognito, te_code = [], te_name = None, te_message = None \<rparr>"

text \<open>
  One run of the loop: the outcome, the number of the last attempt, and the delays waited before
  further attempts in milliseconds.
\<close>

record 'a retry_run =
  rt_outcome :: "thrown_error + 'a"
  rt_attempts :: nat
  rt_delays :: "nat list"

function retry_loop :: "(nat \<Rightarrow> thrown_error + 'a) \<Rightarrow> nat \<Rightarrow> thrown_error \<Rightarrow> nat list \<Rightarrow> 'a retry_run" where
  "retry_loop op attempt lastError waited =
    (if cognitoMaxRetries < attempt
     then \<lparr> rt_outcome = Inl lastError, rt_attempts = attempt - 1, rt_delays = waited \<rparr>
     else (case op attempt of
        Inr x \<Rightarrow> \<lparr> rt_outcome = Inr x, rt_attempts = attempt, rt_delays = waited \<rparr>
      | Inl e \<Rightarrow>
          (if te_class e = Already_exists \<or> \<not> isRetryableError e \<or> attempt = cognitoMaxRetries
           then \<lparr> rt_outcome = Inl e, rt_attempts = attempt, rt_delays = waited \<rparr>
           else retry_loop op (attempt + 1) e (waited @ [initialBackoffMs * 2 ^ (attempt - 1)]))))"
  by pat_completeness auto
termination by (relation "measure (\<lambda>(op, attempt, e, d). Suc cognitoMaxRetries - attempt)") auto

declare retry_loop.simps [simp del]

definition executeWithRetry :: "(nat \<Rightarrow> thrown_error + 'a) \<Rightarrow> 'a retry_run" where
  "executeWithRetry op = retry_loop op 1 no_error []"

section \<open>Creating and linking\<close>

record provision_input =
  pi_userId :: uuid
  pi_email :: string
  pi_tenant :: tenant
  pi_suppressNotification :: bool
  pi_isEmailVerified :: bool

datatype provisioning_action = CREATED | LINKED_EXISTING

definition action_string :: "provisioning_action \<Rightarrow> string" where
  "action_string a = (case a of CREATED \<Rightarrow> ''CREATED'' | LINKED_EXISTING \<Rightarrow> ''LINKED_EXISTING'')"

record provisioning_result =
  pr_userId :: uuid
  pr_externalIdentityId :: string
  pr_username :: string
  pr_action :: provisioning_action

text \<open>
  What is thrown inside the try blocks: an exception of this service with its code, or what the
  client threw.
\<close>

datatype provisioning_failure = Own string string | Thrown thrown_error

definition failure_code :: "string \<Rightarrow> provisioning_failure \<Rightarrow> string" where
  "failure_code dflt f =
    (case f of
       Own msg code \<Rightarrow> code
     | Thrown e \<Rightarrow> (if te_class e \<noteq> Not_cognito then te_code e
                    else (case te_name e of None \<Rightarrow> dflt | Some s \<Rightarrow> s)))"

definition failure_message :: "string \<Rightarrow> provisioning_failure \<Rightarrow> string" where
  "failure_message dflt f =
    (case f of
       Own msg code \<Rightarrow> msg
     | Thrown e \<Rightarrow> (case te_message e of None \<Rightarrow> dflt | Some s \<Rightarrow> s))"

text \<open>Both catch blocks end alike: the failure is recorded and thrown as the service's exception.\<close>

definition provisioning_failed ::
  "auth_env \<Rightarrow> provision_input \<Rightarrow> string \<Rightarrow> string \<Rightarrow> string \<Rightarrow> int \<Rightarrow> 'a auth_act" where
  "provisioning_failed env i email code msg retries =
    act_then (log_event env (cognitoProvisioningFailed (pi_tenant i) (pi_userId i) email code msg retries))
      (act_throw (CognitoProvisioningException msg code))"

definition link_identity ::
  "auth_env \<Rightarrow> provision_input \<Rightarrow> string \<Rightarrow> string \<Rightarrow> provisioning_action \<Rightarrow> provisioning_result auth_act" where
  "link_identity env i email sub a =
    act_then (update_user (pi_userId i) (\<lambda>u. u\<lparr> usr_externalIdentityId := Some sub \<rparr>))
    (act_then (log_event env (cognitoUserProvisioned (pi_tenant i) (pi_userId i) email sub (action_string a)))
    (act_ret \<lparr> pr_userId = pi_userId i, pr_externalIdentityId = sub, pr_username = email, pr_action = a \<rparr>))"

definition linked_elsewhere :: "provision_input \<Rightarrow> auth_db \<Rightarrow> string \<Rightarrow> provisioning_failure + string" where
  "linked_elsewhere i db sub =
    (case findByTenantAndExternalIdentity sub (d_users db) of
       None \<Rightarrow> Inr sub
     | Some u \<Rightarrow>
         (if usr_id u \<noteq> pi_userId i
          then Inl (Own (''Cognito sub '' @ sub @ '' is already linked to another internal user '' @ usr_id u)
                     ''IDENTITY_CONFLICT'')
          else Inr sub))"

text \<open>The checks before an existing Cognito user is linked, in their order.\<close>

definition link_checks ::
  "provision_input \<Rightarrow> auth_db \<Rightarrow> thrown_error + cognito_user \<Rightarrow> provisioning_failure + string" where
  "link_checks i db found =
    (case found of
       Inl e \<Rightarrow> Inl (Thrown e)
     | Inr cu \<Rightarrow>
         (case truthy_id (cu_sub cu) of
            None \<Rightarrow> Inl (Own ''Existing Cognito user record is missing required sub attribute'' ''MISSING_COGNITO_SUB'')
          | Some sub \<Rightarrow>
              (case truthy_id (cu_tenant_code cu) of
                 Some t \<Rightarrow>
                   (if t \<noteq> pi_tenant i
                    then Inl (Own (''Cognito user exists but belongs to a different tenant: '' @ t) ''TENANT_MISMATCH'')
                    else linked_elsewhere i db sub)
               | None \<Rightarrow> linked_elsewhere i db sub)))"

definition linkExistingCognitoUser ::
  "auth_env \<Rightarrow> cognito_api \<Rightarrow> provision_input \<Rightarrow> string \<Rightarrow> provisioning_result auth_act" where
  "linkExistingCognitoUser env api i email =
    act_bind (db_read (\<lambda>db. link_checks i db (rt_outcome (executeWithRetry (cg_getUser api email))))) (\<lambda>r.
      (case r of
         Inr sub \<Rightarrow> link_identity env i email sub LINKED_EXISTING
       | Inl f \<Rightarrow> provisioning_failed env i email (failure_code ''FETCH_EXISTING_FAILED'' f)
           (failure_message (''Failed to fetch existing Cognito user for linking: '' @ email) f) 1))"

definition create_input :: "provision_input \<Rightarrow> string \<Rightarrow> create_user_input" where
  "create_input i email =
    \<lparr> ci_username = email, ci_email = email,
      ci_email_verified = (if pi_isEmailVerified i then ''true'' else ''false''),
      ci_tenant_code = pi_tenant i,
      ci_messageAction = (if pi_suppressNotification i then Some ''SUPPRESS'' else None) \<rparr>"

definition provisionCognitoUser :: "auth_env \<Rightarrow> cognito_api \<Rightarrow> provision_input \<Rightarrow> provisioning_result auth_act" where
  "provisionCognitoUser env api i =
    (let email = normalize_email (pi_email i);
         run = executeWithRetry (cg_createUser api (create_input i email));
         failed = (\<lambda>f. provisioning_failed env i email (failure_code ''UNKNOWN_ERROR'' f)
           (failure_message ''Failed to provision Cognito user'' f) (int (rt_attempts run)))
     in (case rt_outcome run of
           Inr cu \<Rightarrow>
             (case truthy_id (cu_sub cu) of
                None \<Rightarrow> failed (Own ''Cognito user record is missing required sub attribute'' ''MISSING_COGNITO_SUB'')
              | Some sub \<Rightarrow> link_identity env i email sub CREATED)
         | Inl e \<Rightarrow>
             (if te_class e = Already_exists then linkExistingCognitoUser env api i email
              else failed (Thrown e))))"

end
