(* ===== verification/Provisioning.thy ===== *)
theory Provisioning
  imports Invitations Cognito Role_Service
begin

text \<open>
  The provisioning service (\<^verbatim>\<open>provisioning/services/provisioning.application.service.ts\<close>):
  the root administrator of a new tenant and the employment events that suspend, terminate or
  reactivate an employee's account.  Bootstrapping joins the authentication side with the roles, so
  it runs on the pair of both worlds.
\<close>

section \<open>Employment events\<close>

definition employee_row :: "tenant \<Rightarrow> uuid \<Rightarrow> auth_db \<Rightarrow> employee_reference option" where
  "employee_row t i db = find (\<lambda>e. emp_id e = i \<and> emp_tenant e = t) (d_employees db)"

definition update_employee :: "uuid \<Rightarrow> (employee_reference \<Rightarrow> employee_reference) \<Rightarrow> unit auth_act" where
  "update_employee i f = db_write (d_employees_update (update_rows (\<lambda>e. emp_id e = i) f))"

definition employee_user :: "tenant \<Rightarrow> uuid \<Rightarrow> auth_db \<Rightarrow> app_user option" where
  "employee_user t i db = find (\<lambda>u. usr_employeeRefId u = Some i \<and> usr_tenant u = t) (d_users db)"

text \<open>A stored version that is no number compares as \<^verbatim>\<open>NaN\<close>: no event is stale then.\<close>

definition stored_version :: "employee_reference \<Rightarrow> int option" where
  "stored_version e = (case truthy_id (emp_sourceVersion e) of None \<Rightarrow> Some 0 | Some s \<Rightarrow> js_parse_int s)"

definition stale_event :: "int \<Rightarrow> employee_reference \<Rightarrow> bool" where
  "stale_event v e = (case stored_version e of None \<Rightarrow> False | Some n \<Rightarrow> v \<le> n)"

definition lifecycle_status :: "event_type \<Rightarrow> employee_status option" where
  "lifecycle_status ty =
    (if ty = EMPLOYEE_SUSPENDED then Some Employee_suspended
     else if ty = EMPLOYEE_TERMINATED then Some Employee_terminated
     else if ty = EMPLOYEE_REACTIVATED then Some Employee_reactivated
     else None)"

text \<open>An update skips a status that is undefined.\<close>

definition synced_employee :: "employee_status option \<Rightarrow> int \<Rightarrow> employee_reference \<Rightarrow> employee_reference" where
  "synced_employee s v e =
    e\<lparr> emp_status := (case s of None \<Rightarrow> emp_status e | Some x \<Rightarrow> employee_status_string x),
       emp_sourceVersion := Some (int_string v) \<rparr>"

text \<open>The version written is the one read: the increment is applied after its value is taken.\<close>

definition set_account :: "user_status \<Rightarrow> app_user \<Rightarrow> unit auth_act" where
  "set_account s user =
    update_user (usr_id user) (\<lambda>u. u\<lparr> usr_securityVersion := usr_securityVersion user, usr_status := s \<rparr>)"

definition saved_over :: "invitation list \<Rightarrow> invitation list \<Rightarrow> invitation list" where
  "saved_over saved is = map (\<lambda>r.
    (case find (\<lambda>s. inv_id s = inv_id r) saved of None \<Rightarrow> r | Some s \<Rightarrow> bumped_version (\<lambda>_. s) r)) is"

definition inv_bulkSave :: "invitation list \<Rightarrow> unit auth_act" where
  "inv_bulkSave saved = db_write (d_invitations_update (saved_over saved))"

definition pending_of :: "auth_env \<Rightarrow> uuid \<Rightarrow> invitation list \<Rightarrow> invitation list" where
  "pending_of env u is =
    filter (\<lambda>i. inv_userId i = u \<and> inv_status i = Inv_pending \<and> inv_tenant i = ae_tenant env) is"

definition revoke_pending :: "auth_env \<Rightarrow> app_user \<Rightarrow> unit auth_act" where
  "revoke_pending env user =
    act_bind (db_read (\<lambda>db. pending_of env (usr_id user) (d_invitations db))) (\<lambda>pending.
      act_when (pending \<noteq> [])
        (inv_bulkSave (map (\<lambda>i. i\<lparr> inv_status := Inv_revoked, inv_revokedAt := Some (ae_now env) \<rparr>) pending)))"

definition suspendUserAndEmployee :: "auth_env \<Rightarrow> app_user \<Rightarrow> uuid \<Rightarrow> int \<Rightarrow> bool auth_act" where
  "suspendUserAndEmployee env user ref v =
    act_then (set_account User_disabled user)
    (act_then (update_employee ref (synced_employee (Some Employee_suspended) v))
    (act_then (log_event env (sessionsRevoked (usr_tenant user) (usr_id user)
        ''EMPLOYMENT_STATUS_CHANGED'' ''DISABLED''))
    (act_then (revokeAllSessions env (usr_tenant user) (usr_id user)) (act_ret True))))"

definition terminateUserAndEmployee :: "auth_env \<Rightarrow> app_user \<Rightarrow> uuid \<Rightarrow> int \<Rightarrow> bool auth_act" where
  "terminateUserAndEmployee env user ref v =
    act_then (set_account User_archived user)
    (act_then (update_employee ref (synced_employee (Some Employee_terminated) v))
    (act_then (revoke_pending env user)
    (act_then (log_event env (sessionsRevoked (usr_tenant user) (usr_id user)
        ''EMPLOYMENT_STATUS_CHANGED'' ''ARCHIVED''))
    (act_then (revokeAllSessions env (usr_tenant user) (usr_id user)) (act_ret True)))))"

text \<open>The new invitation stores the hash of a random token; the token itself is not passed on.\<close>

definition reactivation_invitation :: "auth_env \<Rightarrow> uuid \<Rightarrow> auth_db \<Rightarrow> invitation" where
  "reactivation_invitation env u db =
    \<lparr> inv_id = ae_row_id env (map inv_id (d_invitations db)), inv_tenant = ae_tenant env, inv_userId = u,
      inv_tokenHash = snd (generateToken env), inv_status = Inv_pending, inv_version = 1,
      inv_expiresAt = ae_now env + invitation_lifetime, inv_issuedBy = None, inv_sentAt = None,
      inv_acceptedAt = None, inv_revokedAt = None \<rparr>"

definition reactivateUserAndEmployee :: "auth_env \<Rightarrow> app_user \<Rightarrow> uuid \<Rightarrow> int \<Rightarrow> bool auth_act" where
  "reactivateUserAndEmployee env user ref v =
    act_then (set_account User_inactive user)
    (act_then (update_employee ref (synced_employee (Some Employee_reactivated) v))
    (act_then (revoke_pending env user)
    (act_bind (db_read (reactivation_invitation env (usr_id user))) (\<lambda>saved.
    act_then (insert_invitation saved)
    (act_then (log_event env (userInvited (usr_tenant user) (usr_id user) (inv_id saved) (usr_displayEmail user)))
    (act_ret True))))))"

definition synchronizeEmployeeStatus :: "auth_env \<Rightarrow> event_type \<Rightarrow> uuid \<Rightarrow> int \<Rightarrow> bool auth_act" where
  "synchronizeEmployeeStatus env ty i v =
    db_tx (act_bind (db_read (employee_row (ae_tenant env) i)) (\<lambda>found.
      (case found of
         None \<Rightarrow> act_ret True
       | Some e \<Rightarrow>
           if stale_event v e then act_ret True
           else act_bind (db_read (employee_user (ae_tenant env) i)) (\<lambda>u.
             (case u of
                None \<Rightarrow> act_then (update_employee (emp_id e) (synced_employee (lifecycle_status ty) v)) (act_ret True)
              | Some user \<Rightarrow>
                  if ty = EMPLOYEE_SUSPENDED then suspendUserAndEmployee env user (emp_id e) v
                  else if ty = EMPLOYEE_TERMINATED then terminateUserAndEmployee env user (emp_id e) v
                  else if ty = EMPLOYEE_REACTIVATED then reactivateUserAndEmployee env user (emp_id e) v
                  else act_ret False)))))"

section \<open>The root administrator\<close>

record platform_world =
  pw_auth :: auth_world
  pw_roles :: role_world

datatype platform_error = Auth_failed auth_error | Roles_failed role_error

type_synonym 'a platform_act = "(platform_world, platform_error, 'a) act"

definition on_auth :: "'a auth_act \<Rightarrow> 'a platform_act" where
  "on_auth m w = (case m (pw_auth w) of (r, a) \<Rightarrow> (map_sum Auth_failed id r, w\<lparr> pw_auth := a \<rparr>))"

definition on_roles :: "(role_world \<Rightarrow> 'a role_op) \<Rightarrow> 'a platform_act" where
  "on_roles m w = (case m (pw_roles w) of (r, a) \<Rightarrow> (map_sum Roles_failed id r, w\<lparr> pw_roles := a \<rparr>))"

text \<open>A failed transaction restores the tables of both sides and keeps both caches.\<close>

definition platform_tx :: "'a platform_act \<Rightarrow> 'a platform_act" where
  "platform_tx m = act_tx (\<lambda>w w'.
    w'\<lparr> pw_auth := (pw_auth w')\<lparr> w_db := w_db (pw_auth w) \<rparr>,
        pw_roles := (pw_roles w')\<lparr> rw_db := rw_db (pw_roles w) \<rparr> \<rparr>) m"

record tenant_created =
  tc_tenantCode :: tenant
  tc_rootAdminEmail :: string

record bootstrap_env =
  be_auth :: auth_env
  be_roles :: role_env
  be_role_ids :: "system_role_key \<Rightarrow> uuid"
  be_isEmail :: "string \<Rightarrow> bool"
  be_cognito :: cognito_api

datatype bootstrap_result = Bootstrapped | Duplicate_admin

definition root_admin :: "tenant \<Rightarrow> auth_db \<Rightarrow> app_user option" where
  "root_admin t db = find (\<lambda>u. usr_protectedRootAdmin u \<and> usr_tenant u = t) (d_users db)"

definition root_admin_row :: "auth_env \<Rightarrow> string \<Rightarrow> auth_db \<Rightarrow> app_user" where
  "root_admin_row env email db =
    \<lparr> usr_id = ae_row_id env (map usr_id (d_users db)), usr_tenant = ae_tenant env,
      usr_employeeRefId = None, usr_normalizedEmail = normalize_email email, usr_displayEmail = email,
      usr_userType = ''admin'', usr_status = User_active, usr_credentialStatus = Credential_pending,
      usr_securityVersion = 1, usr_protectedRootAdmin = True, usr_mfaEnrollmentRequired = False,
      usr_mfaReEnrollmentRequired = False, usr_externalIdentityId = None \<rparr>"

text \<open>Inserting a user checks the unique key of tenant and normalized address.\<close>

definition insert_user :: "app_user \<Rightarrow> unit auth_act" where
  "insert_user u = act_bind (db_read d_users) (\<lambda>us.
    if (usr_tenant u, usr_normalizedEmail u) \<in> (\<lambda>x. (usr_tenant x, usr_normalizedEmail x)) ` set us
    then act_throw Unique_index_violation
    else db_write (\<lambda>db. db\<lparr> d_users := d_users db @ [u] \<rparr>))"

definition create_root_admin :: "bootstrap_env \<Rightarrow> tenant_created \<Rightarrow> app_user auth_act" where
  "create_root_admin b p =
    (let env = be_auth b in
     act_bind (db_read (root_admin_row env (tc_rootAdminEmail p))) (\<lambda>user.
     act_then (insert_user user)
     (act_bind (provisionCognitoUser env (be_cognito b)
        \<lparr> pi_userId = usr_id user, pi_email = usr_normalizedEmail user, pi_tenant = tc_tenantCode p,
          pi_suppressNotification = False, pi_isEmailVerified = False \<rparr>) (\<lambda>_.
      act_ret user))))"

definition bootstrapRootAdmin :: "bootstrap_env \<Rightarrow> tenant_created \<Rightarrow> bootstrap_result platform_act" where
  "bootstrapRootAdmin b p =
    (let env = be_auth b in
     platform_tx (act_bind (on_auth (db_read (root_admin (ae_tenant env)))) (\<lambda>admin.
       if admin \<noteq> None then act_ret Duplicate_admin
       else if tc_rootAdminEmail p = [] \<or> \<not> be_isEmail b (tc_rootAdminEmail p)
       then act_throw (Auth_failed (BadRequestException ''rootAdminEmail is required''))
       else act_bind (on_auth (create_root_admin b p)) (\<lambda>user.
         act_bind (on_roles (seedBaselineSystemRoles (be_roles b) (tc_tenantCode p) (be_role_ids b))) (\<lambda>_.
         act_then (on_auth (log_event env (userProvisioned (tc_tenantCode p) (usr_id user)
             (usr_normalizedEmail user) ''BUILT_IN_ADMIN'' ''ACTIVE'')))
         (act_ret Bootstrapped))))))"

text \<open>\<^verbatim>\<open>handlers/tenant-provisioning.handler.ts\<close>: the event's tenant is the request's.\<close>

definition handleTenantLifecycleEvent :: "bootstrap_env \<Rightarrow> tenant_created \<Rightarrow> bootstrap_result platform_act" where
  "handleTenantLifecycleEvent b p =
    bootstrapRootAdmin (b\<lparr> be_auth := (be_auth b)\<lparr> ae_tenant := tc_tenantCode p, ae_ip := Some ''127.0.0.1'' \<rparr>,
      be_roles := (be_roles b)\<lparr> re_tenant := tc_tenantCode p \<rparr> \<rparr>) p"

end
