(* ===== verification/Cognito_Properties.thy ===== *)
theory Cognito_Properties
  imports Cognito
begin

text \<open>
  The retry loop is equal to a closed description of its run, and provisioning keeps the link
  between accounts and Cognito subjects one to one.
\<close>

section \<open>The retry loop\<close>

text \<open>An answer that ends the loop: a result, an existing user, or an error no retry can help.\<close>

definition settles :: "thrown_error + 'a \<Rightarrow> bool" where
  "settles r = (case r of Inr _ \<Rightarrow> True | Inl e \<Rightarrow> te_class e = Already_exists \<or> \<not> isRetryableError e)"

definition settling_attempt :: "(nat \<Rightarrow> thrown_error + 'a) \<Rightarrow> nat" where
  "settling_attempt op = hd (filter (\<lambda>k. settles (op k)) [1, 2] @ [3])"

lemma retry_loop_settled:
  "attempt \<le> cognitoMaxRetries \<Longrightarrow> settles (op attempt) \<or> attempt = cognitoMaxRetries \<Longrightarrow>
    retry_loop op attempt e d = \<lparr> rt_outcome = op attempt, rt_attempts = attempt, rt_delays = d \<rparr>"
  by (subst retry_loop.simps) (auto simp: settles_def split: sum.splits)

lemma retry_loop_again:
  assumes "attempt < cognitoMaxRetries" "op attempt = Inl e'" "\<not> settles (op attempt)"
  shows "retry_loop op attempt e d = retry_loop op (attempt + 1) e' (d @ [initialBackoffMs * 2 ^ (attempt - 1)])"
  using assms by (subst retry_loop.simps) (auto simp: settles_def)

lemma not_settled: "\<not> settles r \<Longrightarrow> \<exists>e. r = Inl e"
  by (cases r) (auto simp: settles_def)

lemma retry_run:
  "executeWithRetry op =
    \<lparr> rt_outcome = op (settling_attempt op), rt_attempts = settling_attempt op,
      rt_delays = take (settling_attempt op - 1) [50, 100] \<rparr>"
proof (cases "settles (op 1)")
  case True
  then show ?thesis
    by (simp add: executeWithRetry_def retry_loop_settled cognitoMaxRetries_def settling_attempt_def)
next
  case one: False
  then obtain e1 where "op 1 = Inl e1" using not_settled by blast
  then have 1: "executeWithRetry op = retry_loop op 2 e1 [50]"
    using retry_loop_again[of 1 op e1, unfolded one_add_one] one
    by (simp add: executeWithRetry_def cognitoMaxRetries_def initialBackoffMs_def)
  show ?thesis
  proof (cases "settles (op 2)")
    case True
    then show ?thesis using one 1
      by (simp add: retry_loop_settled cognitoMaxRetries_def settling_attempt_def)
  next
    case False
    then obtain e2 where "op 2 = Inl e2" using not_settled by blast
    then have "retry_loop op 2 e1 [50] = retry_loop op 3 e2 [50, 100]"
      using retry_loop_again[of 2 op e2 e1 "[50]"] False
      by (simp add: cognitoMaxRetries_def initialBackoffMs_def)
    then show ?thesis using one False 1
      by (simp add: retry_loop_settled cognitoMaxRetries_def settling_attempt_def)
  qed
qed

section \<open>One subject, one account\<close>

definition linked_once :: "app_user list \<Rightarrow> bool" where
  "linked_once us = (\<forall>u \<in> set us. \<forall>v \<in> set us.
     usr_externalIdentityId u \<noteq> None \<longrightarrow> usr_externalIdentityId u = usr_externalIdentityId v \<longrightarrow> usr_id u = usr_id v)"

definition identity_event :: "auth_env \<Rightarrow> outbox_draft \<Rightarrow> auth_world \<Rightarrow> auth_world" where
  "identity_event env d = upd_db (\<lambda>db. db\<lparr> d_outbox := d_outbox db @ [outbox_create (ae_tenant env) d] \<rparr>)"

lemma provisioning_failed_run:
  "provisioning_failed env i email code msg n w =
    (Inl (CognitoProvisioningException msg code),
     identity_event env (cognitoProvisioningFailed (pi_tenant i) (pi_userId i) email code msg n) w)"
  by (simp add: provisioning_failed_def act_simps identity_event_def)

lemma link_identity_run:
  "link_identity env i email sub a w =
    (Inr \<lparr> pr_userId = pi_userId i, pr_externalIdentityId = sub, pr_username = email, pr_action = a \<rparr>,
     identity_event env (cognitoUserProvisioned (pi_tenant i) (pi_userId i) email sub (action_string a))
       (upd_db (d_users_update (update_rows (\<lambda>u. usr_id u = pi_userId i)
          (\<lambda>u. u\<lparr> usr_externalIdentityId := Some sub \<rparr>))) w))"
  by (simp add: link_identity_def act_simps identity_event_def update_user_def)

lemma link_checks_Inr:
  assumes "link_checks i db found = Inr sub"
  shows "\<exists>cu. found = Inr cu \<and> cu_sub cu = Some sub \<and> sub \<noteq> [] \<and>
    (cu_tenant_code cu = Some (pi_tenant i) \<or> truthy_id (cu_tenant_code cu) = None) \<and>
    (\<forall>u. findByTenantAndExternalIdentity sub (d_users db) = Some u \<longrightarrow> usr_id u = pi_userId i)"
  using assms
  by (auto simp: link_checks_def linked_elsewhere_def truthy_id_def
      split: sum.splits option.splits list.splits if_splits)

text \<open>What one provisioning does, on each way it can end.\<close>

definition provisioned :: "auth_env \<Rightarrow> cognito_api \<Rightarrow> provision_input \<Rightarrow> auth_world
    \<Rightarrow> provisioning_result \<Rightarrow> auth_world \<Rightarrow> bool" where
  "provisioned env api i w r w' =
    (pr_userId r = pi_userId i \<and> pr_username r = normalize_email (pi_email i) \<and> pr_externalIdentityId r \<noteq> [] \<and>
     w' = snd (link_identity env i (pr_username r) (pr_externalIdentityId r) (pr_action r) w) \<and>
     (case pr_action r of
        CREATED \<Rightarrow> \<exists>k cu. cg_createUser api (create_input i (pr_username r)) k = Inr cu \<and>
            cu_sub cu = Some (pr_externalIdentityId r)
      | LINKED_EXISTING \<Rightarrow> (\<exists>k cu. cg_getUser api (pr_username r) k = Inr cu \<and>
            cu_sub cu = Some (pr_externalIdentityId r) \<and>
            (cu_tenant_code cu = Some (pi_tenant i) \<or> truthy_id (cu_tenant_code cu) = None)) \<and>
          (\<forall>u. findByTenantAndExternalIdentity (pr_externalIdentityId r) (d_users (w_db w)) = Some u \<longrightarrow>
             usr_id u = pi_userId i)))"

definition provisioning_outcome :: "auth_env \<Rightarrow> cognito_api \<Rightarrow> provision_input \<Rightarrow> auth_world
    \<Rightarrow> (auth_error + provisioning_result) \<times> auth_world \<Rightarrow> bool" where
  "provisioning_outcome env api i w out =
    (case out of
       (Inr r, w') \<Rightarrow> provisioned env api i w r w'
     | (Inl e, w') \<Rightarrow> \<exists>msg code. \<exists>n \<in> {1..3}. e = CognitoProvisioningException msg code \<and>
         w' = identity_event env (cognitoProvisioningFailed (pi_tenant i) (pi_userId i)
                (normalize_email (pi_email i)) code msg n) w)"

lemma failed_outcome:
  "n \<in> {1..3} \<Longrightarrow>
    provisioning_outcome env api i w (provisioning_failed env i (normalize_email (pi_email i)) code msg n w)"
  unfolding provisioning_outcome_def provisioning_failed_run prod.case sum.case by blast

lemma provision_outcome: "provisioning_outcome env api i w (provisionCognitoUser env api i w)"
proof -
  let ?email = "normalize_email (pi_email i)"
  let ?op = "cg_createUser api (create_input i ?email)"
  let ?n = "int (settling_attempt ?op)"
  have n: "?n \<in> {1..3}" by (simp add: settling_attempt_def)
  show ?thesis
  proof (cases "?op (settling_attempt ?op)")
    case (Inr cu)
    show ?thesis
    proof (cases "truthy_id (cu_sub cu)")
      case None
      then have "\<exists>msg code. provisionCognitoUser env api i w = provisioning_failed env i ?email code msg ?n w"
        using Inr by (auto simp: provisionCognitoUser_def Let_def retry_run)
      then show ?thesis using failed_outcome[OF n] by auto
    next
      case (Some sub)
      then have "provisionCognitoUser env api i w = link_identity env i ?email sub CREATED w"
        using Inr by (simp add: provisionCognitoUser_def Let_def retry_run)
      moreover have "cu_sub cu = Some sub" "sub \<noteq> []"
        using Some by (auto simp: truthy_id_def split: option.splits list.splits)
      ultimately show ?thesis using Inr by (auto simp: link_identity_run provisioning_outcome_def provisioned_def)
    qed
  next
    case (Inl e)
    let ?found = "rt_outcome (executeWithRetry (cg_getUser api ?email))"
    show ?thesis
    proof (cases "te_class e = Already_exists")
      case False
      then have "\<exists>msg code. provisionCognitoUser env api i w = provisioning_failed env i ?email code msg ?n w"
        using Inl by (auto simp: provisionCognitoUser_def Let_def retry_run)
      then show ?thesis using failed_outcome[OF n] by auto
    next
      case True
      then have link: "provisionCognitoUser env api i w = linkExistingCognitoUser env api i ?email w"
        using Inl by (simp add: provisionCognitoUser_def Let_def retry_run)
      show ?thesis
      proof (cases "link_checks i (w_db w) ?found")
        case (Inl f)
        then show ?thesis unfolding link
          using failed_outcome[of 1] by (simp add: linkExistingCognitoUser_def act_simps)
      next
        case (Inr sub)
        then have "linkExistingCognitoUser env api i ?email w = link_identity env i ?email sub LINKED_EXISTING w"
          by (simp add: linkExistingCognitoUser_def act_simps)
        then show ?thesis using link_checks_Inr[OF Inr] unfolding link
          by (auto simp: link_identity_run provisioning_outcome_def provisioned_def retry_run)
      qed
    qed
  qed
qed

text \<open>
  C21: A call to Cognito is attempted until it settles, at most three times: the outcome is the
  answer of the first attempt that succeeds or cannot be helped by trying again, or else of the
  third one, and before each further attempt the service waits 50 and then 100 milliseconds.
\<close>

theorem retry_is_bounded:
  "executeWithRetry op =
    \<lparr> rt_outcome = op (settling_attempt op), rt_attempts = settling_attempt op,
      rt_delays = take (settling_attempt op - 1) [50, 100] \<rparr>"
  by (rule retry_run)

section \<open>Keeping the links apart\<close>

lemma external_identity_holders:
  assumes "linked_once us" "u \<in> set us" "usr_externalIdentityId u = Some s"
  obtains v where "findByTenantAndExternalIdentity s us = Some v" "usr_id v = usr_id u"
proof -
  have "findByTenantAndExternalIdentity s us \<noteq> None"
    using assms(2,3) by (auto simp: findByTenantAndExternalIdentity_def find_None_iff)
  then obtain v where v: "findByTenantAndExternalIdentity s us = Some v" by blast
  then have "v \<in> set us" "usr_externalIdentityId v = Some s"
    by (auto simp: findByTenantAndExternalIdentity_def dest: find_SomeD)
  then show thesis using that v assms unfolding linked_once_def by (metis option.distinct(1))
qed

lemma linked_once_update:
  assumes "linked_once us" "\<And>u. u \<in> set us \<Longrightarrow> usr_externalIdentityId u = Some s \<Longrightarrow> usr_id u = i"
  shows "linked_once (update_rows (\<lambda>u. usr_id u = i) (\<lambda>u. u\<lparr> usr_externalIdentityId := Some s \<rparr>) us)"
proof -
  let ?us = "update_rows (\<lambda>u. usr_id u = i) (\<lambda>u. u\<lparr> usr_externalIdentityId := Some s \<rparr>) us"
  have row: "(usr_id x = i \<and> usr_externalIdentityId x = Some s) \<or> (x \<in> set us \<and> usr_id x \<noteq> i)"
    if x: "x \<in> set ?us" for x
  proof -
    obtain r where r: "r \<in> set us" "x = (if usr_id r = i then r\<lparr> usr_externalIdentityId := Some s \<rparr> else r)"
      using x[unfolded in_update_rows] by blast
    show ?thesis by (cases "usr_id r = i") (use r in simp_all)
  qed
  have "usr_id x = usr_id y"
    if x: "x \<in> set ?us" and y: "y \<in> set ?us" and "usr_externalIdentityId x \<noteq> None"
      "usr_externalIdentityId x = usr_externalIdentityId y" for x y
    using row[OF x] row[OF y] that(3,4) assms unfolding linked_once_def by metis
  then show ?thesis unfolding linked_once_def by blast
qed

text \<open>
  C22: Provisioning links at most one account to a Cognito subject: as long as Cognito gives a
  created user a subject no account has, subjects stay linked to at most one account.  A success
  links the account of the request and records one event, a failure changes no account and records
  one event with the attempts made, and an existing Cognito user is never taken over from a tenant
  it names.
\<close>

theorem provisioning_links_apart:
  assumes "linked_once (d_users (w_db w))"
    and "\<And>inp k cu s u. cg_createUser api inp k = Inr cu \<Longrightarrow> cu_sub cu = Some s \<Longrightarrow>
      u \<in> set (d_users (w_db w)) \<Longrightarrow> usr_externalIdentityId u \<noteq> Some s"
  shows "case provisionCognitoUser env api i w of (r, w') \<Rightarrow>
    linked_once (d_users (w_db w')) \<and>
    length (d_outbox (w_db w')) = Suc (length (d_outbox (w_db w))) \<and> w_redis w' = w_redis w \<and>
    (case r of
       Inl e \<Rightarrow> d_users (w_db w') = d_users (w_db w)
     | Inr p \<Rightarrow> d_users (w_db w') = update_rows (\<lambda>u. usr_id u = pi_userId i)
           (\<lambda>u. u\<lparr> usr_externalIdentityId := Some (pr_externalIdentityId p) \<rparr>) (d_users (w_db w)) \<and>
         (pr_action p = CREATED \<or> (\<exists>k cu. cg_getUser api (normalize_email (pi_email i)) k = Inr cu \<and>
            cu_sub cu = Some (pr_externalIdentityId p) \<and>
            truthy_id (cu_tenant_code cu) \<in> {None, truthy_id (Some (pi_tenant i))})))"
proof -
  obtain r w' where run: "provisionCognitoUser env api i w = (r, w')" by (cases "provisionCognitoUser env api i w")
  show ?thesis
  proof (cases r)
    case (Inl e)
    then show ?thesis using provision_outcome[of env api i w] run assms(1)
      by (auto simp: provisioning_outcome_def identity_event_def)
  next
    case (Inr p)
    then have p: "provisioned env api i w p w'"
      using provision_outcome[of env api i w] run by (simp add: provisioning_outcome_def)
    have "usr_id u = pi_userId i"
      if u: "u \<in> set (d_users (w_db w))" and x: "usr_externalIdentityId u = Some (pr_externalIdentityId p)" for u
    proof (cases "pr_action p")
      case CREATED
      then show ?thesis using p u x assms(2) by (auto simp: provisioned_def)
    next
      case LINKED_EXISTING
      obtain v where "findByTenantAndExternalIdentity (pr_externalIdentityId p) (d_users (w_db w)) = Some v"
        "usr_id v = usr_id u"
        using external_identity_holders[OF assms(1) u x] .
      then show ?thesis using p LINKED_EXISTING by (auto simp: provisioned_def)
    qed
    from linked_once_update[OF assms(1) this]
    have links: "linked_once (update_rows (\<lambda>u. usr_id u = pi_userId i)
       (\<lambda>u. u\<lparr> usr_externalIdentityId := Some (pr_externalIdentityId p) \<rparr>) (d_users (w_db w)))" .
    have "w' = snd (link_identity env i (pr_username p) (pr_externalIdentityId p) (pr_action p) w)"
      using p unfolding provisioned_def by blast
    then have w': "d_users (w_db w') = update_rows (\<lambda>u. usr_id u = pi_userId i)
        (\<lambda>u. u\<lparr> usr_externalIdentityId := Some (pr_externalIdentityId p) \<rparr>) (d_users (w_db w))"
      "length (d_outbox (w_db w')) = Suc (length (d_outbox (w_db w)))" "w_redis w' = w_redis w"
      by (simp_all add: link_identity_run identity_event_def)
    have "pr_action p = CREATED \<or> (\<exists>k cu. cg_getUser api (normalize_email (pi_email i)) k = Inr cu \<and>
      cu_sub cu = Some (pr_externalIdentityId p) \<and>
      truthy_id (cu_tenant_code cu) \<in> {None, truthy_id (Some (pi_tenant i))})"
      using p by (cases "pr_action p") (simp_all add: provisioned_def, metis)
    then show ?thesis using run Inr links w' by simp
  qed
qed

text \<open>A user pool that knows the address already, after one throttled call.\<close>

definition sample_pool :: cognito_api where
  "sample_pool = \<lparr> cg_createUser = (\<lambda>_ k. Inl (if k = 1
       then \<lparr> te_class = Cognito_other, te_code = ''Throttling'', te_name = Some ''ThrottlingException'', te_message = None \<rparr>
       else \<lparr> te_class = Already_exists, te_code = ''Exists'', te_name = None, te_message = None \<rparr>)),
     cg_getUser = (\<lambda>_ k. Inr \<lparr> cu_sub = Some ''sub-1'', cu_tenant_code = Some ''acme'' \<rparr>) \<rparr>"

definition sample_provision :: provision_input where
  "sample_provision = \<lparr> pi_userId = ''u1'', pi_email = ''ann@acme.io'', pi_tenant = ''acme'',
     pi_suppressNotification = False, pi_isEmailVerified = False \<rparr>"

lemma sample_pool_links:
  "provisionCognitoUser sample_env sample_pool sample_provision login_world =
    link_identity sample_env sample_provision ''ann@acme.io'' ''sub-1'' LINKED_EXISTING login_world"
proof -
  have create: "rt_outcome (executeWithRetry (cg_createUser sample_pool inp)) =
      Inl \<lparr> te_class = Already_exists, te_code = ''Exists'', te_name = None, te_message = None \<rparr>" for inp
  proof -
    have "settling_attempt (cg_createUser sample_pool inp) = 2"
      by (simp add: settling_attempt_def settles_def sample_pool_def isRetryableError_def) code_simp
    then show ?thesis by (simp add: retry_run sample_pool_def)
  qed
  have get: "rt_outcome (executeWithRetry (cg_getUser sample_pool e)) = cg_getUser sample_pool e 1" for e
    by (simp add: retry_run settling_attempt_def settles_def sample_pool_def)
  have "link_checks sample_provision (w_db login_world) (cg_getUser sample_pool e 1) = Inr ''sub-1''" for e
    by (simp add: link_checks_def linked_elsewhere_def truthy_id_def sample_pool_def sample_provision_def
        findByTenantAndExternalIdentity_def login_sample_defs)
  then have "linkExistingCognitoUser sample_env sample_pool sample_provision e login_world =
    link_identity sample_env sample_provision e ''sub-1'' LINKED_EXISTING login_world" for e
    by (simp add: linkExistingCognitoUser_def act_simps get)
  moreover have "provisionCognitoUser sample_env sample_pool sample_provision login_world =
    linkExistingCognitoUser sample_env sample_pool sample_provision (normalize_email (pi_email sample_provision)) login_world"
    by (simp add: provisionCognitoUser_def Let_def create)
  ultimately show ?thesis by (simp add: sample_provision_def)
qed

theorem provisioning_links_apart_witness:
  "\<exists>p w'. provisionCognitoUser sample_env sample_pool sample_provision login_world = (Inr p, w') \<and>
     pr_action p = LINKED_EXISTING \<and> linked_once (d_users (w_db w')) \<and>
     map usr_externalIdentityId (d_users (w_db w')) = [Some ''sub-1'']"
proof -
  have users: "d_users (w_db login_world) = [sample_user]" by (simp add: login_world_def sample_auth_defs)
  then have "linked_once (d_users (w_db login_world))" by (simp add: linked_once_def)
  moreover have "\<And>inp k cu. cg_createUser sample_pool inp k \<noteq> Inr cu" by (simp add: sample_pool_def)
  ultimately have "case provisionCognitoUser sample_env sample_pool sample_provision login_world of (r, w') \<Rightarrow>
      linked_once (d_users (w_db w'))"
    using provisioning_links_apart[of login_world sample_pool sample_provision sample_env] by auto
  then show ?thesis
    unfolding sample_pool_links link_identity_run prod.case
    by (auto simp: identity_event_def users sample_user_def sample_provision_def)
qed

end
