(* ===== verification/Password_Reset_Properties.thy ===== *)
theory Password_Reset_Properties
  imports Password_Reset
begin

text \<open>
  The recovery code against an abstract one-time code, the bound on guesses, and what a confirmed
  reset changes.
\<close>

section \<open>An abstract one-time code\<close>

text \<open>
  A code may be guessed wrongly three times.  The right guess hands out a proof, and nothing is
  handed out once the guesses are used up.
\<close>

record code_spec =
  cs_code :: string
  cs_left :: nat
  cs_proof :: "string option"

datatype code_answer = Accepted string | Wrong | Locked_out

definition spec_submit :: "string \<Rightarrow> string \<Rightarrow> code_spec \<Rightarrow> code_answer \<times> code_spec" where
  "spec_submit h tok s =
    (if cs_left s = 0 then (Locked_out, s)
     else if h = cs_code s then (Accepted tok, s\<lparr> cs_proof := Some tok \<rparr>)
     else (if cs_left s = 1 then Locked_out else Wrong, s\<lparr> cs_left := cs_left s - 1 \<rparr>))"

definition spec_of :: "reset_challenge \<Rightarrow> code_spec" where
  "spec_of c = \<lparr> cs_code = rc_hashedCode c, cs_left = nat (3 - rc_attempts c),
     cs_proof = (if rc_codeVerified c then rc_resetToken c else None) \<rparr>"

definition answer_of :: "auth_error + string \<Rightarrow> code_answer option" where
  "answer_of r =
    (case r of Inr tok \<Rightarrow> Some (Accepted tok)
     | Inl MaxAttemptsExceededException \<Rightarrow> Some Locked_out
     | Inl InvalidResetCodeException \<Rightarrow> Some Wrong
     | Inl _ \<Rightarrow> None)"

definition dto_key :: "verify_code_dto \<Rightarrow> string" where
  "dto_key d = reset_key (vc_challengeId d) (vc_tenant d) (vc_userId d)"

definition challenge_at :: "auth_world \<Rightarrow> string \<Rightarrow> reset_challenge option" where
  "challenge_at w k =
    (case redis_cells w k of
       Some c \<Rightarrow> (case cell_value c of RV_reset r \<Rightarrow> Some r | _ \<Rightarrow> None)
     | None \<Rightarrow> None)"

lemma getChallenge_run:
  assumes "rs_up (w_redis w)" "challenge_at w (reset_key c t u) = Some r"
  shows "getChallenge c t u w = (Inr (Some r), w)"
  using assms redis_run(2)[of w "reset_key c t u"]
  by (auto simp: getChallenge_def act_bind_def challenge_at_def act_simps
      split: option.splits redis_value.splits)

definition put_challenge :: "string \<Rightarrow> reset_challenge \<Rightarrow> auth_world \<Rightarrow> auth_world" where
  "put_challenge k r = upd_cells (AList.update k \<lparr> cell_value = RV_reset r, cell_ttl = Some reset_ttl \<rparr>)"

lemma put_challenge_fields [simp]:
  "w_db (put_challenge k r w) = w_db w"
  "rs_up (w_redis (put_challenge k r w)) = rs_up (w_redis w)"
  "challenge_at (put_challenge k r w) k = Some r"
  "k' \<noteq> k \<Longrightarrow> redis_cells (put_challenge k r w) k' = redis_cells w k'"
  by (simp_all add: put_challenge_def challenge_at_def redis_cells_def update_conv')

text \<open>The whole step on a stored challenge, branch by branch.\<close>

lemma verifyResetCode_run:
  assumes up: "rs_up (w_redis w)" and at: "challenge_at w (dto_key d) = Some r"
  shows "verifyResetCode env d w =
    (if rc_attempts r \<ge> 3 then (Inl MaxAttemptsExceededException, w)
     else if hashOtpCode env (vc_code d) \<noteq> rc_hashedCode r
     then (Inl (if rc_attempts r + 1 \<ge> 3 then MaxAttemptsExceededException else InvalidResetCodeException),
           put_challenge (dto_key d) (r\<lparr> rc_attempts := rc_attempts r + 1 \<rparr>) w)
     else (Inr (ae_uuid env 0),
           put_challenge (dto_key d) (r\<lparr> rc_codeVerified := True, rc_resetToken := Some (ae_uuid env 0) \<rparr>) w))"
proof -
  note get = getChallenge_run[OF up at[unfolded dto_key_def]]
  have set: "redis_set (dto_key d) (RV_reset x) reset_ttl w = (Inr (), put_challenge (dto_key d) x w)" for x
    using redis_run(1)[OF up] by (simp add: put_challenge_def)
  have inc: "incrementAttempts (vc_challengeId d) (vc_tenant d) (vc_userId d) w =
      (Inr (rc_attempts r + 1), put_challenge (dto_key d) (r\<lparr> rc_attempts := rc_attempts r + 1 \<rparr>) w)"
    using get set[of "r\<lparr> rc_attempts := rc_attempts r + 1 \<rparr>"]
    by (simp add: incrementAttempts_def act_bind_def act_then_def act_simps dto_key_def)
  have mark: "markCodeVerified (vc_challengeId d) (vc_tenant d) (vc_userId d) tok w =
      (Inr (), put_challenge (dto_key d) (r\<lparr> rc_codeVerified := True, rc_resetToken := Some tok \<rparr>) w)" for tok
    using get set[of "r\<lparr> rc_codeVerified := True, rc_resetToken := Some tok \<rparr>"]
    by (simp add: markCodeVerified_def act_bind_def act_simps dto_key_def)
  show ?thesis
    by (simp add: verifyResetCode_def act_bind_def get inc mark act_then_def act_simps)
qed

text \<open>
  C8: Verifying a recovery code refines the abstract one-time code with three guesses: on a stored
  challenge the answer and the challenge left behind are those of the abstract step, every other
  key and the database are untouched.
\<close>

theorem reset_code_refines_one_time_code:
  assumes "rs_up (w_redis w)" "challenge_at w (dto_key d) = Some r" "0 \<le> rc_attempts r"
  shows "\<exists>answer r'. answer_of (fst (verifyResetCode env d w)) = Some answer \<and>
    challenge_at (snd (verifyResetCode env d w)) (dto_key d) = Some r' \<and>
    spec_submit (hashOtpCode env (vc_code d)) (ae_uuid env 0) (spec_of r) = (answer, spec_of r') \<and>
    w_db (snd (verifyResetCode env d w)) = w_db w \<and>
    (\<forall>k. k \<noteq> dto_key d \<longrightarrow> redis_cells (snd (verifyResetCode env d w)) k = redis_cells w k)"
  unfolding verifyResetCode_run[OF assms(1,2)]
  using assms(2,3) by (auto simp: answer_of_def spec_submit_def spec_of_def nat_diff_distrib)

section \<open>The bound on guesses\<close>

fun submit_codes :: "auth_env \<Rightarrow> verify_code_dto \<Rightarrow> string list \<Rightarrow> auth_world \<Rightarrow> auth_world" where
  "submit_codes env d [] w = w"
| "submit_codes env d (c # cs) w = submit_codes env d cs (snd (verifyResetCode env (d\<lparr> vc_code := c \<rparr>) w))"

lemma dto_key_code [simp]: "dto_key (d\<lparr> vc_code := c \<rparr>) = dto_key d"
  by (simp add: dto_key_def)

lemma submit_codes_count:
  assumes "rs_up (w_redis w)" "challenge_at w (dto_key d) = Some r" "0 \<le> rc_attempts r" "rc_attempts r \<le> 3"
  shows "\<exists>r'. rs_up (w_redis (submit_codes env d cs w)) \<and>
    challenge_at (submit_codes env d cs w) (dto_key d) = Some r' \<and>
    rc_attempts r' = min 3 (rc_attempts r + int (length (filter (\<lambda>c. hashOtpCode env c \<noteq> rc_hashedCode r) cs)))"
  using assms
proof (induction cs arbitrary: w r)
  case Nil
  then show ?case by simp
next
  case (Cons c cs)
  let ?d = "d\<lparr> vc_code := c \<rparr>"
  have run: "verifyResetCode env ?d w =
    (if rc_attempts r \<ge> 3 then (Inl MaxAttemptsExceededException, w)
     else if hashOtpCode env c \<noteq> rc_hashedCode r
     then (Inl (if rc_attempts r + 1 \<ge> 3 then MaxAttemptsExceededException else InvalidResetCodeException),
           put_challenge (dto_key d) (r\<lparr> rc_attempts := rc_attempts r + 1 \<rparr>) w)
     else (Inr (ae_uuid env 0),
           put_challenge (dto_key d) (r\<lparr> rc_codeVerified := True, rc_resetToken := Some (ae_uuid env 0) \<rparr>) w))"
    using verifyResetCode_run[of w ?d r env] Cons.prems(1,2) by simp
  consider "rc_attempts r = 3" | "rc_attempts r < 3" "hashOtpCode env c \<noteq> rc_hashedCode r"
    | "rc_attempts r < 3" "hashOtpCode env c = rc_hashedCode r"
    using Cons.prems(4) by fastforce
  then show ?case
  proof cases
    case 1
    then show ?thesis using Cons.IH[OF Cons.prems] run by auto
  next
    case 2
    then show ?thesis
      using Cons.IH[of "put_challenge (dto_key d) (r\<lparr> rc_attempts := rc_attempts r + 1 \<rparr>) w"
          "r\<lparr> rc_attempts := rc_attempts r + 1 \<rparr>"] run Cons.prems by (auto simp: algebra_simps)
  next
    case 3
    then show ?thesis
      using Cons.IH[of "put_challenge (dto_key d) (r\<lparr> rc_codeVerified := True, rc_resetToken := Some (ae_uuid env 0) \<rparr>) w"
          "r\<lparr> rc_codeVerified := True, rc_resetToken := Some (ae_uuid env 0) \<rparr>"] run Cons.prems by auto
  qed
qed

text \<open>
  Whoever submits three wrong recovery codes for a fresh challenge, in any order with any other
  codes in between, is refused from then on, the right code included.
\<close>

theorem three_wrong_codes_lock:
  assumes "rs_up (w_redis w)" "challenge_at w (dto_key d) = Some r" "rc_attempts r = 0"
    and "3 \<le> length (filter (\<lambda>c. hashOtpCode env c \<noteq> rc_hashedCode r) cs)"
  shows "verifyResetCode env (d\<lparr> vc_code := c \<rparr>) (submit_codes env d cs w)
    = (Inl MaxAttemptsExceededException, submit_codes env d cs w)"
proof -
  obtain r' where "rs_up (w_redis (submit_codes env d cs w))"
    "challenge_at (submit_codes env d cs w) (dto_key d) = Some r'" "rc_attempts r' = 3"
    using submit_codes_count[of w d r env cs] assms by auto
  then show ?thesis using verifyResetCode_run[of "submit_codes env d cs w" "d\<lparr> vc_code := c \<rparr>" r' env] by simp
qed

definition sample_challenge :: reset_challenge where
  "sample_challenge = \<lparr> rc_tenant = ''acme'', rc_userId = ''u1'', rc_hashedCode = ''m:654321'',
     rc_codeVerified = False, rc_resetToken = None, rc_attempts = 0 \<rparr>"

definition sample_code :: verify_code_dto where
  "sample_code = \<lparr> vc_challengeId = ''ch'', vc_tenant = ''acme'', vc_userId = ''u1'', vc_code = ''654321'' \<rparr>"

definition reset_world :: auth_world where
  "reset_world = put_challenge (dto_key sample_code) sample_challenge login_world"

lemma reset_world_facts:
  "rs_up (w_redis reset_world)" "challenge_at reset_world (dto_key sample_code) = Some sample_challenge"
  "hashOtpCode sample_env c = ''m:'' @ c"
  by (simp_all add: reset_world_def login_sample_defs hashOtpCode_def)

theorem reset_code_refines_one_time_code_witness:
  "\<exists>r'. spec_submit ''m:654321'' ''sid'' (spec_of sample_challenge) = (Accepted ''sid'', spec_of r') \<and>
     challenge_at (snd (verifyResetCode sample_env sample_code reset_world)) (dto_key sample_code) = Some r'"
  using reset_code_refines_one_time_code[OF reset_world_facts(1,2), of sample_env]
  by (auto simp: sample_challenge_def sample_code_def reset_world_facts sample_env_def spec_submit_def
      spec_of_def hashOtpCode_def)

theorem three_wrong_codes_lock_witness:
  "fst (verifyResetCode sample_env (sample_code\<lparr> vc_code := ''654321'' \<rparr>)
     (submit_codes sample_env sample_code [''1'', ''654321'', ''2'', ''3''] reset_world))
   = Inl MaxAttemptsExceededException"
  using three_wrong_codes_lock[OF reset_world_facts(1,2), of sample_env "[''1'', ''654321'', ''2'', ''3'']" "''654321''"]
  by (simp add: reset_world_facts sample_challenge_def)

section \<open>What a confirmed reset changes\<close>

definition supersede_active :: "uuid \<Rightarrow> credential list \<Rightarrow> credential list" where
  "supersede_active u cs =
    (case findActiveByUseUnscope u cs of
       None \<Rightarrow> cs
     | Some c \<Rightarrow> update_rows (\<lambda>x. cr_id x = cr_id c) (cr_status_update (\<lambda>_. Credential_superseded)) cs)"

lemma find_append_None: "(\<forall>x \<in> set xs. \<not> P x) \<Longrightarrow> find P (xs @ ys) = find P ys"
  by (induction xs) auto

lemma store_new_password_Inr:
  assumes "store_new_password env d w = (Inr x, w')"
  obtains u where "findByIdUnscoped (cf_userId d) (d_users (w_db w)) = Some u"
    "w_redis w' = w_redis w"
    "\<exists>n. d_credentials (w_db w') = supersede_active (cf_userId d) (d_credentials (w_db w)) @ [n] \<and>
       cr_userId n = cf_userId d \<and> cr_status n = Credential_active \<and>
       cr_passwordHash n = ae_hash env (cf_newPassword d)"
    "\<forall>x \<in> set (supersede_active (cf_userId d) (d_credentials (w_db w))).
       \<not> (cr_userId x = cf_userId d \<and> cr_status x = Credential_active)"
    "d_users (w_db w') = update_rows (\<lambda>r. usr_id r = usr_id u) (usr_securityVersion_update (\<lambda>_. usr_securityVersion u)) (d_users (w_db w))"
proof (cases "findByIdUnscoped (cf_userId d) (d_users (w_db w))")
  case None
  then show thesis using assms
    by (simp add: store_new_password_def db_tx_def act_tx_def act_simps)
next
  case (Some u)
  then have u: "usr_id u = cf_userId d" by (auto simp: findByIdUnscoped_def dest: find_SomeD)
  show thesis
    by (rule that[OF Some])
       (use assms u Some in \<open>auto simp: store_new_password_def db_tx_def act_tx_def act_simps update_user_def
         update_credential_def create_credential_def new_credential_def supersede_active_def
         act_assoc list_ex_iff split: option.splits if_splits\<close>)
qed

lemma revoke_frame: "revokeAllSessions env t u w = (r, w') \<Longrightarrow> redis_only w w'"
  using keepsD[OF keeps_revokeAllSessions] .

lemma same_version_write:
  assumes "distinct (map usr_id us)" "find (\<lambda>x. usr_id x = i) us = Some u"
  shows "update_rows (\<lambda>r. usr_id r = usr_id u) (usr_securityVersion_update (\<lambda>_. usr_securityVersion u)) us = us"
proof -
  have u: "u \<in> set us" using assms(2) by (auto dest: find_SomeD)
  have "(if usr_id r = usr_id u then usr_securityVersion_update (\<lambda>_. usr_securityVersion u) r else r) = r"
    if "r \<in> set us" for r
  proof (cases "usr_id r = usr_id u")
    case True
    then have "r = u" using that u assms(1) by (auto simp: distinct_map dest: inj_onD)
    then show ?thesis by simp
  qed simp
  then show ?thesis by (simp add: update_rows_def map_idI)
qed

definition confirm_key :: "confirm_reset_dto \<Rightarrow> string" where
  "confirm_key d = reset_key (cf_challengeId d) (cf_tenant d) (cf_userId d)"

text \<open>
  C13: A confirmed reset had a verified challenge and its token.  Afterwards the user's only active
  credential holds the new password's hash, the challenge is gone so that the same request fails,
  and every user row is as before: the security version the reset writes is the old one.
\<close>

theorem confirmed_reset_replaces_password:
  assumes "confirmPasswordReset env d w = (Inr b, w')"
    and "distinct (map usr_id (d_users (w_db w)))"
  shows "(\<exists>r. challenge_at w (confirm_key d) = Some r \<and> rc_codeVerified r \<and> rc_resetToken r = Some (cf_resetToken d)) \<and>
    (\<exists>c. findActiveByUseUnscope (cf_userId d) (d_credentials (w_db w')) = Some c \<and>
       cr_passwordHash c = ae_hash env (cf_newPassword d) \<and>
       (\<forall>x \<in> set (d_credentials (w_db w')). cr_userId x = cf_userId d \<and> cr_status x = Credential_active \<longrightarrow> x = c)) \<and>
    d_users (w_db w') = d_users (w_db w) \<and>
    confirmPasswordReset env d w' = (Inl InvalidResetChallengeException, w')"
proof -
  let ?k = "reset_key (cf_challengeId d) (cf_tenant d) (cf_userId d)"
  let ?bad = "\<lambda>found. case found of None \<Rightarrow> True
      | Some c \<Rightarrow> \<not> rc_codeVerified c \<or> rc_resetToken c \<noteq> Some (cf_resetToken d)"
  let ?rev = "act_catch (revokeAllSessions env (cf_tenant d) (cf_userId d)) (\<lambda>_. act_ret ()) :: unit auth_act"
  obtain found w0 where g: "getChallenge (cf_challengeId d) (cf_tenant d) (cf_userId d) w = (Inr found, w0)"
    and rest: "(if ?bad found then act_throw InvalidResetChallengeException
       else act_then (store_new_password env d) (act_then ?rev
         (act_then (deleteResetChallenge (cf_challengeId d) (cf_tenant d) (cf_userId d)) (act_ret True)))) w0 = (Inr b, w')"
    using assms(1) unfolding confirmPasswordReset_def act_bind_Inr_iff by blast
  have ok: "\<not> ?bad found" using rest by (auto simp: act_simps split: if_splits)
  have up: "rs_up (w_redis w)" and w0: "w0 = w"
    and r: "\<exists>r. challenge_at w ?k = Some r \<and> rc_codeVerified r \<and> rc_resetToken r = Some (cf_resetToken d)"
    using g ok
    by (auto simp: getChallenge_def redis_get_def redis_cmd_def act_bind_def act_simps challenge_at_def
        redis_cells_def upd_cells_def split: if_splits option.splits redis_value.splits)
  obtain w1 w2 w3 where s: "store_new_password env d w = (Inr (), w1)" and v: "?rev w1 = (Inr (), w2)"
    and e: "deleteResetChallenge (cf_challengeId d) (cf_tenant d) (cf_userId d) w2 = (Inr (), w3)"
    and w': "w' = w3"
    using rest ok w0 by (simp only: if_False act_then_Inr_iff act_ret_Inr_iff) blast
  obtain u where u: "findByIdUnscoped (cf_userId d) (d_users (w_db w)) = Some u"
    and red: "w_redis w1 = w_redis w"
    and cs: "\<exists>n. d_credentials (w_db w1) = supersede_active (cf_userId d) (d_credentials (w_db w)) @ [n] \<and>
       cr_userId n = cf_userId d \<and> cr_status n = Credential_active \<and> cr_passwordHash n = ae_hash env (cf_newPassword d)"
    and none: "\<forall>x \<in> set (supersede_active (cf_userId d) (d_credentials (w_db w))).
       \<not> (cr_userId x = cf_userId d \<and> cr_status x = Credential_active)"
    and us: "d_users (w_db w1) = update_rows (\<lambda>r. usr_id r = usr_id u) (usr_securityVersion_update (\<lambda>_. usr_securityVersion u)) (d_users (w_db w))"
    by (rule store_new_password_Inr[OF s])
  obtain r1 wr where rv: "revokeAllSessions env (cf_tenant d) (cf_userId d) w1 = (r1, wr)" by fastforce
  have "w2 = wr" using v rv by (cases r1) (simp_all add: act_catch_def act_simps)
  then have w2: "w_db w2 = w_db w1" "rs_up (w_redis w2)"
    using revoke_frame[OF rv] up red by (simp_all add: redis_only_def)
  have w3: "w3 = upd_cells (filter (\<lambda>c. fst c \<noteq> ?k)) w2"
    using e redis_run(3)[OF w2(2), of "[?k]"] by (simp add: deleteResetChallenge_def)
  have gone: "getChallenge (cf_challengeId d) (cf_tenant d) (cf_userId d) w3 = (Inr None, w3)"
    using redis_run(2)[of w3 ?k] w2(2) by (simp add: getChallenge_def act_bind_def w3 act_simps redis_cells_def)
  have "confirmPasswordReset env d w3 = (Inl InvalidResetChallengeException, w3)"
    by (simp add: confirmPasswordReset_def act_bind_def gone act_simps)
  moreover have "d_users (w_db w3) = d_users (w_db w)"
    using same_version_write[OF assms(2)] u us w2(1) by (simp add: w3 findByIdUnscoped_def)
  moreover have "\<exists>c. findActiveByUseUnscope (cf_userId d) (d_credentials (w_db w3)) = Some c \<and>
       cr_passwordHash c = ae_hash env (cf_newPassword d) \<and>
       (\<forall>x \<in> set (d_credentials (w_db w3)). cr_userId x = cf_userId d \<and> cr_status x = Credential_active \<longrightarrow> x = c)"
    using cs w2(1) none
    by (auto simp: w3 findActiveByUseUnscope_def find_append_None)
  ultimately show ?thesis using r w' by (simp add: confirm_key_def)
qed

definition sample_confirm :: confirm_reset_dto where
  "sample_confirm = \<lparr> cf_challengeId = ''ch'', cf_tenant = ''acme'', cf_userId = ''u1'',
     cf_resetToken = ''tok'', cf_newPassword = ''new'' \<rparr>"

definition verified_world :: auth_world where
  "verified_world = put_challenge (confirm_key sample_confirm)
     (sample_challenge\<lparr> rc_codeVerified := True, rc_resetToken := Some ''tok'' \<rparr>) login_world"

theorem confirmed_reset_replaces_password_witness:
  "\<exists>w' c. confirmPasswordReset sample_env sample_confirm verified_world = (Inr True, w') \<and>
     findActiveByUseUnscope ''u1'' (d_credentials (w_db w')) = Some c \<and> cr_passwordHash c = ''h:new''"
proof -
  let ?w = "snd (confirmPasswordReset sample_env sample_confirm verified_world)"
  have k: "getChallenge (cf_challengeId sample_confirm) (cf_tenant sample_confirm) (cf_userId sample_confirm) verified_world
      = (Inr (Some (sample_challenge\<lparr> rc_codeVerified := True, rc_resetToken := Some ''tok'' \<rparr>)), verified_world)"
    by (rule getChallenge_run) (simp_all add: verified_world_def confirm_key_def login_sample_defs)
  have "fst (confirmPasswordReset sample_env sample_confirm verified_world) = Inr True"
    unfolding confirmPasswordReset_def act_bind_def k
    by (simp add: sample_confirm_def sample_challenge_def store_new_password_def db_tx_def act_tx_def act_simps
        findByIdUnscoped_def verified_world_def login_sample_defs required_def findActiveByUseUnscope_def
        update_credential_def create_credential_def update_user_def act_then_def act_bind_def act_catch_def
        revokeAllSessions_def redis_client_def redis_members_def redis_cmd_def put_challenge_def
        deleteResetChallenge_def redis_del_def confirm_key_def reset_key_def Let_def)
  then have "confirmPasswordReset sample_env sample_confirm verified_world = (Inr True, ?w)"
    by (metis prod.collapse)
  then show ?thesis
    using confirmed_reset_replaces_password[of sample_env sample_confirm verified_world True ?w]
    by (auto simp: verified_world_def login_sample_defs sample_confirm_def)
qed

end
