(* ===== verification/Provisioning_Properties.thy ===== *)
theory Provisioning_Properties
  imports Provisioning Cognito_Properties Password_Reset_Properties
begin

text \<open>
  Employment events are applied once and in order of their version, what each of them leaves, and
  the bootstrap of a tenant as one step that happens completely or not at all.
\<close>

section \<open>Running the steps\<close>

definition revoked_among :: "auth_env \<Rightarrow> uuid \<Rightarrow> invitation list \<Rightarrow> invitation list" where
  "revoked_among env u is = saved_over
    (map (\<lambda>i. i\<lparr> inv_status := Inv_revoked, inv_revokedAt := Some (ae_now env) \<rparr>) (pending_of env u is)) is"

lemma upd_invitations:
  "f (d_invitations (w_db w)) = g (d_invitations (w_db w)) \<Longrightarrow>
    upd_db (d_invitations_update f) w = upd_db (d_invitations_update g) w"
  by (cases "w_db w") (simp add: upd_db_def)

lemma upd_invitations_same: "f (d_invitations (w_db w)) = d_invitations (w_db w) \<Longrightarrow> upd_db (d_invitations_update f) w = w"
  by (cases w; cases "w_db w") (simp add: upd_db_def)

lemma revoke_pending_run [act_simps]:
  "act_then (revoke_pending env user) k w = k (upd_db (d_invitations_update (revoked_among env (usr_id user))) w)"
proof (cases "pending_of env (usr_id user) (d_invitations (w_db w)) = []")
  case True
  then have "revoked_among env (usr_id user) (d_invitations (w_db w)) = d_invitations (w_db w)"
    by (simp add: revoked_among_def saved_over_def)
  then show ?thesis using True
    by (simp add: revoke_pending_def act_assoc act_simps upd_invitations_same)
next
  case False
  let ?saved = "map (\<lambda>i. i\<lparr> inv_status := Inv_revoked, inv_revokedAt := Some (ae_now env) \<rparr>)
     (pending_of env (usr_id user) (d_invitations (w_db w)))"
  have "upd_db (d_invitations_update (revoked_among env (usr_id user))) w =
      upd_db (d_invitations_update (saved_over ?saved)) w"
    by (rule upd_invitations) (simp add: revoked_among_def)
  then show ?thesis using False
    by (simp add: revoke_pending_def inv_bulkSave_def act_assoc act_simps)
qed

lemma account_run [act_simps]:
  "act_then (set_account s user) k w =
    k (upd_db (d_users_update (update_rows (\<lambda>u. usr_id u = usr_id user)
        (\<lambda>u. u\<lparr> usr_securityVersion := usr_securityVersion user, usr_status := s \<rparr>))) w)"
  "act_then (update_employee i f) k w =
    k (upd_db (d_employees_update (update_rows (\<lambda>e. emp_id e = i) f)) w)"
  "act_then (insert_invitation x) k w =
    (if list_ex (clashing_invitation x) (d_invitations (w_db w)) then (Inl Unique_index_violation, w)
     else k (upd_db (\<lambda>db. db\<lparr> d_invitations := d_invitations db @ [x] \<rparr>) w))"
  by (simp_all add: set_account_def update_user_def update_employee_def insert_invitation_def act_assoc act_simps)

lemma revoked_then_True:
  "act_then (revokeAllSessions env t u) (act_ret True) w = (Inr True, w') \<Longrightarrow> w_db w' = w_db w"
  unfolding act_then_Inr_iff act_ret_Inr_iff
  using keepsD[OF keeps_revokeAllSessions] by (auto simp: redis_only_def)

section \<open>Events are applied once\<close>

lemma stored_version_synced: "stored_version (synced_employee s v e) = Some v"
proof -
  have "int_string v \<noteq> []"
  proof
    assume "int_string v = []"
    then have "js_parse_int [] = Some v" by (metis js_parse_int_int_string)
    then show False by (simp add: js_parse_int_def)
  qed
  then have "truthy_id (Some (int_string v)) = Some (int_string v)"
    by (auto simp: truthy_id_def split: list.splits)
  then show ?thesis by (simp add: stored_version_def synced_employee_def)
qed

lemma employee_row_id: "employee_row t i db = Some e \<Longrightarrow> emp_id e = i"
  unfolding employee_row_def by (drule find_SomeD) simp

lemma sync_ignored:
  "employee_row (ae_tenant env) i (w_db w) = None \<Longrightarrow> synchronizeEmployeeStatus env ty i v w = (Inr True, w)"
  "employee_row (ae_tenant env) i (w_db w) = Some e \<Longrightarrow> stale_event v e \<Longrightarrow>
    synchronizeEmployeeStatus env ty i v w = (Inr True, w)"
  by (simp_all add: synchronizeEmployeeStatus_def db_tx_def act_tx_def db_run act_run)

lemma sync_without_user:
  assumes "employee_row (ae_tenant env) i (w_db w) = Some e" "\<not> stale_event v e"
    and "employee_user (ae_tenant env) i (w_db w) = None"
  shows "synchronizeEmployeeStatus env ty i v w = (Inr True,
    upd_db (d_employees_update (update_rows (\<lambda>e. emp_id e = i) (synced_employee (lifecycle_status ty) v))) w)"
  using assms employee_row_id[OF assms(1)]
  by (simp add: synchronizeEmployeeStatus_def db_tx_def act_tx_def db_run account_run act_run)

definition user_event :: "auth_env \<Rightarrow> event_type \<Rightarrow> app_user \<Rightarrow> uuid \<Rightarrow> int \<Rightarrow> bool auth_act" where
  "user_event env ty user i v =
    (if ty = EMPLOYEE_SUSPENDED then suspendUserAndEmployee env user i v
     else if ty = EMPLOYEE_TERMINATED then terminateUserAndEmployee env user i v
     else if ty = EMPLOYEE_REACTIVATED then reactivateUserAndEmployee env user i v
     else act_ret False)"

lemma sync_with_user:
  assumes "employee_row (ae_tenant env) i (w_db w) = Some e" "\<not> stale_event v e"
    and "employee_user (ae_tenant env) i (w_db w) = Some user"
  shows "synchronizeEmployeeStatus env ty i v w = db_tx (user_event env ty user i v) w"
  using assms employee_row_id[OF assms(1)]
  by (simp add: synchronizeEmployeeStatus_def db_tx_def act_tx_def db_run user_event_def)

lemma user_event_employees:
  assumes "user_event env ty user i v w = (Inr True, w')"
  shows "\<exists>s. d_employees (w_db w') = update_rows (\<lambda>e. emp_id e = i) (synced_employee s v) (d_employees (w_db w))"
proof -
  consider "ty = EMPLOYEE_SUSPENDED" | "ty = EMPLOYEE_TERMINATED" | "ty = EMPLOYEE_REACTIVATED"
    using assms by (force simp: user_event_def split: if_splits)
  then show ?thesis
  proof cases
    case 1
    then show ?thesis using assms
      by (auto simp: user_event_def suspendUserAndEmployee_def account_run log_event_run dest!: revoked_then_True)
  next
    case 2
    then show ?thesis using assms
      by (auto simp: user_event_def terminateUserAndEmployee_def account_run revoke_pending_run log_event_run
          dest!: revoked_then_True)
  next
    case 3
    then show ?thesis using assms
      by (auto simp: user_event_def reactivateUserAndEmployee_def account_run revoke_pending_run log_event_run
          db_run split: if_splits)
  qed
qed

text \<open>
  C23: An acknowledged employment event is applied once and in order: afterwards every event of the
  employee with the same or a smaller version, of whatever kind, is acknowledged without any effect
  on the tables or the store.
\<close>

theorem lifecycle_events_apply_once:
  assumes "synchronizeEmployeeStatus env ty i v w = (Inr True, w')" "v2 \<le> v" "ae_tenant env2 = ae_tenant env"
  shows "synchronizeEmployeeStatus env2 ty2 i v2 w' = (Inr True, w')"
proof (cases "employee_row (ae_tenant env) i (w_db w)")
  case None
  then show ?thesis using assms sync_ignored(1) by (metis prod.inject)
next
  case (Some e)
  show ?thesis
  proof (cases "stale_event v e")
    case True
    then have "stale_event v2 e" using assms(2) by (auto simp: stale_event_def split: option.splits)
    then show ?thesis using True Some assms sync_ignored(2) by (metis prod.inject)
  next
    case False
    have "\<exists>s. d_employees (w_db w') = update_rows (\<lambda>e. emp_id e = i) (synced_employee s v) (d_employees (w_db w))"
    proof (cases "employee_user (ae_tenant env) i (w_db w)")
      case None
      then show ?thesis using sync_without_user[OF Some False] assms(1) by auto
    next
      case (Some user)
      then have "db_tx (user_event env ty user i v) w = (Inr True, w')"
        using sync_with_user[OF \<open>employee_row _ _ _ = Some e\<close> False] assms(1) by simp
      then show ?thesis by (intro user_event_employees) (simp add: db_tx_def act_tx_Inr_iff)
    qed
    then obtain s where d: "d_employees (w_db w') =
        update_rows (\<lambda>e. emp_id e = i) (synced_employee s v) (d_employees (w_db w))" by blast
    have "employee_row (ae_tenant env) i (w_db w') = Some (synced_employee s v e)"
      using find_update_kept[of "\<lambda>e. emp_id e = i \<and> emp_tenant e = ae_tenant env" "synced_employee s v" _ e emp_id]
        Some employee_row_id[OF Some] by (simp add: employee_row_def d synced_employee_def)
    moreover have "stale_event v2 (synced_employee s v e)"
      using assms(2) by (simp add: stale_event_def stored_version_synced)
    ultimately show ?thesis using sync_ignored(2) assms(3) by metis
  qed
qed

section \<open>What an event leaves\<close>

lemma pending_of_saved:
  assumes "distinct (map inv_id is)"
  shows "pending_of env u (revoked_among env u is) = []"
proof -
  have "\<not> (inv_userId r' = u \<and> inv_status r' = Inv_pending \<and> inv_tenant r' = ae_tenant env)"
    if "r' \<in> set (revoked_among env u is)" for r'
  proof -
    obtain r where r: "r \<in> set is" and r': "r' = (case find (\<lambda>s. inv_id s = inv_id r)
        (map (\<lambda>i. i\<lparr> inv_status := Inv_revoked, inv_revokedAt := Some (ae_now env) \<rparr>) (pending_of env u is)) of
          None \<Rightarrow> r | Some s \<Rightarrow> bumped_version (\<lambda>_. s) r)" (is "_ = (case ?found of None \<Rightarrow> _ | Some s \<Rightarrow> _)")
      using \<open>r' \<in> _\<close> unfolding revoked_among_def saved_over_def by auto
    show ?thesis
    proof (cases ?found)
      case None
      then have "r \<notin> set (pending_of env u is)" by (auto simp: find_None_iff)
      then show ?thesis using None r r' by (auto simp: pending_of_def)
    next
      case (Some s)
      then have "inv_status s = Inv_revoked" using find_SomeD[OF Some] by auto
      then show ?thesis using Some r' by simp
    qed
  qed
  then show ?thesis by (auto simp: pending_of_def filter_empty_conv)
qed

definition revoked_event :: "auth_env \<Rightarrow> app_user \<Rightarrow> string \<Rightarrow> outbox_row" where
  "revoked_event env user status = outbox_create (ae_tenant env)
     (sessionsRevoked (usr_tenant user) (usr_id user) ''EMPLOYMENT_STATUS_CHANGED'' status)"

lemma revoke_after:
  assumes "redis_ready w" "is_set_cell (redis_cells w (ae_user_sessions_key env False t u)) xs"
  obtains w' where "revokeAllSessions env t u w = (Inr (), w')" "w_db w' = w_db w" "redis_ready w'"
    "is_set_cell (redis_cells w' (ae_user_sessions_key env False t u)) []"
    "\<forall>sid \<in> set xs. redis_cells w' (ae_session_key env sid) = None"
proof (cases "xs = []")
  case True
  then show thesis using that[of w] revokeAllSessions_run[OF assms] assms by simp
next
  case False
  let ?w = "upd_cells (filter (\<lambda>c. fst c \<notin> set (map (ae_session_key env) xs @ [ae_user_sessions_key env False t u]))) w"
  have "revokeAllSessions env t u w = (Inr (), ?w)" using revokeAllSessions_run[OF assms] False by simp
  then show thesis using that[of ?w] assms(1) by (simp add: is_set_cell_def)
qed

lemma event_runs:
  assumes "redis_ready w" "is_set_cell (redis_cells w (ae_user_sessions_key env False (usr_tenant user) (usr_id user))) xs"
    and "m = suspendUserAndEmployee env user i v \<and> f = id \<and> s = User_disabled \<and>
          es = Employee_suspended \<and> txt = ''DISABLED'' \<or>
        m = terminateUserAndEmployee env user i v \<and> f = revoked_among env (usr_id user) \<and> s = User_archived \<and>
          es = Employee_terminated \<and> txt = ''ARCHIVED''"
  obtains w' where "m w = (Inr True, w')" "redis_ready w'"
    "d_users (w_db w') = update_rows (\<lambda>u. usr_id u = usr_id user)
        (\<lambda>u. u\<lparr> usr_securityVersion := usr_securityVersion user, usr_status := s \<rparr>) (d_users (w_db w))"
    "d_employees (w_db w') = update_rows (\<lambda>e. emp_id e = i) (synced_employee (Some es) v) (d_employees (w_db w))"
    "d_invitations (w_db w') = f (d_invitations (w_db w))" "d_credentials (w_db w') = d_credentials (w_db w)"
    "d_outbox (w_db w') = d_outbox (w_db w) @ [revoked_event env user txt]"
    "is_set_cell (redis_cells w' (ae_user_sessions_key env False (usr_tenant user) (usr_id user))) []"
    "\<forall>sid \<in> set xs. redis_cells w' (ae_session_key env sid) = None"
proof -
  let ?upd = "\<lambda>db. (d_users_update (update_rows (\<lambda>u. usr_id u = usr_id user)
        (\<lambda>u. u\<lparr> usr_securityVersion := usr_securityVersion user, usr_status := s \<rparr>)) db)"
  let ?emp = "d_employees_update (update_rows (\<lambda>e. emp_id e = i) (synced_employee (Some es) v))"
  define w1 where "w1 = upd_db (\<lambda>db. db\<lparr> d_outbox := d_outbox db @ [revoked_event env user txt] \<rparr>)
    (upd_db (d_invitations_update f) (upd_db ?emp (upd_db ?upd w)))"
  have id: "upd_db (d_invitations_update (\<lambda>x. x)) w2 = w2" for w2
    by (rule upd_invitations_same) simp
  have m: "m w = act_then (revokeAllSessions env (usr_tenant user) (usr_id user)) (act_ret True) w1"
    using assms(3)
    by (auto simp: suspendUserAndEmployee_def terminateUserAndEmployee_def account_run revoke_pending_run
        log_event_run w1_def revoked_event_def id id_def)
  have "redis_ready w1" "is_set_cell (redis_cells w1 (ae_user_sessions_key env False (usr_tenant user) (usr_id user))) xs"
    using assms(1,2) by (simp_all add: w1_def)
  then obtain w' where w': "revokeAllSessions env (usr_tenant user) (usr_id user) w1 = (Inr (), w')"
    "w_db w' = w_db w1" "redis_ready w'"
    "is_set_cell (redis_cells w' (ae_user_sessions_key env False (usr_tenant user) (usr_id user))) []"
    "\<forall>sid \<in> set xs. redis_cells w' (ae_session_key env sid) = None"
    by (rule revoke_after)
  have "m w = (Inr True, w')" using m w'(1) by (simp add: act_then_def act_bind_def act_run)
  then show thesis using that w' by (simp add: w1_def)
qed

lemma users_after:
  assumes "findByIdUnscoped j us = Some x" "usr_id x = j" "\<And>u. usr_id (f u) = usr_id u"
  shows "findByIdUnscoped j (update_rows (\<lambda>u. usr_id u = j) f us) = Some (f x)"
  using find_update_kept[of "\<lambda>u. usr_id u = j" f us x usr_id] assms by (simp add: findByIdUnscoped_def)

lemma employee_after:
  assumes "employee_row t i db = Some e"
    and "d_employees db' = update_rows (\<lambda>e. emp_id e = i) (synced_employee s v) (d_employees db)"
  shows "employee_row t i db' = Some (synced_employee s v e)"
  using find_update_kept[of "\<lambda>e. emp_id e = i \<and> emp_tenant e = t" "synced_employee s v" _ e emp_id]
    assms employee_row_id[OF assms(1)] by (simp add: employee_row_def synced_employee_def)

text \<open>
  The first termination event of a version, for an employee with an account, ends the account
  completely when the store is up: the employee is terminated at that version, the account is
  archived with its security version unchanged, none of its pending invitations is left, every
  listed session is gone and one revocation event is recorded.
\<close>

theorem termination_closes_account:
  assumes "employee_row (ae_tenant env) i (w_db w) = Some e" "\<not> stale_event v e"
    and "employee_user (ae_tenant env) i (w_db w) = Some user" "findByIdUnscoped (usr_id user) (d_users (w_db w)) = Some user"
    and "redis_ready w" "is_set_cell (redis_cells w (ae_user_sessions_key env False (usr_tenant user) (usr_id user))) sids"
    and "distinct (map inv_id (d_invitations (w_db w)))"
  shows "\<exists>w'. synchronizeEmployeeStatus env EMPLOYEE_TERMINATED i v w = (Inr True, w') \<and>
    employee_row (ae_tenant env) i (w_db w') = Some (synced_employee (Some Employee_terminated) v e) \<and>
    findByIdUnscoped (usr_id user) (d_users (w_db w')) = Some (user\<lparr> usr_status := User_archived \<rparr>) \<and>
    pending_of env (usr_id user) (d_invitations (w_db w')) = [] \<and>
    d_outbox (w_db w') = d_outbox (w_db w) @ [revoked_event env user ''ARCHIVED''] \<and>
    (\<forall>sid \<in> set sids. redis_cells w' (ae_session_key env sid) = None)"
proof -
  obtain w' where w': "terminateUserAndEmployee env user i v w = (Inr True, w')"
    "d_users (w_db w') = update_rows (\<lambda>u. usr_id u = usr_id user)
        (\<lambda>u. u\<lparr> usr_securityVersion := usr_securityVersion user, usr_status := User_archived \<rparr>) (d_users (w_db w))"
    "d_employees (w_db w') = update_rows (\<lambda>e. emp_id e = i) (synced_employee (Some Employee_terminated) v) (d_employees (w_db w))"
    "d_invitations (w_db w') = revoked_among env (usr_id user) (d_invitations (w_db w))"
    "d_outbox (w_db w') = d_outbox (w_db w) @ [revoked_event env user ''ARCHIVED'']"
    "\<forall>sid \<in> set sids. redis_cells w' (ae_session_key env sid) = None"
    by (rule event_runs[OF assms(5,6), of "terminateUserAndEmployee env user i v" i v "revoked_among env (usr_id user)"
          User_archived Employee_terminated "''ARCHIVED''"]) simp_all
  have "synchronizeEmployeeStatus env EMPLOYEE_TERMINATED i v w = (Inr True, w')"
    using sync_with_user[OF assms(1-3), of EMPLOYEE_TERMINATED] w'(1) by (simp add: user_event_def db_tx_def act_tx_def)
  then show ?thesis
    using w' employee_after[OF assms(1) w'(3)] users_after[OF assms(4)] pending_of_saved[OF assms(7)] by simp
qed

section \<open>A suspended account and its invitation\<close>

lemma delete_challenges_run:
  "rs_up (w_redis w) \<Longrightarrow> \<exists>w'. delete_user_challenges env u ks w = (Inr (), w')"
proof (induction ks arbitrary: w)
  case (Cons k ks)
  obtain v where get: "redis_get k w = (Inr v, w)" using redis_run(2)[OF Cons.prems] by blast
  obtain w1 where del: "redis_del [k] w = (Inr (), w1)" "rs_up (w_redis w1)"
    using redis_run(3)[OF Cons.prems, of "[k]"] Cons.prems by auto
  show ?case using Cons.IH[OF Cons.prems] Cons.IH[OF del(2)] del(1)
    by (simp add: act_bind_def[of "redis_get k"] get act_when_def act_ret_def act_then_def act_bind_def)
qed (simp add: act_run)

lemma revoke_challenges_run:
  assumes "redis_ready w" "is_set_cell (redis_cells w (ae_user_sessions_key env False t u)) []"
  shows "\<exists>w'. revokeSessionsAndChallenges env t u w = (Inr (), w')"
proof -
  have keys: "\<exists>ks. redis_keys p w = (Inr ks, w)" for p
    using assms(1) by (auto simp: redis_keys_def redis_cmd_def upd_cells_def)
  have members: "redis_members (ae_user_sessions_key env False t u) w = (Inr [], w)"
    using redis_members_run assms by blast
  obtain ks where "redis_keys ''auth:mfa-challenge:'' w = (Inr ks, w)" using keys by blast
  moreover obtain w' where "delete_user_challenges env u ks w = (Inr (), w')"
    using delete_challenges_run assms(1) by blast
  ultimately show ?thesis using assms(1)
    by (simp add: revokeSessionsAndChallenges_def redis_client_run Let_def act_catch_def
        act_bind_def[of "redis_members k" for k] members act_when_run act_bind_def[of "redis_keys k" for k])
qed

lemma accept_goes_through:
  assumes "findByTokenHashUnscoped (hashToken env tok) (d_invitations (w_db w)) = Some x" "\<not> isExpired (ae_now env) x"
    and "findByIdUnscoped (inv_userId x) (d_users (w_db w)) = Some user"
    and "redis_ready w" "is_set_cell (redis_cells w (ae_user_sessions_key env False (usr_tenant user) (usr_id user))) []"
  obtains w' where "acceptInvitation env tok password w = (Inr (usr_id user), w')"
proof -
  obtain cs where cs: "set_password env (usr_id user) password w = (Inr (), upd_db (d_credentials_update (\<lambda>_. cs)) w)"
    using set_password_run by blast
  define w1 where "w1 = upd_db (\<lambda>db. db\<lparr> d_outbox := d_outbox db @ [outbox_create (ae_tenant env)
        (invitationAccepted (usr_tenant user) (usr_id user) (inv_id x) (ae_iso env (ae_now env)) None)] \<rparr>)
    (upd_db (d_users_update (update_rows (\<lambda>u. usr_id u = usr_id user) (\<lambda>u. u\<lparr> usr_status := User_active,
         usr_credentialStatus := Credential_active, usr_securityVersion := usr_securityVersion user \<rparr>)))
    (upd_db (d_invitations_update (update_rows (\<lambda>r. inv_id r = inv_id x)
       (bumped_version (\<lambda>r. r\<lparr> inv_status := Inv_accepted, inv_acceptedAt := Some (ae_now env) \<rparr>))))
    (upd_db (d_credentials_update (\<lambda>_. cs)) w)))"
  have "redis_ready w1"
    "is_set_cell (redis_cells w1 (ae_user_sessions_key env False (usr_tenant user) (usr_id user))) []"
    using assms(4,5) by (simp_all add: w1_def)
  then obtain w2 where w2: "revokeSessionsAndChallenges env (usr_tenant user) (usr_id user) w1 = (Inr (), w2)"
    using revoke_challenges_run by blast
  have first: "act_then (set_password env (usr_id user) password) k w = k (upd_db (d_credentials_update (\<lambda>_. cs)) w)"
    for k :: "uuid auth_act"
    by (rule act_then_value(1)[of "set_password env (usr_id user) password" w, OF cs])
  have "accept_steps env password x user w =
    act_then (revokeSessionsAndChallenges env (usr_tenant user) (usr_id user)) (act_ret (usr_id user)) w1"
    by (simp add: accept_steps_def first update_invitation_def update_user_def db_run log_event_run w1_def)
  then have "accept_steps env password x user w = (Inr (usr_id user), w2)"
    using w2 by (simp add: act_then_value act_run)
  then have "acceptInvitation env tok password w = (Inr (usr_id user), w2)"
    using assms(1-3) by (simp add: acceptInvitation_def db_tx_def act_tx_def db_run required_run act_run act_bind_run)
  then show thesis by (rule that)
qed

text \<open>
  A suspension does not revoke the employee's open invitation, and accepting it undoes the
  suspension: the account disabled by the event is active again with a new password, although the
  employee stays suspended.
\<close>

theorem suspension_undone_by_invitation:
  assumes "employee_row (ae_tenant env) i (w_db w) = Some e" "\<not> stale_event v e"
    and "employee_user (ae_tenant env) i (w_db w) = Some user" "findByIdUnscoped (usr_id user) (d_users (w_db w)) = Some user"
    and "redis_ready w" "is_set_cell (redis_cells w (ae_user_sessions_key env False (usr_tenant user) (usr_id user))) sids"
    and "findByTokenHashUnscoped (hashToken env2 tok) (d_invitations (w_db w)) = Some x" "\<not> isExpired (ae_now env2) x"
    and "inv_userId x = usr_id user" "ae_user_sessions_key env2 = ae_user_sessions_key env"
  shows "\<exists>w1 w2. synchronizeEmployeeStatus env EMPLOYEE_SUSPENDED i v w = (Inr True, w1) \<and>
    findByIdUnscoped (usr_id user) (d_users (w_db w1)) = Some (user\<lparr> usr_status := User_disabled \<rparr>) \<and>
    (\<forall>sid \<in> set sids. redis_cells w1 (ae_session_key env sid) = None) \<and>
    acceptInvitation env2 tok password w1 = (Inr (usr_id user), w2) \<and>
    findByIdUnscoped (usr_id user) (d_users (w_db w2)) =
      Some (user\<lparr> usr_status := User_active, usr_credentialStatus := Credential_active \<rparr>) \<and>
    employee_row (ae_tenant env) i (w_db w1) = Some (synced_employee (Some Employee_suspended) v e)"
proof -
  obtain w1 where w1: "suspendUserAndEmployee env user i v w = (Inr True, w1)" "redis_ready w1"
    "d_users (w_db w1) = update_rows (\<lambda>u. usr_id u = usr_id user)
        (\<lambda>u. u\<lparr> usr_securityVersion := usr_securityVersion user, usr_status := User_disabled \<rparr>) (d_users (w_db w))"
    "d_employees (w_db w1) = update_rows (\<lambda>e. emp_id e = i) (synced_employee (Some Employee_suspended) v) (d_employees (w_db w))"
    "d_invitations (w_db w1) = id (d_invitations (w_db w))"
    "is_set_cell (redis_cells w1 (ae_user_sessions_key env False (usr_tenant user) (usr_id user))) []"
    "\<forall>sid \<in> set sids. redis_cells w1 (ae_session_key env sid) = None"
    by (rule event_runs[OF assms(5,6), of "suspendUserAndEmployee env user i v" i v id
          User_disabled Employee_suspended "''DISABLED''"]) simp_all
  have sync: "synchronizeEmployeeStatus env EMPLOYEE_SUSPENDED i v w = (Inr True, w1)"
    using sync_with_user[OF assms(1-3), of EMPLOYEE_SUSPENDED] w1(1) by (simp add: user_event_def db_tx_def act_tx_def)
  have u1: "findByIdUnscoped (usr_id user) (d_users (w_db w1)) = Some (user\<lparr> usr_status := User_disabled \<rparr>)"
    using users_after[OF assms(4)] w1(3) by simp
  obtain w2 where acc: "acceptInvitation env2 tok password w1 = (Inr (usr_id user), w2)"
    by (rule accept_goes_through[of env2 tok w1 x "user\<lparr> usr_status := User_disabled \<rparr>"])
       (use assms w1 u1 in simp_all)
  have "findByIdUnscoped (usr_id user) (d_users (w_db w2)) =
      Some (user\<lparr> usr_status := User_active, usr_credentialStatus := Credential_active \<rparr>)"
  proof (rule accept_Inr[OF acc])
    fix j y
    assume "findByTokenHashUnscoped (hashToken env2 tok) (d_invitations (w_db w1)) = Some j"
      and y: "findByIdUnscoped (inv_userId j) (d_users (w_db w1)) = Some y"
      and us: "d_users (w_db w2) = update_rows (\<lambda>u. usr_id u = usr_id y) (\<lambda>u. u\<lparr> usr_status := User_active,
         usr_credentialStatus := Credential_active, usr_securityVersion := usr_securityVersion y \<rparr>) (d_users (w_db w1))"
    then have "y = user\<lparr> usr_status := User_disabled \<rparr>" using u1 assms(7,9) w1(5) by simp
    then show ?thesis using us users_after[OF u1] by simp
  qed
  then show ?thesis using sync u1 w1(7) acc employee_after[OF assms(1) w1(4)] by blast
qed

section \<open>Bootstrapping a tenant\<close>

lemma on_auth_run:
  "act_bind (on_auth m) f w = (case m (pw_auth w) of (r, a) \<Rightarrow>
    (case r of Inl e \<Rightarrow> (Inl (Auth_failed e), w\<lparr> pw_auth := a \<rparr>) | Inr x \<Rightarrow> f x (w\<lparr> pw_auth := a \<rparr>)))"
  "act_then (on_auth m') k w = (case m' (pw_auth w) of (r, a) \<Rightarrow>
    (case r of Inl e \<Rightarrow> (Inl (Auth_failed e), w\<lparr> pw_auth := a \<rparr>) | Inr u \<Rightarrow> k (w\<lparr> pw_auth := a \<rparr>)))"
  "act_bind (on_roles m'') g w = (case m'' (pw_roles w) of (r, a) \<Rightarrow>
    (case r of Inl e \<Rightarrow> (Inl (Roles_failed e), w\<lparr> pw_roles := a \<rparr>) | Inr x \<Rightarrow> g x (w\<lparr> pw_roles := a \<rparr>)))"
  by (simp_all add: on_auth_def on_roles_def act_then_def act_bind_def split: prod.splits sum.splits)

lemma find_map_kept: "(\<And>x. Q (g x) = Q x) \<Longrightarrow> find Q (map g xs) = map_option g (find Q xs)"
  by (induction xs) auto

lemma create_root_admin_Inr:
  assumes "create_root_admin b p w = (Inr user, w')" "root_admin (ae_tenant (be_auth b)) (w_db w) = None"
  shows "\<exists>sub. sub \<noteq> [] \<and> user = root_admin_row (be_auth b) (tc_rootAdminEmail p) (w_db w) \<and>
    root_admin (ae_tenant (be_auth b)) (w_db w') = Some (user\<lparr> usr_externalIdentityId := Some sub \<rparr>)"
proof -
  let ?env = "be_auth b" let ?row = "root_admin_row ?env (tc_rootAdminEmail p) (w_db w)"
  let ?i = "\<lparr> pi_userId = usr_id ?row, pi_email = usr_normalizedEmail ?row, pi_tenant = tc_tenantCode p,
          pi_suppressNotification = False, pi_isEmailVerified = False \<rparr>"
  let ?w1 = "upd_db (\<lambda>db. db\<lparr> d_users := d_users db @ [?row] \<rparr>) w"
  have "act_then (insert_user ?row) (act_bind (provisionCognitoUser ?env (be_cognito b) ?i) (\<lambda>_. act_ret ?row)) w = (Inr user, w')"
    using assms(1) by (simp add: create_root_admin_def Let_def db_run)
  then have "act_bind (provisionCognitoUser ?env (be_cognito b) ?i) (\<lambda>_. act_ret ?row) ?w1 = (Inr user, w')"
    by (auto simp: insert_user_def act_assoc db_run act_then_def act_bind_def act_run split: if_splits)
  then obtain r where r: "provisionCognitoUser ?env (be_cognito b) ?i ?w1 = (Inr r, w')" and user: "user = ?row"
    by (auto simp: act_bind_Inr_iff)
  have "provisioned ?env (be_cognito b) ?i ?w1 r w'"
    using provision_outcome[of ?env "be_cognito b" ?i ?w1] r by (simp add: provisioning_outcome_def)
  then have ext: "pr_externalIdentityId r \<noteq> []" and us: "d_users (w_db w') =
      update_rows (\<lambda>u. usr_id u = usr_id ?row) (\<lambda>u. u\<lparr> usr_externalIdentityId := Some (pr_externalIdentityId r) \<rparr>)
        (d_users (w_db w) @ [?row])"
    by (simp_all add: provisioned_def link_identity_run identity_event_def)
  have "find (\<lambda>u. usr_protectedRootAdmin u \<and> usr_tenant u = ae_tenant ?env) (d_users (w_db w) @ [?row]) = Some ?row"
    using assms(2) by (subst find_append_None) (simp_all add: root_admin_def root_admin_row_def find_None_iff)
  then have "root_admin (ae_tenant ?env) (w_db w') = Some (?row\<lparr> usr_externalIdentityId := Some (pr_externalIdentityId r) \<rparr>)"
    unfolding root_admin_def us update_rows_def by (subst find_map_kept) auto
  then show ?thesis using ext user by blast
qed

text \<open>
  C24: Bootstrapping a tenant happens completely or not at all, and once.  A failure leaves every
  table as it was, so the record of a failed Cognito provisioning is lost with it; a success leaves
  the tenant a protected active administrator linked to a Cognito subject and the seeded system
  roles, and every later bootstrap is answered as a duplicate without any effect.
\<close>

theorem bootstrap_all_or_nothing:
  "case bootstrapRootAdmin b p w of
     (Inl e, w') \<Rightarrow> w_db (pw_auth w') = w_db (pw_auth w) \<and> rw_db (pw_roles w') = rw_db (pw_roles w)
   | (Inr r, w') \<Rightarrow>
       bootstrapRootAdmin b p2 w' = (Inr Duplicate_admin, w') \<and>
       (case r of
          Duplicate_admin \<Rightarrow> w' = w
        | Bootstrapped \<Rightarrow>
            (\<exists>a sub. root_admin (ae_tenant (be_auth b)) (w_db (pw_auth w')) = Some a \<and> usr_status a = User_active \<and>
               usr_normalizedEmail a = normalize_email (tc_rootAdminEmail p) \<and>
               be_isEmail b (tc_rootAdminEmail p) \<and> usr_externalIdentityId a = Some sub \<and> sub \<noteq> []) \<and>
            (\<exists>rs. seedBaselineSystemRoles (be_roles b) (tc_tenantCode p) (be_role_ids b) (pw_roles w) = (Ok rs, pw_roles w')))"
proof -
  let ?t = "ae_tenant (be_auth b)"
  have dup: "bootstrapRootAdmin b p2 w2 = (Inr Duplicate_admin, w2)" if "root_admin ?t (w_db (pw_auth w2)) \<noteq> None" for p2 w2
    using that by (simp add: bootstrapRootAdmin_def Let_def platform_tx_def act_tx_def on_auth_run db_run act_run)
  obtain r w' where run: "bootstrapRootAdmin b p w = (r, w')" by (cases "bootstrapRootAdmin b p w")
  show ?thesis
  proof (cases "root_admin ?t (w_db (pw_auth w))")
    case (Some a)
    then show ?thesis using dup[of w p] dup[of w p2] by simp
  next
    case None
    show ?thesis
    proof (cases r)
      case (Inl e)
      then show ?thesis using run
        by (auto simp: bootstrapRootAdmin_def Let_def platform_tx_def act_tx_def split: prod.splits sum.splits)
    next
      case (Inr x)
      then have valid: "be_isEmail b (tc_rootAdminEmail p)" and "act_bind (on_auth (create_root_admin b p)) (\<lambda>user.
         act_bind (on_roles (seedBaselineSystemRoles (be_roles b) (tc_tenantCode p) (be_role_ids b))) (\<lambda>_.
         act_then (on_auth (log_event (be_auth b) (userProvisioned (tc_tenantCode p) (usr_id user)
             (usr_normalizedEmail user) ''BUILT_IN_ADMIN'' ''ACTIVE'')))
         (act_ret Bootstrapped))) w = (Inr x, w')"
        using run None
        by (auto simp: bootstrapRootAdmin_def Let_def platform_tx_def act_tx_Inr_iff on_auth_run db_run act_run
            split: if_splits)
      then obtain user a rs where a: "create_root_admin b p (pw_auth w) = (Inr user, a)"
        and rs: "seedBaselineSystemRoles (be_roles b) (tc_tenantCode p) (be_role_ids b) (pw_roles w) = (Ok rs, pw_roles w')"
        and x: "x = Bootstrapped" and w': "d_users (w_db (pw_auth w')) = d_users (w_db a)"
        by (auto simp: on_auth_run log_event_def db_run act_run split: prod.splits sum.splits)
      obtain sub where "sub \<noteq> []" "user = root_admin_row (be_auth b) (tc_rootAdminEmail p) (w_db (pw_auth w))"
        "root_admin ?t (w_db a) = Some (user\<lparr> usr_externalIdentityId := Some sub \<rparr>)"
        using create_root_admin_Inr[OF a None] by blast
      moreover have "root_admin ?t (w_db (pw_auth w')) = root_admin ?t (w_db a)" using w' by (simp add: root_admin_def)
      ultimately show ?thesis using dup[of w' p2] run Inr x rs valid by (auto simp: root_admin_row_def)
    qed
  qed
qed

section \<open>An employee with an account\<close>

definition sample_employee :: employee_reference where
  "sample_employee = \<lparr> emp_id = ''e1'', emp_tenant = ''acme'', emp_code = ''E-1'', emp_companyId = None,
     emp_locationId = None, emp_departmentId = None, emp_gradeId = None, emp_jobTitleId = None,
     emp_employmentStatus = ''ACTIVE'', emp_status = ''active'', emp_managerId = None,
     emp_reporteesCount = 0, emp_sourceVersion = None \<rparr>"

definition staff_user :: app_user where
  "staff_user = sample_user\<lparr> usr_employeeRefId := Some ''e1'' \<rparr>"

definition staff_world :: auth_world where
  "staff_world = login_world\<lparr> w_db := (w_db login_world)\<lparr> d_users := [staff_user],
     d_employees := [sample_employee], d_invitations := [sample_invitation] \<rparr> \<rparr>"

lemma staff_facts:
  "employee_row (ae_tenant sample_env) ''e1'' (w_db staff_world) = Some sample_employee"
  "\<not> stale_event 5 sample_employee"
  "employee_user (ae_tenant sample_env) ''e1'' (w_db staff_world) = Some staff_user"
  "findByIdUnscoped (usr_id staff_user) (d_users (w_db staff_world)) = Some staff_user"
  "redis_ready staff_world"
  "is_set_cell (redis_cells staff_world (ae_user_sessions_key sample_env False (usr_tenant staff_user) (usr_id staff_user))) []"
  "distinct (map inv_id (d_invitations (w_db staff_world)))"
  "findByTokenHashUnscoped (hashToken sample_env ''tok'') (d_invitations (w_db staff_world)) = Some sample_invitation"
  "\<not> isExpired (ae_now sample_env) sample_invitation" "inv_userId sample_invitation = usr_id staff_user"
  by (simp_all add: staff_world_def staff_user_def sample_employee_def sample_invitation_def login_sample_defs
      employee_row_def employee_user_def findByIdUnscoped_def stale_event_def stored_version_def truthy_id_def
      redis_cells_def is_set_cell_def findByTokenHashUnscoped_def hashToken_def isExpired_def)

theorem termination_closes_account_witness:
  "\<exists>w'. synchronizeEmployeeStatus sample_env EMPLOYEE_TERMINATED ''e1'' 5 staff_world = (Inr True, w') \<and>
     findByIdUnscoped ''u1'' (d_users (w_db w')) = Some (staff_user\<lparr> usr_status := User_archived \<rparr>) \<and>
     pending_of sample_env ''u1'' (d_invitations (w_db w')) = []"
proof -
  have "usr_id staff_user = ''u1''" by (simp add: staff_user_def sample_user_def)
  then show ?thesis using termination_closes_account[OF staff_facts(1-7)] by auto
qed

theorem suspension_undone_by_invitation_witness:
  "\<exists>w1 w2. synchronizeEmployeeStatus sample_env EMPLOYEE_SUSPENDED ''e1'' 5 staff_world = (Inr True, w1) \<and>
     acceptInvitation sample_env ''tok'' ''new'' w1 = (Inr ''u1'', w2) \<and>
     map_option usr_status (findByIdUnscoped ''u1'' (d_users (w_db w2))) = Some User_active"
proof -
  have "usr_id staff_user = ''u1''" by (simp add: staff_user_def sample_user_def)
  moreover obtain w1 w2 where "synchronizeEmployeeStatus sample_env EMPLOYEE_SUSPENDED ''e1'' 5 staff_world = (Inr True, w1)"
    "acceptInvitation sample_env ''tok'' ''new'' w1 = (Inr (usr_id staff_user), w2)"
    "findByIdUnscoped (usr_id staff_user) (d_users (w_db w2)) =
       Some (staff_user\<lparr> usr_status := User_active, usr_credentialStatus := Credential_active \<rparr>)"
    using suspension_undone_by_invitation[OF staff_facts(1-6,8-10) refl, of "''new''"] by blast
  ultimately show ?thesis by (intro exI[of _ w1] exI[of _ w2]) simp
qed

theorem lifecycle_events_apply_once_witness:
  "\<exists>w'. synchronizeEmployeeStatus sample_env EMPLOYEE_SUSPENDED ''e1'' 5 staff_world = (Inr True, w') \<and>
     synchronizeEmployeeStatus sample_env EMPLOYEE_REACTIVATED ''e1'' 4 w' = (Inr True, w')"
proof -
  obtain w' where "suspendUserAndEmployee sample_env staff_user ''e1'' 5 staff_world = (Inr True, w')"
    by (rule event_runs[OF staff_facts(5,6), of "suspendUserAndEmployee sample_env staff_user ''e1'' 5" "''e1''" 5 id
          User_disabled Employee_suspended "''DISABLED''"]) simp_all
  then have w': "synchronizeEmployeeStatus sample_env EMPLOYEE_SUSPENDED ''e1'' 5 staff_world = (Inr True, w')"
    using sync_with_user[OF staff_facts(1-3), of EMPLOYEE_SUSPENDED] by (simp add: user_event_def db_tx_def act_tx_def)
  have "synchronizeEmployeeStatus sample_env EMPLOYEE_REACTIVATED ''e1'' 4 w' = (Inr True, w')"
    by (rule lifecycle_events_apply_once[OF w']) simp_all
  then show ?thesis using w' by (intro exI[of _ w']) simp
qed

end
