(* ===== verification/Membership_Sync.thy ===== *)
theory Membership_Sync
  imports Effective_Roles Matching_Rule User_Model
begin

text \<open>
  Employee references, the propagation of employee events to group memberships, and the
  reconciliation of memberships with the grants derived from them.  The statements of a
  reconciliation are not one transaction: what precedes a failing one stays.
\<close>

section \<open>Employee references\<close>

record sync_world =
  sw_authz :: authz_world
  sw_employees :: "employee_reference list"
  sw_users :: "app_user list"

datatype sync_error =
    Projection_failed projection_error
  | Employee_constraint string
  | Query_failed

record upsert_employee =
  ue_id :: uuid
  ue_tenant :: tenant
  ue_employeeCode :: string
  ue_companyId :: "string option"
  ue_locationId :: "string option"
  ue_departmentId :: "string option"
  ue_gradeId :: "string option"
  ue_jobTitleId :: "string option"
  ue_employmentStatus :: "string option"
  ue_status :: "string option"
  ue_managerEmployeeId :: "string option"
  ue_sourceVersion :: int

definition emp_find :: "tenant \<Rightarrow> uuid \<Rightarrow> employee_reference list \<Rightarrow> employee_reference option" where
  "emp_find t i es = find (\<lambda>e. emp_id e = i \<and> emp_tenant e = t) es"

definition emp_findByCode :: "tenant \<Rightarrow> string \<Rightarrow> employee_reference list \<Rightarrow> employee_reference option" where
  "emp_findByCode t c es = find (\<lambda>e. emp_tenant e = t \<and> emp_code e = c) es"

definition emp_findByIds :: "tenant \<Rightarrow> uuid list \<Rightarrow> employee_reference list \<Rightarrow> employee_reference list" where
  "emp_findByIds t ids es = (if ids = [] then [] else filter (\<lambda>e. emp_tenant e = t \<and> emp_id e \<in> set ids) es)"

definition countEmployeesByTenant :: "tenant \<Rightarrow> employee_reference list \<Rightarrow> nat" where
  "countEmployeesByTenant t es =
    length (filter (\<lambda>e. emp_tenant e = t \<and> emp_status e = employee_status_string Employee_active) es)"

definition updateReporteesCount :: "tenant \<Rightarrow> uuid \<Rightarrow> int \<Rightarrow> employee_reference list \<Rightarrow> employee_reference list" where
  "updateReporteesCount t i delta es =
    map (\<lambda>e. if emp_tenant e = t \<and> emp_id e = i
              then e\<lparr> emp_reporteesCount := max 0 (emp_reporteesCount e + delta) \<rparr> else e) es"

definition new_employee :: "upsert_employee \<Rightarrow> employee_reference" where
  "new_employee d =
    \<lparr> emp_id = ue_id d, emp_tenant = ue_tenant d, emp_code = ue_employeeCode d,
      emp_companyId = ue_companyId d, emp_locationId = ue_locationId d,
      emp_departmentId = ue_departmentId d, emp_gradeId = ue_gradeId d, emp_jobTitleId = ue_jobTitleId d,
      emp_employmentStatus = employee_status_string Employee_active,
      emp_status = employee_status_string Employee_active, emp_managerId = ue_managerEmployeeId d,
      emp_reporteesCount = 0, emp_sourceVersion = Some (int_string (ue_sourceVersion d)) \<rparr>"

definition emp_create :: "employee_reference \<Rightarrow> employee_reference list \<Rightarrow> sync_error + employee_reference list" where
  "emp_create e es =
    (if \<exists>x \<in> set es. emp_id x = emp_id e then Fail (Employee_constraint ''pk_employee_references'')
     else if \<exists>x \<in> set es. emp_tenant x = emp_tenant e \<and> emp_code x = emp_code e
       then Fail (Employee_constraint ''uq_employee_references_tenant_employee_code'')
     else Ok (es @ [e]))"

text \<open>An absent or null field of the event leaves the column alone.\<close>

definition keep_or :: "'a option \<Rightarrow> 'a option \<Rightarrow> 'a option" where
  "keep_or new old = (case new of None \<Rightarrow> old | Some x \<Rightarrow> Some x)"

definition updated_employee :: "upsert_employee \<Rightarrow> employee_reference \<Rightarrow> employee_reference" where
  "updated_employee d e =
    e\<lparr> emp_companyId := keep_or (ue_companyId d) (emp_companyId e),
       emp_locationId := keep_or (ue_locationId d) (emp_locationId e),
       emp_departmentId := keep_or (ue_departmentId d) (emp_departmentId e),
       emp_gradeId := keep_or (ue_gradeId d) (emp_gradeId e),
       emp_jobTitleId := keep_or (ue_jobTitleId d) (emp_jobTitleId e),
       emp_employmentStatus := (case ue_employmentStatus d of None \<Rightarrow> emp_employmentStatus e | Some s \<Rightarrow> s) \<rparr>"

definition emp_update :: "tenant \<Rightarrow> upsert_employee \<Rightarrow> employee_reference list \<Rightarrow> employee_reference list" where
  "emp_update t d es =
    map (\<lambda>e. if emp_id e = ue_id d \<and> emp_tenant e = t then updated_employee d e else e) es"

section \<open>Memberships\<close>

definition insert_membership :: "tenant \<Rightarrow> uuid \<Rightarrow> uuid \<Rightarrow> authz_db \<Rightarrow> authz_db" where
  "insert_membership t g u db =
    db\<lparr> t_memberships := t_memberships db @ [\<lparr> mem_tenant = t, mem_groupId = g, mem_userId = u \<rparr>] \<rparr>"

definition deleteSingleMembership :: "tenant \<Rightarrow> uuid \<Rightarrow> uuid \<Rightarrow> authz_db \<Rightarrow> authz_db" where
  "deleteSingleMembership t u g db =
    db\<lparr> t_memberships := delete_rows (\<lambda>m. mem_tenant m = t \<and> mem_userId m = u \<and> mem_groupId m = g) (t_memberships db) \<rparr>"

definition findMemberEmployeeIdsByGroup :: "tenant \<Rightarrow> uuid \<Rightarrow> authz_db \<Rightarrow> uuid list" where
  "findMemberEmployeeIdsByGroup t g db =
    map mem_userId (filter (\<lambda>m. mem_tenant m = t \<and> mem_groupId m = g) (t_memberships db))"

definition mem_batchInsert :: "tenant \<Rightarrow> uuid \<Rightarrow> uuid list \<Rightarrow> authz_db \<Rightarrow> authz_db" where
  "mem_batchInsert t g us db =
    db\<lparr> t_memberships := t_memberships db @ map (\<lambda>u. \<lparr> mem_tenant = t, mem_groupId = g, mem_userId = u \<rparr>) us \<rparr>"

definition mem_batchDelete :: "tenant \<Rightarrow> uuid \<Rightarrow> uuid list \<Rightarrow> authz_db \<Rightarrow> authz_db" where
  "mem_batchDelete t g us db =
    db\<lparr> t_memberships := delete_rows (\<lambda>m. mem_tenant m = t \<and> mem_groupId m = g \<and> mem_userId m \<in> set us) (t_memberships db) \<rparr>"

section \<open>Reconciling one user\<close>

record single_result =
  sr_userId :: uuid
  sr_added :: "uuid list"
  sr_removed :: "uuid list"
  sr_changed :: bool

definition reconciled_event :: "string \<Rightarrow> tenant \<Rightarrow> uuid \<Rightarrow> uuid list \<Rightarrow> uuid list \<Rightarrow> nat \<Rightarrow> nat \<Rightarrow> outbox_draft" where
  "reconciled_event now t u added removed ins del =
    \<lparr> draft_tenant = Some t, draft_aggregateType = Some ''USER'', draft_aggregateId = Some u,
      draft_userId = None,
      draft_payload = Some (JObj
        [(''userId'', JStr u), (''addedGroupIds'', jstrs added), (''removedGroupIds'', jstrs removed),
         (''effectiveRolesInserted'', JNum (int ins)), (''effectiveRolesDeleted'', JNum (int del)),
         (''timestamp'', JStr now)]),
      draft_sanitizedPayload = None, draft_status = Some Outbox_pending,
      draft_eventType = ''AUTHORIZATION_MEMBERSHIP_RECONCILED'', draft_eventVersion = Some 1 \<rparr>"

definition reconcile_memberships :: "tenant \<Rightarrow> uuid \<Rightarrow> uuid list \<Rightarrow> uuid list \<Rightarrow> authz_db \<Rightarrow> authz_db" where
  "reconcile_memberships t u added removed db =
    fold (\<lambda>g. deleteSingleMembership t u g) removed (fold (\<lambda>g. insert_membership t g u) added db)"

definition reconcileSingleUser ::
  "projection_env \<Rightarrow> string \<Rightarrow> uuid \<Rightarrow> uuid list \<Rightarrow> authz_world \<Rightarrow> (sync_error + single_result) \<times> authz_world" where
  "reconcileSingleUser env now u targets w =
    (let t = pe_tenant env;
         current = js_set_of (findByUserId t u (aw_db w));
         added = filter (\<lambda>g. g \<notin> set current) (js_set_of targets);
         removed = filter (\<lambda>g. g \<notin> set targets) current
     in if added = [] \<and> removed = []
        then (Ok \<lparr> sr_userId = u, sr_added = [], sr_removed = [], sr_changed = False \<rparr>, w)
        else (let db1 = reconcile_memberships t u added removed (aw_db w);
                  grants = concat (map (group_grants t db1) targets);
                  (res, db2) = syncEffectiveRolesForUser env u grants db1
              in case res of
                   Inl e \<Rightarrow> (Fail (Projection_failed e), w\<lparr> aw_db := db2 \<rparr>)
                 | Inr (ins, del) \<Rightarrow>
                     (Ok \<lparr> sr_userId = u, sr_added = added, sr_removed = removed,
                           sr_changed = (ins > 0 \<or> del > 0) \<rparr>,
                      w\<lparr> aw_db := db2,
                         aw_outbox := aw_outbox w @ [outbox_create t (reconciled_event now t u added removed ins del)] \<rparr>)))"

section \<open>Reconciling a group's population\<close>

record population_result =
  pr_groupId :: uuid
  pr_added :: "uuid list"
  pr_removed :: "uuid list"
  pr_total :: nat

fun sync_each :: "projection_env \<Rightarrow> uuid list \<Rightarrow> authz_db \<Rightarrow> (sync_error + unit) \<times> authz_db" where
  "sync_each env [] db = (Ok (), db)"
| "sync_each env (u # us) db =
    (case syncEffectiveRolesForUser env u (recompute_targets (pe_tenant env) u db) db of
       (Inl e, db1) \<Rightarrow> (Fail (Projection_failed e), db1)
     | (Inr r, db1) \<Rightarrow> sync_each env us db1)"

definition reconcileGroupPopulation ::
  "projection_env \<Rightarrow> uuid \<Rightarrow> uuid list \<Rightarrow> int \<Rightarrow> authz_db \<Rightarrow> (sync_error + population_result) \<times> authz_db" where
  "reconcileGroupPopulation env g matched version db =
    (let t = pe_tenant env;
         current = js_set_of (findMemberEmployeeIdsByGroup t g db);
         added = filter (\<lambda>e. e \<notin> set current) (js_set_of matched);
         removed = filter (\<lambda>e. e \<notin> set matched) current;
         db1 = mem_batchDelete t g removed (mem_batchInsert t g added db);
         result = \<lparr> pr_groupId = g, pr_added = added, pr_removed = removed, pr_total = length added + length removed \<rparr>
     in case tenant_group t g db1 of
          None \<Rightarrow> (Ok result, db1)
        | Some _ \<Rightarrow>
            (case sync_each env (added @ removed) db1 of
               (Inl e, db2) \<Rightarrow> (Fail e, db2)
             | (Inr _, db2) \<Rightarrow> (Ok result, group_updateProjectionVersion t g version db2)))"

section \<open>Propagating employee events\<close>

type_synonym 'a sync_op = "(sync_error + 'a) \<times> sync_world"

definition handleEmployeeAttributeChange ::
  "(string \<Rightarrow> int option) \<Rightarrow> projection_env \<Rightarrow> string \<Rightarrow> uuid \<Rightarrow> string list \<Rightarrow> sync_world \<Rightarrow> unit sync_op" where
  "handleEmployeeAttributeChange str_num env now i keys w =
    (let t = pe_tenant env; db = aw_db (sw_authz w) in
     case emp_find t i (sw_employees w) of
       None \<Rightarrow> (Ok (), w)
     | Some e \<Rightarrow>
         if findByAttributeKeys t keys db = [] then (Ok (), w)
         else (let matching = map group_id (filter (\<lambda>g. evaluateRule str_num (group_matchingRule g) e) (findActiveGroups t db))
               in case findByEmployeeId t i (sw_users w) of
                    None \<Rightarrow> (Ok (), w)
                  | Some u \<Rightarrow>
                      (let (res, a) = reconcileSingleUser env now (usr_id u) matching (sw_authz w)
                       in (map_sum id (\<lambda>_. ()) res, w\<lparr> sw_authz := a \<rparr>))))"

definition non_empty :: "string option \<Rightarrow> bool" where
  "non_empty x = (or_null x \<noteq> None)"

definition changed_keys :: "upsert_employee \<Rightarrow> string list" where
  "changed_keys d =
    (if non_empty (ue_departmentId d) then [''departmentId''] else []) @
    (if non_empty (ue_locationId d) then [''locationId''] else []) @
    (if non_empty (ue_companyId d) then [''companyId''] else []) @
    (if non_empty (ue_gradeId d) then [''gradeId''] else []) @
    (if non_empty (ue_jobTitleId d) then [''jobTitleId''] else []) @
    (if non_empty (ue_employmentStatus d) \<or> non_empty (ue_status d) then [''employmentStatus''] else [])"

definition handleEmployeeCreated :: "upsert_employee \<Rightarrow> sync_world \<Rightarrow> unit sync_op" where
  "handleEmployeeCreated d w =
    (case emp_create (new_employee d) (sw_employees w) of
       Inl e \<Rightarrow> (Fail e, w)
     | Inr es \<Rightarrow> (Ok (), w\<lparr> sw_employees := es \<rparr>))"

definition handleEmployeeUpsert ::
  "(string \<Rightarrow> int option) \<Rightarrow> projection_env \<Rightarrow> string \<Rightarrow> upsert_employee \<Rightarrow> sync_world \<Rightarrow> unit sync_op" where
  "handleEmployeeUpsert str_num env now d w =
    (let t = pe_tenant env in
     case emp_find t (ue_id d) (sw_employees w) of
       None \<Rightarrow> handleEmployeeCreated d w
     | Some _ \<Rightarrow>
         (let w1 = w\<lparr> sw_employees := emp_update t d (sw_employees w) \<rparr>; keys = changed_keys d
          in if keys = [] then (Ok (), w1)
             else handleEmployeeAttributeChange str_num env now (ue_id d) keys w1))"

definition manager_changed ::
  "(string \<Rightarrow> int option) \<Rightarrow> projection_env \<Rightarrow> string \<Rightarrow> tenant \<Rightarrow> int \<Rightarrow> string option \<Rightarrow> sync_world \<Rightarrow> unit sync_op" where
  "manager_changed str_num env now t delta m w =
    (case or_null m of
       None \<Rightarrow> (Ok (), w)
     | Some i \<Rightarrow>
         handleEmployeeAttributeChange str_num env now i [''reporteesCount'', ''hasReportees'']
           (w\<lparr> sw_employees := updateReporteesCount t i delta (sw_employees w) \<rparr>))"

definition handleEmployeeReportingLineChanged ::
  "(string \<Rightarrow> int option) \<Rightarrow> projection_env \<Rightarrow> string \<Rightarrow> tenant \<Rightarrow> string option \<Rightarrow> string option \<Rightarrow> sync_world
     \<Rightarrow> unit sync_op" where
  "handleEmployeeReportingLineChanged str_num env now t old new w =
    (case manager_changed str_num env now t (-1) old w of
       (Inl e, w1) \<Rightarrow> (Fail e, w1)
     | (Inr _, w1) \<Rightarrow> manager_changed str_num env now t 1 new w1)"

end
