(* ===== verification/Event_Handlers.thy ===== *)
theory Event_Handlers
  imports Provisioning_Properties Membership_Sync
begin

text \<open>
  The handlers of the employee events: each checks its payload, builds the request context from the
  envelope and runs one operation of the provisioning service or of the propagation service in it.
  Both work on the same employee and user tables, which live on the authentication side.
\<close>

section \<open>Messages and contexts\<close>

record lifecycle_payload =
  lp_id :: uuid
  lp_tenantCode :: tenant
  lp_employeeCode :: string
  lp_companyId :: "string option"
  lp_locationId :: "string option"
  lp_departmentId :: "string option"
  lp_gradeId :: "string option"
  lp_jobTitleId :: "string option"
  lp_employmentStatus :: "string option"
  lp_status :: "string option"
  lp_oldManagerEmployeeId :: "string option"
  lp_newManagerEmployeeId :: "string option"
  lp_managerEmployeeId :: "string option"
  lp_sourceVersion :: int

record lifecycle_envelope =
  le_traceId :: "string option"
  le_correlationId :: "string option"
  le_eventId :: string
  le_payload :: "lifecycle_payload option"

record request_context =
  rq_traceId :: string
  rq_requestId :: string
  rq_tenantCode :: tenant
  rq_ip :: string

record handler_env =
  he_auth :: auth_env
  he_projection :: projection_env
  he_str_num :: "string \<Rightarrow> int option"
  he_now :: string

definition accepted_payload :: "lifecycle_envelope \<Rightarrow> lifecycle_payload option" where
  "accepted_payload ev =
    (case le_payload ev of
       None \<Rightarrow> None
     | Some p \<Rightarrow> if lp_tenantCode p = [] \<or> lp_id p = [] then None else Some p)"

definition context_of :: "lifecycle_envelope \<Rightarrow> lifecycle_payload \<Rightarrow> request_context" where
  "context_of ev p =
    \<lparr> rq_traceId = (case truthy_id (le_traceId ev) of
         Some t \<Rightarrow> t
       | None \<Rightarrow> (case truthy_id (le_correlationId ev) of Some c \<Rightarrow> c | None \<Rightarrow> le_eventId ev)),
      rq_requestId = le_eventId ev, rq_tenantCode = lp_tenantCode p, rq_ip = ''127.0.0.1'' \<rparr>"

text \<open>What runs in the context takes its tenant and its address from it.\<close>

definition in_context :: "request_context \<Rightarrow> handler_env \<Rightarrow> handler_env" where
  "in_context ctx env =
    env\<lparr> he_auth := (he_auth env)\<lparr> ae_tenant := rq_tenantCode ctx, ae_ip := Some (rq_ip ctx) \<rparr>,
         he_projection := (he_projection env)\<lparr> pe_tenant := rq_tenantCode ctx \<rparr> \<rparr>"

section \<open>The two services on one database\<close>

record service_world =
  sv_auth :: auth_world
  sv_authz :: authz_world

datatype handler_error = Provisioning_threw auth_error | Propagation_threw sync_error

datatype handler_reply = Ignored | Synchronized bool | Propagated

type_synonym 'a handler_op = "service_world \<Rightarrow> (handler_error + 'a) \<times> service_world"

definition on_provisioning :: "bool auth_act \<Rightarrow> handler_reply handler_op" where
  "on_provisioning m w =
    (case m (sv_auth w) of (r, a) \<Rightarrow> (map_sum Provisioning_threw Synchronized r, w\<lparr> sv_auth := a \<rparr>))"

definition sync_view :: "service_world \<Rightarrow> sync_world" where
  "sync_view w =
    \<lparr> sw_authz = sv_authz w, sw_employees = d_employees (w_db (sv_auth w)), sw_users = d_users (w_db (sv_auth w)) \<rparr>"

definition on_propagation :: "(sync_world \<Rightarrow> unit sync_op) \<Rightarrow> handler_reply handler_op" where
  "on_propagation m w =
    (case m (sync_view w) of (r, s) \<Rightarrow>
      (map_sum Propagation_threw (\<lambda>_. Propagated) r,
       w\<lparr> sv_authz := sw_authz s, sv_auth := upd_db (d_employees_update (\<lambda>_. sw_employees s)) (sv_auth w) \<rparr>))"

definition with_payload ::
  "handler_env \<Rightarrow> lifecycle_envelope \<Rightarrow> (handler_env \<Rightarrow> lifecycle_payload \<Rightarrow> handler_reply handler_op)
     \<Rightarrow> handler_reply handler_op" where
  "with_payload env ev body w =
    (case accepted_payload ev of
       None \<Rightarrow> (Inr Ignored, w)
     | Some p \<Rightarrow> body (in_context (context_of ev p) env) p w)"

definition status_body :: "event_type \<Rightarrow> handler_env \<Rightarrow> lifecycle_payload \<Rightarrow> handler_reply handler_op" where
  "status_body ty env p = on_provisioning (synchronizeEmployeeStatus (he_auth env) ty (lp_id p) (lp_sourceVersion p))"

definition handleEmployeeTerminated :: "handler_env \<Rightarrow> lifecycle_envelope \<Rightarrow> handler_reply handler_op" where
  "handleEmployeeTerminated env ev = with_payload env ev (status_body EMPLOYEE_TERMINATED)"

definition handleEmployeeSuspended :: "handler_env \<Rightarrow> lifecycle_envelope \<Rightarrow> handler_reply handler_op" where
  "handleEmployeeSuspended env ev = with_payload env ev (status_body EMPLOYEE_SUSPENDED)"

definition handleEmployeeReactivated :: "handler_env \<Rightarrow> lifecycle_envelope \<Rightarrow> handler_reply handler_op" where
  "handleEmployeeReactivated env ev = with_payload env ev (status_body EMPLOYEE_REACTIVATED)"

definition reporting_line_changed :: "handler_env \<Rightarrow> lifecycle_envelope \<Rightarrow> handler_reply handler_op" where
  "reporting_line_changed env ev = with_payload env ev (\<lambda>e p. on_propagation
    (handleEmployeeReportingLineChanged (he_str_num e) (he_projection e) (he_now e) (lp_tenantCode p)
      (lp_oldManagerEmployeeId p) (lp_newManagerEmployeeId p)))"

definition upsert_of :: "lifecycle_payload \<Rightarrow> upsert_employee" where
  "upsert_of p =
    \<lparr> ue_id = lp_id p, ue_tenant = lp_tenantCode p, ue_employeeCode = lp_employeeCode p,
      ue_companyId = lp_companyId p, ue_locationId = lp_locationId p, ue_departmentId = lp_departmentId p,
      ue_gradeId = lp_gradeId p, ue_jobTitleId = lp_jobTitleId p, ue_employmentStatus = lp_employmentStatus p,
      ue_status = lp_status p, ue_managerEmployeeId = lp_managerEmployeeId p, ue_sourceVersion = lp_sourceVersion p \<rparr>"

definition upsert_body :: "handler_env \<Rightarrow> lifecycle_payload \<Rightarrow> handler_reply handler_op" where
  "upsert_body e p = on_propagation
    (handleEmployeeUpsert (he_str_num e) (he_projection e) (he_now e) (upsert_of p))"

definition handleEmployeeUpdated :: "handler_env \<Rightarrow> lifecycle_envelope \<Rightarrow> handler_reply handler_op" where
  "handleEmployeeUpdated env ev = with_payload env ev upsert_body"

definition employee_created_event :: "handler_env \<Rightarrow> lifecycle_envelope \<Rightarrow> handler_reply handler_op" where
  "employee_created_event env ev = with_payload env ev upsert_body"

text \<open>A delivery names the event pattern its message matches.\<close>

definition handle_event :: "handler_env \<Rightarrow> event_type \<times> lifecycle_envelope \<Rightarrow> handler_reply handler_op" where
  "handle_event env d =
    (case d of (ty, ev) \<Rightarrow>
      (if ty = EMPLOYEE_TERMINATED then handleEmployeeTerminated env ev
       else if ty = EMPLOYEE_SUSPENDED then handleEmployeeSuspended env ev
       else if ty = EMPLOYEE_REACTIVATED then handleEmployeeReactivated env ev
       else if ty = EMPLOYEE_REPORTING_LINE_CHANGED then reporting_line_changed env ev
       else if ty = EMPLOYEE_UPDATED then handleEmployeeUpdated env ev
       else if ty = EMPLOYEE_CREATED then employee_created_event env ev
       else (\<lambda>w. (Inr Ignored, w))))"

fun deliver_all :: "handler_env \<Rightarrow> (event_type \<times> lifecycle_envelope) list \<Rightarrow> service_world
    \<Rightarrow> (handler_error + handler_reply) list \<times> service_world" where
  "deliver_all env [] w = ([], w)"
| "deliver_all env (d # ds) w =
    (case handle_event env d w of (r, w1) \<Rightarrow>
      (case deliver_all env ds w1 of (rs, w2) \<Rightarrow> (r # rs, w2)))"

end
