(* ===== verification/Event_Properties.thy ===== *)
theory Event_Properties
  imports Event_Handlers
begin

text \<open>
  The two kinds of employee events share the employee rows.  An operation that does not see a part
  of the state runs alike on states that differ in it; with the status events shown not to see the
  attributes, the attribute events cannot interfere with them.
\<close>

section \<open>Operations that do not see a part of the state\<close>

definition unseen :: "('w \<Rightarrow> 'w) \<Rightarrow> ('w, 'e, 'a) act \<Rightarrow> bool" where
  "unseen v m \<longleftrightarrow> (\<forall>w. m (v w) = (fst (m w), v (snd (m w))))"

lemma unseenD: "unseen v m \<Longrightarrow> m w = (r, w') \<Longrightarrow> m (v w) = (r, v w')"
  by (simp add: unseen_def)

lemma unseenI: "(\<And>w. m (v w) = (fst (m w), v (snd (m w)))) \<Longrightarrow> unseen v m"
  by (simp add: unseen_def)

lemma unseen_pure: "unseen v (act_ret x)" "unseen v (act_throw e)"
  by (simp_all add: unseen_def act_run)

lemma unseen_bind:
  assumes "unseen v m" "\<And>x. unseen v (f x)"
  shows "unseen v (act_bind m f)"
proof (rule unseenI)
  fix w
  obtain r w' where m: "m w = (r, w')" by (cases "m w")
  show "act_bind m f (v w) = (fst (act_bind m f w), v (snd (act_bind m f w)))"
    using unseenD[OF assms(1) m] m assms(2) by (cases r) (simp_all add: act_bind_value unseen_def)
qed

lemma unseen_then: "unseen v m \<Longrightarrow> unseen v k \<Longrightarrow> unseen v (act_then m k)"
  unfolding act_then_def by (rule unseen_bind)

lemma unseen_when: "unseen v m \<Longrightarrow> unseen v (act_when b m)"
  by (simp add: act_when_def unseen_pure)

definition db_view :: "(auth_db \<Rightarrow> auth_db) \<Rightarrow> auth_world \<Rightarrow> auth_world" where
  "db_view v = upd_db v"

lemma unseen_db:
  "(\<And>db. q (v db) = q db) \<Longrightarrow> unseen (db_view v) (db_read q)"
  "(\<And>db. f (v db) = v (f db)) \<Longrightarrow> unseen (db_view v) (db_write f)"
  by (simp_all add: unseen_def db_run db_view_def upd_db_def)

lemma unseen_db_read_bind:
  assumes "\<And>db. q (v db) = t (q db)" "\<And>x. f (t x) = f x" "\<And>x. unseen (db_view v) (f x)"
  shows "unseen (db_view v) (act_bind (db_read q) f)"
  using assms(3) by (simp add: unseen_def db_run assms(1,2) db_view_def)

lemma unseen_db_tx: "unseen (db_view v) m \<Longrightarrow> unseen (db_view v) (db_tx m)"
  by (auto simp: unseen_def db_tx_def act_tx_def db_view_def upd_db_def split: prod.splits sum.splits)

lemma unseen_redis: "unseen (db_view v) (redis_cmd c)"
  by (auto simp: unseen_def redis_cmd_def db_view_def upd_db_def upd_cells_def split: prod.splits)

lemma unseen_redis_ops:
  "unseen (db_view v) (redis_del ks)" "unseen (db_view v) (redis_members k)" "unseen (db_view v) redis_client"
  by (simp_all add: redis_del_def redis_members_def unseen_redis)
     (simp add: unseen_def redis_client_def act_run db_view_def upd_db_def)

lemmas unseen_rules = unseen_pure unseen_bind unseen_then unseen_when unseen_db_tx unseen_redis_ops

section \<open>Status events do not see attributes\<close>

definition status_part :: "employee_reference \<Rightarrow> employee_reference" where
  "status_part e = e\<lparr> emp_companyId := None, emp_locationId := None, emp_departmentId := None,
     emp_gradeId := None, emp_jobTitleId := None, emp_employmentStatus := [], emp_reporteesCount := 0 \<rparr>"

abbreviation without_attributes :: "auth_world \<Rightarrow> auth_world" where
  "without_attributes \<equiv> db_view (d_employees_update (map status_part))"

lemma status_part_fields [simp]:
  "emp_id (status_part e) = emp_id e" "emp_tenant (status_part e) = emp_tenant e"
  "emp_status (status_part e) = emp_status e" "emp_sourceVersion (status_part e) = emp_sourceVersion e"
  "stale_event v (status_part e) = stale_event v e"
  by (simp_all add: status_part_def stale_event_def stored_version_def)

lemma status_part_synced [simp]: "status_part (synced_employee s v e) = synced_employee s v (status_part e)"
  by (cases s) (simp_all add: status_part_def synced_employee_def)

lemma unseen_log_event: "unseen without_attributes (log_event env d)"
  unfolding log_event_def by (rule unseen_db) simp

lemma unseen_update_user: "unseen without_attributes (update_user i f)"
  unfolding update_user_def by (rule unseen_db) simp

lemma unseen_update_employee: "unseen without_attributes (update_employee i (synced_employee s v))"
  unfolding update_employee_def
  by (rule unseen_db) (auto simp: update_rows_def)

lemma unseen_revokeAllSessions: "unseen without_attributes (revokeAllSessions env t u)"
  unfolding revokeAllSessions_def Let_def by (auto intro!: unseen_rules)

lemma unseen_revoke_pending: "unseen without_attributes (revoke_pending env user)"
  unfolding revoke_pending_def inv_bulkSave_def by (auto intro!: unseen_rules unseen_db)

lemma unseen_insert_invitation: "unseen without_attributes (insert_invitation i)"
  unfolding insert_invitation_def by (auto intro!: unseen_rules unseen_db)

lemma unseen_user_events:
  "unseen without_attributes (suspendUserAndEmployee env user i v)"
  "unseen without_attributes (terminateUserAndEmployee env user i v)"
  "unseen without_attributes (reactivateUserAndEmployee env user i v)"
  unfolding suspendUserAndEmployee_def terminateUserAndEmployee_def reactivateUserAndEmployee_def set_account_def
  by (auto intro!: unseen_rules unseen_log_event unseen_update_user unseen_update_employee
      unseen_revokeAllSessions unseen_revoke_pending unseen_insert_invitation unseen_db
      simp: reactivation_invitation_def)

lemma employee_row_view:
  "employee_row t i (d_employees_update (map status_part) db) = map_option status_part (employee_row t i db)"
proof -
  have "find P (map status_part es) = map_option status_part (find P es)"
    if "\<And>e. P (status_part e) = P e" for P es using that by (induction es) auto
  then show ?thesis by (simp add: employee_row_def)
qed

lemma unseen_synchronize: "unseen without_attributes (synchronizeEmployeeStatus env ty i v)"
  unfolding synchronizeEmployeeStatus_def
  by (intro unseen_db_tx unseen_db_read_bind[where t = "map_option status_part"])
     (auto simp: employee_row_view employee_user_def split: option.splits cong: if_cong option.case_cong
       intro!: unseen_rules unseen_db unseen_update_employee unseen_user_events)

section \<open>Attribute events do not touch what status events see\<close>

lemma attribute_change_employees:
  "sw_employees (snd (handleEmployeeAttributeChange sn env now i keys w)) = sw_employees w"
  by (simp add: handleEmployeeAttributeChange_def Let_def split: option.splits prod.splits)

lemma reportees_status_part: "map status_part (updateReporteesCount t i d es) = map status_part es"
  by (auto simp: updateReporteesCount_def status_part_def)

lemma update_status_part: "map status_part (emp_update t d es) = map status_part es"
  by (auto simp: emp_update_def status_part_def updated_employee_def)

lemma manager_changed_status_part:
  "map status_part (sw_employees (snd (manager_changed sn env now t d m w))) = map status_part (sw_employees w)"
  by (simp add: manager_changed_def attribute_change_employees reportees_status_part split: option.splits)

lemma reporting_line_status_part:
  "map status_part (sw_employees (snd (handleEmployeeReportingLineChanged sn env now t old new w))) =
     map status_part (sw_employees w)"
proof -
  obtain r w1 where m: "manager_changed sn env now t (-1) old w = (r, w1)" by fastforce
  then have "map status_part (sw_employees w1) = map status_part (sw_employees w)"
    using manager_changed_status_part[of sn env now t "-1" old w] by simp
  then show ?thesis
    by (simp add: handleEmployeeReportingLineChanged_def m manager_changed_status_part split: sum.splits)
qed

lemma upsert_status_part:
  assumes "emp_find (pe_tenant env) (ue_id d) (sw_employees w) \<noteq> None"
  shows "map status_part (sw_employees (snd (handleEmployeeUpsert sn env now d w))) = map status_part (sw_employees w)"
  using assms by (auto simp: handleEmployeeUpsert_def Let_def attribute_change_employees update_status_part)

lemma on_propagation_view:
  assumes "map status_part (sw_employees (snd (m (sync_view w)))) = map status_part (d_employees (w_db (sv_auth w)))"
  shows "without_attributes (sv_auth (snd (on_propagation m w))) = without_attributes (sv_auth w)"
  using assms
  by (cases "m (sync_view w)", cases "w_db (sv_auth w)") (simp add: on_propagation_def db_view_def upd_db_def)

definition status_events :: "event_type list" where
  "status_events = [EMPLOYEE_TERMINATED, EMPLOYEE_SUSPENDED, EMPLOYEE_REACTIVATED]"

definition row_ids :: "auth_world \<Rightarrow> (uuid \<times> tenant) list" where
  "row_ids a = map (\<lambda>e. (emp_id e, emp_tenant e)) (d_employees (w_db a))"

text \<open>The employee events whose payload names an employee that is not yet known create its row.\<close>

definition creates_nothing :: "service_world \<Rightarrow> event_type \<times> lifecycle_envelope \<Rightarrow> bool" where
  "creates_nothing w d =
    (case accepted_payload (snd d) of
       None \<Rightarrow> True
     | Some p \<Rightarrow> fst d \<in> {EMPLOYEE_UPDATED, EMPLOYEE_CREATED} \<longrightarrow>
         (lp_id p, lp_tenantCode p) \<in> set (row_ids (sv_auth w)))"

lemma creates_nothing_cong:
  "row_ids (sv_auth w1) = row_ids (sv_auth w) \<Longrightarrow> creates_nothing w1 d = creates_nothing w d"
  by (simp only: creates_nothing_def)

lemma attribute_event_view:
  assumes "fst d \<notin> set status_events" "creates_nothing w d"
  shows "without_attributes (sv_auth (snd (handle_event env d w))) = without_attributes (sv_auth w)"
proof (cases "accepted_payload (snd d)")
  case None
  then show ?thesis using assms(1)
    by (cases d) (simp add: handle_event_def status_events_def with_payload_def reporting_line_changed_def
        handleEmployeeUpdated_def employee_created_event_def)
next
  case (Some p)
  have "emp_find (lp_tenantCode p) (lp_id p) (d_employees (w_db (sv_auth w))) \<noteq> None"
    if "fst d \<in> {EMPLOYEE_UPDATED, EMPLOYEE_CREATED}"
    using assms(2) Some that by (auto simp: creates_nothing_def row_ids_def emp_find_def find_None_iff)
  then have up: "map status_part (sw_employees (snd (handleEmployeeUpsert sn e now (upsert_of p) (sync_view w)))) =
      map status_part (d_employees (w_db (sv_auth w)))"
    if "fst d \<in> {EMPLOYEE_UPDATED, EMPLOYEE_CREATED}" "pe_tenant e = lp_tenantCode p" for sn e now
    using upsert_status_part[of e "upsert_of p" "sync_view w"] that by (simp add: upsert_of_def sync_view_def)
  have line: "map status_part (sw_employees (snd (handleEmployeeReportingLineChanged sn e now t old new (sync_view w)))) =
      map status_part (d_employees (w_db (sv_auth w)))" for sn e now t old new
    by (simp add: reporting_line_status_part sync_view_def)
  show ?thesis using assms(1) Some
    by (cases d) (auto simp: handle_event_def status_events_def with_payload_def reporting_line_changed_def
        handleEmployeeUpdated_def employee_created_event_def upsert_body_def in_context_def context_of_def
        intro!: on_propagation_view line up)
qed

lemma row_ids_view: "row_ids (without_attributes a) = row_ids a"
  by (simp add: row_ids_def db_view_def)

lemma same_view_row_ids: "without_attributes a = without_attributes b \<Longrightarrow> row_ids a = row_ids b"
  using row_ids_view by metis

section \<open>Sequences of deliveries\<close>

definition same_employees :: "auth_world \<Rightarrow> auth_world \<Rightarrow> bool" where
  "same_employees a b \<longleftrightarrow> row_ids b = row_ids a"

interpretation same_employees: kept_relation same_employees
  by unfold_locales (simp_all add: same_employees_def)

lemma same_employees_db:
  "keeps same_employees (db_read q)" "(\<And>db. d_employees (f db) = d_employees db) \<Longrightarrow> keeps same_employees (db_write f)"
  "keeps same_employees (redis_cmd c)"
  by (auto simp: keeps_def db_run same_employees_def row_ids_def redis_cmd_def split: prod.splits)

lemma same_employees_tx:
  assumes "keeps same_employees m"
  shows "keeps same_employees (db_tx m)"
proof
  fix w
  obtain r w' where m: "m w = (r, w')" by (cases "m w")
  show "same_employees w (snd (db_tx m w))"
    using keepsD[OF assms m] m by (cases r) (simp_all add: db_tx_def act_tx_value same_employees_def row_ids_def)
qed

lemma same_employees_update: "keeps same_employees (update_employee i (synced_employee s v))"
  by (rule keepsI) (auto simp: update_employee_def db_run same_employees_def row_ids_def update_rows_def synced_employee_def)

lemmas same_employees_rules = same_employees.keeps_rules same_employees_db same_employees_tx same_employees_update

lemma same_employees_steps:
  "keeps same_employees (log_event env d)" "keeps same_employees (update_user u f)"
  "keeps same_employees (revokeAllSessions env t u)" "keeps same_employees (revoke_pending env user)"
  "keeps same_employees (insert_invitation x)"
  unfolding log_event_def update_user_def revokeAllSessions_def revoke_pending_def inv_bulkSave_def
    insert_invitation_def redis_members_def redis_del_def redis_client_def Let_def
  by (auto intro!: same_employees_rules)

lemma same_employees_synchronize: "keeps same_employees (synchronizeEmployeeStatus env ty i v)"
  unfolding synchronizeEmployeeStatus_def suspendUserAndEmployee_def terminateUserAndEmployee_def
    reactivateUserAndEmployee_def set_account_def
  by (auto split: option.splits intro!: same_employees_rules same_employees_steps)

lemma status_event_run:
  assumes "fst d \<in> set status_events"
  shows "handle_event env d w =
    (case accepted_payload (snd d) of
       None \<Rightarrow> (Inr Ignored, w)
     | Some p \<Rightarrow> on_provisioning (synchronizeEmployeeStatus (he_auth (in_context (context_of (snd d) p) env)) (fst d)
         (lp_id p) (lp_sourceVersion p)) w)"
  using assms
  by (cases d) (auto simp: handle_event_def status_events_def with_payload_def handleEmployeeTerminated_def
      handleEmployeeSuspended_def handleEmployeeReactivated_def status_body_def split: option.splits)

lemma status_event_view:
  assumes "fst d \<in> set status_events" "without_attributes (sv_auth w1) = without_attributes (sv_auth w2)"
  shows "fst (handle_event env d w1) = fst (handle_event env d w2) \<and>
    without_attributes (sv_auth (snd (handle_event env d w1))) = without_attributes (sv_auth (snd (handle_event env d w2))) \<and>
    row_ids (sv_auth (snd (handle_event env d w1))) = row_ids (sv_auth w1)"
proof (cases "accepted_payload (snd d)")
  case None
  then show ?thesis using assms by (simp add: status_event_run)
next
  case (Some p)
  define m where "m = synchronizeEmployeeStatus (he_auth (in_context (context_of (snd d) p) env)) (fst d)
         (lp_id p) (lp_sourceVersion p)"
  have u: "unseen without_attributes m" and k: "keeps same_employees m"
    by (simp_all add: m_def unseen_synchronize same_employees_synchronize)
  obtain r1 a1 where 1: "m (sv_auth w1) = (r1, a1)" by fastforce
  obtain r2 a2 where 2: "m (sv_auth w2) = (r2, a2)" by fastforce
  have "r1 = r2 \<and> without_attributes a1 = without_attributes a2"
    using unseenD[OF u 1] unseenD[OF u 2] assms(2) by simp
  moreover have "row_ids a1 = row_ids (sv_auth w1)" using keepsD[OF k 1] by (simp add: same_employees_def)
  ultimately show ?thesis using Some
    by (simp add: status_event_run[OF assms(1)] m_def[symmetric] on_provisioning_def 1 2)
qed

abbreviation is_status_event :: "event_type \<times> lifecycle_envelope \<Rightarrow> bool" where
  "is_status_event d \<equiv> fst d \<in> set status_events"

definition status_replies ::
  "(event_type \<times> lifecycle_envelope) list \<Rightarrow> (handler_error + handler_reply) list \<Rightarrow> (handler_error + handler_reply) list" where
  "status_replies ds rs = map snd (filter (\<lambda>p. is_status_event (fst p)) (zip ds rs))"

lemma deliveries_view:
  assumes "\<forall>d \<in> set ds. creates_nothing w d" "without_attributes (sv_auth w) = without_attributes (sv_auth w2)"
  shows "status_replies ds (fst (deliver_all env ds w)) = fst (deliver_all env (filter is_status_event ds) w2) \<and>
    without_attributes (sv_auth (snd (deliver_all env ds w))) =
    without_attributes (sv_auth (snd (deliver_all env (filter is_status_event ds) w2)))"
  using assms
proof (induction ds arbitrary: w w2)
  case Nil
  then show ?case by (simp add: status_replies_def)
next
  case (Cons d ds)
  obtain r w1 where run: "handle_event env d w = (r, w1)" by fastforce
  show ?case
  proof (cases "is_status_event d")
    case True
    obtain r2 w3 where run2: "handle_event env d w2 = (r2, w3)" by fastforce
    have v: "r = r2" "without_attributes (sv_auth w1) = without_attributes (sv_auth w3)"
      "row_ids (sv_auth w1) = row_ids (sv_auth w)"
      using status_event_view[OF True Cons.prems(2), of env] run run2 by simp_all
    have "\<forall>d \<in> set ds. creates_nothing w1 d" using Cons.prems(1) creates_nothing_cong[OF v(3)] by simp
    from Cons.IH[OF this v(2)] show ?thesis using True v(1)
      by (simp add: run run2 status_replies_def case_prod_beta)
  next
    case False
    have v: "without_attributes (sv_auth w1) = without_attributes (sv_auth w)"
      using attribute_event_view[OF False] Cons.prems(1) run by (metis list.set_intros(1) snd_conv)
    then have "\<forall>d \<in> set ds. creates_nothing w1 d"
      using Cons.prems(1) creates_nothing_cong[OF same_view_row_ids[OF v]] by simp
    from Cons.IH[OF this trans[OF v Cons.prems(2)]] show ?thesis using False
      by (simp add: run status_replies_def case_prod_beta)
  qed
qed

text \<open>
  C16: Attribute events do not interfere with status events.  In any sequence of deliveries whose
  attribute events concern known employees, the status events are answered as if they were delivered
  alone, and they leave the same accounts, sessions, invitations and events and the same status and
  version of every employee.
\<close>

theorem attribute_events_do_not_interfere:
  assumes "\<forall>d \<in> set ds. creates_nothing w d"
  shows "status_replies ds (fst (deliver_all env ds w)) = fst (deliver_all env (filter is_status_event ds) w) \<and>
    without_attributes (sv_auth (snd (deliver_all env ds w))) =
    without_attributes (sv_auth (snd (deliver_all env (filter is_status_event ds) w)))"
  by (rule deliveries_view[OF assms refl])

definition sample_payload :: lifecycle_payload where
  "sample_payload = \<lparr> lp_id = ''e1'', lp_tenantCode = ''acme'', lp_employeeCode = ''E-1'', lp_companyId = None,
     lp_locationId = None, lp_departmentId = Some ''d1'', lp_gradeId = None, lp_jobTitleId = None,
     lp_employmentStatus = None, lp_status = None, lp_oldManagerEmployeeId = None, lp_newManagerEmployeeId = None,
     lp_managerEmployeeId = None, lp_sourceVersion = 5 \<rparr>"

definition sample_envelope :: lifecycle_envelope where
  "sample_envelope = \<lparr> le_traceId = None, le_correlationId = None, le_eventId = ''ev1'', le_payload = Some sample_payload \<rparr>"

definition staffed :: "authz_world \<Rightarrow> service_world" where
  "staffed a = \<lparr> sv_auth = staff_world, sv_authz = a \<rparr>"

theorem attribute_events_do_not_interfere_witness:
  "\<forall>env a. without_attributes (sv_auth (snd (deliver_all env
       [(EMPLOYEE_UPDATED, sample_envelope), (EMPLOYEE_TERMINATED, sample_envelope)] (staffed a)))) =
     without_attributes (sv_auth (snd (deliver_all env [(EMPLOYEE_TERMINATED, sample_envelope)] (staffed a))))"
proof (intro allI)
  fix env a
  have "\<forall>d \<in> set [(EMPLOYEE_UPDATED, sample_envelope), (EMPLOYEE_TERMINATED, sample_envelope)].
      creates_nothing (staffed a) d"
    by (simp add: creates_nothing_def accepted_payload_def sample_envelope_def sample_payload_def staffed_def
        staff_world_def sample_employee_def row_ids_def)
  from attribute_events_do_not_interfere[OF this, of env]
  show "without_attributes (sv_auth (snd (deliver_all env
       [(EMPLOYEE_UPDATED, sample_envelope), (EMPLOYEE_TERMINATED, sample_envelope)] (staffed a)))) =
     without_attributes (sv_auth (snd (deliver_all env [(EMPLOYEE_TERMINATED, sample_envelope)] (staffed a))))"
    by (simp only: filter.simps) (simp add: status_events_def)
qed

end
