(* ===== verification/Tenant_Settings.thy ===== *)
theory Tenant_Settings
  imports Password_Reset_Properties
begin

text \<open>
  The tenant's authentication settings: \<^verbatim>\<open>AuthenticationSettingsService\<close>, its repository
  and the response view.  Creating an entity from the request takes over the fields that are
  columns, under the column's property name, and leaves the rest to the column defaults.
\<close>

record settings_dto =
  sd_mfaRequired :: "bool option"
  sd_selfServicePasswordResetEnabled :: "bool option"
  sd_lockoutEnabled :: "bool option"
  sd_lockoutThreshold :: "int option"
  sd_ipRestrictionEnabled :: "bool option"
  sd_ipAllowList :: "string list option"
  sd_version :: int

definition find_settings :: "auth_env \<Rightarrow> auth_db \<Rightarrow> auth_settings option" where
  "find_settings env db = find (\<lambda>s. as_tenant s = ae_tenant env) (d_settings db)"

definition getSettings :: "auth_env \<Rightarrow> auth_settings auth_act" where
  "getSettings env = act_bind (db_read (find_settings env)) (\<lambda>found. required found)"

definition created_settings :: "auth_env \<Rightarrow> settings_dto \<Rightarrow> auth_db \<Rightarrow> auth_settings" where
  "created_settings env d db =
    \<lparr> as_id = ae_row_id env (map as_id (d_settings db)), as_tenant = ae_tenant env,
      as_restrictedMfaEnabled = False, as_needAdminResetPassword = False, as_accountLockoutEnabled = False,
      as_maxFailedRetries = 5, as_ipRestrictionEnabled = (sd_ipRestrictionEnabled d = Some True),
      as_allowedIpCidrs = [], as_version = sd_version d \<rparr>"

definition changed_or :: "'a option \<Rightarrow> 'a \<Rightarrow> 'a" where
  "changed_or new old = (case new of None \<Rightarrow> old | Some x \<Rightarrow> if x \<noteq> old then x else old)"

text \<open>
  \<^verbatim>\<open>updateWithOptimisticLock\<close> writes the fields to update and the expected version plus
  one; the stored version is not compared.
\<close>

definition updated_settings :: "settings_dto \<Rightarrow> auth_settings \<Rightarrow> auth_settings \<Rightarrow> auth_settings" where
  "updated_settings d current row = row\<lparr>
      as_restrictedMfaEnabled := changed_or (sd_mfaRequired d) (as_restrictedMfaEnabled row),
      as_needAdminResetPassword := changed_or (sd_selfServicePasswordResetEnabled d) (as_needAdminResetPassword row),
      as_accountLockoutEnabled := changed_or (sd_lockoutEnabled d) (as_accountLockoutEnabled row),
      as_maxFailedRetries := changed_or (sd_lockoutThreshold d) (as_maxFailedRetries row),
      as_ipRestrictionEnabled := changed_or (sd_ipRestrictionEnabled d) (as_ipRestrictionEnabled row),
      as_allowedIpCidrs := (case sd_ipAllowList d of None \<Rightarrow> as_allowedIpCidrs row | Some l \<Rightarrow> l),
      as_version := sd_version d + 1 \<rparr>"

definition upsertSettings :: "auth_env \<Rightarrow> settings_dto \<Rightarrow> auth_settings auth_act" where
  "upsertSettings env d =
    db_tx (act_bind (db_read (find_settings env)) (\<lambda>current.
      (case current of
         None \<Rightarrow>
           act_bind (db_read (created_settings env d)) (\<lambda>s.
             act_then (db_write (\<lambda>db. db\<lparr> d_settings := d_settings db @ [s] \<rparr>)) (act_ret s))
       | Some c \<Rightarrow>
           act_then (db_write (d_settings_update (update_rows (\<lambda>s. as_id s = as_id c) (updated_settings d c))))
             (act_ret (updated_settings d c c)))))"

record settings_view =
  sv_tenantCode :: tenant
  sv_mfaRequired :: bool
  sv_selfServicePasswordResetEnabled :: bool
  sv_lockoutEnabled :: bool
  sv_lockoutThreshold :: int
  sv_ipRestrictionEnabled :: bool
  sv_ipAllowList :: "string list"
  sv_version :: int

definition fromSetting :: "auth_settings \<Rightarrow> settings_view" where
  "fromSetting s = \<lparr> sv_tenantCode = as_tenant s, sv_mfaRequired = as_restrictedMfaEnabled s,
     sv_selfServicePasswordResetEnabled = as_needAdminResetPassword s,
     sv_lockoutEnabled = as_accountLockoutEnabled s, sv_lockoutThreshold = as_maxFailedRetries s,
     sv_ipRestrictionEnabled = as_ipRestrictionEnabled s, sv_ipAllowList = as_allowedIpCidrs s,
     sv_version = as_version s \<rparr>"

section \<open>Updating\<close>

lemma changed_or_simps [simp]: "changed_or None a = a" "changed_or (Some b) a = b"
  by (simp_all add: changed_or_def)

lemma changed_or_case: "changed_or new old = case_option old id new"
  by (cases new) simp_all

lemma find_settings_update:
  assumes "find (\<lambda>s. as_tenant s = t) ss = Some c"
  shows "find (\<lambda>s. as_tenant s = t) (update_rows (\<lambda>s. as_id s = as_id c) (updated_settings d c) ss)
    = Some (updated_settings d c c)"
  by (rule find_update_kept[OF _ assms]) (simp add: updated_settings_def)

definition merged_view :: "settings_dto \<Rightarrow> settings_view \<Rightarrow> settings_view" where
  "merged_view d v = v\<lparr>
     sv_mfaRequired := case_option (sv_mfaRequired v) id (sd_mfaRequired d),
     sv_selfServicePasswordResetEnabled := case_option (sv_selfServicePasswordResetEnabled v) id (sd_selfServicePasswordResetEnabled d),
     sv_lockoutEnabled := case_option (sv_lockoutEnabled v) id (sd_lockoutEnabled d),
     sv_lockoutThreshold := case_option (sv_lockoutThreshold v) id (sd_lockoutThreshold d),
     sv_ipRestrictionEnabled := case_option (sv_ipRestrictionEnabled v) id (sd_ipRestrictionEnabled d),
     sv_ipAllowList := case_option (sv_ipAllowList v) id (sd_ipAllowList d),
     sv_version := sd_version d + 1 \<rparr>"

lemma upsert_existing_run:
  assumes "find_settings env (w_db w) = Some c"
  shows "\<exists>w'. upsertSettings env d w = (Inr (updated_settings d c c), w') \<and>
    find_settings env (w_db w') = Some (updated_settings d c c) \<and>
    d_users (w_db w') = d_users (w_db w) \<and> w_redis w' = w_redis w"
  using assms find_settings_update[of "ae_tenant env" "d_settings (w_db w)" c d]
  by (simp add: upsertSettings_def db_tx_def act_tx_def act_simps find_settings_def)

text \<open>
  On stored settings an update is read back exactly: every field the request gives is replaced
  and every other one is kept.  The version is not a guard: whatever version is stored, the update
  commits and stores the request's version plus one.
\<close>

theorem settings_update_read_back:
  assumes "find_settings env (w_db w) = Some c"
  shows "\<exists>s w'. upsertSettings env d w = (Inr s, w') \<and> getSettings env w' = (Inr s, w') \<and>
    fromSetting s = merged_view d (fromSetting c)"
proof -
  obtain w' where "upsertSettings env d w = (Inr (updated_settings d c c), w')"
    "find_settings env (w_db w') = Some (updated_settings d c c)"
    using upsert_existing_run[OF assms] by blast
  moreover have "fromSetting (updated_settings d c c) = merged_view d (fromSetting c)"
    by (simp add: fromSetting_def merged_view_def updated_settings_def changed_or_case option.case_eq_if)
  ultimately show ?thesis by (auto simp: getSettings_def act_simps)
qed

text \<open>
  Turning self-service password reset on turns it off: once an update of stored settings asks
  for it, every request for a reset code of the tenant is refused as disabled, and asking to turn
  it off lets the requests through to the account lookup.
\<close>

theorem enabling_self_service_disables_it:
  assumes "find_settings env (w_db w) = Some c" "sd_selfServicePasswordResetEnabled d = Some b"
  shows "\<exists>s w'. upsertSettings env d w = (Inr s, w') \<and>
    (fst (requestResetCode env (ae_tenant env) email w') = Inl SelfServiceResetDisabledException) = b"
proof -
  obtain w' where u: "upsertSettings env d w = (Inr (updated_settings d c c), w')"
    "find_settings env (w_db w') = Some (updated_settings d c c)"
    using upsert_existing_run[OF assms(1)] by blast
  have n: "as_needAdminResetPassword (updated_settings d c c) = b"
    using assms(2) by (simp add: updated_settings_def)
  have f: "findByTenantCode (ae_tenant env) (d_settings (w_db w')) = Some (updated_settings d c c)"
    using u(2) by (simp add: find_settings_def findByTenantCode_def)
  have "fst (start_reset env t q False x) \<noteq> Inl SelfServiceResetDisabledException" for t q x
    by (auto simp: start_reset_def saveChallenge_def redis_set_def redis_cmd_def act_then_def act_bind_def
        db_tx_def act_tx_def log_event_run split: prod.splits sum.splits)
  then have s: "fst (act_then (start_reset env t q False) (act_ret m) x) \<noteq> Inl SelfServiceResetDisabledException" for t q x and m :: string
    by (auto simp: act_then_def act_bind_def act_simps split: prod.splits sum.splits)
       (metis fst_conv)
  show ?thesis using u(1) n f s
    by (auto simp: requestResetCode_def act_simps split: option.splits)
qed

section \<open>The first settings\<close>

text \<open>
  The first settings a tenant saves keep neither the allowed addresses nor the lockout, second
  factor and reset choices of the request.  If they restrict addresses, the list is empty, so the
  network policy refuses every address from then on.
\<close>

theorem first_settings_shut_everyone_out:
  assumes "find_settings env (w_db w) = None"
  shows "\<exists>s w'. upsertSettings env d w = (Inr s, w') \<and>
    findByTenantCode (ae_tenant env) (d_settings (w_db w')) = Some s \<and>
    as_allowedIpCidrs s = [] \<and> \<not> as_restrictedMfaEnabled s \<and> \<not> as_accountLockoutEnabled s \<and>
    \<not> as_needAdminResetPassword s \<and> as_maxFailedRetries s = 5 \<and>
    (\<forall>lib ip. (ip_evaluate lib ip (Some s) None = Fail IpRestrictedError) = (sd_ipRestrictionEnabled d = Some True))"
proof -
  have n: "\<forall>x \<in> set (d_settings (w_db w)). as_tenant x \<noteq> ae_tenant env"
    using assms by (auto simp: find_settings_def find_None_iff)
  have "find (\<lambda>s. as_tenant s = ae_tenant env) (d_settings (w_db w) @ [created_settings env d (w_db w)])
      = Some (created_settings env d (w_db w))"
    using n by (simp add: find_append_None created_settings_def)
  then show ?thesis using assms
    by (simp add: upsertSettings_def db_tx_def act_tx_def act_simps findByTenantCode_def)
       (auto simp: created_settings_def ip_evaluate_def isIpAllowed_def isExemptAction_def guard_def)
qed

definition sample_dto :: settings_dto where
  "sample_dto = \<lparr> sd_mfaRequired = None, sd_selfServicePasswordResetEnabled = Some True, sd_lockoutEnabled = Some True,
     sd_lockoutThreshold = Some 3, sd_ipRestrictionEnabled = Some True, sd_ipAllowList = Some [''10.0.0.1''], sd_version = 7 \<rparr>"

theorem settings_update_read_back_witness:
  "\<exists>s w'. upsertSettings sample_env sample_dto login_world = (Inr s, w') \<and> getSettings sample_env w' = (Inr s, w') \<and>
     sv_version (fromSetting s) = 8"
proof -
  have "find_settings sample_env (w_db login_world) = Some sample_settings"
    by (simp add: find_settings_def login_sample_defs)
  from settings_update_read_back[OF this, of sample_dto] show ?thesis
    by (auto simp: merged_view_def sample_dto_def)
qed

theorem enabling_self_service_disables_it_witness:
  "\<exists>s w'. upsertSettings sample_env sample_dto login_world = (Inr s, w') \<and>
     fst (requestResetCode sample_env (ae_tenant sample_env) ''ann@acme.io'' w') = Inl SelfServiceResetDisabledException"
proof -
  have "find_settings sample_env (w_db login_world) = Some sample_settings"
    "sd_selfServicePasswordResetEnabled sample_dto = Some True"
    by (simp_all add: find_settings_def login_sample_defs sample_dto_def)
  from enabling_self_service_disables_it[OF this] show ?thesis by blast
qed

theorem first_settings_shut_everyone_out_witness:
  "\<exists>s w'. upsertSettings (sample_env\<lparr> ae_tenant := ''other'' \<rparr>) sample_dto login_world = (Inr s, w') \<and>
     ip_evaluate sample_ip_library ''10.0.0.1'' (Some s) None = Fail IpRestrictedError"
proof -
  have "find_settings (sample_env\<lparr> ae_tenant := ''other'' \<rparr>) (w_db login_world) = None"
    by (simp add: find_settings_def login_sample_defs)
  from first_settings_shut_everyone_out[OF this, of sample_dto] show ?thesis
    by (auto simp: sample_dto_def)
qed

end
