(* ===== verification/Restricted_Session.thy ===== *)
theory Restricted_Session
  imports Password_Reset_Properties
begin

text \<open>
  The restricted session in which a first password is set after a company sign-on: the guard that
  reads it from the store, and the request that combines the guard with the password service.
  Nothing in the repository writes such a session, so its hash is whatever the store holds.
\<close>

section \<open>The guard\<close>

record restricted_session =
  rs_userId :: uuid
  rs_tenantCode :: tenant
  rs_flowId :: string

definition SSO_SETUP_PENDING :: string where
  "SSO_SETUP_PENDING = ''sso-setup-pending''"

definition redis_hgetall :: "string \<Rightarrow> (string \<times> string) list auth_act" where
  "redis_hgetall k = redis_cmd (\<lambda>cs.
    (case map_of cs k of
       None \<Rightarrow> (Inr [], cs)
     | Some c \<Rightarrow> (case cell_value c of RV_hash h \<Rightarrow> (Inr h, cs) | _ \<Rightarrow> (Inl Redis_error, cs))))"

definition bearer_token :: "string \<Rightarrow> string" where
  "bearer_token h = js_split CHR '' '' h ! 1"

definition restricted_of :: "string \<Rightarrow> (string \<times> string) list \<Rightarrow> restricted_session option" where
  "restricted_of token h =
    (case (truthy_id (map_of h ''userId''), truthy_id (map_of h ''tenantCode'')) of
       (Some u, Some t) \<Rightarrow>
         (if map_of h ''authState'' = Some SSO_SETUP_PENDING
          then Some \<lparr> rs_userId = u, rs_tenantCode = t, rs_flowId = token \<rparr> else None)
     | _ \<Rightarrow> None)"

definition canActivate :: "string option \<Rightarrow> restricted_session auth_act" where
  "canActivate header =
    (case header of
       None \<Rightarrow> act_throw AuthSessionExpiredError
     | Some h \<Rightarrow>
         if take 7 h \<noteq> ''Bearer '' then act_throw AuthSessionExpiredError
         else act_bind
           (act_catch
             (act_bind redis_client (\<lambda>client.
               if client then redis_hgetall (sso_setup_key (bearer_token h))
               else act_throw AuthStoreUnavailableError))
             (\<lambda>_. act_throw AuthStoreUnavailableError))
           (\<lambda>data. case restricted_of (bearer_token h) data of
              None \<Rightarrow> act_throw AuthSessionExpiredError
            | Some s \<Rightarrow> act_ret s))"

text \<open>The request passes on the session's user, and its tenant is the request's own.\<close>

definition setupPassword :: "auth_env \<Rightarrow> string option \<Rightarrow> string \<Rightarrow> unit auth_act" where
  "setupPassword env header password =
    act_bind (canActivate header) (\<lambda>s. setupPasswordViaSsoFallback env (rs_flowId s) (rs_userId s) password)"

section \<open>What the guard admits\<close>

definition hash_at :: "auth_world \<Rightarrow> string \<Rightarrow> (string \<times> string) list" where
  "hash_at w k = (case redis_cells w k of Some c \<Rightarrow> (case cell_value c of RV_hash h \<Rightarrow> h | _ \<Rightarrow> []) | None \<Rightarrow> [])"

lemma restricted_of_empty [simp]: "restricted_of token [] = None"
  by (simp add: restricted_of_def truthy_id_def)

lemma canActivate_Inr_iff:
  "canActivate header w = (Inr s, w') \<longleftrightarrow>
    w' = w \<and> rs_client (w_redis w) \<and> rs_up (w_redis w) \<and>
    (\<exists>h. header = Some h \<and> take 7 h = ''Bearer '' \<and>
       restricted_of (bearer_token h) (hash_at w (sso_setup_key (bearer_token h))) = Some s)"
  by (cases header)
     (auto simp: canActivate_def act_simps act_catch_def redis_hgetall_def redis_cmd_def act_bind_def redis_client_def
       hash_at_def redis_cells_def upd_cells_def split: option.splits redis_value.splits if_splits)

lemma canActivate_gone:
  assumes "redis_ready w" "redis_cells w (sso_setup_key (bearer_token h)) = None"
  shows "canActivate (Some h) w = (Inl AuthSessionExpiredError, w)"
  using assms
  by (simp add: canActivate_def act_simps act_catch_def redis_hgetall_def redis_cmd_def act_bind_def redis_client_def
      redis_cells_def upd_cells_def)

lemma restricted_of_token: "restricted_of token h = Some s \<Longrightarrow> rs_flowId s = token"
  by (auto simp: restricted_of_def split: option.splits if_splits)

section \<open>The first password\<close>

definition active_in :: "auth_env \<Rightarrow> uuid \<Rightarrow> credential list \<Rightarrow> credential list" where
  "active_in env u cs =
    filter (\<lambda>c. cr_userId c = u \<and> cr_status c = Credential_active \<and> cr_tenant c = ae_tenant env) cs"

lemma find_active_in:
  "find (\<lambda>c. cr_userId c = u \<and> cr_status c = Credential_active \<and> cr_tenant c = ae_tenant env) cs =
    (case active_in env u cs of [] \<Rightarrow> None | c # _ \<Rightarrow> Some c)"
  by (induction cs) (auto simp: active_in_def)

definition member_of :: "auth_env \<Rightarrow> uuid \<Rightarrow> app_user list \<Rightarrow> app_user option" where
  "member_of env u us = find (\<lambda>r. usr_id r = u \<and> usr_tenant r = ae_tenant env) us"

lemma member_of_update:
  assumes "\<And>r. usr_id (f r) = usr_id r" "\<And>r. usr_tenant (f r) = usr_tenant r"
  shows "(\<exists>y. member_of env u (update_rows P f us) = Some y) \<longleftrightarrow> (\<exists>y. member_of env u us = Some y)"
  by (induction us) (auto simp: member_of_def assms)

lemma setup_tx_Inr:
  assumes "setup_password_tx env u password w = (Inr (), w')"
  shows "w_redis w' = w_redis w \<and> active_in env u (d_credentials (w_db w)) = [] \<and>
    member_of env u (d_users (w_db w')) \<noteq> None \<and>
    d_credentials (w_db w') = d_credentials (w_db w) @ [new_credential env u password (w_db w)]"
proof (cases "member_of env u (d_users (w_db w))")
  case None
  then show ?thesis using assms
    by (simp add: setup_password_tx_def db_tx_def act_tx_def act_simps member_of_def)
next
  case (Some user)
  then have u: "usr_id user = u" by (auto simp: member_of_def dest: find_SomeD)
  have free: "active_in env u (d_credentials (w_db w)) = []"
    using assms Some u
    by (auto simp: setup_password_tx_def db_tx_def act_tx_Inr_iff act_simps member_of_def find_active_in
        split: list.splits)
  show ?thesis
    using assms Some u free
    by (auto simp: setup_password_tx_def db_tx_def act_tx_Inr_iff act_simps act_assoc
        member_of_def[symmetric] find_active_in create_credential_def update_user_def cancelPendingInvitations_def
        new_credential_def member_of_update split: option.splits if_splits)
qed

lemma setup_again:
  assumes "member_of env u (d_users (w_db w)) \<noteq> None" "active_in env u (d_credentials (w_db w)) \<noteq> []"
  shows "setupPasswordViaSsoFallback env f u password w = (Inl CredentialAlreadyExistsError, w)"
proof -
  obtain user where user: "member_of env u (d_users (w_db w)) = Some user" using assms(1) by blast
  then have u: "usr_id user = u" by (auto simp: member_of_def dest: find_SomeD)
  have "setup_password_tx env u password w = (Inl CredentialAlreadyExistsError, w)"
    using assms(2) user u
    by (auto simp: setup_password_tx_def db_tx_def act_tx_def act_simps member_of_def[symmetric] find_active_in
        split: list.splits)
  then show ?thesis by (simp add: setupPasswordViaSsoFallback_def act_then_value)
qed


definition setup_world :: auth_world where
  "setup_world = login_world\<lparr>
     w_db := (w_db login_world)\<lparr> d_credentials := [] \<rparr>,
     w_redis := \<lparr> rs_client = True, rs_up = True,
       rs_cells = [(''auth:sso-setup:flow'', \<lparr> cell_value = RV_hash [(''userId'', ''u1''), (''tenantCode'', ''acme''),
         (''authState'', ''sso-setup-pending'')], cell_ttl = Some 900 \<rparr>)] \<rparr> \<rparr>"


end
