(* ===== verification/Typed_Store.thy ===== *)
theory Typed_Store
  imports Event_Properties Mfa Tenant_Settings Restricted_Session
begin

text \<open>
  The store is untyped, but the service keeps one kind of value under each family of keys.  Every
  operation of the authentication side respects this typing, so that in a reachable state no
  command meets a value of the wrong type.  The session keys come from the platform's key builders;
  what is needed of them is that they do not fall into the families of this service and that a
  session key is no session index.
\<close>

section \<open>Kinds of values and families of keys\<close>

datatype value_kind = Count_kind | Set_kind | Session_kind | Mfa_kind | Reset_kind | Text_kind | Hash_kind

fun kind_of :: "redis_value \<Rightarrow> value_kind" where
  "kind_of (RV_count n) = Count_kind"
| "kind_of (RV_set xs) = Set_kind"
| "kind_of (RV_session s) = Session_kind"
| "kind_of (RV_mfa c) = Mfa_kind"
| "kind_of (RV_reset c) = Reset_kind"
| "kind_of (RV_text s) = Text_kind"
| "kind_of (RV_hash h) = Hash_kind"

definition key_families :: "(string \<times> value_kind) list" where
  "key_families =
    [(''auth:login-failure:'', Count_kind), (''auth:ip-failure:'', Count_kind), (''auth:mfa-challenge:'', Mfa_kind),
     (''auth:password-reset:'', Reset_kind), (''auth:sso-setup:'', Hash_kind)]"

definition family_of :: "string \<Rightarrow> value_kind option" where
  "family_of k = map_option snd (find (\<lambda>f. take (length (fst f)) k = fst f) key_families)"

lemma family_of_keys [simp]:
  "family_of (failure_key t u) = Some Count_kind" "family_of (ip_failure_key t u) = Some Count_kind"
  "family_of (ip_lockout_key t u) = Some Count_kind" "family_of (GenerateAuthMfaChallengeKey t u c) = Some Mfa_kind"
  "family_of (reset_key c t u) = Some Reset_kind" "family_of (sso_setup_key tok) = Some Hash_kind"
  by (simp_all add: family_of_def key_families_def failure_key_def ip_failure_key_def ip_lockout_key_def
      GenerateAuthMfaChallengeKey_def reset_key_def sso_setup_key_def)

type_synonym key_builders = "(string \<Rightarrow> string) \<times> (bool \<Rightarrow> tenant \<Rightarrow> uuid \<Rightarrow> string)"

definition builders_of :: "auth_env \<Rightarrow> key_builders" where
  "builders_of env = (ae_session_key env, ae_user_sessions_key env)"

definition keys_apart :: "key_builders \<Rightarrow> bool" where
  "keys_apart kb \<longleftrightarrow>
    (\<forall>sid. family_of (fst kb sid) = None) \<and> (\<forall>b t u. family_of (snd kb b t u) = None) \<and>
    (\<forall>sid b t u. fst kb sid \<noteq> snd kb b t u)"

text \<open>The kind a value under a key must have; keys of no family may hold anything.\<close>

definition fits_kind :: "key_builders \<Rightarrow> string \<Rightarrow> value_kind \<Rightarrow> bool" where
  "fits_kind kb k v \<longleftrightarrow>
    (case family_of k of Some f \<Rightarrow> v = f | None \<Rightarrow>
       ((\<exists>sid. k = fst kb sid) \<longrightarrow> v = Session_kind) \<and> ((\<exists>b t u. k = snd kb b t u) \<longrightarrow> v = Set_kind))"

definition cells_typed :: "key_builders \<Rightarrow> (string \<times> redis_cell) list \<Rightarrow> bool" where
  "cells_typed kb cs \<longleftrightarrow> (\<forall>c \<in> set cs. fits_kind kb (fst c) (kind_of (cell_value (snd c))))"

definition store_typed :: "key_builders \<Rightarrow> auth_world \<Rightarrow> bool" where
  "store_typed kb w \<longleftrightarrow> cells_typed kb (rs_cells (w_redis w))"

definition typing_kept :: "key_builders \<Rightarrow> auth_world \<Rightarrow> auth_world \<Rightarrow> bool" where
  "typing_kept kb w w' \<longleftrightarrow> (store_typed kb w \<longrightarrow> store_typed kb w')"

interpretation typing: kept_relation "typing_kept kb" for kb
  by unfold_locales (simp_all add: typing_kept_def)

lemma cells_typed_simps [simp]:
  "cells_typed kb cs \<Longrightarrow> cells_typed kb (filter P cs)"
  "cells_typed kb cs \<Longrightarrow> fits_kind kb k (kind_of (cell_value c)) \<Longrightarrow> cells_typed kb (AList.update k c cs)"
  "cells_typed kb cs \<Longrightarrow> map_of cs k = Some c \<Longrightarrow> fits_kind kb k (kind_of (cell_value c))"
proof -
  show "cells_typed kb (AList.update k c cs)" if "cells_typed kb cs" "fits_kind kb k (kind_of (cell_value c))"
    using that by (induction cs) (auto simp: cells_typed_def)
  show "fits_kind kb k (kind_of (cell_value c))" if "cells_typed kb cs" "map_of cs k = Some c"
    using that map_of_SomeD[of cs k c] by (fastforce simp: cells_typed_def)
qed (auto simp: cells_typed_def)

section \<open>The commands\<close>

lemma typing_cmd:
  assumes "\<And>cs. cells_typed kb cs \<Longrightarrow> cells_typed kb (snd (c cs))"
  shows "keeps (typing_kept kb) (redis_cmd c)"
  using assms
  by (auto simp: keeps_def typing_kept_def redis_cmd_def store_typed_def upd_cells_def split: prod.splits)
     (metis snd_conv)

lemma typing_db:
  "keeps (typing_kept kb) (db_read q)" "keeps (typing_kept kb) (db_write f)"
  by (simp_all add: keeps_def db_run typing_kept_def store_typed_def upd_db_def)

lemma typing_tx:
  assumes "keeps (typing_kept kb) m"
  shows "keeps (typing_kept kb) (db_tx m)"
proof
  fix w
  obtain r w' where m: "m w = (r, w')" by (cases "m w")
  show "typing_kept kb w (snd (db_tx m w))"
    using keepsD[OF assms m] m by (cases r) (simp_all add: db_tx_def act_tx_value typing_kept_def store_typed_def)
qed

lemma typing_commands:
  "keeps (typing_kept kb) (redis_get k)" "keeps (typing_kept kb) (redis_del ks)"
  "keeps (typing_kept kb) (redis_members k)" "keeps (typing_kept kb) redis_client"
  "keeps (typing_kept kb) (redis_keys k)" "keeps (typing_kept kb) (redis_hgetall k)"
  "keeps (typing_kept kb) (redis_expire k ttl)"
  "fits_kind kb k (kind_of v) \<Longrightarrow> keeps (typing_kept kb) (redis_set k v ttl)"
  "fits_kind kb k Set_kind \<Longrightarrow> keeps (typing_kept kb) (redis_sadd k x)"
  "fits_kind kb k Count_kind \<Longrightarrow> keeps (typing_kept kb) (Auth_Model.redis_incr k)"
proof -
  show "keeps (typing_kept kb) (redis_expire k ttl)"
    unfolding redis_expire_def by (rule typing_cmd) (auto simp: cells_typed_def)
  show "keeps (typing_kept kb) redis_client"
    unfolding redis_client_def by (rule typing.keeps_pure)
qed (auto simp: redis_get_def redis_del_def redis_members_def redis_keys_def redis_hgetall_def redis_set_def
      redis_sadd_def Auth_Model.redis_incr_def intro!: typing_cmd split: option.splits redis_value.splits)

lemmas typing_rules = typing.keeps_rules typing_db typing_tx typing_commands

lemma fits_family [simp]:
  "fits_kind kb (failure_key t u) v \<longleftrightarrow> v = Count_kind" "fits_kind kb (ip_failure_key t u) v \<longleftrightarrow> v = Count_kind"
  "fits_kind kb (ip_lockout_key t u) v \<longleftrightarrow> v = Count_kind" "fits_kind kb (GenerateAuthMfaChallengeKey t u c) v \<longleftrightarrow> v = Mfa_kind"
  "fits_kind kb (reset_key c t u) v \<longleftrightarrow> v = Reset_kind" "fits_kind kb (sso_setup_key tok) v \<longleftrightarrow> v = Hash_kind"
  by (simp_all add: fits_kind_def)

lemma fits_sessions:
  assumes "keys_apart (builders_of env)"
  shows "fits_kind (builders_of env) (ae_session_key env sid) v \<longleftrightarrow> v = Session_kind"
    and "fits_kind (builders_of env) (ae_user_sessions_key env b t u) v \<longleftrightarrow> v = Set_kind"
proof -
  have apart: "family_of (ae_session_key env sid) = None" "family_of (ae_user_sessions_key env b t u) = None"
    "\<And>b t u. ae_session_key env sid \<noteq> ae_user_sessions_key env b t u"
    "\<And>sid. ae_user_sessions_key env b t u \<noteq> ae_session_key env sid"
    using assms unfolding keys_apart_def builders_of_def by (simp_all, metis)
  show "fits_kind (builders_of env) (ae_session_key env sid) v \<longleftrightarrow> v = Session_kind"
    unfolding fits_kind_def builders_of_def using apart(1,3) by (simp, blast)
  show "fits_kind (builders_of env) (ae_user_sessions_key env b t u) v \<longleftrightarrow> v = Set_kind"
    unfolding fits_kind_def builders_of_def using apart(2,4) by (simp, blast)
qed

section \<open>The operations\<close>

abbreviation (input) keeps_types :: "key_builders \<Rightarrow> 'a auth_act \<Rightarrow> bool" where
  "keeps_types kb m \<equiv> keeps (typing_kept kb) m"

lemma types_basic:
  "keeps_types kb (required r)" "keeps_types kb (log_event env d)" "keeps_types kb (update_user i f)"
  "keeps_types kb (lift_result res)" "keeps_types kb (update_credential i g)"
  "keeps_types kb (create_credential env u p)" "keeps_types kb (update_invitation i h)"
  "keeps_types kb (insert_invitation iv)" "keeps_types kb (cancelPendingInvitations env u)"
  "keeps_types kb (insert_session_event ev)"
  by (auto simp: required_def log_event_def update_user_def lift_result_def update_credential_def
      create_credential_def update_invitation_def insert_invitation_def cancelPendingInvitations_def
      insert_session_event_def intro!: typing_rules split: option.splits sum.splits)

lemma types_adapter: "keeps_types kb m \<Longrightarrow> keeps_types kb (with_adapter m)"
  unfolding with_adapter_def by (auto intro!: typing_rules)

lemmas type_rules = typing_rules types_basic types_adapter

lemma types_counters:
  "keeps_types kb (incrementFailureCount t u)" "keeps_types kb (getFailureCount t u)"
  "keeps_types kb (recordIpFailure env t u ip)" "keeps_types kb (resetFailureCount t u)"
  "keeps_types kb (incrementIpFailureCounter t u)" "keeps_types kb (resetIpFailureCounter t u)"
  by (auto simp: incrementFailureCount_def getFailureCount_def recordIpFailure_def resetFailureCount_def incr_counter_def
      incrementIpFailureCounter_def resetIpFailureCounter_def intro!: type_rules split: option.splits)

lemma types_handleFailure: "keeps_types kb (handleFailure t u settings)"
  unfolding handleFailure_def by (auto intro!: type_rules types_counters split: option.splits)

lemma types_validateRequestLocation: "keeps_types kb (validateRequestLocation c e env q settings)"
  unfolding validateRequestLocation_def by (auto intro!: type_rules types_counters split: option.splits)

lemma types_login_checks:
  "keeps_types kb (login_failure env t email reason u err)" "keeps_types kb (validateIpPolicy env t email)"
  "keeps_types kb (verifyTenantExistence t)" "keeps_types kb (evaluateMfa c usr settings remember)"
  by (auto simp: login_failure_def validateIpPolicy_def verifyTenantExistence_def evaluateMfa_def Let_def
      intro!: type_rules types_counters split: option.splits sum.splits)

lemma types_user_checks:
  "keeps_types kb (fetchAndValidateUser env t email)" "keeps_types kb (verifyUserPassword env usr pw email settings)"
  by (auto simp: fetchAndValidateUser_def verifyUserPassword_def preventBruteForceAttack_def Let_def
      intro!: type_rules types_counters types_login_checks types_handleFailure split: option.splits)

lemma types_recovery:
  "keeps_types kb (saveChallenge c d)" "keeps_types kb (getChallenge c t u)" "keeps_types kb (incrementAttempts c t u)"
  "keeps_types kb (markCodeVerified c t u tok)" "keeps_types kb (deleteResetChallenge c t u)"
  by (auto simp: saveChallenge_def getChallenge_def incrementAttempts_def markCodeVerified_def
      deleteResetChallenge_def Let_def intro!: type_rules split: option.splits redis_value.splits)

lemma types_challenges:
  "keeps_types kb (getMfaChallenge t u c)" "keeps_types kb (deleteMfaChallenge t u c)" "keeps_types kb (decrementAttempts d)"
  by (auto simp: getMfaChallenge_def deleteMfaChallenge_def decrementAttempts_def Let_def
      intro!: type_rules split: option.splits redis_value.splits)

lemma types_del_each: "keeps_types kb (del_each ks)"
  by (induction ks) (auto intro!: type_rules)

lemma types_delete_user_challenges: "keeps_types kb (delete_user_challenges env u ks)"
  by (induction ks) (auto intro!: type_rules)

lemma types_revocation:
  "keeps_types kb (revokeAllSessions env t u)" "keeps_types kb (revokeSessionsAndChallenges env t u)"
  "keeps_types kb (revoke_listed env u)"
  by (auto simp: revokeAllSessions_def revokeSessionsAndChallenges_def revoke_listed_def Let_def
      intro!: type_rules types_del_each types_delete_user_challenges)

lemma types_purge: "keeps_types kb (purgeAllUserSessions env t u)"
  unfolding purgeAllUserSessions_def Let_def
  by (rule typing_cmd) (auto split: option.splits redis_value.splits)

lemma srem_cells_typed:
  "cells_typed kb cs \<Longrightarrow> fits_kind kb k Set_kind \<Longrightarrow> cells_typed kb (snd (srem_cells k x cs))"
  by (auto simp: srem_cells_def Let_def split: option.splits redis_value.splits)

lemma types_sessions:
  assumes "keys_apart (builders_of env)"
  shows "keeps_types (builders_of env) (storeSessionAndLogSuccess env usr sid remember)"
    and "keeps_types (builders_of env) (deleteSession env t u sid)"
proof -
  note fits [simp] = fits_sessions[OF assms]
  show "keeps_types (builders_of env) (storeSessionAndLogSuccess env usr sid remember)"
    unfolding storeSessionAndLogSuccess_def Let_def by (auto intro!: type_rules)
  show "keeps_types (builders_of env) (deleteSession env t u sid)"
    unfolding deleteSession_def by (auto intro!: type_rules typing_cmd srem_cells_typed)
qed

lemma types_login:
  assumes "keys_apart (builders_of env)"
  shows "keeps_types (builders_of env) (processLogin env n t email pw remember)"
  unfolding processLogin_def
  by (intro type_rules types_login_checks types_user_checks types_sessions[OF assms])
     (auto intro!: type_rules types_user_checks types_sessions[OF assms] split: option.splits list.splits)

lemma types_attempts:
  assumes "keys_apart (builders_of env)"
  shows "keeps_types (builders_of env) (login_attempts env i ts email pw remember e)"
  by (induction ts arbitrary: i e) (auto intro!: type_rules types_login[OF assms])

lemma types_password_login:
  "keys_apart (builders_of env) \<Longrightarrow> keeps_types (builders_of env) (loginWithPassword env email pw remember)"
  unfolding loginWithPassword_def by (auto intro!: type_rules types_attempts)

lemma types_authenticate: "keeps_types kb (authenticate dflt env sdk tok)"
  unfolding authenticate_def Let_def by (auto intro!: type_rules split: option.splits)

lemma types_start_reset: "keeps_types kb (start_reset env t usr byAdmin)"
  unfolding start_reset_def by (auto intro!: type_rules types_recovery)

lemma types_reset:
  "keeps_types kb (requestResetCode env t email)" "keeps_types kb (adminInitiateReset env u)"
  "keeps_types kb (verifyResetCode env vc)"
  by (auto simp: requestResetCode_def adminInitiateReset_def verifyResetCode_def
      intro!: type_rules types_recovery types_start_reset split: option.splits)

lemma types_confirm: "keeps_types kb (confirmPasswordReset env cf)"
  unfolding confirmPasswordReset_def store_new_password_def
  by (auto intro!: type_rules types_recovery types_revocation split: option.splits)

lemma types_setup: "keeps_types kb (setupPassword env header pw)"
  unfolding setupPassword_def canActivate_def setupPasswordViaSsoFallback_def setup_password_tx_def
  by (auto intro!: type_rules types_revocation split: option.splits)

lemma types_second_factor:
  "keeps_types kb (initiateEnrollment env ty)" "keeps_types kb (verifyAndActivateFactor env f code)"
  "keeps_types kb (resetUserMfa env target)"
  by (auto simp: initiateEnrollment_def verifyAndActivateFactor_def resetUserMfa_def activate_factor_def
      disableAllUserFactors_def intro!: type_rules types_revocation)

lemma types_login_challenge:
  "keys_apart (builders_of env) \<Longrightarrow> keeps_types (builders_of env) (verifyLoginChallenge env c code)"
  unfolding verifyLoginChallenge_def
  by (auto intro!: type_rules types_challenges types_sessions split: option.splits)

lemma types_invitations:
  "keeps_types kb (acceptInvitation env tok pw)" "keeps_types kb (resendInvitation env target)"
  by (auto simp: acceptInvitation_def accept_steps_def set_password_def resendInvitation_def
      intro!: type_rules types_revocation split: option.splits)

lemma types_logout:
  "keys_apart (builders_of env) \<Longrightarrow> keeps_types (builders_of env) (logoutCurrentSession r env t u sid)"
  unfolding logoutCurrentSession_def by (auto intro!: type_rules types_sessions)

lemma types_force_logout: "keeps_types kb (revokeAllUserSessions env t u admin reason)"
  unfolding revokeAllUserSessions_def by (auto intro!: type_rules types_purge)

lemma types_settings: "keeps_types kb (upsertSettings env d)"
  unfolding upsertSettings_def by (auto intro!: type_rules split: option.splits)

lemma types_employment: "keeps_types kb (synchronizeEmployeeStatus env ty i v)"
  unfolding synchronizeEmployeeStatus_def suspendUserAndEmployee_def terminateUserAndEmployee_def
    reactivateUserAndEmployee_def set_account_def update_employee_def revoke_pending_def inv_bulkSave_def
  by (auto intro!: type_rules types_revocation split: option.splits)

lemma types_provisioning: "keeps_types kb (provisionCognitoUser env api i)"
  unfolding provisionCognitoUser_def linkExistingCognitoUser_def link_identity_def provisioning_failed_def Let_def
  by (auto intro!: type_rules split: sum.splits option.splits)

lemma types_firebase:
  "keys_apart (builders_of env) \<Longrightarrow> keeps_types (builders_of env) (loginWithFirebase dflt env sdk tok)"
  unfolding loginWithFirebase_def by (auto intro!: type_rules types_authenticate types_login)

lemma types_root_admin: "keeps_types kb (create_root_admin b p)"
  unfolding create_root_admin_def insert_user_def Let_def by (auto intro!: type_rules types_provisioning)

section \<open>Runs of the service\<close>

text \<open>Everything that reaches the authentication side: requests and employee or tenant events.\<close>

datatype auth_request =
    Password_login string string "bool option"
  | Firebase_login "(string \<Rightarrow> sdk_outcome) option" string
  | Check_location bool bool location_request "auth_settings option"
  | Reset_ip_failures tenant uuid
  | Request_reset tenant string
  | Admin_reset uuid
  | Verify_reset verify_code_dto
  | Confirm_reset confirm_reset_dto
  | Setup_password "string option" string
  | Enroll_factor mfa_factor_type
  | Activate_factor uuid string
  | Verify_challenge uuid string
  | Reset_mfa uuid
  | Accept_invitation string string
  | Resend_invitation uuid
  | Logout bool tenant uuid uuid
  | Force_logout tenant uuid uuid "string option"
  | Update_settings settings_dto
  | Employment_event event_type uuid int
  | Provision_user cognito_api provision_input
  | Create_root_admin bootstrap_env tenant_created

fun served :: "tenant \<Rightarrow> auth_env \<Rightarrow> auth_request \<Rightarrow> auth_world \<Rightarrow> auth_world" where
  "served dflt env (Password_login email pw rem) w = snd (loginWithPassword env email pw rem w)"
| "served dflt env (Firebase_login sdk tok) w = snd (loginWithFirebase dflt env sdk tok w)"
| "served dflt env (Check_location c e q settings) w = snd (validateRequestLocation c e env q settings w)"
| "served dflt env (Reset_ip_failures t u) w = snd (resetIpFailureCounter t u w)"
| "served dflt env (Request_reset t email) w = snd (requestResetCode env t email w)"
| "served dflt env (Admin_reset u) w = snd (adminInitiateReset env u w)"
| "served dflt env (Verify_reset d) w = snd (verifyResetCode env d w)"
| "served dflt env (Confirm_reset d) w = snd (confirmPasswordReset env d w)"
| "served dflt env (Setup_password header pw) w = snd (setupPassword env header pw w)"
| "served dflt env (Enroll_factor ty) w = snd (initiateEnrollment env ty w)"
| "served dflt env (Activate_factor i code) w = snd (verifyAndActivateFactor env i code w)"
| "served dflt env (Verify_challenge c code) w = snd (verifyLoginChallenge env c code w)"
| "served dflt env (Reset_mfa u) w = snd (resetUserMfa env u w)"
| "served dflt env (Accept_invitation tok pw) w = snd (acceptInvitation env tok pw w)"
| "served dflt env (Resend_invitation u) w = snd (resendInvitation env u w)"
| "served dflt env (Logout r t u sid) w = snd (logoutCurrentSession r env t u sid w)"
| "served dflt env (Force_logout t u admin reason) w = snd (revokeAllUserSessions env t u admin reason w)"
| "served dflt env (Update_settings d) w = snd (upsertSettings env d w)"
| "served dflt env (Employment_event ty i v) w = snd (synchronizeEmployeeStatus env ty i v w)"
| "served dflt env (Provision_user api i) w = snd (provisionCognitoUser env api i w)"
| "served dflt env (Create_root_admin b p) w = snd (create_root_admin (b\<lparr> be_auth := env \<rparr>) p w)"

lemma served_keeps_types:
  assumes "keys_apart (builders_of env)"
  shows "typing_kept (builders_of env) w (served dflt env r w)"
proof (cases r)
qed (simp_all add: keepsD[OF _ surjective_pairing] types_password_login types_firebase types_validateRequestLocation
  types_counters types_reset types_confirm types_setup types_second_factor types_login_challenge types_invitations
  types_logout types_force_logout types_settings types_employment types_provisioning types_root_admin assms)

text \<open>
  Between requests cells expire, the store comes and goes, and the sign-on side writes restricted
  sessions under their own keys.
\<close>

inductive auth_step :: "key_builders \<Rightarrow> auth_world \<Rightarrow> auth_world \<Rightarrow> bool" for kb where
  request: "builders_of env = kb \<Longrightarrow> auth_step kb w (served dflt env r w)"
| expiry: "auth_step kb w (upd_cells (filter P) w)"
| availability: "auth_step kb w (w\<lparr> w_redis := (w_redis w)\<lparr> rs_client := c, rs_up := b \<rparr> \<rparr>)"
| sign_on: "auth_step kb w (upd_cells (AList.update (sso_setup_key tok) \<lparr> cell_value = RV_hash h, cell_ttl = ttl \<rparr>) w)"

lemma step_typed: "auth_step kb w w' \<Longrightarrow> keys_apart kb \<Longrightarrow> store_typed kb w \<Longrightarrow> store_typed kb w'"
proof (induction rule: auth_step.induct)
  case (request env w dflt r)
  then show ?case using served_keeps_types[of env w dflt r] by (auto simp: typing_kept_def)
qed (auto simp: store_typed_def upd_cells_def)

lemma run_typed: "(auth_step kb)\<^sup>*\<^sup>* w w' \<Longrightarrow> keys_apart kb \<Longrightarrow> store_typed kb w \<Longrightarrow> store_typed kb w'"
  by (induction rule: rtranclp_induct) (auto intro: step_typed)

lemma typed_cell:
  "store_typed kb w \<Longrightarrow> map_of (rs_cells (w_redis w)) k = Some c \<Longrightarrow> fits_kind kb k (kind_of (cell_value c))"
  unfolding store_typed_def by (rule cells_typed_simps(3))

lemma kind_of_iffs [simp]:
  "kind_of v = Set_kind \<longleftrightarrow> (\<exists>xs. v = RV_set xs)" "kind_of v = Count_kind \<longleftrightarrow> (\<exists>n. v = RV_count n)"
  "kind_of v = Reset_kind \<longleftrightarrow> (\<exists>c. v = RV_reset c)" "kind_of v = Mfa_kind \<longleftrightarrow> (\<exists>c. v = RV_mfa c)"
  "kind_of v = Hash_kind \<longleftrightarrow> (\<exists>h. v = RV_hash h)"
  by (cases v; simp)+

lemma typed_reads_answer:
  assumes "store_typed (builders_of env) w" "keys_apart (builders_of env)" "rs_up (w_redis w)"
  shows "\<exists>ids. fst (redis_members (ae_user_sessions_key env b t u) w) = Inr ids"
    and "\<exists>n. fst (Auth_Model.redis_incr (failure_key t u) w) = Inr n"
    and "\<exists>c. fst (getChallenge i t u w) = Inr c"
    and "\<exists>d. fst (getMfaChallenge t u i w) = Inr d"
    and "\<exists>h. fst (redis_hgetall (sso_setup_key tok) w) = Inr h"
proof -
  note typed = typed_cell[OF assms(1)] and fits [simp] = fits_sessions[OF assms(2)]
  show "\<exists>ids. fst (redis_members (ae_user_sessions_key env b t u) w) = Inr ids"
    using typed[of "ae_user_sessions_key env b t u"] assms(3)
    by (auto simp: redis_members_def redis_cmd_def split: option.splits)
  show "\<exists>n. fst (Auth_Model.redis_incr (failure_key t u) w) = Inr n"
    using typed[of "failure_key t u"] assms(3)
    by (auto simp: Auth_Model.redis_incr_def redis_cmd_def split: option.splits)
  show "\<exists>c. fst (getChallenge i t u w) = Inr c"
    using typed[of "reset_key i t u"] assms(3)
    by (auto simp: getChallenge_def redis_get_def redis_cmd_def act_bind_value act_simps split: option.splits)
  show "\<exists>d. fst (getMfaChallenge t u i w) = Inr d"
    using typed[of "GenerateAuthMfaChallengeKey t u i"] assms(3)
    by (auto simp: getMfaChallenge_def redis_get_def redis_cmd_def act_bind_def act_catch_def act_simps
        split: option.splits)
  show "\<exists>h. fst (redis_hgetall (sso_setup_key tok) w) = Inr h"
    using typed[of "sso_setup_key tok"] assms(3)
    by (auto simp: redis_hgetall_def redis_cmd_def split: option.splits)
qed

section \<open>Properties\<close>

text \<open>
  C9: The store stays typed: from a store in which every family of keys holds its kind of value, every
  run of requests, events, expiries, outages and restricted sessions leads to such a store, so that
  the reads of session lists, counters, recovery codes, second-factor challenges and restricted
  sessions fail only when the store is down, never on a value of another kind.
\<close>

theorem store_stays_typed:
  assumes "keys_apart (builders_of env)" "store_typed (builders_of env) w"
    and "(auth_step (builders_of env))\<^sup>*\<^sup>* w w'"
  shows "store_typed (builders_of env) w' \<and>
    (rs_up (w_redis w') \<longrightarrow>
      (\<exists>ids. fst (redis_members (ae_user_sessions_key env b t u) w') = Inr ids) \<and>
      (\<exists>n. fst (Auth_Model.redis_incr (failure_key t u) w') = Inr n) \<and>
      (\<exists>c. fst (getChallenge i t u w') = Inr c) \<and>
      (\<exists>d. fst (getMfaChallenge t u i w') = Inr d) \<and>
      (\<exists>h. fst (redis_hgetall (sso_setup_key tok) w') = Inr h))"
  using run_typed[OF assms(3,1,2)] assms(1) by (intro conjI impI typed_reads_answer)

lemma sample_keys_apart: "keys_apart (builders_of Login_Safety.sample_env)"
  by (auto simp: keys_apart_def builders_of_def Login_Safety.sample_env_def family_of_def key_families_def)

definition after_outage :: auth_world where
  "after_outage =
    (let w = served ''default'' Login_Safety.sample_env (Password_login ''ann@acme.io'' ''wrong'' None) login_world
     in w\<lparr> w_redis := (w_redis w)\<lparr> rs_client := True, rs_up := True \<rparr> \<rparr>)"

theorem store_stays_typed_witness:
  "store_typed (builders_of Login_Safety.sample_env) after_outage \<and>
   (\<exists>n. fst (Auth_Model.redis_incr (failure_key ''acme'' ''u1'') after_outage) = Inr n)"
proof -
  let ?kb = "builders_of Login_Safety.sample_env"
  have typed: "store_typed ?kb login_world"
    by (simp add: store_typed_def cells_typed_def login_sample_defs)
  have "(auth_step ?kb)\<^sup>*\<^sup>* login_world after_outage"
    unfolding after_outage_def Let_def
    by (rule rtranclp.rtrancl_into_rtrancl[OF r_into_rtranclp], rule auth_step.request[OF refl], rule auth_step.availability)
  from store_stays_typed[OF sample_keys_apart typed this]
  show ?thesis by (simp add: after_outage_def Let_def del: served.simps)
qed

end
