(* ===== verification/Sync_Jobs.thy ===== *)
theory Sync_Jobs
  imports Membership_Sync Matching_Query
begin

text \<open>
  Authorization synchronization jobs: the table with its partial unique index over jobs in flight,
  the enqueueing service, the watchdog that puts stuck jobs back, the scanner for entities whose
  projection is behind, and the status shown for an entity.  A job's check and its insertion may
  see different states of the table, as may the watchdog's read and its writes.
\<close>

section \<open>The table\<close>

datatype sync_source = Src_user_group | Src_role | Src_other string
datatype sync_trigger = Trig_manual | Trig_scheduled | Trig_system
datatype job_priority = Prio_urgent | Prio_standard
datatype job_status = Job_pending | Job_processing | Job_completed | Job_failed

definition source_string :: "sync_source \<Rightarrow> string" where
  "source_string s = (case s of Src_user_group \<Rightarrow> ''USER_GROUP'' | Src_role \<Rightarrow> ''ROLE'' | Src_other x \<Rightarrow> x)"

definition trigger_string :: "sync_trigger \<Rightarrow> string" where
  "trigger_string t =
    (case t of Trig_manual \<Rightarrow> ''MANUAL'' | Trig_scheduled \<Rightarrow> ''SCHEDULED'' | Trig_system \<Rightarrow> ''SYSTEM'')"

record sync_job =
  sj_id :: uuid
  sj_tenant :: tenant
  sj_sourceType :: sync_source
  sj_sourceId :: uuid
  sj_sourceVersion :: int
  sj_triggerType :: sync_trigger
  sj_priority :: job_priority
  sj_status :: job_status
  sj_totalUsers :: "nat option"
  sj_processedUsers :: nat
  sj_retryCount :: int
  sj_errorDetails :: "json option"
  sj_startedAt :: "timestamp option"
  sj_completedAt :: "timestamp option"
  sj_createdBy :: "string option"
  sj_createdAt :: timestamp
  sj_updatedAt :: timestamp

definition in_flight :: "sync_job \<Rightarrow> bool" where
  "in_flight j = (sj_status j = Job_pending \<or> sj_status j = Job_processing)"

definition job_key :: "sync_job \<Rightarrow> tenant \<times> sync_source \<times> uuid \<times> int" where
  "job_key j = (sj_tenant j, sj_sourceType j, sj_sourceId j, sj_sourceVersion j)"

text \<open>\<^verbatim>\<open>uq_authz_sync_jobs_in_flight\<close>.\<close>

definition flight_index_ok :: "sync_job list \<Rightarrow> bool" where
  "flight_index_ok js = distinct (map job_key (filter in_flight js))"

datatype job_error =
    In_flight_conflict
  | Source_not_found uuid
  | Unsupported_source string
  | No_failed_sync
  | Tenant_missing

definition job_insert :: "sync_job \<Rightarrow> sync_job list \<Rightarrow> job_error + sync_job list" where
  "job_insert j js = (if flight_index_ok (js @ [j]) then Ok (js @ [j]) else Fail In_flight_conflict)"

definition job_update :: "timestamp \<Rightarrow> uuid \<Rightarrow> (sync_job \<Rightarrow> sync_job) \<Rightarrow> sync_job list \<Rightarrow> job_error + sync_job list" where
  "job_update now i f js =
    (let js' = map (\<lambda>j. if sj_id j = i then (f j)\<lparr> sj_updatedAt := now \<rparr> else j) js
     in if flight_index_ok js' then Ok js' else Fail In_flight_conflict)"

text \<open>The first row of an ordering.\<close>

definition first_by :: "('a \<Rightarrow> 'a \<Rightarrow> bool) \<Rightarrow> 'a list \<Rightarrow> 'a option" where
  "first_by before xs =
    fold (\<lambda>x best. case best of None \<Rightarrow> Some x | Some b \<Rightarrow> if before x b then Some x else Some b) xs None"

definition source_jobs :: "tenant \<Rightarrow> sync_source \<Rightarrow> uuid \<Rightarrow> sync_job list \<Rightarrow> sync_job list" where
  "source_jobs t s i js = filter (\<lambda>j. sj_tenant j = t \<and> sj_sourceType j = s \<and> sj_sourceId j = i) js"

definition findInFlightJob :: "tenant \<Rightarrow> sync_source \<Rightarrow> uuid \<Rightarrow> int \<Rightarrow> sync_job list \<Rightarrow> sync_job option" where
  "findInFlightJob t s i v js = find (\<lambda>j. sj_sourceVersion j = v \<and> in_flight j) (source_jobs t s i js)"

definition findLatestJobBySource :: "tenant \<Rightarrow> sync_source \<Rightarrow> uuid \<Rightarrow> sync_job list \<Rightarrow> sync_job option" where
  "findLatestJobBySource t s i js = first_by (\<lambda>a b. sj_createdAt a > sj_createdAt b) (source_jobs t s i js)"

text \<open>Descending order puts a missing completion time first, as PostgreSQL does.\<close>

definition completed_later :: "sync_job \<Rightarrow> sync_job \<Rightarrow> bool" where
  "completed_later a b =
    (case (sj_completedAt a, sj_completedAt b) of
       (None, None) \<Rightarrow> sj_createdAt a > sj_createdAt b
     | (None, Some _) \<Rightarrow> True
     | (Some _, None) \<Rightarrow> False
     | (Some x, Some y) \<Rightarrow> x > y \<or> (x = y \<and> sj_createdAt a > sj_createdAt b))"

definition findLatestCompletedJobBySource :: "tenant \<Rightarrow> sync_source \<Rightarrow> uuid \<Rightarrow> sync_job list \<Rightarrow> sync_job option" where
  "findLatestCompletedJobBySource t s i js =
    first_by completed_later (filter (\<lambda>j. sj_status j = Job_completed) (source_jobs t s i js))"

definition findActiveJobBySource :: "tenant \<Rightarrow> sync_source \<Rightarrow> uuid \<Rightarrow> sync_job list \<Rightarrow> sync_job option" where
  "findActiveJobBySource t s i js =
    first_by (\<lambda>a b. sj_createdAt a > sj_createdAt b) (filter in_flight (source_jobs t s i js))"

definition claim_rank :: "sync_job \<Rightarrow> nat" where
  "claim_rank j = (case sj_priority j of Prio_urgent \<Rightarrow> 1 | Prio_standard \<Rightarrow> 2)"

definition claim_before :: "sync_job \<Rightarrow> sync_job \<Rightarrow> bool" where
  "claim_before a b =
    (claim_rank a < claim_rank b \<or> (claim_rank a = claim_rank b \<and> sj_createdAt a < sj_createdAt b))"

definition pending_jobs :: "tenant \<Rightarrow> sync_job list \<Rightarrow> sync_job list" where
  "pending_jobs t js = filter (\<lambda>j. sj_tenant j = t \<and> sj_status j = Job_pending) js"

definition start_job :: "timestamp \<Rightarrow> sync_job \<Rightarrow> sync_job" where
  "start_job now j = j\<lparr> sj_status := Job_processing, sj_startedAt := Some now \<rparr>"

definition claimNextPendingJob :: "timestamp \<Rightarrow> tenant \<Rightarrow> sync_job list \<Rightarrow> job_error + sync_job option \<times> sync_job list" where
  "claimNextPendingJob now t js =
    (case first_by claim_before (pending_jobs t js) of
       None \<Rightarrow> Ok (None, js)
     | Some j \<Rightarrow> and_then (job_update now (sj_id j) (start_job now) js) (\<lambda>js'. Ok (Some (start_job now j), js')))"

definition updateProgress :: "timestamp \<Rightarrow> uuid \<Rightarrow> nat \<Rightarrow> nat \<Rightarrow> sync_job list \<Rightarrow> job_error + sync_job list" where
  "updateProgress now i n tot =
    job_update now i (\<lambda>j. j\<lparr> sj_processedUsers := n, sj_totalUsers := Some tot \<rparr>)"

definition markCompleted :: "timestamp \<Rightarrow> uuid \<Rightarrow> nat \<Rightarrow> sync_job list \<Rightarrow> job_error + sync_job list" where
  "markCompleted now i n =
    job_update now i (\<lambda>j. j\<lparr> sj_status := Job_completed, sj_completedAt := Some now, sj_processedUsers := n \<rparr>)"

definition markFailed :: "timestamp \<Rightarrow> uuid \<Rightarrow> json \<Rightarrow> sync_job list \<Rightarrow> job_error + sync_job list" where
  "markFailed now i d =
    job_update now i (\<lambda>j. j\<lparr> sj_status := Job_failed, sj_completedAt := Some now, sj_errorDetails := Some d \<rparr>)"

definition findStuckProcessingJobs :: "timestamp \<Rightarrow> int \<Rightarrow> sync_job list \<Rightarrow> sync_job list" where
  "findStuckProcessingJobs now minutes js =
    sort_key sj_updatedAt (filter (\<lambda>j. sj_status j = Job_processing \<and> sj_updatedAt j < now - minutes * 60 * 1000) js)"

definition reclaimStuckJob :: "timestamp \<Rightarrow> uuid \<Rightarrow> int \<Rightarrow> sync_job list \<Rightarrow> job_error + sync_job list" where
  "reclaimStuckJob now i n =
    job_update now i (\<lambda>j. j\<lparr> sj_status := Job_pending, sj_retryCount := n, sj_startedAt := None \<rparr>)"

section \<open>The response\<close>

record sync_response =
  resp_jobId :: "uuid option"
  resp_tenant :: tenant
  resp_sourceType :: sync_source
  resp_sourceId :: uuid
  resp_sourceVersion :: int
  resp_triggerType :: sync_trigger
  resp_status :: job_status
  resp_processedUsers :: nat
  resp_totalUsers :: "nat option"
  resp_isNoOp :: bool
  resp_message :: string
  resp_startedAt :: "timestamp option"
  resp_completedAt :: "timestamp option"
  resp_errorDetails :: "json option"
  resp_createdBy :: "string option"

definition response_fromEntity :: "sync_job \<Rightarrow> bool \<Rightarrow> string \<Rightarrow> sync_response" where
  "response_fromEntity j noop msg =
    \<lparr> resp_jobId = Some (sj_id j), resp_tenant = sj_tenant j, resp_sourceType = sj_sourceType j,
      resp_sourceId = sj_sourceId j, resp_sourceVersion = sj_sourceVersion j,
      resp_triggerType = sj_triggerType j, resp_status = sj_status j,
      resp_processedUsers = sj_processedUsers j, resp_totalUsers = sj_totalUsers j, resp_isNoOp = noop,
      resp_message = msg, resp_startedAt = sj_startedAt j, resp_completedAt = sj_completedAt j,
      resp_errorDetails = sj_errorDetails j, resp_createdBy = sj_createdBy j \<rparr>"

definition completedValue :: "tenant \<Rightarrow> sync_source \<Rightarrow> uuid \<Rightarrow> int \<Rightarrow> sync_trigger \<Rightarrow> sync_response" where
  "completedValue t s i v tr =
    \<lparr> resp_jobId = None, resp_tenant = t, resp_sourceType = s, resp_sourceId = i, resp_sourceVersion = v,
      resp_triggerType = tr, resp_status = Job_completed, resp_processedUsers = 0, resp_totalUsers = Some 0,
      resp_isNoOp = True, resp_message = ''Configuration is already fully synchronized'',
      resp_startedAt = None, resp_completedAt = None, resp_errorDetails = None, resp_createdBy = None \<rparr>"

definition in_progress_message :: string where
  "in_progress_message = ''Existing synchronization job already in progress''"

section \<open>Enqueueing\<close>

record job_env =
  je_tenant :: "tenant option"
  je_user :: "string option"
  je_new_job :: uuid
  je_now :: timestamp
  je_iso :: string

record enqueue_params =
  ep_tenant :: tenant
  ep_sourceType :: sync_source
  ep_sourceId :: uuid
  ep_sourceVersion :: "int option"
  ep_triggerType :: "sync_trigger option"
  ep_priority :: "job_priority option"
  ep_createdBy :: "string option option"
  ep_ignoreValidateSource :: bool

text \<open>The request's tenant scopes the reads; the tables of the state are the jobs and the authorization tables.\<close>

definition request_tenant :: "job_env \<Rightarrow> tenant" where
  "request_tenant env = (case je_tenant env of None \<Rightarrow> [] | Some t \<Rightarrow> t)"

definition validateAndResolveSourceVersions ::
  "tenant \<Rightarrow> sync_source \<Rightarrow> uuid \<Rightarrow> authz_db \<Rightarrow> job_error + int \<times> int" where
  "validateAndResolveSourceVersions t s i db =
    (case s of
       Src_user_group \<Rightarrow>
         (case tenant_group t i db of None \<Rightarrow> Fail (Source_not_found i)
          | Some g \<Rightarrow> Ok (group_version g, group_projectionVersion g))
     | Src_role \<Rightarrow>
         (case role_find t i db of None \<Rightarrow> Fail (Source_not_found i)
          | Some r \<Rightarrow> Ok (role_version r, role_projectionVersion r))
     | Src_other x \<Rightarrow> Fail (Unsupported_source x))"

definition new_job ::
  "job_env \<Rightarrow> tenant \<Rightarrow> string option \<Rightarrow> sync_source \<Rightarrow> uuid \<Rightarrow> int \<Rightarrow> sync_trigger \<Rightarrow> job_priority \<Rightarrow> sync_job" where
  "new_job env t u s i v tr p =
    \<lparr> sj_id = je_new_job env, sj_tenant = t, sj_sourceType = s, sj_sourceId = i, sj_sourceVersion = v,
      sj_triggerType = tr, sj_priority = p, sj_status = Job_pending, sj_totalUsers = None,
      sj_processedUsers = 0, sj_retryCount = 0, sj_errorDetails = None, sj_startedAt = None,
      sj_completedAt = None, sj_createdBy = u, sj_createdAt = je_now env, sj_updatedAt = je_now env \<rparr>"

definition job_event_data :: "sync_job \<Rightarrow> sync_event_data" where
  "job_event_data j =
    \<lparr> sed_jobId = sj_id j, sed_sourceType = source_string (sj_sourceType j), sed_sourceId = sj_sourceId j,
      sed_sourceVersion = sj_sourceVersion j, sed_triggerType = trigger_string (sj_triggerType j),
      sed_initiatedBy = sj_createdBy j \<rparr>"

definition createSyncJobTransactional ::
  "job_env \<Rightarrow> tenant \<Rightarrow> string option \<Rightarrow> sync_source \<Rightarrow> uuid \<Rightarrow> int \<Rightarrow> sync_trigger \<Rightarrow> job_priority
     \<Rightarrow> sync_job list \<times> authz_db \<Rightarrow> job_error + sync_response \<times> sync_job list \<times> authz_db" where
  "createSyncJobTransactional env t u s i v tr p st =
    (let j = new_job env t u s i v tr p in
     and_then (job_insert j (fst st)) (\<lambda>js.
       Ok (response_fromEntity j False ''Authorization synchronization job queued successfully'', js,
           save_outbox (fromAuthorizationSyncRequested (je_iso env) \<lparr> ctx_tenant = t, ctx_userId = u \<rparr> (job_event_data j))
             (snd st))))"

definition handleInFlightConflict ::
  "job_env \<Rightarrow> job_error \<Rightarrow> sync_source \<Rightarrow> uuid \<Rightarrow> int \<Rightarrow> sync_job list \<Rightarrow> job_error + sync_response" where
  "handleInFlightConflict env e s i v js =
    (if e = In_flight_conflict
     then (case findInFlightJob (request_tenant env) s i v js of
             Some j \<Rightarrow> Ok (response_fromEntity j False in_progress_message)
           | None \<Rightarrow> Fail e)
     else Fail e)"

definition resolve_versions :: "job_env \<Rightarrow> enqueue_params \<Rightarrow> authz_db \<Rightarrow> job_error + int \<times> int" where
  "resolve_versions env p db =
    (if ep_ignoreValidateSource p
     then Ok (case ep_sourceVersion p of None \<Rightarrow> 1 | Some v \<Rightarrow> v, 0)
     else validateAndResolveSourceVersions (request_tenant env) (ep_sourceType p) (ep_sourceId p) db)"

definition enqueue_created_by :: "enqueue_params \<Rightarrow> string option" where
  "enqueue_created_by p = (case ep_createdBy p of None \<Rightarrow> Some ''SYSTEM'' | Some u \<Rightarrow> u)"

definition enqueueSyncJob ::
  "job_env \<Rightarrow> enqueue_params \<Rightarrow> sync_job list \<times> authz_db \<Rightarrow> sync_job list \<times> authz_db
     \<Rightarrow> (job_error + sync_response) \<times> sync_job list \<times> authz_db" where
  "enqueueSyncJob env p st0 st =
    (let s = ep_sourceType p; i = ep_sourceId p;
         tr = (case ep_triggerType p of None \<Rightarrow> Trig_scheduled | Some x \<Rightarrow> x);
         pr = (case ep_priority p of None \<Rightarrow> Prio_standard | Some x \<Rightarrow> x)
     in case resolve_versions env p (snd st0) of
          Inl e \<Rightarrow> (Fail e, st)
        | Inr (sv, pv) \<Rightarrow>
            if \<not> ep_ignoreValidateSource p \<and> sv \<le> pv
            then (Ok (completedValue (ep_tenant p) s i sv tr), st)
            else (case findInFlightJob (request_tenant env) s i sv (fst st0) of
                    Some j \<Rightarrow> (Ok (response_fromEntity j False in_progress_message), st)
                  | None \<Rightarrow>
                      (case createSyncJobTransactional env (ep_tenant p) (enqueue_created_by p) s i sv tr pr st of
                         Inr (r, st') \<Rightarrow> (Ok r, st')
                       | Inl e \<Rightarrow> (handleInFlightConflict env e s i sv (fst st), st))))"

definition requestSyncNow ::
  "job_env \<Rightarrow> sync_source \<Rightarrow> uuid \<Rightarrow> sync_trigger option \<Rightarrow> sync_job list \<times> authz_db \<Rightarrow> sync_job list \<times> authz_db
     \<Rightarrow> (job_error + sync_response) \<times> sync_job list \<times> authz_db" where
  "requestSyncNow env s i tr =
    enqueueSyncJob env
      \<lparr> ep_tenant = request_tenant env, ep_sourceType = s, ep_sourceId = i, ep_sourceVersion = None,
        ep_triggerType = Some (case tr of None \<Rightarrow> Trig_manual | Some x \<Rightarrow> x), ep_priority = None,
        ep_createdBy = Some (je_user env), ep_ignoreValidateSource = False \<rparr>"

definition getJobStatus :: "tenant \<Rightarrow> uuid \<Rightarrow> sync_job list \<Rightarrow> job_error + sync_response" where
  "getJobStatus t i js =
    (case find (\<lambda>j. sj_id j = i \<and> sj_tenant j = t) js of
       None \<Rightarrow> Fail (Source_not_found i)
     | Some j \<Rightarrow> Ok (response_fromEntity j False ''Job status retrieved successfully''))"

definition retryFailedSync ::
  "job_env \<Rightarrow> sync_source \<Rightarrow> uuid \<Rightarrow> sync_job list \<times> authz_db \<Rightarrow> sync_job list \<times> authz_db
     \<Rightarrow> (job_error + sync_response) \<times> sync_job list \<times> authz_db" where
  "retryFailedSync env s i st0 st =
    (case or_null (je_tenant env) of
       None \<Rightarrow> (Fail Tenant_missing, st)
     | Some t \<Rightarrow>
         (case validateAndResolveSourceVersions t s i (snd st0) of
            Inl e \<Rightarrow> (Fail e, st)
          | Inr (sv, pv) \<Rightarrow>
              if sv \<le> pv then (Fail No_failed_sync, st)
              else (case findInFlightJob t s i sv (fst st0) of
                      Some j \<Rightarrow> (Ok (response_fromEntity j False in_progress_message), st)
                    | None \<Rightarrow>
                        enqueueSyncJob env
                          \<lparr> ep_tenant = t, ep_sourceType = s, ep_sourceId = i, ep_sourceVersion = Some sv,
                            ep_triggerType = Some Trig_manual, ep_priority = None,
                            ep_createdBy = Some (Some (case je_user env of None \<Rightarrow> ''SYSTEM'' | Some u \<Rightarrow> u)),
                            ep_ignoreValidateSource = True \<rparr> st0 st)))"

section \<open>The watchdog\<close>

definition maxRetries :: int where "maxRetries = 3"
definition timeoutMinutes :: int where "timeoutMinutes = 10"

definition watchdog_details :: json where
  "watchdog_details =
    JObj [(''message'', JStr ''Job exceeded watchdog timeout of 10 minutes after 3 recovery attempts''),
          (''code'', JStr ''WATCHDOG_TIMEOUT'')]"

definition watchdog_failure :: "sync_job \<Rightarrow> sync_failed_data" where
  "watchdog_failure j =
    \<lparr> sfd_failureReason = None, sfd_sanitizedErrorCode = None, sfd_sanitizedErrorDetails = None,
      sfd_failedAfterRetries = None, sfd_priority = None,
      sfd_totalUsers = Some (case sj_totalUsers j of None \<Rightarrow> 0 | Some n \<Rightarrow> int n),
      sfd_processedUsers = Some (int (sj_processedUsers j)), sfd_durationMs = None, sfd_errorCode = None,
      sfd_errorMessage = None, sfd_errorDetails = Some watchdog_details, sfd_requiresEmail = None \<rparr>"

text \<open>Handling one job of the watchdog's earlier read; an error ends the run.\<close>

definition reclaim_one ::
  "string \<Rightarrow> timestamp \<Rightarrow> sync_job \<Rightarrow> sync_job list \<times> authz_db \<Rightarrow> job_error + sync_job list \<times> authz_db" where
  "reclaim_one stamp now j st =
    (let n = sj_retryCount j + 1 in
     if n \<le> maxRetries
     then and_then (reclaimStuckJob now (sj_id j) n (fst st)) (\<lambda>js. Ok (js, snd st))
     else and_then (markFailed now (sj_id j) watchdog_details (fst st)) (\<lambda>js.
            Ok (js, save_outbox (fromAuthorizationSyncFailed stamp
                      \<lparr> ctx_tenant = sj_tenant j, ctx_userId = sj_createdBy j \<rparr> (job_event_data j) (watchdog_failure j))
                    (snd st))))"

fun reclaim_all ::
  "string \<Rightarrow> timestamp \<Rightarrow> sync_job list \<Rightarrow> nat \<Rightarrow> sync_job list \<times> authz_db \<Rightarrow> (job_error + nat) \<times> sync_job list \<times> authz_db" where
  "reclaim_all stamp now [] n st = (Ok n, st)"
| "reclaim_all stamp now (j # stuck) n st =
    (case reclaim_one stamp now j st of
       Inl e \<Rightarrow> (Fail e, st)
     | Inr st' \<Rightarrow> reclaim_all stamp now stuck (n + 1) st')"

definition checkAndReclaimStuckJobs ::
  "string \<Rightarrow> timestamp \<Rightarrow> sync_job list \<Rightarrow> sync_job list \<times> authz_db \<Rightarrow> (job_error + nat) \<times> sync_job list \<times> authz_db" where
  "checkAndReclaimStuckJobs stamp now js0 st =
    reclaim_all stamp now (findStuckProcessingJobs now timeoutMinutes js0) 0 st"

section \<open>The scanner\<close>

definition scan_params :: "tenant \<Rightarrow> sync_source \<Rightarrow> uuid \<times> int \<Rightarrow> enqueue_params" where
  "scan_params t s iv =
    \<lparr> ep_tenant = t, ep_sourceType = s, ep_sourceId = fst iv, ep_sourceVersion = Some (snd iv),
      ep_triggerType = Some Trig_scheduled, ep_priority = None, ep_createdBy = Some (Some ''SYSTEM''),
      ep_ignoreValidateSource = True \<rparr>"

text \<open>Each entity's identifier for its new job comes from the environment; errors are swallowed.\<close>

fun scan_each ::
  "(uuid \<Rightarrow> job_env) \<Rightarrow> tenant \<Rightarrow> sync_source \<Rightarrow> (uuid \<times> int) list \<Rightarrow> nat \<Rightarrow> sync_job list \<times> authz_db
     \<Rightarrow> nat \<times> sync_job list \<times> authz_db" where
  "scan_each env t s [] n st = (n, st)"
| "scan_each env t s (iv # rest) n st =
    (case enqueueSyncJob (env (fst iv)) (scan_params t s iv) st st of
       (Inr r, st') \<Rightarrow> scan_each env t s rest (if resp_jobId r = None then n else n + 1) st'
     | (Inl e, st') \<Rightarrow> scan_each env t s rest n st')"

definition handleByTenant ::
  "(uuid \<Rightarrow> job_env) \<Rightarrow> tenant \<Rightarrow> (uuid \<times> int) list \<Rightarrow> (uuid \<times> int) list \<Rightarrow> sync_job list \<times> authz_db
     \<Rightarrow> nat \<times> sync_job list \<times> authz_db" where
  "handleByTenant env t groups roles st =
    (let (n, st1) = scan_each env t Src_user_group groups 0 st in scan_each env t Src_role roles n st1)"

definition of_tenant :: "tenant \<Rightarrow> (tenant \<times> uuid \<times> int) list \<Rightarrow> (uuid \<times> int) list" where
  "of_tenant t xs = map snd (filter (\<lambda>x. fst x = t) xs)"

fun scan_tenants ::
  "(uuid \<Rightarrow> job_env) \<Rightarrow> (tenant \<times> uuid \<times> int) list \<Rightarrow> (tenant \<times> uuid \<times> int) list \<Rightarrow> tenant list \<Rightarrow> nat
     \<Rightarrow> sync_job list \<times> authz_db \<Rightarrow> nat \<times> sync_job list \<times> authz_db" where
  "scan_tenants env gs rs [] n st = (n, st)"
| "scan_tenants env gs rs (t # ts) n st =
    (let (k, st1) = handleByTenant env t (of_tenant t gs) (of_tenant t rs) st
     in scan_tenants env gs rs ts (n + k) st1)"

definition handleCron :: "(uuid \<Rightarrow> job_env) \<Rightarrow> sync_job list \<times> authz_db \<Rightarrow> nat \<times> sync_job list \<times> authz_db" where
  "handleCron env st =
    (let gs = findDirtyUserGroups (snd st); rs = findDirtyRoles (snd st)
     in scan_tenants env gs rs (js_set_of (map fst gs @ map fst rs)) 0 st)"

section \<open>The status of an entity\<close>

datatype computed_status = Status_pending | Status_processing | Status_completed | Status_failed
datatype next_method = Manual_in_flight | Scheduled_daily | No_next_sync

record active_job =
  aj_jobId :: uuid
  aj_triggerType :: sync_trigger
  aj_processed :: nat
  aj_total :: nat
  aj_error :: "(string \<times> string) option"
  aj_retryable :: bool

definition detail_text :: "string \<Rightarrow> string \<Rightarrow> json option \<Rightarrow> string" where
  "detail_text key d details =
    (case details of None \<Rightarrow> d
     | Some ob \<Rightarrow> (case jfield key ob of JStr (c # cs) \<Rightarrow> c # cs | _ \<Rightarrow> d))"

definition job_detail :: "sync_job \<Rightarrow> (string \<times> string) option \<Rightarrow> bool \<Rightarrow> active_job" where
  "job_detail j err retry =
    \<lparr> aj_jobId = sj_id j, aj_triggerType = sj_triggerType j, aj_processed = sj_processedUsers j,
      aj_total = (case sj_totalUsers j of None \<Rightarrow> 0 | Some n \<Rightarrow> n), aj_error = err, aj_retryable = retry \<rparr>"

definition flight_method :: "sync_job \<Rightarrow> next_method" where
  "flight_method j = (if sj_triggerType j = Trig_manual then Manual_in_flight else Scheduled_daily)"

definition computeStatus :: "int \<Rightarrow> int \<Rightarrow> sync_job option \<Rightarrow> computed_status \<times> next_method \<times> active_job option" where
  "computeStatus sv pv latest =
    (case latest of
       Some j \<Rightarrow>
         if sj_status j = Job_processing then (Status_processing, flight_method j, Some (job_detail j None False))
         else if sj_status j = Job_pending then (Status_pending, flight_method j, Some (job_detail j None False))
         else if sj_status j = Job_failed \<and> sv > pv
           then (Status_failed, Scheduled_daily,
                 Some (job_detail j (Some (detail_text ''code'' ''SYNC_ERROR'' (sj_errorDetails j),
                                           detail_text ''message'' ''Synchronization failed'' (sj_errorDetails j))) True))
         else if sv > pv then (Status_pending, Scheduled_daily, None)
         else (Status_completed, No_next_sync, None)
     | None \<Rightarrow>
         if sv > pv then (Status_pending, Scheduled_daily, None) else (Status_completed, No_next_sync, None))"

record entity_status =
  es_status :: computed_status
  es_lastSuccessfulSyncAt :: "timestamp option"
  es_affectedUserCount :: nat
  es_nextMethod :: next_method
  es_activeJob :: "active_job option"

definition getEntitySyncStatus :: "tenant \<Rightarrow> sync_source \<Rightarrow> uuid \<Rightarrow> sync_job list \<times> authz_db \<Rightarrow> job_error + entity_status" where
  "getEntitySyncStatus t s i st =
    and_then (validateAndResolveSourceVersions t s i (snd st)) (\<lambda>(sv, pv).
      let latest = findLatestJobBySource t s i (fst st);
          fin = findLatestCompletedJobBySource t s i (fst st);
          (status, method, active) = computeStatus sv pv latest
      in Ok \<lparr> es_status = status,
              es_lastSuccessfulSyncAt = Option.bind fin sj_completedAt,
              es_affectedUserCount =
                (case fin of Some j \<Rightarrow> sj_processedUsers j
                 | None \<Rightarrow> (case latest of Some j \<Rightarrow> sj_processedUsers j | None \<Rightarrow> 0)),
              es_nextMethod = method, es_activeJob = active \<rparr>)"

record status_summary =
  ss_total :: nat
  ss_completed :: nat
  ss_pending :: nat
  ss_processing :: nat
  ss_failed :: nat

definition status_count :: "computed_status \<Rightarrow> computed_status list \<Rightarrow> nat" where
  "status_count s xs = length (filter (\<lambda>x. x = s) xs)"

definition summary_entities :: "tenant \<Rightarrow> authz_db \<Rightarrow> (sync_source \<times> uuid \<times> int \<times> int) list" where
  "summary_entities t db =
    map (\<lambda>g. (Src_user_group, group_id g, group_version g, group_projectionVersion g)) (findActiveGroups t db) @
    map (\<lambda>r. (Src_role, role_id r, role_version r, role_projectionVersion r))
      (filter (\<lambda>r. role_tenant r = t) (t_roles db))"

definition getTenantSummary :: "tenant \<Rightarrow> sync_job list \<times> authz_db \<Rightarrow> status_summary" where
  "getTenantSummary t st =
    (let es = summary_entities t (snd st);
         sts = map (\<lambda>(s, i, v, pv). fst (computeStatus v pv (findLatestJobBySource t s i (fst st)))) es
     in \<lparr> ss_total = length es, ss_completed = status_count Status_completed sts,
          ss_pending = status_count Status_pending sts, ss_processing = status_count Status_processing sts,
          ss_failed = status_count Status_failed sts \<rparr>)"

end
