(* ===== verification/Worker_Lock.thy ===== *)
theory Worker_Lock
  imports Access_Model "HOL-Library.Word"
begin

unbundle bit_operations_syntax

text \<open>
  The advisory lock of the reconciliation worker: the lock key, its hash to a lock number on
  32-bit signed integers as JavaScript's bit operations give it, and PostgreSQL's session-level
  advisory locks, which belong to the connection that took them and count re-entrant acquisitions.
\<close>

section \<open>The lock number\<close>

definition GenerateAuthzWorkerLockKey :: "tenant \<Rightarrow> string" where
  "GenerateAuthzWorkerLockKey t = ''authz:reconciliation-worker:lock:'' @ t"

text \<open>\<^verbatim>\<open>ToInt32\<close>; \<^verbatim>\<open>hash << 5\<close> and \<^verbatim>\<open>hash & hash\<close> convert, the arithmetic between does not.\<close>

definition to_int32 :: "int \<Rightarrow> int" where
  "to_int32 x = sint (word_of_int x :: 32 word)"

definition shl32 :: "int \<Rightarrow> nat \<Rightarrow> int" where
  "shl32 x n = sint (push_bit n (word_of_int x :: 32 word))"

definition and32 :: "int \<Rightarrow> int \<Rightarrow> int" where
  "and32 x y = sint ((word_of_int x :: 32 word) AND word_of_int y)"

definition hash_step :: "int \<Rightarrow> char \<Rightarrow> int" where
  "hash_step h c = (let h' = shl32 h 5 - h + int (of_char c) in and32 h' h')"

definition hash_key :: "string \<Rightarrow> int" where
  "hash_key k = foldl hash_step 0 k"

definition hashKeyToInt64 :: "string \<Rightarrow> int" where
  "hashKeyToInt64 k = \<bar>hash_key k\<bar>"

section \<open>Advisory locks\<close>

text \<open>
  Who holds a lock and how often.  The connection that runs a query is the argument
  \<^verbatim>\<open>s\<close>; a query that fails answers false.
\<close>

type_synonym advisory_locks = "int \<Rightarrow> (nat \<times> nat) option"

definition try_advisory_lock :: "nat \<Rightarrow> int \<Rightarrow> advisory_locks \<Rightarrow> bool \<times> advisory_locks" where
  "try_advisory_lock s k ls =
    (case ls k of
       None \<Rightarrow> (True, ls(k \<mapsto> (s, 1)))
     | Some (s', n) \<Rightarrow> if s' = s then (True, ls(k \<mapsto> (s, n + 1))) else (False, ls))"

definition advisory_unlock :: "nat \<Rightarrow> int \<Rightarrow> advisory_locks \<Rightarrow> bool \<times> advisory_locks" where
  "advisory_unlock s k ls =
    (case ls k of
       None \<Rightarrow> (False, ls)
     | Some (s', n) \<Rightarrow>
         if s' = s then (True, if n \<le> 1 then ls(k := None) else ls(k \<mapsto> (s, n - 1))) else (False, ls))"

definition acquireLock :: "bool \<Rightarrow> nat \<Rightarrow> string \<Rightarrow> advisory_locks \<Rightarrow> bool \<times> advisory_locks" where
  "acquireLock query_ok s key ls = (if query_ok then try_advisory_lock s (hashKeyToInt64 key) ls else (False, ls))"

definition releaseLock :: "bool \<Rightarrow> nat \<Rightarrow> string \<Rightarrow> advisory_locks \<Rightarrow> bool \<times> advisory_locks" where
  "releaseLock query_ok s key ls = (if query_ok then advisory_unlock s (hashKeyToInt64 key) ls else (False, ls))"

section \<open>The hash on words\<close>

lemma and32_self: "and32 x x = to_int32 x"
  by (simp add: and32_def to_int32_def)

lemma word_of_to_int32 [simp]: "(word_of_int (to_int32 x) :: 32 word) = word_of_int x"
  by (simp add: to_int32_def)

lemma word_hash_step:
  "(word_of_int (hash_step h c) :: 32 word) = 31 * word_of_int h + of_nat (of_char c)"
proof -
  have "(word_of_int (shl32 h 5) :: 32 word) = 32 * word_of_int h"
    by (simp add: shl32_def push_bit_eq_mult)
  then show ?thesis
    by (simp add: hash_step_def Let_def and32_self algebra_simps)
qed

definition word_hash :: "string \<Rightarrow> 32 word" where
  "word_hash k = foldl (\<lambda>h c. 31 * h + of_nat (of_char c)) 0 k"

lemma word_of_hash: "(word_of_int (foldl hash_step h k) :: 32 word) =
    foldl (\<lambda>h c. 31 * h + of_nat (of_char c)) (word_of_int h) k"
  by (induction k arbitrary: h) (simp_all add: word_hash_step)

lemma hash_step_range: "- (2 ^ 31) \<le> hash_step h c \<and> hash_step h c < 2 ^ 31"
  using sint_range_size[of "(word_of_int (shl32 h 5 - h + int (of_char c)) :: 32 word)"]
  by (simp add: hash_step_def Let_def and32_self to_int32_def word_size)

lemma hash_key_range: "- (2 ^ 31) \<le> hash_key k \<and> hash_key k < 2 ^ 31"
  by (cases k rule: rev_cases) (simp_all add: hash_key_def hash_step_range[simplified])

lemma to_int32_hash_key: "to_int32 (hash_key k) = hash_key k"
  by (cases k rule: rev_cases)
     (simp_all add: hash_key_def hash_step_def Let_def and32_self to_int32_def)

lemma hash_key_word: "hash_key k = sint (word_hash k)"
  using word_of_hash[of 0 k] to_int32_hash_key[of k]
  by (simp add: hash_key_def word_hash_def to_int32_def)

lemma hash_swap:
  "hashKeyToInt64 (GenerateAuthzWorkerLockKey (p @ ''Aa'' @ s)) =
   hashKeyToInt64 (GenerateAuthzWorkerLockKey (p @ ''BB'' @ s))"
proof -
  have "word_hash (q @ ''Aa'' @ s) = word_hash (q @ ''BB'' @ s)" for q
    by (simp add: word_hash_def algebra_simps)
  from this[of "''authz:reconciliation-worker:lock:'' @ p"]
  have "word_hash (GenerateAuthzWorkerLockKey (p @ ''Aa'' @ s)) = word_hash (GenerateAuthzWorkerLockKey (p @ ''BB'' @ s))"
    by (simp only: GenerateAuthzWorkerLockKey_def append_assoc)
  then show ?thesis by (simp only: hashKeyToInt64_def hash_key_word)
qed

text \<open>
  The lock number of a key is the absolute value of the signed 32-bit value of the polynomial
  hash with factor 31, so it is at most \<^verbatim>\<open>2^31\<close>, not a 64-bit number; and any two keys
  that differ in one place only, where one has \<^verbatim>\<open>Aa\<close> and the other \<^verbatim>\<open>BB\<close>, get
  the same lock number.
\<close>

theorem lock_numbers_collide:
  "hashKeyToInt64 k = \<bar>sint (word_hash k)\<bar> \<and> 0 \<le> hashKeyToInt64 k \<and> hashKeyToInt64 k \<le> 2 ^ 31 \<and>
   hashKeyToInt64 (GenerateAuthzWorkerLockKey (p @ ''Aa'' @ s)) =
   hashKeyToInt64 (GenerateAuthzWorkerLockKey (p @ ''BB'' @ s))"
  using hash_key_range[of k] hash_swap[of p s] by (simp add: hashKeyToInt64_def hash_key_word abs_le_iff)

section \<open>Mutual exclusion\<close>

lemma locked_out:
  assumes "acquireLock ok s key ls = (True, ls')" and "s \<noteq> s'" and "hashKeyToInt64 key' = hashKeyToInt64 key"
  shows "acquireLock ok' s' key' ls' = (False, ls')"
  using assms
  by (auto simp: acquireLock_def try_advisory_lock_def split: if_splits option.splits prod.splits)

text \<open>
  A worker that took a free lock keeps every other connection out of this lock, and of every
  key with the same number, until it is released.  Released on the same connection the lock is free
  again; released on another connection of the pool the release answers false and the lock stays,
  so later attempts of all other connections fail.
\<close>

theorem worker_lock_excludes:
  assumes "ls (hashKeyToInt64 key) = None"
  shows "\<exists>ls'. acquireLock True s key ls = (True, ls') \<and>
    (s' \<noteq> s \<and> hashKeyToInt64 key' = hashKeyToInt64 key \<longrightarrow> acquireLock ok s' key' ls' = (False, ls')) \<and>
    releaseLock True s key ls' = (True, ls) \<and>
    (s' \<noteq> s \<longrightarrow> releaseLock ok s' key ls' = (False, ls') \<and> acquireLock ok' s' key ls' = (False, ls'))"
proof -
  let ?ls = "ls(hashKeyToInt64 key \<mapsto> (s, 1))"
  have a: "acquireLock True s key ls = (True, ?ls)"
    using assms by (simp add: acquireLock_def try_advisory_lock_def)
  moreover have "releaseLock True s key ?ls = (True, ls)"
    using assms by (simp add: releaseLock_def advisory_unlock_def fun_upd_idem)
  moreover have "s' \<noteq> s \<Longrightarrow> releaseLock ok s' key ?ls = (False, ?ls)"
    by (simp add: releaseLock_def advisory_unlock_def)
  ultimately show ?thesis using locked_out[OF a] by (intro exI[of _ ?ls] conjI impI) auto
qed

theorem worker_lock_excludes_witness:
  "\<exists>ls'. acquireLock True 0 (GenerateAuthzWorkerLockKey ''acmeAa'') Map.empty = (True, ls') \<and>
    acquireLock True 1 (GenerateAuthzWorkerLockKey ''acmeBB'') ls' = (False, ls') \<and>
    releaseLock True 1 (GenerateAuthzWorkerLockKey ''acmeAa'') ls' = (False, ls')"
proof -
  have "hashKeyToInt64 (GenerateAuthzWorkerLockKey ''acmeBB'') = hashKeyToInt64 (GenerateAuthzWorkerLockKey ''acmeAa'')"
    using hash_swap[of "''acme''" "[]"] by simp
  then show ?thesis
    using worker_lock_excludes[of Map.empty "GenerateAuthzWorkerLockKey ''acmeAa''" 0 1
        "GenerateAuthzWorkerLockKey ''acmeBB''" True True]
    by auto
qed

end
