(* ===== verification/Sync_Worker.thy ===== *)
theory Sync_Worker
  imports Sync_Jobs Worker_Lock
begin

text \<open>
  The reconciliation worker: it takes the tenant's lock, claims the next pending job, reconciles a
  user group's population, recomputes every active user in batches and finalizes the job.  Batches
  are separate queries, so each sees the users table as it is then.
\<close>

datatype worker_error = Sync_error sync_error | Job_table job_error

record job_world =
  jw_sync :: sync_world
  jw_jobs :: "sync_job list"

record worker_env =
  wk_proj :: projection_env
  wk_kb :: "tenant \<Rightarrow> uuid \<Rightarrow> string"
  wk_pg :: pg_types
  wk_start :: timestamp
  wk_end :: timestamp
  wk_iso :: string
  wk_users :: "nat \<Rightarrow> app_user list"
  wk_error_name :: "worker_error \<Rightarrow> string"
  wk_error_message :: "worker_error \<Rightarrow> string"
  wk_error_stack :: "worker_error \<Rightarrow> string option"

type_synonym 'a worker_op = "(worker_error + 'a) \<times> job_world"

definition wk_tenant :: "worker_env \<Rightarrow> tenant" where
  "wk_tenant env = pe_tenant (wk_proj env)"

definition jw_db :: "job_world \<Rightarrow> authz_db" where
  "jw_db w = aw_db (sw_authz (jw_sync w))"

definition with_authz :: "authz_world \<Rightarrow> job_world \<Rightarrow> job_world" where
  "with_authz a w = w\<lparr> jw_sync := (jw_sync w)\<lparr> sw_authz := a \<rparr> \<rparr>"

definition with_db :: "authz_db \<Rightarrow> job_world \<Rightarrow> job_world" where
  "with_db db w = with_authz ((sw_authz (jw_sync w))\<lparr> aw_db := db \<rparr>) w"

definition job_write :: "(sync_job list \<Rightarrow> job_error + sync_job list) \<Rightarrow> job_world \<Rightarrow> worker_error + job_world" where
  "job_write f w =
    (case f (jw_jobs w) of Inl e \<Rightarrow> Fail (Job_table e) | Inr js \<Rightarrow> Ok (w\<lparr> jw_jobs := js \<rparr>))"

definition HIGH_IMPACT_USER_THRESHOLD :: nat where "HIGH_IMPACT_USER_THRESHOLD = 500"
definition LONG_RUNNING_SYNC_THRESHOLD_MS :: int where "LONG_RUNNING_SYNC_THRESHOLD_MS = 30000"
definition batchSize :: nat where "batchSize = 500"

section \<open>Matching and the batches\<close>

text \<open>The employees a matching query returns; one row the query fails on makes it fail.\<close>

definition getMatchedEmployeeIds ::
  "pg_types \<Rightarrow> tenant \<Rightarrow> matching_rule \<Rightarrow> employee_reference list \<Rightarrow> sync_error + uuid list" where
  "getMatchedEmployeeIds pg t rule es =
    (if list_all (\<lambda>e. is_ok (query_selects pg t rule e)) es
     then Ok (map emp_id (filter (\<lambda>e. emp_tenant e = t \<and> query_selects pg t rule e = Ok True) es))
     else Fail Query_failed)"

fun recompute_each :: "worker_env \<Rightarrow> app_user list \<Rightarrow> authz_world \<Rightarrow> (sync_error + unit) \<times> authz_world" where
  "recompute_each env [] a = (Ok (), a)"
| "recompute_each env (u # us) a =
    (case recomputeUserEffectiveRoles (wk_kb env) (wk_proj env) (usr_id u) a of
       (Inl e, a1) \<Rightarrow> (Fail (Projection_failed e), a1)
     | (Inr r, a1) \<Rightarrow> recompute_each env us a1)"

function process_batches :: "worker_env \<Rightarrow> uuid \<Rightarrow> nat \<Rightarrow> nat \<Rightarrow> job_world \<Rightarrow> nat worker_op" where
  "process_batches env i tot n w =
    (if n < tot
     then (let us = findBatchWithEmployee (wk_tenant env) n batchSize (wk_users env n) in
           if us = [] then (Ok n, w)
           else (let (res, a) = recompute_each env us (sw_authz (jw_sync w)); w1 = with_authz a w in
                 case res of
                   Inl e \<Rightarrow> (Fail (Sync_error e), w1)
                 | Inr _ \<Rightarrow>
                     (case job_write (updateProgress (wk_start env) i (n + length us) tot) w1 of
                        Inl e \<Rightarrow> (Fail e, w1)
                      | Inr w2 \<Rightarrow> process_batches env i tot (n + length us) w2)))
     else (Ok n, w))"
  by pat_completeness auto

termination
  by (relation "measure (\<lambda>(env, i, tot, n, w). tot - n)") (auto simp: length_greater_0_conv[symmetric] simp del: length_greater_0_conv)

declare process_batches.simps [simp del]

section \<open>One job\<close>

definition reconcile_job_group :: "worker_env \<Rightarrow> sync_job \<Rightarrow> job_world \<Rightarrow> unit worker_op" where
  "reconcile_job_group env j w =
    (if sj_sourceType j \<noteq> Src_user_group then (Ok (), w)
     else (case tenant_group (wk_tenant env) (sj_sourceId j) (jw_db w) of
             None \<Rightarrow> (Ok (), w)
           | Some g \<Rightarrow>
               (case getMatchedEmployeeIds (wk_pg env) (sj_tenant j) (group_matchingRule g) (sw_employees (jw_sync w)) of
                  Inl e \<Rightarrow> (Fail (Sync_error e), w)
                | Inr ids \<Rightarrow>
                    (case reconcileGroupPopulation (wk_proj env) (sj_sourceId j) ids (sj_sourceVersion j) (jw_db w) of
                       (Inl e, db) \<Rightarrow> (Fail (Sync_error e), with_db db w)
                     | (Inr r, db) \<Rightarrow> (Ok (), with_db db w)))))"

definition job_duration :: "worker_env \<Rightarrow> sync_job \<Rightarrow> int" where
  "job_duration env j = (case sj_startedAt j of None \<Rightarrow> 0 | Some t \<Rightarrow> max 0 (wk_end env - t))"

definition completed_data :: "worker_env \<Rightarrow> sync_job \<Rightarrow> nat \<Rightarrow> nat \<Rightarrow> sync_completed_data" where
  "completed_data env j tot n =
    (let d = job_duration env j; high = n \<ge> HIGH_IMPACT_USER_THRESHOLD; long = d \<ge> LONG_RUNNING_SYNC_THRESHOLD_MS
     in \<lparr> scd_totalUsers = Some (int tot), scd_processedUsers = int n, scd_affectedUsers = Some (int n),
          scd_durationMs = Some d, scd_isHighImpact = Some high, scd_isLongRunning = Some long,
          scd_requiresEmail = Some (high \<or> long) \<rparr>)"

definition job_ctx :: "sync_job \<Rightarrow> outbox_context" where
  "job_ctx j = \<lparr> ctx_tenant = sj_tenant j, ctx_userId = sj_createdBy j \<rparr>"

definition advance_projection :: "worker_env \<Rightarrow> sync_job \<Rightarrow> authz_db \<Rightarrow> authz_db" where
  "advance_projection env j db =
    (case sj_sourceType j of
       Src_user_group \<Rightarrow> group_updateProjectionVersion (wk_tenant env) (sj_sourceId j) (sj_sourceVersion j) db
     | Src_role \<Rightarrow> role_updateProjectionVersion (sj_tenant j) (sj_sourceId j) (sj_sourceVersion j) db
     | Src_other x \<Rightarrow> db)"

definition finalize_job :: "worker_env \<Rightarrow> sync_job \<Rightarrow> nat \<Rightarrow> nat \<Rightarrow> job_world \<Rightarrow> worker_error + job_world" where
  "finalize_job env j tot n w =
    and_then (job_write (markCompleted (wk_end env) (sj_id j) n) w) (\<lambda>w1.
      Ok (with_db (save_outbox (fromAuthorizationSyncCompleted (wk_iso env) (job_ctx j) (job_event_data j)
                     (completed_data env j tot n))
                   (advance_projection env j (jw_db w1))) w1))"

definition executeJob :: "worker_env \<Rightarrow> sync_job \<Rightarrow> job_world \<Rightarrow> unit worker_op" where
  "executeJob env j w =
    (let tot = countActive (wk_tenant env) (sw_users (jw_sync w)) in
     case job_write (updateProgress (wk_start env) (sj_id j) 0 tot) w of
       Inl e \<Rightarrow> (Fail e, w)
     | Inr w1 \<Rightarrow>
         (case reconcile_job_group env j w1 of
            (Inl e, w2) \<Rightarrow> (Fail e, w2)
          | (Inr _, w2) \<Rightarrow>
              (case process_batches env (sj_id j) tot 0 w2 of
                 (Inl e, w3) \<Rightarrow> (Fail e, w3)
               | (Inr n, w3) \<Rightarrow>
                   (case finalize_job env j tot n w3 of
                      Inl e \<Rightarrow> (Fail e, w3)
                    | Inr w4 \<Rightarrow> (Ok (), w4)))))"

text \<open>\<^verbatim>\<open>error.name || 'SYNC_EXECUTION_ERROR'\<close>; name, message and stack of an error are parameters.\<close>

definition or_text :: "string \<Rightarrow> string \<Rightarrow> string" where
  "or_text s d = (if s = [] then d else s)"

definition failure_details :: "worker_env \<Rightarrow> worker_error \<Rightarrow> json" where
  "failure_details env e =
    JObj [(''code'', JStr (or_text (wk_error_name env e) ''SYNC_EXECUTION_ERROR'')),
          (''message'', JStr (or_text (wk_error_message env e) ''Unknown synchronization failure'')),
          (''stack'', jopt (wk_error_stack env e))]"

definition failed_data :: "worker_env \<Rightarrow> sync_job \<Rightarrow> worker_error \<Rightarrow> sync_failed_data" where
  "failed_data env j e =
    \<lparr> sfd_failureReason = None, sfd_sanitizedErrorCode = None, sfd_sanitizedErrorDetails = None,
      sfd_failedAfterRetries = None, sfd_priority = None,
      sfd_totalUsers = Some (case sj_totalUsers j of None \<Rightarrow> 0 | Some n \<Rightarrow> int n),
      sfd_processedUsers = Some (int (sj_processedUsers j)), sfd_durationMs = Some (job_duration env j),
      sfd_errorCode = Some (or_text (wk_error_name env e) ''SYNC_EXECUTION_ERROR''),
      sfd_errorMessage = Some (or_text (wk_error_message env e) ''Unknown synchronization failure''),
      sfd_errorDetails = Some (failure_details env e), sfd_requiresEmail = None \<rparr>"

definition handleJobFailure :: "worker_env \<Rightarrow> sync_job \<Rightarrow> worker_error \<Rightarrow> job_world \<Rightarrow> worker_error + job_world" where
  "handleJobFailure env j e w =
    and_then (job_write (markFailed (wk_end env) (sj_id j) (failure_details env e)) w) (\<lambda>w1.
      Ok (with_db (save_outbox (fromAuthorizationSyncFailed (wk_iso env) (job_ctx j) (job_event_data j) (failed_data env j e))
                   (jw_db w1)) w1))"

definition run_next_job :: "worker_env \<Rightarrow> tenant \<Rightarrow> job_world \<Rightarrow> bool worker_op" where
  "run_next_job env t w =
    (case claimNextPendingJob (wk_start env) t (jw_jobs w) of
       Inl e \<Rightarrow> (Fail (Job_table e), w)
     | Inr (None, js) \<Rightarrow> (Ok False, w)
     | Inr (Some j, js) \<Rightarrow>
         (case executeJob env j (w\<lparr> jw_jobs := js \<rparr>) of
            (Inr _, w1) \<Rightarrow> (Ok True, w1)
          | (Inl e, w1) \<Rightarrow>
              (case handleJobFailure env j e w1 of Inl e' \<Rightarrow> (Fail e', w1) | Inr w2 \<Rightarrow> (Ok True, w2))))"

text \<open>
  \<^verbatim>\<open>s\<close> and \<^verbatim>\<open>s'\<close> are the connections of the two lock queries, which the pool chooses.
\<close>

definition processNextJob ::
  "worker_env \<Rightarrow> nat \<Rightarrow> nat \<Rightarrow> tenant \<Rightarrow> advisory_locks \<Rightarrow> job_world \<Rightarrow> (worker_error + bool) \<times> advisory_locks \<times> job_world" where
  "processNextJob env s s' t ls w =
    (let key = GenerateAuthzWorkerLockKey t; (acquired, ls1) = acquireLock True s key ls in
     if \<not> acquired then (Ok False, ls1, w)
     else (let (res, w1) = run_next_job env t w; (_, ls2) = releaseLock True s' key ls1 in (res, ls2, w1)))"

definition handleAuthorizationSyncRequested ::
  "worker_env \<Rightarrow> nat \<Rightarrow> nat \<Rightarrow> string option \<Rightarrow> advisory_locks \<Rightarrow> job_world \<Rightarrow> (worker_error + unit) \<times> advisory_locks \<times> job_world" where
  "handleAuthorizationSyncRequested env s s' t ls w =
    (case or_null t of
       None \<Rightarrow> (Ok (), ls, w)
     | Some x \<Rightarrow> (let (res, ls', w') = processNextJob env s s' x ls w in (map_sum id (\<lambda>_. ()) res, ls', w')))"

end
