(* ===== verification/Impact_Analysis.thy ===== *)
theory Impact_Analysis
  imports Sync_Worker
begin

text \<open>
  Previews: the population a draft rule would match, the difference it would make to a group, and
  the impact of a proposed change to a role or a group with the warning about administrators who
  would be lost.  Previews read and never write.
\<close>

record preview_env =
  pv_projection :: projection_env
  pv_group :: group_env
  pv_queries_ok :: bool
  pv_pg :: pg_types

datatype preview_error =
    Preview_role_missing uuid
  | Preview_group group_error
  | Preview_population sync_error

definition pv_tenant :: "preview_env \<Rightarrow> tenant" where
  "pv_tenant env = pe_tenant (pv_projection env)"

definition preview_group :: "preview_env \<Rightarrow> uuid \<Rightarrow> authz_db \<Rightarrow> preview_error + user_group" where
  "preview_group env i db =
    (case group_required ((pv_group env)\<lparr> ge_tenant := pv_tenant env \<rparr>) i db of
       Inl e \<Rightarrow> Inl (Preview_group e) | Inr g \<Rightarrow> Inr g)"

definition preview_rule :: "matching_rule \<Rightarrow> preview_error + string list" where
  "preview_rule r = (case check_rule r of Inl e \<Rightarrow> Inl (Preview_group e) | Inr ks \<Rightarrow> Inr ks)"

definition preview_matched :: "preview_env \<Rightarrow> matching_rule \<Rightarrow> sync_world \<Rightarrow> preview_error + uuid list" where
  "preview_matched env r w =
    (case getMatchedEmployeeIds (pv_pg env) (pv_tenant env) r (sw_employees w) of
       Inl e \<Rightarrow> Inl (Preview_population e) | Inr is \<Rightarrow> Inr is)"

section \<open>Draft rules\<close>

record preview_matching =
  pm_matchedCount :: nat
  pm_sampleEmployees :: "employee_reference list"

definition previewCriteriaPopulation ::
  "preview_env \<Rightarrow> matching_rule \<Rightarrow> sync_world \<Rightarrow> preview_error + preview_matching" where
  "previewCriteriaPopulation env r w =
    and_then (preview_rule r) (\<lambda>_.
    and_then (preview_matched env r w) (\<lambda>matched.
      if matched = [] then Inr \<lparr> pm_matchedCount = 0, pm_sampleEmployees = [] \<rparr>
      else Inr \<lparr> pm_matchedCount = length matched,
                 pm_sampleEmployees = emp_findByIds (pv_tenant env) (take 10 matched) (sw_employees w) \<rparr>))"

record criteria_impact =
  ci_currentCount :: nat
  ci_proposedCount :: nat
  ci_gainingCount :: nat
  ci_losingCount :: nat

fun count_missing :: "uuid list \<Rightarrow> uuid list \<Rightarrow> nat" where
  "count_missing [] ys = 0"
| "count_missing (x # xs) ys = (if x \<notin> set ys then 1 else 0) + count_missing xs ys"

definition estimateCriteriaDiff ::
  "preview_env \<Rightarrow> uuid \<Rightarrow> matching_rule \<Rightarrow> sync_world \<Rightarrow> preview_error + criteria_impact" where
  "estimateCriteriaDiff env i r w =
    and_then (preview_group env i (aw_db (sw_authz w))) (\<lambda>g.
    and_then (preview_rule r) (\<lambda>_.
      let currentMemberIds = findMemberEmployeeIdsByGroup (pv_tenant env) (group_id g) (aw_db (sw_authz w)) in
      and_then (preview_matched env r w) (\<lambda>proposedMemberIds.
        let currentSet = js_set_of currentMemberIds; proposedSet = js_set_of proposedMemberIds in
        Inr \<lparr> ci_currentCount = length currentMemberIds, ci_proposedCount = length proposedMemberIds,
              ci_gainingCount = count_missing proposedSet currentSet,
              ci_losingCount = count_missing currentSet proposedSet \<rparr>)))"

section \<open>Coverage of the administrators\<close>

record coverage_loss_warning =
  cl_capabilityCode :: string
  cl_priorHoldersCount :: nat
  cl_projectedHoldersCount :: nat
  cl_isCriticalLoss :: bool

definition capability_code :: "role \<Rightarrow> string" where
  "capability_code r = (case role_systemKey r of Some k \<Rightarrow> system_role_key_string k | None \<Rightarrow> role_name r)"

definition loss_warning :: "role \<Rightarrow> nat \<Rightarrow> coverage_loss_warning" where
  "loss_warning r prior =
    \<lparr> cl_capabilityCode = capability_code r, cl_priorHoldersCount = prior, cl_projectedHoldersCount = 0,
      cl_isCriticalLoss = True \<rparr>"

fun coverage_loss ::
  "preview_env \<Rightarrow> authz_db \<Rightarrow> uuid option \<Rightarrow> uuid option \<Rightarrow> role list \<Rightarrow> coverage_loss_warning option" where
  "coverage_loss env db targetRole removedGroup [] = None"
| "coverage_loss env db targetRole removedGroup (r # rs) =
    (let prior = countActiveHoldersByRoleId (pv_projection env) (role_id r) db in
     if targetRole = Some (role_id r) \<and> 0 < prior then Some (loss_warning r prior)
     else (case removedGroup of
        Some g \<Rightarrow>
          (if 0 < prior \<and> countActiveHoldersExcludingSourceGroup (pv_projection env) (role_id r) g db = 0
           then Some (loss_warning r prior)
           else coverage_loss env db targetRole removedGroup rs)
      | None \<Rightarrow> coverage_loss env db targetRole removedGroup rs))"

definition checkCriticalCapabilityCoverageLoss ::
  "preview_env \<Rightarrow> authz_db \<Rightarrow> uuid option \<Rightarrow> uuid option \<Rightarrow> coverage_loss_warning option" where
  "checkCriticalCapabilityCoverageLoss env db targetRole removedGroup =
    coverage_loss env db targetRole removedGroup (findActiveBuiltInAdminRoles (pv_tenant env) db)"

section \<open>The previews\<close>

definition DEFAULT_HIGH_IMPACT_THRESHOLD :: int where
  "DEFAULT_HIGH_IMPACT_THRESHOLD = 100"

record impact_estimate =
  ie_usersGaining :: int
  ie_usersLosing :: int
  ie_totalAffected :: int
  ie_isHighImpact :: bool
  ie_threshold :: int
  ie_isEstimated :: bool

datatype impact_target = Role_impact uuid | Group_impact uuid

record impact_analysis =
  ia_target :: impact_target
  ia_estimate :: impact_estimate
  ia_coverageLoss :: "coverage_loss_warning option"
  ia_requiresConfirmation :: bool

record preview_role_dto =
  prd_status :: "role_status option"

record preview_group_dto =
  pgd_matchingRule :: "matching_rule option"
  pgd_scopeType :: "string option"
  pgd_scopeRefId :: "string option"
  pgd_status :: "group_status option"

definition impact_of_counts :: "int \<Rightarrow> int \<Rightarrow> int \<Rightarrow> int \<Rightarrow> impact_estimate" where
  "impact_of_counts gaining losing affected threshold =
    \<lparr> ie_usersGaining = gaining, ie_usersLosing = losing, ie_totalAffected = affected,
      ie_isHighImpact = (affected \<ge> threshold), ie_threshold = threshold, ie_isEstimated = False \<rparr>"

definition previewRoleImpact ::
  "preview_env \<Rightarrow> uuid \<Rightarrow> preview_role_dto \<Rightarrow> int \<Rightarrow> authz_db \<Rightarrow> preview_error + impact_analysis" where
  "previewRoleImpact env i dto threshold db =
    (case role_find (pv_tenant env) i db of
       None \<Rightarrow> Inl (Preview_role_missing i)
     | Some r \<Rightarrow>
         (let reachCount = countActiveUserReach (pv_queries_ok env) (pv_tenant env) (role_id r) db;
              coverageLoss = checkCriticalCapabilityCoverageLoss env db (Some (role_id r)) None;
              estimate = impact_of_counts 0 (if prd_status dto = Some Role_inactive then reachCount else 0)
                reachCount threshold
          in Inr \<lparr> ia_target = Role_impact i, ia_estimate = estimate, ia_coverageLoss = coverageLoss,
                   ia_requiresConfirmation = ie_isHighImpact estimate \<rparr>))"

definition preview_scope :: "preview_group_dto \<Rightarrow> preview_error + unit" where
  "preview_scope dto =
    (case pgd_scopeType dto of
       Some (c # cs) \<Rightarrow>
         (case validateScope (c # cs) (pgd_scopeRefId dto) of Inl e \<Rightarrow> Inl (Preview_group e) | Inr _ \<Rightarrow> Inr ())
     | _ \<Rightarrow> Inr ())"

definition preview_counts ::
  "preview_env \<Rightarrow> user_group \<Rightarrow> preview_group_dto \<Rightarrow> sync_world \<Rightarrow> preview_error + int \<times> int \<times> int" where
  "preview_counts env g dto w =
    (case pgd_matchingRule dto of
       Some r \<Rightarrow>
         and_then (estimateCriteriaDiff env (group_id g) r w) (\<lambda>diff.
           Inr (int (ci_gainingCount diff), int (ci_losingCount diff),
                int (ci_gainingCount diff) + int (ci_losingCount diff)))
     | None \<Rightarrow>
         (let memberCount = countByGroup ((pv_group env)\<lparr> ge_tenant := pv_tenant env \<rparr>) (group_id g)
                (aw_db (sw_authz w))
          in Inr (0, if pgd_status dto = Some Group_inactive then memberCount else 0, memberCount)))"

definition previewUserGroupImpact ::
  "preview_env \<Rightarrow> uuid \<Rightarrow> preview_group_dto \<Rightarrow> int \<Rightarrow> sync_world \<Rightarrow> preview_error + impact_analysis" where
  "previewUserGroupImpact env i dto threshold w =
    and_then (preview_group env i (aw_db (sw_authz w))) (\<lambda>g.
    and_then (case pgd_matchingRule dto of None \<Rightarrow> Inr [] | Some r \<Rightarrow> preview_rule r) (\<lambda>_.
    and_then (preview_scope dto) (\<lambda>_.
    and_then (preview_counts env g dto w) (\<lambda>(gaining, losing, affected).
      (let estimate = impact_of_counts gaining losing affected threshold
       in Inr \<lparr> ia_target = Group_impact i, ia_estimate = estimate,
                ia_coverageLoss = checkCriticalCapabilityCoverageLoss env (aw_db (sw_authz w)) None (Some (group_id g)),
                ia_requiresConfirmation = ie_isHighImpact estimate \<rparr>)))))"

end
