(* ===== verification/Membership_Properties.thy ===== *)
theory Membership_Properties
  imports Membership_Sync Effective_Roles_Properties
begin

text \<open>
  What a reconciliation leaves: the memberships become the targets, and the grants of the users it
  touched become those of their active groups.  A group's population is compared by employee
  identifiers with memberships that hold user identifiers.
\<close>

section \<open>Invariant of the grants\<close>

definition grants_ok :: "projection_env \<Rightarrow> authz_db \<Rightarrow> bool" where
  "grants_ok env db \<longleftrightarrow>
     distinct (map uer_id (t_effective_roles db)) \<and> (\<forall>u. distinct (map row_key (user_rows env u db)))"

definition group_refs_canonical :: "projection_env \<Rightarrow> authz_db \<Rightarrow> bool" where
  "group_refs_canonical env db \<longleftrightarrow>
     (\<forall>g \<in> set (t_groups db). case or_null (group_scopeRefId g) of None \<Rightarrow> True | Some x \<Rightarrow> pe_uuid env x = Some x)"

lemma tenant_group_SomeD: "tenant_group t i db = Some g \<Longrightarrow> g \<in> set (t_groups db) \<and> group_id g = i \<and> group_tenant g = t"
  by (auto simp: tenant_group_def dest: find_SomeD)

lemma group_grants_canonical: "group_refs_canonical env db \<Longrightarrow> canonical_refs env (group_grants t db i)"
  by (cases "tenant_group t i db")
     (auto simp: group_grants_def canonical_refs_def list_all_iff group_refs_canonical_def dest!: tenant_group_SomeD)

lemma targets_canonical: "group_refs_canonical env db \<Longrightarrow> canonical_refs env (concat (map (group_grants t db) is))"
  using group_grants_canonical by (fastforce simp: canonical_refs_def list_all_iff)

lemma user_rows_other: "v \<noteq> u \<Longrightarrow> user_rows env v db = filter (\<lambda>r. uer_userId r = v \<and> uer_tenant r = pe_tenant env) (other_rows env u db)"
  unfolding user_rows_def other_rows_def filter_filter by (rule filter_cong[OF refl]) auto

definition same_links :: "authz_db \<Rightarrow> authz_db \<Rightarrow> bool" where
  "same_links db db' \<longleftrightarrow>
     t_groups db' = t_groups db \<and> t_group_roles db' = t_group_roles db \<and> t_memberships db' = t_memberships db"

text \<open>Synchronizing one user keeps the invariant and the other users' rows.\<close>

lemma sync_one_user:
  assumes "grants_ok env db" "canonical_refs env ts" "fresh_ids env"
  shows "\<exists>ins del db'. syncEffectiveRolesForUser env u ts db = (Ok (ins, del), db') \<and> grants_ok env db' \<and>
     row_key ` set (user_rows env u db') = entry_key ` set ts \<and> same_links db db' \<and>
     (\<forall>v. v \<noteq> u \<longrightarrow> user_rows env v db' = user_rows env v db)"
proof -
  have "projection_ok env u db" using assms(1) by (simp add: grants_ok_def projection_ok_def)
  from sync_exact[OF this assms(2,3)] obtain ins del db' where
    s: "syncUserEffectiveRoles env u ts db = (Ok (ins, del), db')"
       "row_key ` set (user_rows env u db') = entry_key ` set ts"
       "distinct (map row_key (user_rows env u db'))" "other_rows env u db' = other_rows env u db"
       "distinct (map uer_id (t_effective_roles db'))" "t_groups db' = t_groups db"
       "t_group_roles db' = t_group_roles db" "t_memberships db' = t_memberships db" by blast
  have others: "\<forall>v. v \<noteq> u \<longrightarrow> user_rows env v db' = user_rows env v db"
    using s(4) by (simp add: user_rows_other)
  have "distinct (map row_key (user_rows env v db'))" for v
    using s(3) others assms(1) by (cases "v = u") (auto simp: grants_ok_def)
  then show ?thesis using s others by (auto simp: syncEffectiveRolesForUser_def grants_ok_def same_links_def)
qed

lemma group_grants_cong:
  assumes "t_groups db' = t_groups db" "t_group_roles db' = t_group_roles db"
  shows "group_grants t db' = group_grants t db"
proof
  fix i
  have "tenant_group t i db' = tenant_group t i db" "roles_of_group t i db' = roles_of_group t i db"
    using assms by (simp_all add: tenant_group_def roles_of_group_def)
  then show "group_grants t db' i = group_grants t db i"
    by (simp only: group_grants_def)
qed

lemma same_links_grants: "same_links db db' \<Longrightarrow> group_grants t db' = group_grants t db"
  by (rule group_grants_cong) (simp_all add: same_links_def)

lemma same_links_targets:
  assumes "same_links db db'"
  shows "recompute_targets t u db' = recompute_targets t u db"
  unfolding recompute_targets_def findByUserId_def same_links_grants[OF assms]
  using assms by (simp add: same_links_def)

section \<open>One user\<close>

lemma fold_delete_memberships:
  "t_memberships (fold (\<lambda>g. deleteSingleMembership t u g) gs db) =
     filter (\<lambda>m. \<not> (mem_tenant m = t \<and> mem_userId m = u \<and> mem_groupId m \<in> set gs)) (t_memberships db)"
  by (induction gs arbitrary: db) (auto simp: deleteSingleMembership_def delete_rows_def filter_filter intro: filter_cong)

lemma fold_insert_memberships:
  "t_memberships (fold (\<lambda>g. insert_membership t g u) gs db) =
     t_memberships db @ map (\<lambda>g. \<lparr> mem_tenant = t, mem_groupId = g, mem_userId = u \<rparr>) gs"
  by (induction gs arbitrary: db) (simp_all add: insert_membership_def)

lemma fold_memberships_tables:
  "t_groups (reconcile_memberships t u a r db) = t_groups db \<and>
   t_group_roles (reconcile_memberships t u a r db) = t_group_roles db \<and>
   t_effective_roles (reconcile_memberships t u a r db) = t_effective_roles db"
proof -
  have "t_groups (fold (\<lambda>g. deleteSingleMembership t u g) gs d) = t_groups d \<and>
      t_group_roles (fold (\<lambda>g. deleteSingleMembership t u g) gs d) = t_group_roles d \<and>
      t_effective_roles (fold (\<lambda>g. deleteSingleMembership t u g) gs d) = t_effective_roles d" for gs d
    by (induction gs arbitrary: d) (simp_all add: deleteSingleMembership_def)
  moreover have "t_groups (fold (\<lambda>g. insert_membership t g u) gs d) = t_groups d \<and>
      t_group_roles (fold (\<lambda>g. insert_membership t g u) gs d) = t_group_roles d \<and>
      t_effective_roles (fold (\<lambda>g. insert_membership t g u) gs d) = t_effective_roles d" for gs d
    by (induction gs arbitrary: d) (simp_all add: insert_membership_def)
  ultimately show ?thesis by (simp add: reconcile_memberships_def)
qed

lemma reconciled_memberships:
  fixes added removed ts db t u
  defines "cur \<equiv> js_set_of (findByUserId t u db)"
  assumes "added = filter (\<lambda>g. g \<notin> set cur) (js_set_of ts)" and "removed = filter (\<lambda>g. g \<notin> set ts) cur"
  shows "set (findByUserId t u (reconcile_memberships t u added removed db)) = set ts"
    and "v \<noteq> u \<Longrightarrow> findByUserId t v (reconcile_memberships t u added removed db) = findByUserId t v db"
proof -
  let ?m = "t_memberships (reconcile_memberships t u added removed db)"
  have m: "?m = filter (\<lambda>m. \<not> (mem_tenant m = t \<and> mem_userId m = u \<and> mem_groupId m \<in> set removed))
      (t_memberships db @ map (\<lambda>g. \<lparr> mem_tenant = t, mem_groupId = g, mem_userId = u \<rparr>) added)"
    by (simp add: reconcile_memberships_def fold_delete_memberships fold_insert_memberships)
  have mem: "g \<in> set (findByUserId t u d) \<longleftrightarrow> (\<exists>m \<in> set (t_memberships d). mem_groupId m = g \<and> mem_userId m = u \<and> mem_tenant m = t)" for g d
    by (auto simp: findByUserId_def)
  have "(\<exists>m \<in> set ?m. mem_groupId m = g \<and> mem_userId m = u \<and> mem_tenant m = t) \<longleftrightarrow>
      ((\<exists>m \<in> set (t_memberships db). mem_groupId m = g \<and> mem_userId m = u \<and> mem_tenant m = t) \<or> g \<in> set added) \<and>
      g \<notin> set removed" for g
  proof -
    have new: "(\<exists>m \<in> set (map (\<lambda>g. \<lparr> mem_tenant = t, mem_groupId = g, mem_userId = u \<rparr>) xs).
        mem_groupId m = g \<and> mem_userId m = u \<and> mem_tenant m = t) \<longleftrightarrow> g \<in> set xs" for xs
      by (induction xs) auto
    show ?thesis unfolding m set_filter set_append new[of added, symmetric] by blast
  qed
  then have "g \<in> set (findByUserId t u (reconcile_memberships t u added removed db)) \<longleftrightarrow>
      (g \<in> set cur \<or> g \<in> set added) \<and> g \<notin> set removed" for g
    unfolding cur_def set_js_set_of mem .
  then show "set (findByUserId t u (reconcile_memberships t u added removed db)) = set ts"
    using assms(2,3) by auto
  assume v: "v \<noteq> u"
  have fresh_rows: "filter (\<lambda>m. mem_userId m = v \<and> mem_tenant m = t)
      (map (\<lambda>g. \<lparr> mem_tenant = t, mem_groupId = g, mem_userId = u \<rparr>) added) = []"
    using v by (simp add: filter_empty_conv)
  have old_rows: "filter (\<lambda>m. \<not> (mem_tenant m = t \<and> mem_userId m = u \<and> mem_groupId m \<in> set removed) \<and>
        mem_userId m = v \<and> mem_tenant m = t) xs =
      filter (\<lambda>m. mem_userId m = v \<and> mem_tenant m = t) xs" for xs
    using v by (intro filter_cong refl) auto
  show "findByUserId t v (reconcile_memberships t u added removed db) = findByUserId t v db"
    unfolding findByUserId_def m filter_filter filter_append old_rows fresh_rows by simp
qed

text \<open>
  Under canonical references and distinct grants, reconciling one user with a list of groups
  succeeds and the user is then a member of exactly these groups, while no other user's memberships
  or grants change.  If the memberships differed before, the user's grants have exactly the keys of
  the active groups' roles and one audit event is recorded; if they did not, nothing is written,
  so grants that were stale stay stale.
\<close>

theorem single_reconciliation_exact:
  assumes ok: "grants_ok env (aw_db w)" and refs: "group_refs_canonical env (aw_db w)" and fresh: "fresh_ids env"
  shows "\<exists>r w'. reconcileSingleUser env now u ts w = (Ok r, w') \<and> grants_ok env (aw_db w') \<and>
    set (findByUserId (pe_tenant env) u (aw_db w')) = set ts \<and>
    set (sr_added r) = set ts - set (findByUserId (pe_tenant env) u (aw_db w)) \<and>
    set (sr_removed r) = set (findByUserId (pe_tenant env) u (aw_db w)) - set ts \<and>
    (\<forall>v. v \<noteq> u \<longrightarrow> user_rows env v (aw_db w') = user_rows env v (aw_db w) \<and>
       findByUserId (pe_tenant env) v (aw_db w') = findByUserId (pe_tenant env) v (aw_db w)) \<and>
    (if set (findByUserId (pe_tenant env) u (aw_db w)) = set ts then w' = w
     else row_key ` set (user_rows env u (aw_db w')) =
            entry_key ` set (concat (map (group_grants (pe_tenant env) (aw_db w)) ts)) \<and>
          length (aw_outbox w') = length (aw_outbox w) + 1)"
proof -
  let ?t = "pe_tenant env" and ?db = "aw_db w"
  define cur where "cur = js_set_of (findByUserId ?t u ?db)"
  define added where "added = filter (\<lambda>g. g \<notin> set cur) (js_set_of ts)"
  define removed where "removed = filter (\<lambda>g. g \<notin> set ts) cur"
  have sets: "set added = set ts - set (findByUserId ?t u ?db)" "set removed = set (findByUserId ?t u ?db) - set ts"
    by (auto simp: added_def removed_def cur_def)
  have same: "added = [] \<and> removed = [] \<longleftrightarrow> set (findByUserId ?t u ?db) = set ts"
    using sets by (metis Diff_eq_empty_iff set_empty subset_antisym subset_refl)
  show ?thesis
  proof (cases "added = [] \<and> removed = []")
    case True
    then have "reconcileSingleUser env now u ts w = (Ok \<lparr> sr_userId = u, sr_added = [], sr_removed = [], sr_changed = False \<rparr>, w)"
      by (simp add: reconcileSingleUser_def Let_def added_def removed_def cur_def)
    then show ?thesis using True same sets ok by simp
  next
    case False
    define db1 where "db1 = reconcile_memberships ?t u added removed ?db"
    define grants where "grants = concat (map (group_grants ?t db1) ts)"
    have tables: "t_groups db1 = t_groups ?db" "t_group_roles db1 = t_group_roles ?db"
        "t_effective_roles db1 = t_effective_roles ?db"
      using fold_memberships_tables by (simp_all add: db1_def)
    have gg: "group_grants ?t db1 = group_grants ?t ?db"
      using tables by (intro group_grants_cong)
    have rows1: "user_rows env v db1 = user_rows env v ?db" for v by (simp add: user_rows_def tables)
    have "grants_ok env db1" "group_refs_canonical env db1"
      using ok refs by (simp_all add: grants_ok_def group_refs_canonical_def tables rows1)
    from sync_one_user[OF this(1) targets_canonical[OF this(2)] fresh] obtain ins del db2 where
      s: "syncEffectiveRolesForUser env u grants db1 = (Ok (ins, del), db2)" "grants_ok env db2"
         "row_key ` set (user_rows env u db2) = entry_key ` set grants" "same_links db1 db2"
         "\<forall>v. v \<noteq> u \<longrightarrow> user_rows env v db2 = user_rows env v db1"
      unfolding grants_def by blast
    let ?r = "\<lparr> sr_userId = u, sr_added = added, sr_removed = removed, sr_changed = (ins > 0 \<or> del > 0) \<rparr>"
    let ?w = "w\<lparr> aw_db := db2, aw_outbox := aw_outbox w @ [outbox_create ?t (reconciled_event now ?t u added removed ins del)] \<rparr>"
    have run: "reconcileSingleUser env now u ts w = (Ok ?r, ?w)"
      unfolding reconcileSingleUser_def Let_def cur_def[symmetric] added_def[symmetric] removed_def[symmetric]
        db1_def[symmetric] grants_def[symmetric] if_not_P[OF False] s(1) by simp
    have mem: "findByUserId ?t v db2 = findByUserId ?t v db1" for v
      using s(4) by (simp add: same_links_def findByUserId_def)
    have "set (findByUserId ?t u db2) = set ts" "\<forall>v. v \<noteq> u \<longrightarrow> findByUserId ?t v db2 = findByUserId ?t v ?db"
      using reconciled_memberships[of added ?t u ?db ts removed] added_def removed_def
      unfolding mem db1_def cur_def by blast+
    then show ?thesis using run s(2,3,5) sets same False rows1 gg by (simp add: grants_def)
  qed
qed

lemma sample_ok: "grants_ok env0 sample_db" "group_refs_canonical env0 sample_db"
  by (simp_all add: grants_ok_def user_rows_def sample_db_def group_refs_canonical_def sample_group_def env0_def or_null_def)

theorem single_reconciliation_exact_witness:
  "\<exists>r w'. reconcileSingleUser env0 ''now'' ''u1'' [] sample_world = (Ok r, w') \<and>
     set (findByUserId ''acme'' ''u1'' (aw_db w')) = {} \<and> row_key ` set (user_rows env0 ''u1'' (aw_db w')) = {}"
proof -
  have "aw_db sample_world = sample_db" by (simp add: sample_world_def)
  moreover have "set (findByUserId (pe_tenant env0) ''u1'' sample_db) \<noteq> {}"
    by (simp add: findByUserId_def sample_db_def env0_def)
  moreover have "pe_tenant env0 = ''acme''" by (simp add: env0_def)
  ultimately show ?thesis
    using single_reconciliation_exact[of env0 sample_world "''now''" "''u1''" "[]"] sample_ok growing_ids_fresh
    by (auto simp del: findByUserId_def)
qed

section \<open>A group's population\<close>

lemma group_refs_links: "same_links db db' \<Longrightarrow> group_refs_canonical env db' = group_refs_canonical env db"
  by (simp add: same_links_def group_refs_canonical_def)

lemma same_links_trans: "same_links a b \<Longrightarrow> same_links b c \<Longrightarrow> same_links a c"
  by (simp add: same_links_def)

lemma sync_each_exact:
  assumes "grants_ok env db" "group_refs_canonical env db" "fresh_ids env" "distinct us"
  shows "\<exists>db'. sync_each env us db = (Ok (), db') \<and> grants_ok env db' \<and> same_links db db' \<and>
     (\<forall>u \<in> set us. row_key ` set (user_rows env u db') = entry_key ` set (recompute_targets (pe_tenant env) u db)) \<and>
     (\<forall>v. v \<notin> set us \<longrightarrow> user_rows env v db' = user_rows env v db)"
  using assms(1,2,4)
proof (induction us arbitrary: db)
  case (Cons u us)
  let ?ts = "recompute_targets (pe_tenant env) u db"
  have "canonical_refs env ?ts"
    using targets_canonical[OF Cons(3)] by (simp add: recompute_targets_def)
  from sync_one_user[OF Cons(2) this assms(3), of u] obtain ins del db1 where
    s: "syncEffectiveRolesForUser env u ?ts db = (Ok (ins, del), db1)" "grants_ok env db1"
       "row_key ` set (user_rows env u db1) = entry_key ` set ?ts" "same_links db db1"
       "\<forall>v. v \<noteq> u \<longrightarrow> user_rows env v db1 = user_rows env v db" by blast
  have "group_refs_canonical env db1" using Cons(3) group_refs_links[OF s(4)] by simp
  from Cons(1)[OF s(2) this] Cons(4) obtain db' where
    r: "sync_each env us db1 = (Ok (), db')" "grants_ok env db'" "same_links db1 db'"
       "\<forall>v \<in> set us. row_key ` set (user_rows env v db') = entry_key ` set (recompute_targets (pe_tenant env) v db1)"
       "\<forall>v. v \<notin> set us \<longrightarrow> user_rows env v db' = user_rows env v db1" by auto
  have "sync_each env (u # us) db = (Ok (), db')" using s(1) r(1) by simp
  moreover have "\<forall>v \<in> set (u # us). row_key ` set (user_rows env v db') = entry_key ` set (recompute_targets (pe_tenant env) v db)"
    using r(4,5) s(3) Cons(4) same_links_targets[OF s(4)] by auto
  moreover have "\<forall>v. v \<notin> set (u # us) \<longrightarrow> user_rows env v db' = user_rows env v db"
    using r(5) s(5) by auto
  ultimately show ?case using r(2) same_links_trans[OF s(4) r(3)] by blast
qed (simp add: same_links_def)

lemma find_map_same:
  "(\<And>x. P (f x) = P x) \<Longrightarrow> find P (map f xs) = map_option f (find P xs)"
  by (induction xs) auto

lemma projection_version_tables [simp]:
  "t_group_roles (group_updateProjectionVersion t i v db) = t_group_roles db"
  "t_memberships (group_updateProjectionVersion t i v db) = t_memberships db"
  "t_effective_roles (group_updateProjectionVersion t i v db) = t_effective_roles db"
  "t_roles (group_updateProjectionVersion t i v db) = t_roles db"
  by (simp_all add: group_updateProjectionVersion_def)

lemma projection_version_group:
  "tenant_group t i (group_updateProjectionVersion t' j v db) =
     map_option (\<lambda>g. if group_id g = j \<and> group_tenant g = t' then g\<lparr> group_projectionVersion := v \<rparr> else g) (tenant_group t i db)"
  by (simp add: tenant_group_def group_updateProjectionVersion_def find_map_same)

lemma projection_version_grants [simp]:
  "group_grants t (group_updateProjectionVersion t' j v db) = group_grants t db"
proof
  fix i
  have "roles_of_group t i (group_updateProjectionVersion t' j v db) = roles_of_group t i db"
    by (simp add: roles_of_group_def)
  then show "group_grants t (group_updateProjectionVersion t' j v db) i = group_grants t db i"
    by (cases "tenant_group t i db") (simp_all add: group_grants_def projection_version_group)
qed

lemma projection_version_targets [simp]:
  "recompute_targets t u (group_updateProjectionVersion t' j v db) = recompute_targets t u db"
  by (simp add: recompute_targets_def findByUserId_def)

lemma projection_version_user_rows [simp]:
  "user_rows env u (group_updateProjectionVersion t' j v db) = user_rows env u db"
  by (simp add: user_rows_def)

definition group_members :: "tenant \<Rightarrow> uuid \<Rightarrow> authz_db \<Rightarrow> uuid set" where
  "group_members t g db = set (findMemberEmployeeIdsByGroup t g db)"

lemma member_iff: "u \<in> group_members t g db \<longleftrightarrow> g \<in> set (findByUserId t u db)"
  by (auto simp: group_members_def findMemberEmployeeIdsByGroup_def findByUserId_def)

lemma group_grants_source: "e \<in> set (group_grants t db i) \<Longrightarrow> grant_groupId e = i"
  by (cases "tenant_group t i db") (auto simp: group_grants_def dest: tenant_group_SomeD split: if_splits)

lemma population_memberships:
  fixes added removed matched db t g
  defines "cur \<equiv> js_set_of (findMemberEmployeeIdsByGroup t g db)"
  assumes "added = filter (\<lambda>e. e \<notin> set cur) (js_set_of matched)" and "removed = filter (\<lambda>e. e \<notin> set matched) cur"
  shows "group_members t g (mem_batchDelete t g removed (mem_batchInsert t g added db)) = set matched"
proof -
  have mem: "u \<in> group_members t g d \<longleftrightarrow> (\<exists>m \<in> set (t_memberships d). mem_userId m = u \<and> mem_groupId m = g \<and> mem_tenant m = t)" for u d
    by (auto simp: group_members_def findMemberEmployeeIdsByGroup_def)
  have new: "(\<exists>m \<in> set (map (\<lambda>u. \<lparr> mem_tenant = t, mem_groupId = g, mem_userId = u \<rparr>) xs).
      mem_userId m = u \<and> mem_groupId m = g \<and> mem_tenant m = t) \<longleftrightarrow> u \<in> set xs" for u xs
    by (induction xs) auto
  let ?db = "mem_batchDelete t g removed (mem_batchInsert t g added db)"
  have rows: "set (t_memberships ?db) = {m \<in> set (t_memberships db) \<union>
      set (map (\<lambda>u. \<lparr> mem_tenant = t, mem_groupId = g, mem_userId = u \<rparr>) added).
      \<not> (mem_tenant m = t \<and> mem_groupId m = g \<and> mem_userId m \<in> set removed)}"
    by (simp add: mem_batchDelete_def mem_batchInsert_def del: set_map)
  have "u \<in> group_members t g ?db \<longleftrightarrow> (u \<in> group_members t g db \<or> u \<in> set added) \<and> u \<notin> set removed" for u
    unfolding mem rows new[where xs = added, symmetric] by blast
  moreover have "set cur = group_members t g db" by (simp add: cur_def group_members_def)
  ultimately show ?thesis using assms(2,3) by auto
qed

lemma population_exact:
  assumes ok: "grants_ok env db" and refs: "group_refs_canonical env db" and fresh: "fresh_ids env"
    and g: "tenant_group (pe_tenant env) g db = Some grp"
  shows "\<exists>r db'. reconcileGroupPopulation env g matched v db = (Ok r, db') \<and> grants_ok env db' \<and>
    group_members (pe_tenant env) g db' = set matched \<and>
    (\<forall>u. u \<in> group_members (pe_tenant env) g db - set matched \<longrightarrow>
       row_key ` set (user_rows env u db') = entry_key ` set (recompute_targets (pe_tenant env) u db') \<and>
       g \<notin> grant_groupId ` set (recompute_targets (pe_tenant env) u db')) \<and>
    (\<forall>u. u \<in> set matched - group_members (pe_tenant env) g db \<longrightarrow>
       row_key ` set (user_rows env u db') = entry_key ` set (recompute_targets (pe_tenant env) u db')) \<and>
    (\<forall>u. (u \<in> set matched \<longleftrightarrow> u \<in> group_members (pe_tenant env) g db) \<longrightarrow> user_rows env u db' = user_rows env u db) \<and>
    tenant_group (pe_tenant env) g db' = Some (grp\<lparr> group_projectionVersion := v \<rparr>)"
proof -
  let ?t = "pe_tenant env"
  define cur where "cur = js_set_of (findMemberEmployeeIdsByGroup ?t g db)"
  define added where "added = filter (\<lambda>e. e \<notin> set cur) (js_set_of matched)"
  define removed where "removed = filter (\<lambda>e. e \<notin> set matched) cur"
  define db1 where "db1 = mem_batchDelete ?t g removed (mem_batchInsert ?t g added db)"
  have cur: "set cur = group_members ?t g db" by (simp add: cur_def group_members_def)
  have d: "distinct (added @ removed)"
    by (auto simp: added_def removed_def cur_def)
  have tables: "t_groups db1 = t_groups db" "t_group_roles db1 = t_group_roles db" "t_effective_roles db1 = t_effective_roles db"
    by (simp_all add: db1_def mem_batchDelete_def mem_batchInsert_def)
  have rows1: "user_rows env u db1 = user_rows env u db" for u by (simp add: user_rows_def tables)
  have "grants_ok env db1" "group_refs_canonical env db1"
    using ok refs by (simp_all add: grants_ok_def group_refs_canonical_def tables rows1)
  from sync_each_exact[OF this fresh d] obtain db2 where
    s: "sync_each env (added @ removed) db1 = (Ok (), db2)" "grants_ok env db2" "same_links db1 db2"
       "\<forall>u \<in> set (added @ removed). row_key ` set (user_rows env u db2) = entry_key ` set (recompute_targets ?t u db1)"
       "\<forall>u. u \<notin> set (added @ removed) \<longrightarrow> user_rows env u db2 = user_rows env u db1" by blast
  let ?db = "group_updateProjectionVersion ?t g v db2"
  let ?r = "\<lparr> pr_groupId = g, pr_added = added, pr_removed = removed, pr_total = length added + length removed \<rparr>"
  have g1: "tenant_group ?t g db1 = Some grp" using g by (simp add: tenant_group_def tables)
  have run: "reconcileGroupPopulation env g matched v db = (Ok ?r, ?db)"
    unfolding reconcileGroupPopulation_def Let_def cur_def[symmetric] added_def[symmetric] removed_def[symmetric]
      db1_def[symmetric] g1 s(1) by simp
  have members: "group_members ?t g ?db = set matched"
  proof -
    have "group_members ?t g ?db = group_members ?t g db1"
      using s(3) by (simp add: same_links_def group_members_def findMemberEmployeeIdsByGroup_def)
    then show ?thesis
      using population_memberships[of added ?t g db matched removed] added_def removed_def
      by (simp add: db1_def cur_def)
  qed
  have ts: "recompute_targets ?t u ?db = recompute_targets ?t u db1" for u
    using same_links_targets[OF s(3)] by simp
  have keys: "row_key ` set (user_rows env u ?db) = entry_key ` set (recompute_targets ?t u ?db)"
    if "u \<in> set added \<union> set removed" for u
    using s(4) that unfolding ts by simp
  have none: "g \<notin> grant_groupId ` set (recompute_targets ?t u ?db)" if u: "u \<notin> set matched" for u
  proof
    assume "g \<in> grant_groupId ` set (recompute_targets ?t u ?db)"
    then obtain i e where i: "i \<in> set (findByUserId ?t u ?db)" "e \<in> set (group_grants ?t ?db i)" "grant_groupId e = g"
      unfolding recompute_targets_def by auto
    then have "i = g" using group_grants_source by metis
    then show False using i(1) members u member_iff by blast
  qed
  have "tenant_group ?t g ?db = Some (grp\<lparr> group_projectionVersion := v \<rparr>)"
  proof -
    have "tenant_group ?t g db2 = Some grp" using g1 s(3) by (simp add: same_links_def tenant_group_def)
    then show ?thesis using tenant_group_SomeD[OF g] by (simp add: projection_version_group)
  qed
  moreover have "grants_ok env ?db" using s(2) by (simp add: grants_ok_def)
  moreover have "set removed = group_members ?t g db - set matched" "set added = set matched - group_members ?t g db"
    using cur by (auto simp: added_def removed_def)
  moreover have "user_rows env u ?db = user_rows env u db" if "u \<notin> set added \<union> set removed" for u
    using s(5) that rows1 by simp
  ultimately show ?thesis using run members keys none by (intro exI[of _ ?r] exI[of _ ?db]) auto
qed



end
