(* ===== verification/Sync_Jobs_Properties.thy ===== *)
theory Sync_Jobs_Properties
  imports Sync_Jobs Membership_Properties
begin

text \<open>
  The job table: one job in flight per source version and a bounded retry count in every reachable
  state, what enqueueing answers under races, and the coverage of a sweep.
\<close>

section \<open>Updates and the index\<close>

definition retries_ok :: "sync_job list \<Rightarrow> bool" where
  "retries_ok js = list_all (\<lambda>j. 0 \<le> sj_retryCount j \<and> sj_retryCount j \<le> maxRetries) js"

definition jobs_ok :: "sync_job list \<Rightarrow> bool" where
  "jobs_ok js = (flight_index_ok js \<and> retries_ok js)"

lemma job_update_index: "job_update now i f js = Ok js' \<Longrightarrow> flight_index_ok js'"
  by (auto simp: job_update_def Let_def split: if_splits)

lemma job_insert_index: "job_insert j js = Ok js' \<Longrightarrow> flight_index_ok js' \<and> js' = js @ [j]"
  by (auto simp: job_insert_def split: if_splits)

lemma job_update_retries:
  assumes "job_update now i f js = Ok js'" "retries_ok js"
    and "\<And>j. 0 \<le> sj_retryCount j \<Longrightarrow> sj_retryCount j \<le> maxRetries \<Longrightarrow>
           0 \<le> sj_retryCount (f j) \<and> sj_retryCount (f j) \<le> maxRetries"
  shows "retries_ok js'"
  using assms by (auto simp: job_update_def retries_ok_def list_all_iff Let_def split: if_splits)

text \<open>An update that keeps status, key and number of the rows never violates the index.\<close>

lemma flight_keys_map:
  assumes "\<And>j. in_flight (f j) = in_flight j" "\<And>j. job_key (f j) = job_key j"
  shows "map job_key (filter in_flight (map f js)) = map job_key (filter in_flight js)"
  using assms by (induction js) auto

lemma job_update_same_flight:
  assumes "flight_index_ok js" "\<And>j. in_flight (f j) = in_flight j" "\<And>j. job_key (f j) = job_key j"
  shows "job_update now i f js = Ok (map (\<lambda>j. if sj_id j = i then (f j)\<lparr> sj_updatedAt := now \<rparr> else j) js)"
proof -
  let ?g = "\<lambda>j. if sj_id j = i then (f j)\<lparr> sj_updatedAt := now \<rparr> else j"
  have "in_flight (?g j) = in_flight j" "job_key (?g j) = job_key j" for j
    using assms(2,3)[of j] by (simp_all add: in_flight_def job_key_def)
  then have "flight_index_ok (map ?g js)"
    using assms(1) flight_keys_map[of ?g js] by (simp add: flight_index_ok_def)
  then show ?thesis by (simp add: job_update_def Let_def)
qed

lemma updateProgress_ok:
  "flight_index_ok js \<Longrightarrow> updateProgress now i n m js =
     Ok (map (\<lambda>j. if sj_id j = i then j\<lparr> sj_processedUsers := n, sj_totalUsers := Some m, sj_updatedAt := now \<rparr> else j) js)"
  unfolding updateProgress_def
  by (subst job_update_same_flight) (auto simp: in_flight_def job_key_def)

text \<open>Taking rows out of flight never violates the index either.\<close>

lemma flight_index_leave_on:
  assumes "flight_index_ok js" "\<And>j. j \<in> set js \<Longrightarrow> in_flight (g j) \<Longrightarrow> in_flight j \<and> job_key (g j) = job_key j"
  shows "flight_index_ok (map g js)"
  using assms
proof (induction js)
  case (Cons j js)
  have ih: "flight_index_ok (map g js)" using Cons by (auto simp: flight_index_ok_def split: if_splits)
  have sub: "job_key ` {x \<in> g ` set js. in_flight x} \<subseteq> job_key ` {x \<in> set js. in_flight x}"
    using Cons(3) by force
  show ?case
  proof (cases "in_flight (g j)")
    case True
    then have "in_flight j" "job_key (g j) = job_key j" using Cons(3) by auto
    then have "job_key (g j) \<notin> job_key ` {x \<in> set js. in_flight x}"
      using Cons(2) by (simp add: flight_index_ok_def)
    then show ?thesis using ih sub True by (auto simp: flight_index_ok_def)
  qed (use ih in \<open>simp add: flight_index_ok_def\<close>)
qed simp

lemma job_update_leaves_flight:
  assumes "flight_index_ok js" "\<And>j. \<not> in_flight (f j)"
  shows "job_update now i f js = Ok (map (\<lambda>j. if sj_id j = i then (f j)\<lparr> sj_updatedAt := now \<rparr> else j) js)"
proof -
  have "\<not> in_flight ((f j)\<lparr> sj_updatedAt := now \<rparr>)" for j
    using assms(2)[of j] by (simp add: in_flight_def)
  then have "flight_index_ok (map (\<lambda>j. if sj_id j = i then (f j)\<lparr> sj_updatedAt := now \<rparr> else j) js)"
    by (intro flight_index_leave_on[OF assms(1)]) (simp split: if_splits)
  then show ?thesis by (simp add: job_update_def Let_def)
qed

section \<open>What enqueueing does\<close>

definition enqueue_trigger :: "enqueue_params \<Rightarrow> sync_trigger" where
  "enqueue_trigger p = (case ep_triggerType p of None \<Rightarrow> Trig_scheduled | Some x \<Rightarrow> x)"

definition enqueue_priority :: "enqueue_params \<Rightarrow> job_priority" where
  "enqueue_priority p = (case ep_priority p of None \<Rightarrow> Prio_standard | Some x \<Rightarrow> x)"

definition job_for :: "job_env \<Rightarrow> enqueue_params \<Rightarrow> int \<Rightarrow> sync_job" where
  "job_for env p sv = new_job env (ep_tenant p) (enqueue_created_by p) (ep_sourceType p) (ep_sourceId p) sv
     (enqueue_trigger p) (enqueue_priority p)"

definition queued_state :: "job_env \<Rightarrow> enqueue_params \<Rightarrow> int \<Rightarrow> sync_job list \<times> authz_db \<Rightarrow> sync_job list \<times> authz_db" where
  "queued_state env p sv st =
    (fst st @ [job_for env p sv],
     save_outbox (fromAuthorizationSyncRequested (je_iso env)
       \<lparr> ctx_tenant = ep_tenant p, ctx_userId = enqueue_created_by p \<rparr> (job_event_data (job_for env p sv))) (snd st))"

lemma enqueue_unfold:
  "enqueueSyncJob env p st0 st =
    (case resolve_versions env p (snd st0) of
       Inl e \<Rightarrow> (Fail e, st)
     | Inr (sv, pv) \<Rightarrow>
         if \<not> ep_ignoreValidateSource p \<and> sv \<le> pv
         then (Ok (completedValue (ep_tenant p) (ep_sourceType p) (ep_sourceId p) sv (enqueue_trigger p)), st)
         else (case findInFlightJob (request_tenant env) (ep_sourceType p) (ep_sourceId p) sv (fst st0) of
                 Some j \<Rightarrow> (Ok (response_fromEntity j False in_progress_message), st)
               | None \<Rightarrow>
                   if flight_index_ok (fst st @ [job_for env p sv])
                   then (Ok (response_fromEntity (job_for env p sv) False ''Authorization synchronization job queued successfully''),
                         queued_state env p sv st)
                   else (case findInFlightJob (request_tenant env) (ep_sourceType p) (ep_sourceId p) sv (fst st) of
                           Some j \<Rightarrow> (Ok (response_fromEntity j False in_progress_message), st)
                         | None \<Rightarrow> (Fail In_flight_conflict, st))))"
  unfolding enqueueSyncJob_def createSyncJobTransactional_def job_insert_def handleInFlightConflict_def
    enqueue_trigger_def[symmetric] enqueue_priority_def[symmetric] job_for_def[symmetric] queued_state_def Let_def
  by (simp split: sum.splits prod.splits option.splits)

lemma enqueue_jobs:
  assumes "enqueueSyncJob env p st0 st = (res, st')"
  shows "st' = st \<or> (\<exists>sv. flight_index_ok (fst st') \<and> fst st' = fst st @ [job_for env p sv])"
  using assms unfolding enqueue_unfold
  by (auto simp: queued_state_def split: sum.splits option.splits if_splits) blast+

section \<open>Every reachable table\<close>

text \<open>
  The table and what watchdog runs have read and not yet handled.  Every step takes the table as it
  is then, so all interleavings of requests, workers and watchdogs are covered.
\<close>

type_synonym job_state = "sync_job list \<times> sync_job list"

inductive job_step :: "job_state \<Rightarrow> job_state \<Rightarrow> bool" where
  enqueue: "enqueueSyncJob env p st0 (js, db) = (res, js', db') \<Longrightarrow> job_step (js, rd) (js', rd)"
| claim: "claimNextPendingJob now t js = Ok (j, js') \<Longrightarrow> job_step (js, rd) (js', rd)"
| progress: "updateProgress now i n m js = Ok js' \<Longrightarrow> job_step (js, rd) (js', rd)"
| complete: "markCompleted now i n js = Ok js' \<Longrightarrow> job_step (js, rd) (js', rd)"
| failed: "markFailed now i d js = Ok js' \<Longrightarrow> job_step (js, rd) (js', rd)"
| watchdog_read: "job_step (js, rd) (js, rd @ findStuckProcessingJobs now timeoutMinutes js)"
| watchdog_write: "j \<in> set rd \<Longrightarrow> reclaim_one stamp now j (js, db) = Ok (js', db') \<Longrightarrow> job_step (js, rd) (js', rd)"

inductive_cases job_stepE [elim]: "job_step s s'"

lemma reclaim_one_ok:
  assumes "reclaim_one stamp now j (js, db) = Ok (js', db')" "jobs_ok js"
    and "0 \<le> sj_retryCount j" "sj_retryCount j \<le> maxRetries"
  shows "jobs_ok js'"
proof (cases "sj_retryCount j + 1 \<le> maxRetries")
  case True
  then have u: "reclaimStuckJob now (sj_id j) (sj_retryCount j + 1) js = Ok js'"
    using assms(1) by (auto simp: reclaim_one_def Let_def)
  show ?thesis
    using job_update_index[OF u[unfolded reclaimStuckJob_def]] job_update_retries[OF u[unfolded reclaimStuckJob_def]]
      assms(2,3) True by (simp add: jobs_ok_def)
next
  case False
  then have u: "markFailed now (sj_id j) watchdog_details js = Ok js'"
    using assms(1) by (auto simp: reclaim_one_def Let_def)
  show ?thesis
    using job_update_index[OF u[unfolded markFailed_def]] job_update_retries[OF u[unfolded markFailed_def]]
      assms(2) by (simp add: jobs_ok_def)
qed

lemma claim_ok:
  assumes "claimNextPendingJob now t js = Ok (j, js')" "jobs_ok js"
  shows "jobs_ok js'"
proof (cases "first_by claim_before (pending_jobs t js)")
  case None
  then show ?thesis using assms by (simp add: claimNextPendingJob_def)
next
  case (Some k)
  then have u: "job_update now (sj_id k) (start_job now) js = Ok js'"
    using assms(1) by (auto simp: claimNextPendingJob_def)
  show ?thesis using job_update_index[OF u] job_update_retries[OF u] assms(2)
    by (simp add: jobs_ok_def start_job_def)
qed

lemma simple_update_ok:
  assumes "job_update now i f js = Ok js'" "jobs_ok js" "\<And>j. sj_retryCount (f j) = sj_retryCount j"
  shows "jobs_ok js'"
  using job_update_index[OF assms(1)] job_update_retries[OF assms(1)] assms(2,3) by (simp add: jobs_ok_def)

lemma job_step_ok:
  assumes "job_step s s'" "jobs_ok (fst s)" "retries_ok (snd s)"
  shows "jobs_ok (fst s') \<and> retries_ok (snd s')"
  using assms
proof (induction rule: job_step.induct)
  case (enqueue env p st0 js db res js' db' rd)
  from enqueue_jobs[OF enqueue(1)] show ?case
    using enqueue(2,3) by (auto simp: jobs_ok_def retries_ok_def job_for_def new_job_def maxRetries_def)
next
  case (watchdog_write j rd stamp now js db js' db')
  then show ?case
    using reclaim_one_ok[OF watchdog_write(2)] by (simp add: retries_ok_def list_all_iff)
qed (auto simp: updateProgress_def markCompleted_def markFailed_def findStuckProcessingJobs_def retries_ok_def
      list_all_iff jobs_ok_def intro: claim_ok[unfolded jobs_ok_def retries_ok_def list_all_iff] dest: claim_ok simple_update_ok)

text \<open>
  C29: In every table reachable from an empty one, by any interleaving of enqueueing, claiming,
  progress, completion, failure and watchdog runs that act on what they read earlier, no two jobs in
  flight are for the same source version and no job's retry count exceeds three.
\<close>

theorem one_job_in_flight:
  assumes "job_step\<^sup>*\<^sup>* ([], []) (js, rd)"
  shows "distinct (map job_key (filter in_flight js)) \<and> (\<forall>j. j \<notin> set js \<or> sj_retryCount j \<le> 3)"
proof -
  have "jobs_ok (fst (js, rd)) \<and> retries_ok (snd (js, rd))"
    using assms
  proof (induction rule: rtranclp_induct)
    case base
    then show ?case by (simp add: jobs_ok_def retries_ok_def flight_index_ok_def)
  next
    case (step y z)
    then show ?case using job_step_ok by blast
  qed
  then show ?thesis by (auto simp: jobs_ok_def flight_index_ok_def retries_ok_def list_all_iff maxRetries_def)
qed

section \<open>Races\<close>

definition flight_keys :: "sync_job list \<Rightarrow> (tenant \<times> sync_source \<times> uuid \<times> int) set" where
  "flight_keys js = job_key ` set (filter in_flight js)"

lemma findInFlight_Some:
  "findInFlightJob t s i v js = Some j \<Longrightarrow> j \<in> set js \<and> in_flight j \<and> job_key j = (t, s, i, v)"
  by (auto simp: findInFlightJob_def source_jobs_def job_key_def dest!: find_SomeD)

lemma findInFlight_None:
  "findInFlightJob t s i v js = None \<longleftrightarrow> (t, s, i, v) \<notin> flight_keys js"
  by (auto simp: findInFlightJob_def source_jobs_def job_key_def flight_keys_def find_None_iff image_iff)

lemma append_index:
  assumes "flight_index_ok js" "in_flight j"
  shows "flight_index_ok (js @ [j]) \<longleftrightarrow> job_key j \<notin> flight_keys js"
  using assms by (auto simp: flight_index_ok_def flight_keys_def)

lemma job_for_fields [simp]:
  "in_flight (job_for env p sv)" "job_key (job_for env p sv) = (ep_tenant p, ep_sourceType p, ep_sourceId p, sv)"
  "sj_tenant (job_for env p sv) = ep_tenant p" "sj_sourceId (job_for env p sv) = ep_sourceId p"
  by (simp_all add: job_for_def new_job_def in_flight_def job_key_def)

text \<open>
  When the table keeps its index and the source is behind (or its version is given), enqueueing
  always answers, whatever happened between its check and its insertion: with the job the check
  found in flight, with the one a concurrent request inserted since, or, when there is neither,
  with a new pending job recorded together with its event.  The violation of the unique index
  never reaches the caller, and in the last two cases a job for this version is in flight.
\<close>

theorem enqueue_settles_races:
  assumes "flight_index_ok (fst st)" and "request_tenant env = ep_tenant p"
    and "resolve_versions env p (snd st0) = Ok (sv, pv)" and "ep_ignoreValidateSource p \<or> pv < sv"
  shows "enqueueSyncJob env p st0 st =
     (case findInFlightJob (ep_tenant p) (ep_sourceType p) (ep_sourceId p) sv (fst st0) of
        Some j \<Rightarrow> (Ok (response_fromEntity j False in_progress_message), st)
      | None \<Rightarrow>
          (case findInFlightJob (ep_tenant p) (ep_sourceType p) (ep_sourceId p) sv (fst st) of
             Some j \<Rightarrow> (Ok (response_fromEntity j False in_progress_message), st)
           | None \<Rightarrow>
               (Ok (response_fromEntity (job_for env p sv) False ''Authorization synchronization job queued successfully''),
                queued_state env p sv st))) \<and>
    flight_index_ok (fst (snd (enqueueSyncJob env p st0 st)))"
proof -
  let ?k = "(ep_tenant p, ep_sourceType p, ep_sourceId p, sv)"
  have go: "\<not> (\<not> ep_ignoreValidateSource p \<and> sv \<le> pv)" using assms(4) by auto
  have index: "flight_index_ok (fst st @ [job_for env p sv]) \<longleftrightarrow> ?k \<notin> flight_keys (fst st)"
    using append_index[OF assms(1), of "job_for env p sv"] by simp
  have "enqueueSyncJob env p st0 st =
     (case findInFlightJob (ep_tenant p) (ep_sourceType p) (ep_sourceId p) sv (fst st0) of
        Some j \<Rightarrow> (Ok (response_fromEntity j False in_progress_message), st)
      | None \<Rightarrow>
          (case findInFlightJob (ep_tenant p) (ep_sourceType p) (ep_sourceId p) sv (fst st) of
             Some j \<Rightarrow> (Ok (response_fromEntity j False in_progress_message), st)
           | None \<Rightarrow>
               (Ok (response_fromEntity (job_for env p sv) False ''Authorization synchronization job queued successfully''),
                queued_state env p sv st)))"
  proof (cases "findInFlightJob (ep_tenant p) (ep_sourceType p) (ep_sourceId p) sv (fst st)")
    case None
    then have "flight_index_ok (fst st @ [job_for env p sv])" using index findInFlight_None by blast
    then show ?thesis unfolding enqueue_unfold assms(2,3) sum.case prod.case if_not_P[OF go] None by (simp split: option.splits)
  next
    case (Some j)
    then have "\<not> flight_index_ok (fst st @ [job_for env p sv])"
      using index findInFlight_None[of "ep_tenant p" "ep_sourceType p" "ep_sourceId p" sv "fst st"] by simp
    then show ?thesis unfolding enqueue_unfold assms(2,3) sum.case prod.case if_not_P[OF go] Some by (simp split: option.splits)
  qed
  moreover have "flight_index_ok (fst (snd (enqueueSyncJob env p st0 st)))"
    using enqueue_jobs[of env p st0 st] assms(1) by (metis prod.collapse)
  ultimately show ?thesis by blast
qed

theorem enqueue_settles_races_witness:
  "let env = \<lparr> je_tenant = Some ''acme'', je_user = None, je_new_job = ''j2'', je_now = 5, je_iso = ''now'' \<rparr>;
       p = scan_params ''acme'' Src_role (''r1'', 3);
       other = job_for (env\<lparr> je_new_job := ''j1'' \<rparr>) p 3;
       db = \<lparr> t_roles = [], t_role_permissions = [], t_groups = [], t_group_roles = [], t_memberships = [],
              t_effective_roles = [], t_outbox = [] \<rparr>
   in fst (enqueueSyncJob env p ([], db) ([other], db)) = Ok (response_fromEntity other False in_progress_message)"
proof -
  let ?env = "\<lparr> je_tenant = Some ''acme'', je_user = None, je_new_job = ''j2'', je_now = 5, je_iso = ''now'' \<rparr>"
  let ?p = "scan_params ''acme'' Src_role (''r1'', 3)"
  let ?other = "job_for (?env\<lparr> je_new_job := ''j1'' \<rparr>) ?p 3"
  let ?db = "\<lparr> t_roles = [], t_role_permissions = [], t_groups = [], t_group_roles = [], t_memberships = [],
              t_effective_roles = [], t_outbox = [] \<rparr>"
  have "flight_index_ok [?other]" by (simp add: flight_index_ok_def)
  moreover have "request_tenant ?env = ep_tenant ?p" by (simp add: request_tenant_def scan_params_def)
  moreover have "resolve_versions ?env ?p ?db = Ok (3, 0)" by (simp add: resolve_versions_def scan_params_def)
  moreover have "ep_ignoreValidateSource ?p" by (simp add: scan_params_def)
  moreover have "findInFlightJob (ep_tenant ?p) (ep_sourceType ?p) (ep_sourceId ?p) 3 [?other] = Some ?other"
    by (simp add: findInFlightJob_def source_jobs_def scan_params_def job_for_def new_job_def in_flight_def)
  ultimately show ?thesis
    using enqueue_settles_races[of "([?other], ?db)" ?env ?p "([], ?db)" 3 0]
    by (simp add: Let_def findInFlightJob_def source_jobs_def)
qed

section \<open>Sweeps\<close>

text \<open>A source identifier belongs to one tenant.\<close>

definition owned :: "(uuid \<Rightarrow> tenant) \<Rightarrow> sync_job list \<Rightarrow> bool" where
  "owned tn js \<longleftrightarrow> (\<forall>j \<in> set js. sj_tenant j = tn (sj_sourceId j))"

lemma scan_enqueue:
  assumes "flight_index_ok (fst st)" "owned tn (fst st)" "tn (fst iv) = t"
  shows "(t, s, fst iv, snd iv) \<in> flight_keys (fst (snd (enqueueSyncJob env (scan_params t s iv) st st))) \<and>
    flight_index_ok (fst (snd (enqueueSyncJob env (scan_params t s iv) st st))) \<and>
    owned tn (fst (snd (enqueueSyncJob env (scan_params t s iv) st st))) \<and>
    flight_keys (fst st) \<subseteq> flight_keys (fst (snd (enqueueSyncJob env (scan_params t s iv) st st))) \<and>
    ((t, s, fst iv, snd iv) \<in> flight_keys (fst st) \<longrightarrow> snd (enqueueSyncJob env (scan_params t s iv) st st) = st)"
proof -
  let ?p = "scan_params t s iv" and ?k = "(t, s, fst iv, snd iv)"
  have p: "ep_tenant ?p = t" "ep_sourceType ?p = s" "ep_sourceId ?p = fst iv" "ep_ignoreValidateSource ?p"
    by (simp_all add: scan_params_def)
  have v: "resolve_versions env ?p (snd st) = Ok (snd iv, 0)"
    by (simp add: resolve_versions_def scan_params_def)
  have index: "flight_index_ok (fst st @ [job_for env ?p (snd iv)]) \<longleftrightarrow> ?k \<notin> flight_keys (fst st)"
    using append_index[OF assms(1), of "job_for env ?p (snd iv)"] p by simp
  have found: "?k \<in> flight_keys (fst st)"
    if f: "findInFlightJob (request_tenant env) s (fst iv) (snd iv) (fst st) = Some j" for j
  proof -
    have j: "j \<in> set (fst st)" "in_flight j" "job_key j = (request_tenant env, s, fst iv, snd iv)"
      using findInFlight_Some[OF f] by simp_all
    then have "sj_tenant j = t" using assms(2,3) by (auto simp: owned_def job_key_def)
    then have "job_key j = ?k" using j(3) by (simp add: job_key_def)
    then show ?thesis using j(1,2) by (force simp: flight_keys_def)
  qed
  show ?thesis
  proof (cases "?k \<in> flight_keys (fst st)")
    case True
    then have "snd (enqueueSyncJob env ?p st st) = st"
      unfolding enqueue_unfold v p using index by (simp split: option.splits)
    then show ?thesis using True assms by simp
  next
    case False
    then have "findInFlightJob (request_tenant env) s (fst iv) (snd iv) (fst st) = None"
      using found by (metis not_None_eq)
    then have "snd (enqueueSyncJob env ?p st st) = queued_state env ?p (snd iv) st"
      unfolding enqueue_unfold v p using index False p by simp
    moreover have "job_key (job_for env ?p (snd iv)) = ?k" using p by simp
    ultimately show ?thesis using False index assms(2,3) p
      by (auto simp: queued_state_def flight_keys_def owned_def simp del: job_for_fields(2))
  qed
qed

definition sweep_grows :: "(uuid \<Rightarrow> tenant) \<Rightarrow> sync_job list \<times> authz_db \<Rightarrow> sync_job list \<times> authz_db \<Rightarrow> bool" where
  "sweep_grows tn st st' \<longleftrightarrow>
     flight_index_ok (fst st') \<and> owned tn (fst st') \<and> flight_keys (fst st) \<subseteq> flight_keys (fst st') \<and>
     t_groups (snd st') = t_groups (snd st) \<and> t_roles (snd st') = t_roles (snd st)"

lemma enqueue_tables:
  "t_groups (snd (snd (enqueueSyncJob env p st0 st))) = t_groups (snd st) \<and>
   t_roles (snd (snd (enqueueSyncJob env p st0 st))) = t_roles (snd st)"
  unfolding enqueue_unfold by (simp add: queued_state_def split: sum.splits prod.splits option.splits)

lemma scan_each_step:
  "snd (scan_each env t s (iv # rest) n st) =
     snd (scan_each env t s rest 0 (snd (enqueueSyncJob (env (fst iv)) (scan_params t s iv) st st)))"
proof -
  have "snd (scan_each env t s xs n st') = snd (scan_each env t s xs m st')" for xs n m st'
    by (induction xs arbitrary: n m st') (auto split: prod.splits sum.splits)
  then show ?thesis by (auto split: prod.splits sum.splits)
qed

lemma scan_each_count: "snd (scan_each env t s xs n st) = snd (scan_each env t s xs m st)"
  by (induction xs arbitrary: n m st) (auto split: prod.splits sum.splits)

lemma scan_each_covers:
  assumes "flight_index_ok (fst st)" "owned tn (fst st)" "\<forall>iv \<in> set xs. tn (fst iv) = t"
  shows "sweep_grows tn st (snd (scan_each env t s xs n st)) \<and>
    (\<forall>iv \<in> set xs. (t, s, fst iv, snd iv) \<in> flight_keys (fst (snd (scan_each env t s xs n st)))) \<and>
    ((\<forall>iv \<in> set xs. (t, s, fst iv, snd iv) \<in> flight_keys (fst st)) \<longrightarrow> snd (scan_each env t s xs n st) = st)"
  using assms
proof (induction xs arbitrary: st n)
  case Nil
  then show ?case by (simp add: sweep_grows_def)
next
  case (Cons iv xs)
  let ?st = "snd (enqueueSyncJob (env (fst iv)) (scan_params t s iv) st st)"
  have e: "(t, s, fst iv, snd iv) \<in> flight_keys (fst ?st)" "flight_index_ok (fst ?st)" "owned tn (fst ?st)"
      "flight_keys (fst st) \<subseteq> flight_keys (fst ?st)" "(t, s, fst iv, snd iv) \<in> flight_keys (fst st) \<longrightarrow> ?st = st"
    using scan_enqueue[OF Cons(2,3)] Cons(4) by auto
  have t: "t_groups (snd ?st) = t_groups (snd st)" "t_roles (snd ?st) = t_roles (snd st)"
    using enqueue_tables by simp_all
  have ih: "sweep_grows tn ?st (snd (scan_each env t s xs 0 ?st))"
      "\<forall>iv \<in> set xs. (t, s, fst iv, snd iv) \<in> flight_keys (fst (snd (scan_each env t s xs 0 ?st)))"
      "(\<forall>iv \<in> set xs. (t, s, fst iv, snd iv) \<in> flight_keys (fst ?st)) \<longrightarrow> snd (scan_each env t s xs 0 ?st) = ?st"
    using Cons(1)[OF e(2,3)] Cons(4) by auto
  show ?case unfolding scan_each_step using ih e t by (auto simp: sweep_grows_def)
qed

lemma sweep_grows_refl: "flight_index_ok (fst st) \<Longrightarrow> owned tn (fst st) \<Longrightarrow> sweep_grows tn st st"
  by (simp add: sweep_grows_def)

lemma sweep_grows_trans: "sweep_grows tn a b \<Longrightarrow> sweep_grows tn b c \<Longrightarrow> sweep_grows tn a c"
  by (auto simp: sweep_grows_def)

lemma handleByTenant_covers:
  fixes env
  assumes "flight_index_ok (fst st)" "owned tn (fst st)"
    and "\<forall>iv \<in> set groups. tn (fst iv) = t" "\<forall>iv \<in> set roles. tn (fst iv) = t"
  defines "st' \<equiv> snd (handleByTenant env t groups roles st)"
  shows "sweep_grows tn st st' \<and>
    (\<forall>iv \<in> set groups. (t, Src_user_group, fst iv, snd iv) \<in> flight_keys (fst st')) \<and>
    (\<forall>iv \<in> set roles. (t, Src_role, fst iv, snd iv) \<in> flight_keys (fst st')) \<and>
    ((\<forall>iv \<in> set groups. (t, Src_user_group, fst iv, snd iv) \<in> flight_keys (fst st)) \<longrightarrow>
     (\<forall>iv \<in> set roles. (t, Src_role, fst iv, snd iv) \<in> flight_keys (fst st)) \<longrightarrow> st' = st)"
proof -
  obtain n st1 where g: "scan_each env t Src_user_group groups 0 st = (n, st1)" by (cases "scan_each env t Src_user_group groups 0 st")
  have st': "st' = snd (scan_each env t Src_role roles n st1)"
    by (simp add: st'_def handleByTenant_def g)
  have 1: "sweep_grows tn st st1" "\<forall>iv \<in> set groups. (t, Src_user_group, fst iv, snd iv) \<in> flight_keys (fst st1)"
      "(\<forall>iv \<in> set groups. (t, Src_user_group, fst iv, snd iv) \<in> flight_keys (fst st)) \<longrightarrow> st1 = st"
    using scan_each_covers[OF assms(1,2,3), where s = Src_user_group and env = env and n = 0] by (simp_all add: g)
  have "flight_index_ok (fst st1)" "owned tn (fst st1)" using 1(1) by (simp_all add: sweep_grows_def)
  note 2 = scan_each_covers[OF this assms(4), where s = Src_role and env = env and n = n, folded st']
  show ?thesis using 1 2 sweep_grows_trans[OF 1(1)] by (auto simp: sweep_grows_def)
qed

lemma of_tenant_iff: "iv \<in> set (of_tenant t xs) \<longleftrightarrow> (t, iv) \<in> set xs"
  by (force simp: of_tenant_def)

lemma scan_tenants_count: "snd (scan_tenants env gs rs ts n st) = snd (scan_tenants env gs rs ts m st)"
  by (induction ts arbitrary: n m st) (auto split: prod.splits)

lemma scan_tenants_covers:
  assumes "flight_index_ok (fst st)" "owned tn (fst st)"
    and "\<forall>x \<in> set gs. tn (fst (snd x)) = fst x" "\<forall>x \<in> set rs. tn (fst (snd x)) = fst x"
  shows "sweep_grows tn st (snd (scan_tenants env gs rs ts n st)) \<and>
    (\<forall>t \<in> set ts. \<forall>iv. ((t, iv) \<in> set gs \<longrightarrow> (t, Src_user_group, fst iv, snd iv) \<in> flight_keys (fst (snd (scan_tenants env gs rs ts n st)))) \<and>
      ((t, iv) \<in> set rs \<longrightarrow> (t, Src_role, fst iv, snd iv) \<in> flight_keys (fst (snd (scan_tenants env gs rs ts n st))))) \<and>
    ((\<forall>t iv. ((t, iv) \<in> set gs \<longrightarrow> (t, Src_user_group, fst iv, snd iv) \<in> flight_keys (fst st)) \<and>
      ((t, iv) \<in> set rs \<longrightarrow> (t, Src_role, fst iv, snd iv) \<in> flight_keys (fst st))) \<longrightarrow>
     snd (scan_tenants env gs rs ts n st) = st)"
  using assms(1,2)
proof (induction ts arbitrary: st n)
  case Nil
  then show ?case by (simp add: sweep_grows_refl)
next
  case (Cons t ts)
  obtain k st1 where h: "handleByTenant env t (of_tenant t gs) (of_tenant t rs) st = (k, st1)"
    by (cases "handleByTenant env t (of_tenant t gs) (of_tenant t rs) st")
  have own: "\<forall>iv \<in> set (of_tenant t gs). tn (fst iv) = t" "\<forall>iv \<in> set (of_tenant t rs). tn (fst iv) = t"
    using bspec[OF assms(3)] bspec[OF assms(4)] unfolding Ball_def of_tenant_iff by (metis fst_conv snd_conv)+
  note one = handleByTenant_covers[OF Cons(2,3) own, where env = env, unfolded h snd_conv of_tenant_iff Ball_def]
  have ok1: "flight_index_ok (fst st1)" "owned tn (fst st1)" using one by (simp_all add: sweep_grows_def)
  note ih = Cons(1)[OF ok1, where n = "n + k"]
  have step: "scan_tenants env gs rs (t # ts) n st = scan_tenants env gs rs ts (n + k) st1" by (simp add: h)
  have "sweep_grows tn st (snd (scan_tenants env gs rs ts (n + k) st1))"
    using one ih sweep_grows_trans by blast
  moreover have "flight_keys (fst st1) \<subseteq> flight_keys (fst (snd (scan_tenants env gs rs ts (n + k) st1)))"
    using ih by (simp add: sweep_grows_def)
  ultimately show ?case unfolding step using one ih by (auto simp: sweep_grows_def)
qed

definition dirty_entities :: "authz_db \<Rightarrow> (tenant \<times> sync_source \<times> uuid \<times> int) set" where
  "dirty_entities db =
    (\<lambda>(t, i, v). (t, Src_user_group, i, v)) ` set (findDirtyUserGroups db) \<union>
    (\<lambda>(t, i, v). (t, Src_role, i, v)) ` set (findDirtyRoles db)"

text \<open>
  C33: When source identifiers belong to one tenant and the job table keeps its index, a sweep leaves
  a job in flight for the current version of every role and user group of every tenant whose
  projection version differs, without changing roles or groups, and it keeps the index; a second
  sweep before any of these jobs is done changes nothing at all.
\<close>

theorem sweep_covers_dirty:
  assumes "flight_index_ok (fst st)" and "owned tn (fst st)"
    and "\<forall>(t, s, i, v) \<in> dirty_entities (snd st). tn i = t"
  shows "dirty_entities (snd st) \<subseteq> flight_keys (fst (snd (handleCron env st))) \<and>
    flight_index_ok (fst (snd (handleCron env st))) \<and>
    t_groups (snd (snd (handleCron env st))) = t_groups (snd st) \<and>
    t_roles (snd (snd (handleCron env st))) = t_roles (snd st) \<and>
    snd (handleCron env' (snd (handleCron env st))) = snd (handleCron env st)"
proof -
  let ?gs = "findDirtyUserGroups (snd st)" and ?rs = "findDirtyRoles (snd st)"
  let ?ts = "js_set_of (map fst ?gs @ map fst ?rs)"
  let ?st = "snd (handleCron env st)"
  have dirt: "(t, iv) \<in> set ?gs \<Longrightarrow> (t, Src_user_group, iv) \<in> dirty_entities (snd st)"
      "(t, iv) \<in> set ?rs \<Longrightarrow> (t, Src_role, iv) \<in> dirty_entities (snd st)" for t iv
    by (cases iv; force simp: dirty_entities_def image_iff)+
  have own: "\<forall>x \<in> set ?gs. tn (fst (snd x)) = fst x" "\<forall>x \<in> set ?rs. tn (fst (snd x)) = fst x"
    using bspec[OF assms(3) dirt(1)] bspec[OF assms(3) dirt(2)] by (auto split: prod.splits)
  have st: "?st = snd (scan_tenants env ?gs ?rs ?ts 0 st)" by (simp add: handleCron_def Let_def)
  note c = scan_tenants_covers[OF assms(1,2) own, where env = env and ts = ?ts and n = 0, folded st]
  have g: "sweep_grows tn st ?st" using c by blast
  have keys: "((t, iv) \<in> set ?gs \<longrightarrow> (t, Src_user_group, fst iv, snd iv) \<in> flight_keys (fst ?st)) \<and>
      ((t, iv) \<in> set ?rs \<longrightarrow> (t, Src_role, fst iv, snd iv) \<in> flight_keys (fst ?st))" for t iv
  proof -
    have "(t, iv) \<in> set ?gs \<or> (t, iv) \<in> set ?rs \<Longrightarrow> t \<in> set ?ts" by force
    then show ?thesis using c by blast
  qed
  have dirty: "findDirtyUserGroups (snd ?st) = ?gs" "findDirtyRoles (snd ?st) = ?rs"
    using g by (simp_all add: sweep_grows_def findDirtyUserGroups_def findDirtyRoles_def)
  have "snd (handleCron env' ?st) = snd (scan_tenants env' ?gs ?rs ?ts 0 ?st)"
    by (simp add: handleCron_def[of env'] Let_def dirty)
  also have "\<dots> = ?st"
    using scan_tenants_covers[OF _ _ own, where st = ?st and env = env' and ts = ?ts and n = 0] g keys
    unfolding sweep_grows_def by blast
  finally have "snd (handleCron env' ?st) = ?st" .
  moreover have "dirty_entities (snd st) \<subseteq> flight_keys (fst ?st)"
    unfolding dirty_entities_def using keys by (auto split: prod.splits)
  ultimately show ?thesis using g by (simp add: sweep_grows_def)
qed

section \<open>A job completed while the watchdog looks\<close>

lemma requeue_index:
  assumes g: "\<And>x. job_key (g x) = job_key x" "\<And>x. x \<in> set ks \<Longrightarrow> in_flight (g x) \<Longrightarrow> in_flight x \<or> x = j"
    and free: "job_key j \<notin> flight_keys js" "set ks \<subseteq> set js"
    and d: "distinct (map sj_id ks)" "flight_index_ok ks"
  shows "flight_index_ok (map g ks)"
  using g(2) free(2) d
proof (induction ks)
  case (Cons k ks)
  have ih: "flight_index_ok (map g ks)" using Cons by (auto simp: flight_index_ok_def split: if_splits)
  have "job_key k \<notin> job_key ` {x \<in> g ` set ks. in_flight x}" if f: "in_flight (g k)"
  proof
    assume "job_key k \<in> job_key ` {x \<in> g ` set ks. in_flight x}"
    then obtain x where x: "x \<in> set ks" "in_flight (g x)" "job_key x = job_key k" using g(1) by auto
    have ne: "x \<noteq> k" using Cons(4) x(1) by auto
    have fk: "in_flight y \<Longrightarrow> y \<in> set (k # ks) \<Longrightarrow> job_key y \<in> flight_keys js" for y
      using Cons(3) by (auto simp: flight_keys_def)
    have "in_flight x \<or> x = j" "in_flight k \<or> k = j" using Cons(2) x f by auto
    then have "in_flight x" "in_flight k" using fk[of x] fk[of k] free(1) x(1,3) ne by auto
    then show False using Cons(5) x(1,3) by (auto simp: flight_index_ok_def image_iff)
  qed
  then show ?case using ih g(1) by (auto simp: flight_index_ok_def)
qed simp

text \<open>
  When a worker completes a job after a watchdog run has read it as stuck and before the run
  writes, with no other job in flight for the same source version, the write succeeds and puts the
  completed job back to pending, still with its completion time, so it is claimed and executed
  again.
\<close>

theorem watchdog_requeues_completed_job:
  assumes "flight_index_ok js" and "distinct (map sj_id js)" and "j \<in> set js"
    and "sj_status j = Job_completed" and "job_key j \<notin> flight_keys js"
    and "sj_id j0 = sj_id j" and "sj_retryCount j0 < 3"
  shows "\<exists>js'. reclaim_one stamp now j0 (js, db) = Ok (js', db) \<and>
    j\<lparr> sj_status := Job_pending, sj_retryCount := sj_retryCount j0 + 1, sj_startedAt := None, sj_updatedAt := now \<rparr> \<in> set js'"
proof -
  let ?f = "\<lambda>j. j\<lparr> sj_status := Job_pending, sj_retryCount := sj_retryCount j0 + 1, sj_startedAt := None \<rparr>"
  let ?g = "\<lambda>k. if sj_id k = sj_id j0 then (?f k)\<lparr> sj_updatedAt := now \<rparr> else k"
  have only: "k \<in> set js \<Longrightarrow> sj_id k = sj_id j0 \<Longrightarrow> k = j" for k
    using assms(2,3,6) by (auto simp: distinct_map dest: inj_onD)
  have "flight_index_ok (map ?g js)"
  proof (rule requeue_index[where j = j and js = js])
    show "job_key (?g x) = job_key x" for x by (simp add: job_key_def)
    show "x \<in> set js \<Longrightarrow> in_flight (?g x) \<Longrightarrow> in_flight x \<or> x = j" for x
      using only[of x] by (simp split: if_splits)
  qed (use assms in auto)
  then have "job_update now (sj_id j0) ?f js = Ok (map ?g js)"
    by (simp add: job_update_def Let_def)
  moreover have "?g j \<in> set (map ?g js)" using assms(3) by simp
  ultimately show ?thesis
    using assms(6,7) by (intro exI[of _ "map ?g js"]) (simp add: reclaim_one_def reclaimStuckJob_def maxRetries_def Let_def)
qed

section \<open>Instances\<close>

definition job_env0 :: "uuid \<Rightarrow> job_env" where
  "job_env0 i = \<lparr> je_tenant = Some ''acme'', je_user = None, je_new_job = ''job-'' @ i, je_now = 5, je_iso = ''now'' \<rparr>"

definition job0 :: sync_job where
  "job0 = job_for (job_env0 ''g1'') (scan_params ''acme'' Src_user_group (''g1'', 2)) 2"

lemma enqueue_job0:
  "enqueueSyncJob (job_env0 ''g1'') (scan_params ''acme'' Src_user_group (''g1'', 2)) ([], sample_db) ([], sample_db) =
     (Ok (response_fromEntity job0 False ''Authorization synchronization job queued successfully''),
      queued_state (job_env0 ''g1'') (scan_params ''acme'' Src_user_group (''g1'', 2)) 2 ([], sample_db))"
  unfolding enqueue_unfold
  by (simp add: resolve_versions_def scan_params_def findInFlightJob_def source_jobs_def flight_index_ok_def job0_def)

theorem one_job_in_flight_witness:
  "\<exists>js rd. job_step\<^sup>*\<^sup>* ([], []) (js, rd) \<and> job0 \<in> set js \<and> distinct (map job_key (filter in_flight js))"
proof -
  have "job_step ([], []) ([job0], [])"
    using enqueue_job0 by (intro job_step.enqueue) (simp add: queued_state_def job0_def)
  then have r: "job_step\<^sup>*\<^sup>* ([], []) ([job0], [])" by (rule r_into_rtranclp)
  show ?thesis using one_job_in_flight[OF r] r by (intro exI[of _ "[job0]"] exI[of _ "[]"]) simp
qed

lemma sample_dirty: "dirty_entities sample_db = {(''acme'', Src_user_group, ''g1'', 2)}"
  by (simp add: dirty_entities_def findDirtyUserGroups_def findDirtyRoles_def sample_db_def sample_group_def)

theorem sweep_covers_dirty_witness:
  "(''acme'', Src_user_group, ''g1'', 2) \<in> flight_keys (fst (snd (handleCron job_env0 ([], sample_db)))) \<and>
   snd (handleCron job_env0 (snd (handleCron job_env0 ([], sample_db)))) = snd (handleCron job_env0 ([], sample_db))"
  using sweep_covers_dirty[of "([], sample_db)" "\<lambda>i. ''acme''" job_env0 job_env0]
  by (simp add: sample_dirty flight_index_ok_def owned_def)

theorem watchdog_requeues_completed_job_witness:
  "\<exists>js'. reclaim_one ''now'' 9 (job0\<lparr> sj_status := Job_processing \<rparr>)
       ([job0\<lparr> sj_status := Job_completed, sj_completedAt := Some 8 \<rparr>], sample_db) = Ok (js', sample_db) \<and>
     (\<exists>j \<in> set js'. sj_status j = Job_pending \<and> sj_completedAt j = Some 8)"
proof -
  let ?j = "job0\<lparr> sj_status := Job_completed, sj_completedAt := Some 8 \<rparr>"
  have "sj_retryCount job0 = 0" by (simp add: job0_def job_for_def new_job_def)
  moreover have "flight_keys [?j] = {}" "flight_index_ok [?j]"
    by (simp_all add: flight_keys_def in_flight_def flight_index_ok_def)
  ultimately obtain js' where js': "reclaim_one ''now'' 9 (job0\<lparr> sj_status := Job_processing \<rparr>) ([?j], sample_db) = Ok (js', sample_db)"
      "?j\<lparr> sj_status := Job_pending, sj_retryCount := sj_retryCount (job0\<lparr> sj_status := Job_processing \<rparr>) + 1,
           sj_startedAt := None, sj_updatedAt := 9 \<rparr> \<in> set js'"
    using watchdog_requeues_completed_job[of "[?j]" ?j "job0\<lparr> sj_status := Job_processing \<rparr>" "''now''" 9 sample_db]
    by auto
  show ?thesis by (intro exI[of _ js'] conjI js'(1) bexI[OF _ js'(2)]) simp_all
qed

end
