(* ===== verification/Sync_Worker_Properties.thy ===== *)
theory Sync_Worker_Properties
  imports Sync_Worker Sync_Jobs_Properties
begin

text \<open>
  The worker: batching a stable population is the same as one pass over it, a claimed job always
  leaves in flight, and a group job that fails after its population was reconciled leaves the group
  marked as synchronized.
\<close>

section \<open>Batches\<close>

lemma with_authz_simps [simp]:
  "sw_authz (jw_sync (with_authz a w)) = a" "jw_jobs (with_authz a w) = jw_jobs w"
  "with_authz b (with_authz a w) = with_authz b w" "with_authz (sw_authz (jw_sync w)) w = w"
  "jw_sync (with_authz a w) = (jw_sync w)\<lparr> sw_authz := a \<rparr>"
  by (simp_all add: with_authz_def)

lemma recompute_each_append:
  "recompute_each env (us @ vs) a =
    (case recompute_each env us a of (Inl e, a1) \<Rightarrow> (Fail e, a1) | (Inr _, a1) \<Rightarrow> recompute_each env vs a1)"
  by (induction us arbitrary: a) (auto split: prod.splits sum.splits)

text \<open>Progress updates only touch the counters of the job's row.\<close>

definition same_jobs :: "uuid \<Rightarrow> sync_job list \<Rightarrow> sync_job list \<Rightarrow> bool" where
  "same_jobs i js js' \<longleftrightarrow> flight_index_ok js' \<and> map sj_id js' = map sj_id js \<and> map sj_status js' = map sj_status js \<and>
     map job_key js' = map job_key js \<and> filter (\<lambda>j. sj_id j \<noteq> i) js' = filter (\<lambda>j. sj_id j \<noteq> i) js"

lemma same_jobs_refl: "flight_index_ok js \<Longrightarrow> same_jobs i js js"
  by (simp add: same_jobs_def)

lemma same_jobs_trans: "same_jobs i a b \<Longrightarrow> same_jobs i b c \<Longrightarrow> same_jobs i a c"
  by (simp add: same_jobs_def)

lemma progress_write:
  assumes "flight_index_ok (jw_jobs w)"
  shows "\<exists>js. job_write (updateProgress now i n m) w = Ok (w\<lparr> jw_jobs := js \<rparr>) \<and> same_jobs i (jw_jobs w) js"
proof -
  let ?f = "\<lambda>j. if sj_id j = i then j\<lparr> sj_processedUsers := n, sj_totalUsers := Some m, sj_updatedAt := now \<rparr> else j"
  have u: "updateProgress now i n m (jw_jobs w) = Ok (map ?f (jw_jobs w))" by (rule updateProgress_ok[OF assms])
  have "flight_index_ok (map ?f (jw_jobs w))"
    using u unfolding updateProgress_def by (rule job_update_index)
  moreover have "filter (\<lambda>j. sj_id j \<noteq> i) (map ?f xs) = filter (\<lambda>j. sj_id j \<noteq> i) xs" for xs
    by (induction xs) auto
  ultimately show ?thesis
    using u by (intro exI[of _ "map ?f (jw_jobs w)"]) (simp add: job_write_def same_jobs_def comp_def job_key_def)
qed

lemma batches_from:
  assumes "flight_index_ok (jw_jobs w)" "\<forall>n. wk_users env n = users"
    and "m = length (active_users (wk_tenant env) users)" "n \<le> m"
    and "recompute_each env (drop n (active_users (wk_tenant env) users)) (sw_authz (jw_sync w)) = (res, a)"
  shows "\<exists>js. same_jobs i (jw_jobs w) js \<and>
     (case res of
        Inr _ \<Rightarrow> process_batches env i m n w = (Ok m, (with_authz a w)\<lparr> jw_jobs := js \<rparr>)
      | Inl e \<Rightarrow> process_batches env i m n w = (Fail (Sync_error e), (with_authz a w)\<lparr> jw_jobs := js \<rparr>))"
  using assms(1,4,5)
proof (induction "m - n" arbitrary: n w rule: less_induct)
  case less
  let ?A = "active_users (wk_tenant env) users"
  show ?case
  proof (cases "n < m")
    case False
    then have "n = m" using less(3) by simp
    moreover from this have "res = Ok ()" "a = sw_authz (jw_sync w)" using less(4) assms(3) by auto
    ultimately show ?thesis
      using same_jobs_refl[OF less(2)] by (intro exI[of _ "jw_jobs w"]) (simp add: process_batches.simps)
  next
    case True
    let ?us = "findBatchWithEmployee (wk_tenant env) n batchSize (wk_users env n)"
    have us: "?us = take batchSize (drop n ?A)" using assms(2) by (simp add: findBatchWithEmployee_def)
    have ne: "?us \<noteq> []" unfolding us using True assms(3) by (simp add: batchSize_def)
    have split: "drop n ?A = ?us @ drop (n + length ?us) ?A"
    proof -
      have "drop (n + length (take b (drop n xs))) xs = drop b (drop n xs)" for b and xs :: "app_user list"
        by (cases "b \<le> length (drop n xs)") (simp_all add: add.commute)
      then show ?thesis unfolding us by (simp only: append_take_drop_id)
    qed
    obtain r1 a1 where r1: "recompute_each env ?us (sw_authz (jw_sync w)) = (r1, a1)"
      by (cases "recompute_each env ?us (sw_authz (jw_sync w))")
    show ?thesis
    proof (cases r1)
      case (Inl e)
      then have "res = Fail e" "a = a1" using less(4) r1 by (simp_all add: split recompute_each_append)
      moreover have "process_batches env i m n w = (Fail (Sync_error e), with_authz a1 w)"
        using True ne r1 Inl by (simp add: process_batches.simps[of env i m n] Let_def)
      ultimately show ?thesis
        using same_jobs_refl[OF less(2)] by (intro exI[of _ "jw_jobs w"]) (simp add: with_authz_def)
    next
      case (Inr x)
      have rest: "recompute_each env (drop (n + length ?us) ?A) a1 = (res, a)"
        using less(4) r1 Inr by (simp add: split recompute_each_append)
      let ?w1 = "with_authz a1 w"
      obtain js1 where js1: "job_write (updateProgress (wk_start env) i (n + length ?us) m) ?w1 = Ok (?w1\<lparr> jw_jobs := js1 \<rparr>)"
          "same_jobs i (jw_jobs w) js1"
        using progress_write[of ?w1 "wk_start env" i "n + length ?us" m] less(2) by auto
      let ?w2 = "?w1\<lparr> jw_jobs := js1 \<rparr>"
      have step: "process_batches env i m n w = process_batches env i m (n + length ?us) ?w2"
        using True ne r1 Inr js1(1) by (simp add: process_batches.simps[of env i m n] Let_def)
      have "n + length ?us \<le> m" using us assms(3) True by simp
      moreover have "m - (n + length ?us) < m - n" using ne True by (cases ?us) auto
      moreover have "flight_index_ok (jw_jobs ?w2)" using js1(2) by (simp add: same_jobs_def)
      ultimately obtain js where "same_jobs i js1 js"
          "(case res of
              Inr _ \<Rightarrow> process_batches env i m (n + length ?us) ?w2 = (Ok m, (with_authz a ?w2)\<lparr> jw_jobs := js \<rparr>)
            | Inl e \<Rightarrow> process_batches env i m (n + length ?us) ?w2 = (Fail (Sync_error e), (with_authz a ?w2)\<lparr> jw_jobs := js \<rparr>))"
        using less(1)[of "n + length ?us" ?w2] rest by auto
      then show ?thesis
        using same_jobs_trans[OF js1(2)] step by (intro exI[of _ js]) (auto simp: with_authz_def split: sum.splits)
    qed
  qed
qed

text \<open>
  C34: The batch loop always ends, and when the users table is the same at every batch it is one pass
  over the active users in table order: it succeeds exactly when recomputing each of them in turn
  succeeds, with the same effect, having processed all of them, and it fails at the same user
  otherwise.  The other jobs and the status of the job are left alone.
\<close>

theorem batches_are_one_pass:
  assumes "flight_index_ok (jw_jobs w)" and "\<forall>n. wk_users env n = users"
    and "recompute_each env (active_users (wk_tenant env) users) (sw_authz (jw_sync w)) = (res, a)"
  shows "\<exists>js. same_jobs i (jw_jobs w) js \<and>
     process_batches env i (countActive (wk_tenant env) users) 0 w =
       (case res of Inr _ \<Rightarrow> Ok (countActive (wk_tenant env) users) | Inl e \<Rightarrow> Fail (Sync_error e),
        (with_authz a w)\<lparr> jw_jobs := js \<rparr>)"
  using batches_from[OF assms(1,2), of _ 0 res a i] assms(3)
  by (auto simp: countActive_def split: sum.splits)

section \<open>A claimed job leaves in flight\<close>

lemma first_by_min:
  assumes "\<And>a b c. \<not> before a b \<Longrightarrow> \<not> before b c \<Longrightarrow> \<not> before a c" "\<And>a. \<not> before a a"
    and "\<And>a b. before a b \<Longrightarrow> \<not> before b a"
  shows "(first_by before xs = None \<longleftrightarrow> xs = []) \<and>
    (\<forall>x. first_by before xs = Some x \<longrightarrow> x \<in> set xs \<and> (\<forall>y \<in> set xs. \<not> before y x))"
proof (induction xs rule: rev_induct)
  case Nil
  then show ?case by (simp add: first_by_def)
next
  case (snoc x xs)
  have step: "first_by before (xs @ [x]) =
      (case first_by before xs of None \<Rightarrow> Some x | Some b \<Rightarrow> if before x b then Some x else Some b)"
    by (simp add: first_by_def)
  show ?case
  proof (cases "first_by before xs")
    case None
    then show ?thesis unfolding step using snoc assms(2) by simp
  next
    case (Some b)
    then have b: "b \<in> set xs" "\<forall>y \<in> set xs. \<not> before y b" using snoc by auto
    show ?thesis
    proof (cases "before x b")
      case True
      then have "\<not> before y x" if "y \<in> set xs" for y
        using b(2) that assms(1,3) by blast
      then show ?thesis using True Some assms(2) by (simp add: step)
    qed (use Some b in \<open>simp add: step\<close>)
  qed
qed

lemma claim_order:
  "first_by claim_before js = None \<longleftrightarrow> js = []"
  "first_by claim_before js = Some j \<Longrightarrow> j \<in> set js \<and> (\<forall>k \<in> set js. \<not> claim_before k j)"
proof -
  have "(first_by claim_before js = None \<longleftrightarrow> js = []) \<and>
      (\<forall>x. first_by claim_before js = Some x \<longrightarrow> x \<in> set js \<and> (\<forall>y \<in> set js. \<not> claim_before y x))"
    by (rule first_by_min) (auto simp: claim_before_def)
  then show "first_by claim_before js = None \<longleftrightarrow> js = []" and
    "first_by claim_before js = Some j \<Longrightarrow> j \<in> set js \<and> (\<forall>k \<in> set js. \<not> claim_before k j)" by simp_all
qed

text \<open>Everything a job does before it is settled leaves status and key of the rows alone.\<close>

lemma batches_jobs:
  "flight_index_ok (jw_jobs w) \<Longrightarrow> process_batches env i m n w = (res, w') \<Longrightarrow>
     same_jobs i (jw_jobs w) (jw_jobs w') \<and> (\<forall>e. res \<noteq> Fail (Job_table e))"
proof (induction "m - n" arbitrary: n w rule: less_induct)
  case less
  let ?us = "findBatchWithEmployee (wk_tenant env) n batchSize (wk_users env n)"
  show ?case
  proof (cases "n < m \<and> ?us \<noteq> []")
    case False
    then have "(res, w') = (Ok n, w)" using less(3) unfolding process_batches.simps[of env i m n w] Let_def
      by (cases "n < m") simp_all
    then show ?thesis using same_jobs_refl[OF less(2)] by simp
  next
    case True
    obtain r1 a1 where r1: "recompute_each env ?us (sw_authz (jw_sync w)) = (r1, a1)"
      by (cases "recompute_each env ?us (sw_authz (jw_sync w))")
    show ?thesis
    proof (cases r1)
      case (Inl e)
      then have "(res, w') = (Fail (Sync_error e), with_authz a1 w)"
        using less(3) True r1 by (simp add: process_batches.simps[of env i m n] Let_def)
      then show ?thesis using same_jobs_refl[OF less(2)] by simp
    next
      case (Inr x)
      obtain js1 where js1: "job_write (updateProgress (wk_start env) i (n + length ?us) m) (with_authz a1 w) =
            Ok ((with_authz a1 w)\<lparr> jw_jobs := js1 \<rparr>)" "same_jobs i (jw_jobs w) js1"
        using progress_write[of "with_authz a1 w" "wk_start env" i "n + length ?us" m] less(2) by auto
      have "process_batches env i m (n + length ?us) ((with_authz a1 w)\<lparr> jw_jobs := js1 \<rparr>) = (res, w')"
        using less(3) True r1 Inr js1(1) by (simp add: process_batches.simps[of env i m n] Let_def)
      moreover have "m - (n + length ?us) < m - n" using True by (cases ?us) auto
      moreover have "flight_index_ok js1" using js1(2) by (simp add: same_jobs_def)
      ultimately have "same_jobs i js1 (jw_jobs w') \<and> (\<forall>e. res \<noteq> Fail (Job_table e))"
        using less(1)[of "n + length ?us" "(with_authz a1 w)\<lparr> jw_jobs := js1 \<rparr>"] by simp
      then show ?thesis using same_jobs_trans[OF js1(2)] by blast
    qed
  qed
qed

lemma group_jobs: "reconcile_job_group env j w = (res, w') \<Longrightarrow> jw_jobs w' = jw_jobs w"
  by (auto simp: reconcile_job_group_def with_db_def split: if_splits option.splits sum.splits prod.splits)

text \<open>A job settled: its row has the final status, the other rows are as before.\<close>

definition settled :: "uuid \<Rightarrow> job_status \<Rightarrow> sync_job list \<Rightarrow> sync_job list \<Rightarrow> bool" where
  "settled i s js js' \<longleftrightarrow> flight_index_ok js' \<and> map sj_id js' = map sj_id js \<and>
     filter (\<lambda>j. sj_id j \<noteq> i) js' = filter (\<lambda>j. sj_id j \<noteq> i) js \<and>
     (\<forall>j \<in> set js'. sj_id j = i \<longrightarrow> sj_status j = s)"

lemma settle_write:
  assumes "flight_index_ok js" "\<And>j. \<not> in_flight (f j) \<and> sj_id (f j) = sj_id j \<and> sj_status (f j) = s"
  shows "\<exists>js'. job_update now i f js = Ok js' \<and> settled i s js js'"
proof -
  let ?g = "\<lambda>j. if sj_id j = i then (f j)\<lparr> sj_updatedAt := now \<rparr> else j"
  have u: "job_update now i f js = Ok (map ?g js)"
    using assms by (intro job_update_leaves_flight) auto
  have id: "sj_id (?g j) = sj_id j" for j using assms(2) by simp
  have "settled i s js (map ?g js)"
    unfolding settled_def
  proof (intro conjI ballI impI)
    show "flight_index_ok (map ?g js)" by (rule job_update_index[OF u])
    show "map sj_id (map ?g js) = map sj_id js" unfolding map_map comp_def id ..
    show "filter (\<lambda>j. sj_id j \<noteq> i) (map ?g js) = filter (\<lambda>j. sj_id j \<noteq> i) js"
    proof (induction js)
      case (Cons k ks)
      then show ?case using assms(2)[of k] by (cases "sj_id k = i") simp_all
    qed simp
    show "sj_status k = s" if k: "k \<in> set (map ?g js)" "sj_id k = i" for k
    proof -
      obtain j where "k = ?g j" using k(1) unfolding set_map by blast
      moreover from this have "sj_id j = i" using k(2) id[of j] by (simp only:)
      ultimately show ?thesis using assms(2)[of j] by simp
    qed
  qed
  then show ?thesis using u by blast
qed

lemma settled_after_same: "same_jobs i a b \<Longrightarrow> settled i s b c \<Longrightarrow> settled i s a c"
  by (simp add: same_jobs_def settled_def)

lemma with_db_jobs [simp]: "jw_jobs (with_db db w) = jw_jobs w"
  by (simp add: with_db_def)

lemma complete_write:
  assumes "flight_index_ok (jw_jobs w)"
  shows "\<exists>w'. finalize_job env j m n w = Ok w' \<and> settled (sj_id j) Job_completed (jw_jobs w) (jw_jobs w')"
proof -
  let ?f = "\<lambda>k. k\<lparr> sj_status := Job_completed, sj_completedAt := Some (wk_end env), sj_processedUsers := n \<rparr>"
  obtain js' where "job_update (wk_end env) (sj_id j) ?f (jw_jobs w) = Ok js'"
      "settled (sj_id j) Job_completed (jw_jobs w) js'"
    using settle_write[OF assms, of ?f Job_completed] by (auto simp: in_flight_def)
  then show ?thesis by (simp add: finalize_job_def job_write_def markCompleted_def)
qed

lemma fail_write:
  assumes "flight_index_ok (jw_jobs w)"
  shows "\<exists>w'. handleJobFailure env j e w = Ok w' \<and> settled (sj_id j) Job_failed (jw_jobs w) (jw_jobs w') \<and>
    t_groups (jw_db w') = t_groups (jw_db w) \<and> t_roles (jw_db w') = t_roles (jw_db w)"
proof -
  let ?f = "\<lambda>k. k\<lparr> sj_status := Job_failed, sj_completedAt := Some (wk_end env), sj_errorDetails := Some (failure_details env e) \<rparr>"
  obtain js' where "job_update (wk_end env) (sj_id j) ?f (jw_jobs w) = Ok js'"
      "settled (sj_id j) Job_failed (jw_jobs w) js'"
    using settle_write[OF assms, of ?f Job_failed] by (auto simp: in_flight_def)
  then show ?thesis by (simp add: handleJobFailure_def job_write_def markFailed_def jw_db_def with_db_def)
qed

text \<open>Executing a job: it completes, or fails with the index kept.\<close>

lemma execute_jobs:
  assumes "flight_index_ok (jw_jobs w)"
  shows "(\<exists>w'. executeJob env j w = (Ok (), w') \<and> settled (sj_id j) Job_completed (jw_jobs w) (jw_jobs w')) \<or>
    (\<exists>e w'. executeJob env j w = (Fail e, w') \<and> same_jobs (sj_id j) (jw_jobs w) (jw_jobs w'))"
proof -
  let ?m = "countActive (wk_tenant env) (sw_users (jw_sync w))"
  obtain js1 where p: "job_write (updateProgress (wk_start env) (sj_id j) 0 ?m) w = Ok (w\<lparr> jw_jobs := js1 \<rparr>)"
      "same_jobs (sj_id j) (jw_jobs w) js1"
    using progress_write[OF assms] by blast
  obtain r2 w2 where g: "reconcile_job_group env j (w\<lparr> jw_jobs := js1 \<rparr>) = (r2, w2)"
    by (cases "reconcile_job_group env j (w\<lparr> jw_jobs := js1 \<rparr>)")
  have j2: "jw_jobs w2 = js1" using group_jobs[OF g] by simp
  obtain r3 w3 where b: "process_batches env (sj_id j) ?m 0 w2 = (r3, w3)"
    by (cases "process_batches env (sj_id j) ?m 0 w2")
  have ok2: "flight_index_ok (jw_jobs w2)" using p(2) by (simp add: j2 same_jobs_def)
  have j3: "same_jobs (sj_id j) (jw_jobs w) (jw_jobs w3)"
    using batches_jobs[OF ok2 b] same_jobs_trans[OF p(2)] by (simp add: j2)
  show ?thesis
  proof (cases r2)
    case (Inl e)
    then have "executeJob env j w = (Fail e, w2)" using p(1) g by (simp add: executeJob_def Let_def)
    then show ?thesis using p(2) j2 by auto
  next
    case (Inr x)
    show ?thesis
    proof (cases r3)
      case (Inl e)
      then have "executeJob env j w = (Fail e, w3)" using p(1) g Inr b by (simp add: executeJob_def Let_def)
      then show ?thesis using j3 by auto
    next
      case r3: (Inr n)
      have "flight_index_ok (jw_jobs w3)" using j3 by (simp add: same_jobs_def)
      then obtain w4 where f: "finalize_job env j ?m n w3 = Ok w4" "settled (sj_id j) Job_completed (jw_jobs w3) (jw_jobs w4)"
        using complete_write by blast
      then have "executeJob env j w = (Ok (), w4)" using p(1) g Inr b r3 by (simp add: executeJob_def Let_def)
      then show ?thesis using settled_after_same[OF j3 f(2)] by auto
    qed
  qed
qed

lemma claim_write:
  assumes "flight_index_ok js" "distinct (map sj_id js)" "j \<in> set js" "sj_status j = Job_pending"
  shows "\<exists>js'. job_update now (sj_id j) (start_job now) js = Ok js' \<and> map sj_id js' = map sj_id js \<and>
    filter (\<lambda>k. sj_id k \<noteq> sj_id j) js' = filter (\<lambda>k. sj_id k \<noteq> sj_id j) js"
proof -
  let ?g = "\<lambda>k. if sj_id k = sj_id j then (start_job now k)\<lparr> sj_updatedAt := now \<rparr> else k"
  have only: "?g k = k \<or> k = j" if "k \<in> set js" for k
    using that assms(2,3) by (auto simp: distinct_map dest: inj_onD)
  have fl: "in_flight (?g k) \<Longrightarrow> in_flight k \<and> job_key (?g k) = job_key k" if "k \<in> set js" for k
  proof (cases "k = j")
    case True
    then show ?thesis using assms(4) by (simp add: in_flight_def job_key_def start_job_def)
  next
    case False
    then have "?g k = k" using only[OF that] by blast
    then show "in_flight (?g k) \<Longrightarrow> in_flight k \<and> job_key (?g k) = job_key k" by (simp only:)
  qed
  have "flight_index_ok (map ?g ks)" if "set ks \<subseteq> set js" "flight_index_ok ks" for ks
    using flight_index_leave_on[OF that(2), of ?g] fl that(1) by blast
  then have u: "job_update now (sj_id j) (start_job now) js = Ok (map ?g js)"
    using assms(1) by (simp add: job_update_def Let_def)
  have "filter (\<lambda>k. sj_id k \<noteq> sj_id j) (map ?g xs) = filter (\<lambda>k. sj_id k \<noteq> sj_id j) xs" for xs
    by (induction xs) (auto simp: start_job_def)
  moreover have "map sj_id (map ?g js) = map sj_id js" by (simp add: start_job_def)
  ultimately show ?thesis using u by blast
qed


section \<open>A failure after the population was reconciled\<close>

lemma sync_groups: "t_groups (snd (syncUserEffectiveRoles env u ts db)) = t_groups db"
  by (simp add: syncUserEffectiveRoles_def Let_def deleteByIds_def insert_entries_def split: sum.splits)

lemma sync_each_groups: "t_groups (snd (sync_each env us db)) = t_groups db"
proof (induction us arbitrary: db)
  case (Cons u us)
  obtain r d where r: "syncEffectiveRolesForUser env u (recompute_targets (pe_tenant env) u db) db = (r, d)"
    by (cases "syncEffectiveRolesForUser env u (recompute_targets (pe_tenant env) u db) db")
  have "t_groups d = t_groups db"
    using sync_groups[of env u "recompute_targets (pe_tenant env) u db" db] r by (simp add: syncEffectiveRolesForUser_def)
  then show ?case using Cons[of d] r by (cases r) simp_all
qed simp

lemma recompute_each_groups: "t_groups (aw_db (snd (recompute_each env us a))) = t_groups (aw_db a)"
proof (induction us arbitrary: a)
  case (Cons u us)
  obtain r a1 where r: "recomputeUserEffectiveRoles (wk_kb env) (wk_proj env) (usr_id u) a = (r, a1)"
    by (cases "recomputeUserEffectiveRoles (wk_kb env) (wk_proj env) (usr_id u) a")
  have "t_groups (aw_db a1) = t_groups (aw_db a)"
    using r sync_groups[of "wk_proj env" "usr_id u" "recompute_targets (pe_tenant (wk_proj env)) (usr_id u) (aw_db a)" "aw_db a"]
    by (auto simp: recomputeUserEffectiveRoles_def deleteByUserId_def Let_def split: prod.splits sum.splits if_splits)
  then show ?case using Cons[of a1] r by (cases r) simp_all
qed simp

lemma population_projection:
  assumes "reconcileGroupPopulation env g ids v db = (Ok r, db')" "tenant_group (pe_tenant env) g db = Some grp"
  shows "tenant_group (pe_tenant env) g db' = Some (grp\<lparr> group_projectionVersion := v \<rparr>)"
proof -
  obtain added removed where ar: "reconcileGroupPopulation env g ids v db =
      (let db1 = mem_batchDelete (pe_tenant env) g removed (mem_batchInsert (pe_tenant env) g added db);
           result = \<lparr> pr_groupId = g, pr_added = added, pr_removed = removed, pr_total = length added + length removed \<rparr>
       in case tenant_group (pe_tenant env) g db1 of
            None \<Rightarrow> (Ok result, db1)
          | Some _ \<Rightarrow> (case sync_each env (added @ removed) db1 of
               (Inl e, db2) \<Rightarrow> (Fail e, db2)
             | (Inr _, db2) \<Rightarrow> (Ok result, group_updateProjectionVersion (pe_tenant env) g v db2)))"
    unfolding reconcileGroupPopulation_def Let_def by blast
  let ?db1 = "mem_batchDelete (pe_tenant env) g removed (mem_batchInsert (pe_tenant env) g added db)"
  have g1: "tenant_group (pe_tenant env) g ?db1 = Some grp"
    using assms(2) by (simp add: tenant_group_def mem_batchDelete_def mem_batchInsert_def)
  obtain res db2 where s: "sync_each env (added @ removed) ?db1 = (res, db2)" by (cases "sync_each env (added @ removed) ?db1")
  have "tenant_group (pe_tenant env) g db2 = Some grp"
    using g1 sync_each_groups[of env "added @ removed" ?db1] s by (simp add: tenant_group_def)
  moreover have "db' = group_updateProjectionVersion (pe_tenant env) g v db2"
    using assms(1) unfolding ar Let_def g1 s by (cases res) simp_all
  ultimately show ?thesis
    using tenant_group_SomeD[OF assms(2)] by (simp add: projection_version_group)
qed

text \<open>
  C27: When the population of a user group's current version was reconciled and the job then fails
  in a batch, because one user's roles cannot be recomputed, the job is marked failed but the
  group's projection version already is the current one: a retry answers that there is no failed
  synchronization, and the group's status is computed as completed whatever settled job is the
  latest.
\<close>

theorem failed_group_sync_looks_complete:
  assumes "flight_index_ok (jw_jobs w)" and "distinct (map sj_id (jw_jobs w))"
    and claim: "first_by claim_before (pending_jobs t (jw_jobs w)) = Some j"
    and src: "sj_sourceType j = Src_user_group" and t: "wk_tenant env = t" "t \<noteq> []"
    and grp: "tenant_group t (sj_sourceId j) (jw_db w) = Some g" "group_version g = sj_sourceVersion j"
    and ids: "getMatchedEmployeeIds (wk_pg env) (sj_tenant j) (group_matchingRule g) (sw_employees (jw_sync w)) = Ok ids"
    and pop: "reconcileGroupPopulation (wk_proj env) (sj_sourceId j) ids (sj_sourceVersion j) (jw_db w) = (Ok r, db)"
    and users: "\<forall>n. wk_users env n = sw_users (jw_sync w)"
    and fails: "recompute_each env (active_users t (sw_users (jw_sync w))) ((sw_authz (jw_sync w))\<lparr> aw_db := db \<rparr>) = (Fail e, a)"
  shows "\<exists>w'. run_next_job env t w = (Ok True, w') \<and> settled (sj_id j) Job_failed (jw_jobs w) (jw_jobs w') \<and>
     (\<forall>je st. je_tenant je = Some t \<longrightarrow>
        retryFailedSync je Src_user_group (sj_sourceId j) (jw_jobs w', jw_db w') st = (Fail No_failed_sync, st)) \<and>
     (\<forall>k. in_flight k \<or>
        fst (computeStatus (sj_sourceVersion j) (sj_sourceVersion j) (Some k)) = Status_completed) \<and>
     validateAndResolveSourceVersions t Src_user_group (sj_sourceId j) (jw_db w') = Ok (sj_sourceVersion j, sj_sourceVersion j)"
proof -
  have jj: "j \<in> set (jw_jobs w)" "sj_status j = Job_pending"
    using claim_order(2)[OF claim] by (auto simp: pending_jobs_def)
  obtain js where js: "job_update (wk_start env) (sj_id j) (start_job (wk_start env)) (jw_jobs w) = Ok js"
      "map sj_id js = map sj_id (jw_jobs w)"
      "filter (\<lambda>k. sj_id k \<noteq> sj_id j) js = filter (\<lambda>k. sj_id k \<noteq> sj_id j) (jw_jobs w)"
    using claim_write[OF assms(1,2) jj] by blast
  let ?j = "start_job (wk_start env) j" and ?w = "w\<lparr> jw_jobs := js \<rparr>"
  let ?m = "countActive t (sw_users (jw_sync w))"
  have f: "sj_id ?j = sj_id j" "sj_sourceType ?j = Src_user_group" "sj_sourceId ?j = sj_sourceId j"
      "sj_sourceVersion ?j = sj_sourceVersion j" "sj_tenant ?j = sj_tenant j"
    using src by (simp_all add: start_job_def)
  have claimed: "claimNextPendingJob (wk_start env) t (jw_jobs w) = Ok (Some ?j, js)"
    using claim js(1) by (simp add: claimNextPendingJob_def)
  have "flight_index_ok (jw_jobs ?w)" using job_update_index[OF js(1)] by simp
  then obtain js1 where p: "job_write (updateProgress (wk_start env) (sj_id j) 0 ?m) ?w = Ok (?w\<lparr> jw_jobs := js1 \<rparr>)"
      "same_jobs (sj_id j) js js1"
    using progress_write[of ?w "wk_start env" "sj_id j" 0 ?m] by auto
  let ?w1 = "w\<lparr> jw_jobs := js1 \<rparr>"
  have g: "reconcile_job_group env ?j ?w1 = (Ok (), with_db db ?w1)"
    using grp ids pop t by (simp add: reconcile_job_group_def f jw_db_def)
  have ok1: "flight_index_ok (jw_jobs (with_db db ?w1))" using p(2) by (simp add: same_jobs_def)
  have "recompute_each env (drop 0 (active_users (wk_tenant env) (sw_users (jw_sync w)))) (sw_authz (jw_sync (with_db db ?w1))) = (Fail e, a)"
    using fails t by (simp add: with_db_def)
  from batches_from[OF ok1 users refl _ this, of "sj_id j"] obtain js2 where b: "same_jobs (sj_id j) js1 js2"
      "process_batches env (sj_id j) ?m 0 (with_db db ?w1) = (Fail (Sync_error e), (with_authz a (with_db db ?w1))\<lparr> jw_jobs := js2 \<rparr>)"
    using t by (auto simp: countActive_def)
  let ?w2 = "(with_authz a (with_db db ?w1))\<lparr> jw_jobs := js2 \<rparr>"
  have x: "executeJob env ?j ?w = (Fail (Sync_error e), ?w2)"
    using p(1) g b(2) t by (simp add: executeJob_def Let_def f)
  have "flight_index_ok (jw_jobs ?w2)" using b(1) by (simp add: same_jobs_def)
  then obtain w' where h: "handleJobFailure env ?j (Sync_error e) ?w2 = Ok w'" "settled (sj_id j) Job_failed js2 (jw_jobs w')"
      "t_groups (jw_db w') = t_groups (jw_db ?w2)"
    using fail_write[of ?w2 env ?j "Sync_error e"] f(1) by auto
  have run: "run_next_job env t w = (Ok True, w')" using x h(1) by (simp add: run_next_job_def claimed)
  have settled: "settled (sj_id j) Job_failed (jw_jobs w) (jw_jobs w')"
    using settled_after_same[OF p(2)] settled_after_same[OF b(1) h(2)] js(2,3) by (simp add: settled_def)
  have "t_groups (aw_db a) = t_groups db"
    using recompute_each_groups[of env "active_users t (sw_users (jw_sync w))" "(sw_authz (jw_sync w))\<lparr> aw_db := db \<rparr>"] fails by simp
  then have "t_groups (jw_db w') = t_groups db" using h(3) by (simp add: jw_db_def)
  then have "tenant_group t (sj_sourceId j) (jw_db w') = Some (g\<lparr> group_projectionVersion := sj_sourceVersion j \<rparr>)"
    using population_projection[OF pop] grp(1) t by (simp add: tenant_group_def wk_tenant_def)
  then have v: "validateAndResolveSourceVersions t Src_user_group (sj_sourceId j) (jw_db w') = Ok (sj_sourceVersion j, sj_sourceVersion j)"
    using grp(2) by (simp add: validateAndResolveSourceVersions_def)
  have "or_null (Some t) = Some t" using t(2) by (simp add: or_null_def split: list.splits)
  then have "je_tenant je = Some t \<Longrightarrow>
        retryFailedSync je Src_user_group (sj_sourceId j) (jw_jobs w', jw_db w') st = (Fail No_failed_sync, st)" for je st
    by (simp add: retryFailedSync_def v)
  moreover have "in_flight k \<or> fst (computeStatus (sj_sourceVersion j) (sj_sourceVersion j) (Some k)) = Status_completed" for k
    by (auto simp: computeStatus_def in_flight_def)
  ultimately show ?thesis using run settled v by blast
qed

section \<open>Instances\<close>

text \<open>A tenant with the sample group, without members, and a group whose scope reference is no identifier.\<close>

definition broken_group :: user_group where
  "broken_group = sample_group\<lparr> group_id := ''g2'', group_name := ''Site'', group_scopeRefId := Some ''HQ'' \<rparr>"

definition broken_db :: authz_db where
  "broken_db = sample_db\<lparr> t_groups := [sample_group, broken_group],
     t_group_roles := [\<lparr> ugr_tenant = ''acme'', ugr_groupId = ''g2'', ugr_roleId = ''r1'' \<rparr>],
     t_memberships := [\<lparr> mem_tenant = ''acme'', mem_groupId = ''g2'', mem_userId = ''u2'' \<rparr>] \<rparr>"

definition user2 :: app_user where
  "user2 =
    \<lparr> usr_id = ''u2'', usr_tenant = ''acme'', usr_employeeRefId = None, usr_normalizedEmail = ''u2@acme'',
      usr_displayEmail = ''u2@acme'', usr_userType = ''EMPLOYEE'', usr_status = User_active,
      usr_credentialStatus = Credential_active, usr_securityVersion = 1, usr_protectedRootAdmin = False,
      usr_mfaEnrollmentRequired = False, usr_mfaReEnrollmentRequired = False, usr_externalIdentityId = None \<rparr>"

definition broken_world :: job_world where
  "broken_world =
    \<lparr> jw_sync = \<lparr> sw_authz = sample_world\<lparr> aw_db := broken_db \<rparr>, sw_employees = [], sw_users = [user2] \<rparr>,
      jw_jobs = [job0] \<rparr>"

definition worker_env0 :: worker_env where
  "worker_env0 =
    \<lparr> wk_proj = env0\<lparr> pe_uuid := (\<lambda>x. if x = ''HQ'' then None else Some x) \<rparr>, wk_kb = (\<lambda>t u. t @ u),
      wk_pg = \<lparr> pg_uuid = Some, pg_int = (\<lambda>s. None), pg_before = (\<lambda>x y. False) \<rparr>, wk_start = 10, wk_end = 20,
      wk_iso = ''now'', wk_users = (\<lambda>n. [user2]), wk_error_name = (\<lambda>e. ''Error''), wk_error_message = (\<lambda>e. ''invalid''),
      wk_error_stack = (\<lambda>e. None) \<rparr>"

lemma job0_fields [simp]:
  "sj_id job0 = ''job-g1''" "sj_tenant job0 = ''acme''" "sj_sourceType job0 = Src_user_group" "sj_sourceId job0 = ''g1''"
  "sj_sourceVersion job0 = 2" "sj_status job0 = Job_pending" "sj_priority job0 = Prio_standard"
  by (simp_all add: job0_def job_for_def new_job_def job_env0_def scan_params_def enqueue_priority_def)

lemma worker_tenant0 [simp]: "wk_tenant worker_env0 = ''acme''"
  by (simp add: wk_tenant_def worker_env0_def env0_def)

lemma broken_world_jobs [simp]:
  "jw_jobs broken_world = [job0]" "flight_index_ok [job0]" "sw_users (jw_sync broken_world) = [user2]"
  by (simp_all add: broken_world_def flight_index_ok_def)

lemma broken_active: "active_users ''acme'' [user2] = [user2]"
  by (simp add: active_users_def user2_def)

lemma broken_recompute:
  assumes "t_groups (aw_db a) = t_groups broken_db \<or> t_groups (aw_db a) = t_groups (group_updateProjectionVersion ''acme'' ''g1'' 2 broken_db)"
    and "t_group_roles (aw_db a) = t_group_roles broken_db" "t_memberships (aw_db a) = t_memberships broken_db"
    and "t_effective_roles (aw_db a) = []"
  shows "recompute_each worker_env0 [user2] a = (Fail (Projection_failed Invalid_uuid_text), a)"
proof -
  let ?e = "\<lparr> grant_roleId = ''r1'', grant_groupId = ''g2'', grant_scopeType = ''COMPANY'', grant_refId = Some ''HQ'' \<rparr>"
  have "tenant_group ''acme'' ''g2'' (aw_db a) = Some broken_group"
    using assms(1) by (auto simp: tenant_group_def broken_db_def sample_group_def broken_group_def group_updateProjectionVersion_def)
  then have ts: "recompute_targets ''acme'' ''u2'' (aw_db a) = [?e]"
    using assms(2,3)
    by (simp add: recompute_targets_def findByUserId_def group_grants_def roles_of_group_def broken_db_def
        broken_group_def sample_group_def or_null_def scope_type_string_def)
  have rows: "user_rows (wk_proj worker_env0) u (aw_db a) = []" for u using assms(4) by (simp add: user_rows_def)
  have "\<not> insertable (wk_proj worker_env0) ?e"
    by (simp add: insertable_def or_null_def worker_env0_def)
  then have "syncUserEffectiveRoles (wk_proj worker_env0) ''u2'' [?e] (aw_db a) = (Fail Invalid_uuid_text, aw_db a)"
    by (simp add: syncUserEffectiveRoles_def rows js_map_of_def to_delete_def to_insert_def insert_entries_def)
  moreover have "pe_tenant (wk_proj worker_env0) = ''acme''" "usr_id user2 = ''u2''"
    by (simp_all add: worker_env0_def env0_def user2_def)
  ultimately show ?thesis by (simp add: recomputeUserEffectiveRoles_def ts Let_def)
qed

theorem batches_are_one_pass_witness:
  "\<exists>js. process_batches worker_env0 ''job-g1'' 1 0 broken_world =
     (Fail (Sync_error (Projection_failed Invalid_uuid_text)), broken_world\<lparr> jw_jobs := js \<rparr>)"
proof -
  let ?a = "sw_authz (jw_sync broken_world)"
  have "recompute_each worker_env0 (active_users (wk_tenant worker_env0) [user2]) ?a =
      (Fail (Projection_failed Invalid_uuid_text), ?a)"
    unfolding worker_tenant0 broken_active
    by (rule broken_recompute) (simp_all add: broken_world_def broken_db_def sample_db_def)
  moreover have "\<forall>n. wk_users worker_env0 n = [user2]" by (simp add: worker_env0_def)
  moreover have "countActive (wk_tenant worker_env0) [user2] = 1" by (simp add: countActive_def broken_active)
  ultimately show ?thesis
    using batches_are_one_pass[of broken_world worker_env0 "[user2]" _ ?a "''job-g1''"] by fastforce
qed


theorem failed_group_sync_looks_complete_witness:
  "\<exists>w'. run_next_job worker_env0 ''acme'' broken_world = (Ok True, w') \<and> settled ''job-g1'' Job_failed [job0] (jw_jobs w') \<and>
     validateAndResolveSourceVersions ''acme'' Src_user_group ''g1'' (jw_db w') = Ok (2, 2)"
proof -
  let ?db = "group_updateProjectionVersion ''acme'' ''g1'' 2 broken_db"
  let ?a = "(sw_authz (jw_sync broken_world))\<lparr> aw_db := ?db \<rparr>"
  have "first_by claim_before (pending_jobs ''acme'' (jw_jobs broken_world)) = Some job0"
    by (simp add: pending_jobs_def first_by_def)
  moreover have "tenant_group ''acme'' (sj_sourceId job0) (jw_db broken_world) = Some sample_group"
    by (simp add: tenant_group_def jw_db_def broken_world_def broken_db_def sample_group_def)
  moreover have "group_version sample_group = sj_sourceVersion job0" by (simp add: sample_group_def)
  moreover have "getMatchedEmployeeIds (wk_pg worker_env0) (sj_tenant job0) (group_matchingRule sample_group)
      (sw_employees (jw_sync broken_world)) = Ok []"
    by (simp add: getMatchedEmployeeIds_def broken_world_def)
  moreover have "reconcileGroupPopulation (wk_proj worker_env0) (sj_sourceId job0) [] (sj_sourceVersion job0) (jw_db broken_world) =
      (Ok \<lparr> pr_groupId = ''g1'', pr_added = [], pr_removed = [], pr_total = 0 \<rparr>, ?db)"
    by (simp add: reconcileGroupPopulation_def Let_def jw_db_def broken_world_def broken_db_def sample_db_def
        findMemberEmployeeIdsByGroup_def mem_batchDelete_def mem_batchInsert_def delete_rows_def tenant_group_def
        sample_group_def broken_group_def worker_env0_def env0_def)
  moreover have "\<forall>n. wk_users worker_env0 n = sw_users (jw_sync broken_world)" by (simp add: worker_env0_def)
  moreover have "recompute_each worker_env0 (active_users ''acme'' (sw_users (jw_sync broken_world))) ?a =
      (Fail (Projection_failed Invalid_uuid_text), ?a)"
    unfolding broken_world_jobs broken_active
    by (rule broken_recompute) (simp_all add: broken_db_def sample_db_def)
  ultimately show ?thesis
    using failed_group_sync_looks_complete[of broken_world "''acme''" job0 worker_env0 sample_group "[]"]
    by fastforce
qed

end
