(* ===== verification/Matching_Properties.thy ===== *)
theory Matching_Properties
  imports Matching_Query
begin

text \<open>
  The properties of matching rules: what the validator accepts, where the database query and the
  in-memory evaluator select the same employees, and where they part.
\<close>

section \<open>The validator\<close>

text \<open>A combinator that is absent, or any other falsy value, or a spelling of ALL.\<close>

definition combinator_accepted :: "json \<Rightarrow> bool" where
  "combinator_accepted k = (truthy k \<longrightarrow> (\<exists>s. k = JStr s \<and> js_lower s = ''all''))"

text \<open>What the validator asks of a clause, as conditions on its fields.\<close>

definition operator_arity_ok :: "string \<Rightarrow> json \<Rightarrow> bool" where
  "operator_arity_ok op c =
    (if op \<in> {''in'', ''not_in''} then (\<exists>x xs. jfield ''values'' c = JArr (x # xs))
     else op \<in> {''is_true'', ''is_false'', ''exists''} \<or>
          jfield ''value'' c \<notin> {JUndefined, JNull, JStr []})"

definition clause_accepted :: "json \<Rightarrow> string \<Rightarrow> bool" where
  "clause_accepted c a \<longleftrightarrow>
     (\<exists>fs. c = JObj fs) \<and> jfield ''attribute'' c = JStr a \<and> a \<in> set ALLOWED_ATTRIBUTES \<and>
     (\<exists>p. jfield ''operator'' c = JStr p \<and> js_lower p \<in> set ALLOWED_OPERATORS \<and>
          operator_arity_ok (js_lower p) c)"

lemma no_empty_names:
  "[] \<notin> set ALLOWED_ATTRIBUTES" "[] \<notin> set ALLOWED_OPERATORS" "js_lower [] = []"
  by (simp_all add: ALLOWED_ATTRIBUTES_def ALLOWED_OPERATORS_def js_lower_def)

lemma jfield_object: "jfield k c = JStr s \<Longrightarrow> \<exists>fs. c = JObj fs"
  by (cases c) (auto simp: jfield_def)

lemma validateClause_exact: "validateClause c i = Ok a \<longleftrightarrow> clause_accepted c a"
proof (cases "\<exists>x xs p ps. jfield ''attribute'' c = JStr (x # xs) \<and> jfield ''operator'' c = JStr (p # ps)")
  case True
  then obtain x xs p ps where f: "jfield ''attribute'' c = JStr (x # xs)" "jfield ''operator'' c = JStr (p # ps)"
    by blast
  obtain fs where c: "c = JObj fs" using jfield_object[OF f(1)] by blast
  show ?thesis
    using f c
    by (cases "jfield ''values'' c" rule: json.exhaust)
       (auto simp: validateClause_def clause_accepted_def operator_arity_ok_def value_missing_def Let_def
          split: list.splits)
next
  case False
  have "\<not> clause_accepted c a"
  proof
    assume "clause_accepted c a"
    then obtain p where p: "jfield ''attribute'' c = JStr a" "a \<in> set ALLOWED_ATTRIBUTES"
        "jfield ''operator'' c = JStr p" "js_lower p \<in> set ALLOWED_OPERATORS"
      unfolding clause_accepted_def by blast
    then have "a \<noteq> []" "p \<noteq> []" using no_empty_names by (metis, metis)
    then show False using False p by (metis neq_Nil_conv)
  qed
  moreover have "validateClause c i \<noteq> Ok a"
    using False by (auto simp: validateClause_def split: json.splits list.splits if_splits)
  ultimately show ?thesis by simp
qed

lemma validate_clauses_exact:
  "validate_clauses cs i keys = Ok r \<longleftrightarrow>
     (\<exists>as. list_all2 clause_accepted cs as \<and> r = fold js_add as keys)"
proof (induction cs arbitrary: i keys)
  case (Cons c cs)
  have "validate_clauses (c # cs) i keys = Ok r \<longleftrightarrow>
      (\<exists>a. validateClause c i = Ok a \<and> validate_clauses cs (i + 1) (js_add a keys) = Ok r)"
    by (cases "validateClause c i") simp_all
  then show ?case
    by (simp add: Cons validateClause_exact list_all2_Cons1) (metis fold_simps(2))
qed auto

text \<open>
  The validator accepts a JSON rule exactly when it is an object whose combinator is absent
  (or any falsy value) or a spelling of ALL, and whose clauses form a nonempty array of clauses
  that each name an allowed attribute and an allowed operator, in any letter case, with the
  operand that operator needs; it then returns the distinct attribute names, in order.
\<close>

theorem rule_validation_exact:
  "validateRule r = Ok keys \<longleftrightarrow>
     (\<exists>fs cs as. r = JObj fs \<and>
        combinator_accepted (jfield ''combinator'' r) \<and>
        jfield ''clauses'' r = JArr cs \<and> cs \<noteq> [] \<and>
        list_all2 clause_accepted cs as \<and> keys = js_set_of as)"
proof (cases "\<exists>fs c cs. r = JObj fs \<and> jfield ''clauses'' r = JArr (c # cs)")
  case True
  then obtain fs c cs where r: "r = JObj fs" "jfield ''clauses'' r = JArr (c # cs)" by blast
  let ?k = "jfield ''combinator'' r"
  have k: "combinator_check ?k = Ok () \<longleftrightarrow> combinator_accepted ?k"
    by (cases ?k) (auto simp: combinator_check_def combinator_accepted_def)
  have "validateRule r = Ok keys \<longleftrightarrow>
      combinator_check ?k = Ok () \<and> validate_clauses (c # cs) 0 [] = Ok keys"
    using r by (cases "combinator_check ?k") (simp_all add: validateRule_def del: validate_clauses.simps)
  then show ?thesis
    using r unfolding k validate_clauses_exact js_set_of_def Let_def by auto
next
  case False
  have "validateRule r \<noteq> Ok keys"
    using False
    by (cases r; cases "combinator_check (jfield ''combinator'' r)"; cases "jfield ''clauses'' r")
       (auto simp: validateRule_def jfield_def split: list.splits)
  then show ?thesis using False by (auto simp: neq_Nil_conv)
qed

section \<open>Query and evaluator\<close>

lemma combine_clauses:
  assumes "list_all (\<lambda>c. \<exists>b. f c = Ok b \<and> (b = Some True \<longleftrightarrow> g c)) cs"
  shows "combine_conditions (Ok (Some t) # map f cs) = Ok (t \<and> list_all g cs)"
  using assms by (auto simp: combine_conditions_def list_all_iff)

text \<open>
  C35: For every rule with clauses whose values are well formed for their columns (and which
  avoids the forms listed by safe_clause as diverging), the generated database query, read with
  PostgreSQL's three-valued logic, never fails and selects an employee exactly when the employee
  is of the tenant and the in-memory evaluator accepts it.
\<close>

theorem query_and_evaluator_agree:
  assumes "rule_clauses rule \<noteq> []" "list_all (safe_clause pg) (rule_clauses rule)"
  shows "query_selects pg t rule e = Ok (emp_tenant e = t \<and> evaluateRule str_num rule e)"
proof -
  have "list_all (\<lambda>c. \<exists>b. clause_result pg e c = Ok b \<and> (b = Some True \<longleftrightarrow> evaluateClause str_num c e))
      (rule_clauses rule)"
    using assms(2) safe_clause_agrees[of pg _ e str_num] unfolding list_all_iff by blast
  from combine_clauses[OF this] show ?thesis
    using assms(1) by (simp add: query_selects_clauses evaluateRule_def)
qed

definition plain_num :: "string \<Rightarrow> int option" where
  "plain_num s = (if int_string (int_of_string s) = s then Some (int_of_string s) else None)"

definition plain_pg :: pg_types where
  "plain_pg = \<lparr> pg_uuid = (\<lambda>s. if length s = 36 then Some s else None), pg_int = plain_num,
     pg_before = (\<lambda>x y. False) \<rparr>"

definition dept_uuid :: string where
  "dept_uuid = ''00000000-0000-4000-8000-00000000000a''"

definition sample_employee :: employee_reference where
  "sample_employee = \<lparr> emp_id = ''r1'', emp_tenant = ''acme'', emp_code = ''E-1'',
     emp_companyId = None, emp_locationId = None, emp_departmentId = Some dept_uuid, emp_gradeId = None,
     emp_jobTitleId = None, emp_employmentStatus = ''ACTIVE'', emp_status = ''ACTIVE'', emp_managerId = None,
     emp_reporteesCount = 12, emp_sourceVersion = None \<rparr>"

definition simple_clause :: "string \<Rightarrow> string \<Rightarrow> json \<Rightarrow> rule_clause" where
  "simple_clause a op v = \<lparr> clause_attribute = a, clause_operator = op, clause_value = v, clause_values = None \<rparr>"

definition manager_rule :: matching_rule where
  "manager_rule = \<lparr> rule_combinator = Some ''ALL'', rule_clauses =
     [simple_clause ''departmentId'' ''EQUALS'' (JStr dept_uuid),
      simple_clause ''reporteesCount'' ''gte'' (JNum 10),
      simple_clause ''hasReportees'' ''is_true'' JUndefined,
      \<lparr> clause_attribute = ''companyId'', clause_operator = ''not_in'', clause_value = JUndefined,
        clause_values = Some [JStr dept_uuid] \<rparr>] \<rparr>"

lemma manager_rule_safe: "list_all (safe_clause plain_pg) (rule_clauses manager_rule)"
  by code_simp

theorem query_and_evaluator_agree_witness:
  "query_selects plain_pg ''acme'' manager_rule sample_employee = Ok True \<and>
   query_selects plain_pg ''other'' manager_rule sample_employee = Ok False \<and>
   query_selects plain_pg ''acme'' manager_rule (sample_employee\<lparr>emp_reporteesCount := 9\<rparr>) = Ok False"
proof -
  have ne: "rule_clauses manager_rule \<noteq> []" by (simp add: manager_rule_def)
  note agree = query_and_evaluator_agree[OF ne manager_rule_safe, of _ _ "\<lambda>_. None"]
  have "emp_tenant sample_employee = ''acme''" by (simp add: sample_employee_def)
  moreover have "evaluateRule (\<lambda>_. None) manager_rule sample_employee"
    "\<not> evaluateRule (\<lambda>_. None) manager_rule (sample_employee\<lparr>emp_reporteesCount := 9\<rparr>)"
    by code_simp+
  ultimately show ?thesis using agree by simp
qed

section \<open>Where they part\<close>

text \<open>An accepted attribute and operator for which the builder has no condition.\<close>

definition unbuilt_clause :: "rule_clause \<Rightarrow> bool" where
  "unbuilt_clause c =
    (let op = js_lower (clause_operator c); v = clause_value c in
     if clause_attribute c = ''hasReportees'' then
       op \<noteq> ''is_true'' \<and> op \<noteq> ''is_false'' \<and> \<not> (op = ''eq'' \<and> (v = JBool True \<or> v = JBool False))
     else op = ''is_true'' \<or> op = ''is_false'')"

lemma allowed_attribute_column:
  assumes "a \<in> set ALLOWED_ATTRIBUTES" "a \<noteq> ''hasReportees''"
  shows "\<exists>col. mapAttributeToColumn a = Some col"
proof -
  have "list_all (\<lambda>a. a = ''hasReportees'' \<or> mapAttributeToColumn a \<noteq> None) ALLOWED_ATTRIBUTES" by code_simp
  then show ?thesis using assms by (auto simp: list_all_iff)
qed

lemma column_output_none:
  assumes "op \<in> set ALLOWED_OPERATORS"
  shows "column_output op col c = No_condition \<longleftrightarrow> op = ''is_true'' \<or> op = ''is_false''"
proof -
  have "column_output ''is_true'' col c = No_condition" "column_output ''is_false'' col c = No_condition"
    by (simp_all add: column_output_def)
  moreover have "list_all (\<lambda>op. op = ''is_true'' \<or> op = ''is_false'' \<or> column_output op col c \<noteq> No_condition)
      ALLOWED_OPERATORS"
    by (simp add: ALLOWED_OPERATORS_def operator_simps)
  ultimately show ?thesis using assms by (auto simp: list_all_iff)
qed

lemma unbuilt_iff:
  assumes "clause_attribute c \<in> set ALLOWED_ATTRIBUTES" "js_lower (clause_operator c) \<in> set ALLOWED_OPERATORS"
  shows "clause_output c = No_condition \<longleftrightarrow> unbuilt_clause c"
proof (cases "clause_attribute c = ''hasReportees''")
  case True
  then show ?thesis by (auto simp: clause_output_def unbuilt_clause_def Let_def)
next
  case False
  obtain col where col: "mapAttributeToColumn (clause_attribute c) = Some col"
    using allowed_attribute_column[OF assms(1) False] by blast
  have "clause_attribute c \<noteq> []" using assms(1) no_empty_names by metis
  then have "clause_output c = column_output (js_lower (clause_operator c)) col c"
    using False col by (simp add: clause_output_def Let_def)
  then show ?thesis using column_output_none[OF assms(2)] False by (simp add: unbuilt_clause_def Let_def)
qed

lemma emit_same: "emit o1 q = q \<longleftrightarrow> o1 = No_condition"
  by (cases o1; cases q) (auto simp: add_condition_def with_param_def)

text \<open>
  Of the clauses the validator accepts, the query builder drops exactly the is_true and
  is_false clauses on attributes other than hasReportees, and the hasReportees clauses with any
  other operator than is_true, is_false or eq with a boolean.
\<close>

theorem dropped_clauses_exact:
  assumes "clause_attribute c \<in> set ALLOWED_ATTRIBUTES"
    and "js_lower (clause_operator c) \<in> set ALLOWED_OPERATORS"
  shows "add_clause c q = q \<longleftrightarrow> unbuilt_clause c"
  using unbuilt_iff[OF assms] by (simp add: add_clause_emit emit_same)

theorem dropped_clauses_exact_witness:
  "add_clause (simple_clause ''departmentId'' ''is_true'' JUndefined) ([Tenant_is 1], [JStr ''acme''])
     = ([Tenant_is 1], [JStr ''acme''])"
proof -
  have "unbuilt_clause (simple_clause ''departmentId'' ''is_true'' JUndefined)" by code_simp
  moreover have "clause_attribute (simple_clause ''departmentId'' ''is_true'' JUndefined) \<in> set ALLOWED_ATTRIBUTES"
    "js_lower (clause_operator (simple_clause ''departmentId'' ''is_true'' JUndefined)) \<in> set ALLOWED_OPERATORS"
    by code_simp+
  ultimately show ?thesis using dropped_clauses_exact by blast
qed

lemma dropped_result: "clause_output c = No_condition \<Longrightarrow> clause_result pg e c = Ok (Some True)"
  by (simp add: clause_result_def)

text \<open>
  A rule made only of clauses the query builder drops selects every employee of the tenant,
  whatever the in-memory evaluator says of them.
\<close>

theorem dropped_rule_selects_tenant:
  assumes "list_all (\<lambda>c. clause_attribute c \<in> set ALLOWED_ATTRIBUTES \<and>
      js_lower (clause_operator c) \<in> set ALLOWED_OPERATORS \<and> unbuilt_clause c) (rule_clauses rule)"
  shows "query_selects pg t rule e = Ok (emp_tenant e = t)"
proof -
  have "list_all (\<lambda>c. \<exists>b. clause_result pg e c = Ok b \<and> (b = Some True \<longleftrightarrow> True)) (rule_clauses rule)"
    using assms unbuilt_iff dropped_result[of _ pg e] unfolding list_all_iff by blast
  from combine_clauses[OF this] show ?thesis by (simp add: query_selects_clauses list_all_iff)
qed

definition equals_rule_json :: json where
  "equals_rule_json = JObj [(''clauses'', JArr [JObj [(''attribute'', JStr ''hasReportees''),
     (''operator'', JStr ''equals''), (''value'', JBool False)]])]"

definition equals_rule :: matching_rule where
  "equals_rule = \<lparr> rule_combinator = Some ''ALL'',
     rule_clauses = [simple_clause ''hasReportees'' ''equals'' (JBool False)] \<rparr>"

theorem dropped_rule_selects_tenant_witness:
  "validateRule equals_rule_json = Ok [''hasReportees''] \<and>
   query_selects plain_pg ''acme'' equals_rule sample_employee = Ok True \<and>
   \<not> evaluateRule (\<lambda>_. None) equals_rule sample_employee"
proof -
  have "list_all (\<lambda>c. clause_attribute c \<in> set ALLOWED_ATTRIBUTES \<and>
      js_lower (clause_operator c) \<in> set ALLOWED_OPERATORS \<and> unbuilt_clause c) (rule_clauses equals_rule)"
    by code_simp
  from dropped_rule_selects_tenant[OF this, of plain_pg "''acme''" sample_employee]
  have "query_selects plain_pg ''acme'' equals_rule sample_employee = Ok True"
    by (simp add: sample_employee_def)
  moreover have "validateRule equals_rule_json = Ok [''hasReportees'']" by code_simp
  moreover have "\<not> evaluateRule (\<lambda>_. None) equals_rule sample_employee" by code_simp
  ultimately show ?thesis by blast
qed

lemma exists_output:
  assumes "clause_attribute c \<in> set ALLOWED_ATTRIBUTES" "js_lower (clause_operator c) = ''exists''"
    and "clause_attribute c \<noteq> ''hasReportees''" "clause_attribute c \<noteq> ''employmentStatus''"
  shows "\<exists>col. clause_output c = Plain (Col_present col) \<and> column_type col \<noteq> Text_column"
proof -
  obtain col where col: "mapAttributeToColumn (clause_attribute c) = Some col"
    using allowed_attribute_column[OF assms(1,3)] by blast
  have "column_type col \<noteq> Text_column"
    using col assms(4) by (auto simp: mapAttributeToColumn_def column_type_def split: if_splits)
  moreover have "clause_attribute c \<noteq> []" using assms(1) no_empty_names by metis
  ultimately show ?thesis using assms(2,3) col by (simp add: clause_output_def Let_def operator_simps)
qed

text \<open>
  A rule with an exists clause on any attribute but employmentStatus and hasReportees yields a
  query that fails for every employee, because the empty text it compares with is no value of the
  column's type, while the evaluator gives such clauses a meaning.
\<close>

theorem exists_query_fails:
  assumes "pg_uuid pg [] = None" "pg_int pg [] = None"
    and "c \<in> set (rule_clauses rule)" "clause_attribute c \<in> set ALLOWED_ATTRIBUTES"
    and "js_lower (clause_operator c) = ''exists''"
    and "clause_attribute c \<noteq> ''hasReportees''" "clause_attribute c \<noteq> ''employmentStatus''"
  shows "query_selects pg t rule e = Fail ()"
proof -
  obtain col where "clause_output c = Plain (Col_present col)" "column_type col \<noteq> Text_column"
    using exists_output[OF assms(4-7)] by blast
  then have "clause_result pg e c = Fail ()"
    using assms(1,2) by (cases "column_type col") (simp_all add: clause_result_def bind_text_def pg_input_def)
  then have "\<not> list_all is_ok (map (clause_result pg e) (rule_clauses rule))"
    using assms(3) by (force simp: list_all_iff)
  then show ?thesis by (simp add: query_selects_clauses combine_conditions_def)
qed

theorem exists_query_fails_witness:
  "query_selects plain_pg ''acme''
     \<lparr> rule_combinator = Some ''ALL'', rule_clauses = [simple_clause ''departmentId'' ''exists'' JUndefined] \<rparr>
     sample_employee = Fail () \<and>
   evaluateClause (\<lambda>_. None) (simple_clause ''departmentId'' ''exists'' JUndefined) sample_employee"
proof
  let ?c = "simple_clause ''departmentId'' ''exists'' JUndefined"
  let ?r = "\<lparr> rule_combinator = Some ''ALL'', rule_clauses = [?c] \<rparr>"
  have "pg_uuid plain_pg [] = None" "pg_int plain_pg [] = None" by code_simp+
  moreover have "clause_attribute ?c \<in> set ALLOWED_ATTRIBUTES" "js_lower (clause_operator ?c) = ''exists''"
    "clause_attribute ?c \<noteq> ''hasReportees''" "clause_attribute ?c \<noteq> ''employmentStatus''"
    by code_simp+
  moreover have "?c \<in> set (rule_clauses ?r)" by simp
  ultimately show "query_selects plain_pg ''acme'' ?r sample_employee = Fail ()"
    by (intro exists_query_fails[where c = ?c])
  show "evaluateClause (\<lambda>_. None) ?c sample_employee" by code_simp
qed

end
