(* ===== verification/Impact_Properties.thy ===== *)
theory Impact_Properties
  imports Impact_Analysis Sync_Worker_Properties Matching_Properties
begin

text \<open>
  What the previews tell: when the warning about administrators appears, and that the estimate of a
  rule change is what the reconciliation with that rule does.
\<close>

section \<open>The coverage warning\<close>

definition holders :: "preview_env \<Rightarrow> uuid \<Rightarrow> authz_db \<Rightarrow> uuid set" where
  "holders env r db =
    uer_userId ` {x \<in> set (t_effective_roles db). uer_tenant x = pv_tenant env \<and> uer_roleId x = r}"

definition without_group_grants :: "uuid \<Rightarrow> authz_db \<Rightarrow> authz_db" where
  "without_group_grants g db = db\<lparr> t_effective_roles := filter (\<lambda>x. uer_sourceGroupId x \<noteq> g) (t_effective_roles db) \<rparr>"

lemma length_js_set_of_0: "length (js_set_of xs) = 0 \<longleftrightarrow> set xs = {}"
  by (metis set_js_set_of length_0_conv set_empty)

lemma counts_holders:
  "0 < countActiveHoldersByRoleId (pv_projection env) r db \<longleftrightarrow> holders env r db \<noteq> {}"
  "countActiveHoldersExcludingSourceGroup (pv_projection env) r g db = 0 \<longleftrightarrow> holders env r (without_group_grants g db) = {}"
  unfolding countActiveHoldersByRoleId_def countActiveHoldersExcludingSourceGroup_def
  by (auto simp: length_js_set_of_0 holders_def without_group_grants_def pv_tenant_def filter_empty_conv
      simp del: length_0_conv length_greater_0_conv simp flip: neq0_conv)

lemma coverage_loss_group:
  "coverage_loss env db None (Some g) rs \<noteq> None \<longleftrightarrow>
    (\<exists>r. r \<in> set rs \<and> holders env (role_id r) db \<noteq> {} \<and> holders env (role_id r) (without_group_grants g db) = {})"
  by (induction rs) (auto simp: Let_def counts_holders)

lemma coverage_loss_role:
  "coverage_loss env db (Some i) None rs \<noteq> None \<longleftrightarrow> (\<exists>r. r \<in> set rs \<and> role_id r = i \<and> holders env i db \<noteq> {})"
  by (induction rs) (auto simp: Let_def counts_holders)

text \<open>
  The preview of a group warns exactly when some active administrator role has holders and none
  of them would be left without the group's grants, and the preview of a role exactly when it is an
  active administrator role with holders.  What the request proposes does not matter: a preview of
  an unrelated change carries the same warning.
\<close>

theorem coverage_warning_exact:
  "(case previewUserGroupImpact env g dto threshold w of
      Inl e \<Rightarrow> True
    | Inr a \<Rightarrow> ia_coverageLoss a \<noteq> None \<longleftrightarrow>
        (\<exists>r. r \<in> set (findActiveBuiltInAdminRoles (pv_tenant env) (aw_db (sw_authz w))) \<and>
           holders env (role_id r) (aw_db (sw_authz w)) \<noteq> {} \<and>
           holders env (role_id r) (without_group_grants g (aw_db (sw_authz w))) = {})) \<and>
   (case previewRoleImpact env i rdto threshold2 db of
      Inl e \<Rightarrow> True
    | Inr a \<Rightarrow> ia_coverageLoss a \<noteq> None \<longleftrightarrow>
        (\<exists>r. r \<in> set (findActiveBuiltInAdminRoles (pv_tenant env) db) \<and> role_id r = i \<and> holders env i db \<noteq> {}))"
proof (intro conjI)
  have "group_id x = g" if "preview_group env g db = Inr x" for x db
    using that by (auto simp: preview_group_def group_required_def group_find_def dest!: find_SomeD split: option.splits sum.splits)
  then show "case previewUserGroupImpact env g dto threshold w of
      Inl e \<Rightarrow> True
    | Inr a \<Rightarrow> ia_coverageLoss a \<noteq> None \<longleftrightarrow>
        (\<exists>r. r \<in> set (findActiveBuiltInAdminRoles (pv_tenant env) (aw_db (sw_authz w))) \<and>
           holders env (role_id r) (aw_db (sw_authz w)) \<noteq> {} \<and>
           holders env (role_id r) (without_group_grants g (aw_db (sw_authz w))) = {})"
    unfolding coverage_loss_group[symmetric]
    by (auto simp: previewUserGroupImpact_def and_then_def Let_def checkCriticalCapabilityCoverageLoss_def
        split: sum.splits)
next
  have "role_id r = i" if "role_find t i db = Some r" for t r using that by (auto simp: role_find_def dest: find_SomeD)
  then show "case previewRoleImpact env i rdto threshold2 db of
      Inl e \<Rightarrow> True
    | Inr a \<Rightarrow> ia_coverageLoss a \<noteq> None \<longleftrightarrow>
        (\<exists>r. r \<in> set (findActiveBuiltInAdminRoles (pv_tenant env) db) \<and> role_id r = i \<and> holders env i db \<noteq> {})"
    unfolding coverage_loss_role[symmetric]
    by (auto simp: previewRoleImpact_def Let_def checkCriticalCapabilityCoverageLoss_def split: option.splits)
qed

section \<open>The estimate\<close>

lemma count_missing_card: "distinct xs \<Longrightarrow> count_missing xs ys = card (set xs - set ys)"
proof (induction xs)
  case (Cons x xs)
  have "set (x # xs) - set ys = (if x \<in> set ys then set xs - set ys else insert x (set xs - set ys))" by auto
  then show ?case using Cons by simp
qed simp

lemma preview_group_SomeD:
  "preview_group env i db = Inr g \<Longrightarrow> group_id g = i \<and> tenant_group (pv_tenant env) i db = Some g"
  by (auto simp: preview_group_def group_required_def group_find_def tenant_group_def split: option.splits sum.splits
      dest: find_SomeD)

lemma estimate_counts:
  assumes "estimateCriteriaDiff env i r w = Inr diff" "preview_group env i (aw_db (sw_authz w)) = Inr g"
  shows "\<exists>matched. getMatchedEmployeeIds (pv_pg env) (pv_tenant env) r (sw_employees w) = Inr matched \<and>
    ci_gainingCount diff = count_missing (js_set_of matched)
      (js_set_of (findMemberEmployeeIdsByGroup (pv_tenant env) (group_id g) (aw_db (sw_authz w)))) \<and>
    ci_losingCount diff = count_missing
      (js_set_of (findMemberEmployeeIdsByGroup (pv_tenant env) (group_id g) (aw_db (sw_authz w)))) (js_set_of matched)"
proof (cases "preview_rule r")
  case Inl
  then show ?thesis using assms by (simp add: estimateCriteriaDiff_def and_then_def)
next
  case (Inr ks)
  then show ?thesis
    using assms
    by (cases "getMatchedEmployeeIds (pv_pg env) (pv_tenant env) r (sw_employees w)")
       (auto simp: estimateCriteriaDiff_def and_then_def preview_matched_def Let_def)
qed

text \<open>
  C17: The estimate of a rule change is what the group's reconciliation with that rule then does:
  when a preview with a rule succeeds on canonical, consistent tables, the rule's query succeeds, the
  reconciliation with its result succeeds, and the users gaining, losing and affected are as many
  as those who become members, cease to be members, and do either.
\<close>

theorem estimate_matches_reconciliation:
  assumes "previewUserGroupImpact env i dto threshold w = Inr a" "pgd_matchingRule dto = Some r"
    and "grants_ok (pv_projection env) (aw_db (sw_authz w))" "group_refs_canonical (pv_projection env) (aw_db (sw_authz w))"
    and "fresh_ids (pv_projection env)"
  shows "\<exists>matched res db'.
    getMatchedEmployeeIds (pv_pg env) (pv_tenant env) r (sw_employees w) = Inr matched \<and>
    reconcileGroupPopulation (pv_projection env) i matched v (aw_db (sw_authz w)) = (Inr res, db') \<and>
    (let before = group_members (pv_tenant env) i (aw_db (sw_authz w)); after = group_members (pv_tenant env) i db';
         e = ia_estimate a
     in ie_usersGaining e = int (card (after - before)) \<and> ie_usersLosing e = int (card (before - after)) \<and>
        ie_totalAffected e = int (card ((after - before) \<union> (before - after))))"
proof -
  let ?db = "aw_db (sw_authz w)" and ?t = "pv_tenant env"
  obtain g diff where g: "preview_group env i ?db = Inr g" and diff: "estimateCriteriaDiff env (group_id g) r w = Inr diff"
    and e: "ia_estimate a = impact_of_counts (int (ci_gainingCount diff)) (int (ci_losingCount diff))
        (int (ci_gainingCount diff) + int (ci_losingCount diff)) threshold"
    using assms(1,2)
    by (auto simp: previewUserGroupImpact_def preview_counts_def and_then_def Let_def split: sum.splits)
  have i: "group_id g = i" and tg: "tenant_group ?t i ?db = Some g" using preview_group_SomeD[OF g] by simp_all
  define cur where "cur = js_set_of (findMemberEmployeeIdsByGroup ?t i ?db)"
  obtain matched where m: "getMatchedEmployeeIds (pv_pg env) ?t r (sw_employees w) = Inr matched"
    and c: "ci_gainingCount diff = count_missing (js_set_of matched) cur" "ci_losingCount diff = count_missing cur (js_set_of matched)"
    using estimate_counts[OF diff[unfolded i] g] unfolding i cur_def[symmetric] by (elim exE conjE) (rule that)
  obtain res db' where run: "reconcileGroupPopulation (pv_projection env) i matched v ?db = (Inr res, db')"
    and after: "group_members ?t i db' = set matched"
    using population_exact[OF assms(3-5) tg[unfolded pv_tenant_def], of matched v]
    by (elim exE conjE) (rule that, simp_all only: pv_tenant_def)
  have before: "set cur = group_members ?t i ?db" by (simp add: cur_def group_members_def)
  have "ci_gainingCount diff = card (group_members ?t i db' - group_members ?t i ?db)"
    "ci_losingCount diff = card (group_members ?t i ?db - group_members ?t i db')"
    by (simp_all add: c count_missing_card before after cur_def flip: group_members_def)
  moreover have "card ((group_members ?t i db' - group_members ?t i ?db) \<union> (group_members ?t i ?db - group_members ?t i db')) =
     card (group_members ?t i db' - group_members ?t i ?db) + card (group_members ?t i ?db - group_members ?t i db')"
    by (rule card_Un_disjoint) (auto simp: after before[symmetric])
  ultimately show ?thesis using m run by (auto simp: e impact_of_counts_def Let_def)
qed

section \<open>A small tenant\<close>

definition preview_env0 :: preview_env where
  "preview_env0 = \<lparr> pv_projection = env0, pv_group = \<lparr> ge_tenant = ''acme'', ge_user = ''adm'', ge_now = ''now'',
     ge_queries_ok = True, ge_only_id = ugr_roleId \<rparr>, pv_queries_ok = True, pv_pg = plain_pg \<rparr>"

definition preview_world :: sync_world where
  "preview_world = \<lparr> sw_authz = Effective_Roles_Properties.sample_world, sw_employees = [Matching_Properties.sample_employee],
     sw_users = [] \<rparr>"

definition draft_dto :: preview_group_dto where
  "draft_dto = \<lparr> pgd_matchingRule = Some manager_rule, pgd_scopeType = None, pgd_scopeRefId = None, pgd_status = None \<rparr>"

lemma draft_preview:
  "previewUserGroupImpact preview_env0 ''g1'' draft_dto 100 preview_world =
    Inr \<lparr> ia_target = Group_impact ''g1'', ia_estimate = impact_of_counts 1 1 2 100, ia_coverageLoss = None,
      ia_requiresConfirmation = False \<rparr>"
  by code_simp

theorem estimate_matches_reconciliation_witness:
  "\<exists>matched res db'. getMatchedEmployeeIds plain_pg ''acme'' manager_rule [Matching_Properties.sample_employee] = Inr matched \<and>
     reconcileGroupPopulation env0 ''g1'' matched 2 (aw_db Effective_Roles_Properties.sample_world) = (Inr res, db') \<and>
     card (group_members ''acme'' ''g1'' db' - group_members ''acme'' ''g1'' (aw_db Effective_Roles_Properties.sample_world)) = 1"
proof -
  have db: "aw_db (sw_authz preview_world) = sample_db" by (simp add: preview_world_def sample_world_def)
  have env: "pv_projection preview_env0 = env0" "pv_tenant preview_env0 = ''acme''" "pv_pg preview_env0 = plain_pg"
    by (simp_all add: preview_env0_def pv_tenant_def env0_def)
  have dto: "pgd_matchingRule draft_dto = Some manager_rule" by (simp add: draft_dto_def)
  have e: "sw_employees preview_world = [Matching_Properties.sample_employee]" by (simp add: preview_world_def)
  show ?thesis
    using estimate_matches_reconciliation[OF draft_preview dto, unfolded db env e, OF sample_ok growing_ids_fresh, of 2]
    by (auto simp: impact_of_counts_def Let_def sample_world_def)
qed

end
