(* ===== verification/Spec2Isabelle.thy ===== *)
theory Spec2Isabelle
  imports Group_Requests Role_Requests Endpoint_Permissions Outbox_Service Auth_Requests Kms_Crypto Typed_Store
    Impact_Properties
begin

text \<open>
  This development verifies the access service, the TypeScript service that decides who may do what
  on a multi-tenant HR platform.  Paths below are relative to \<^verbatim>\<open>src/src\<close> and, unless they start with
  another directory, to \<^verbatim>\<open>src/src/modules\<close>.

  \<^bold>\<open>The program.\<close>  The service has two sides that share the outbox and the employee rows.
  The authorization side keeps a catalog of permissions, roles that collect permissions, user groups
  that collect roles under a matching rule over employee attributes, and the memberships and effective
  roles derived from them.  A change of a role or a group leaves the derived rows behind; synchronization
  jobs, one in flight per source and version, bring them up to date in batches under an advisory lock.
  The authentication side keeps users, credentials, second factors, invitations and settings in
  PostgreSQL, and sessions, challenges and counters in Redis.  Employee and tenant events of other
  services enter both sides through handlers; both record what they did in transactional outboxes.

  \<^bold>\<open>Conventions.\<close>  A row is a record, a table the list of its rows in table order, a database a
  record of tables (\<^verbatim>\<open>authz_db\<close>, \<^verbatim>\<open>auth_db\<close>).  An operation that may throw returns a sum whose left side
  is the error.  On the authorization side a handler is split the way it is written: its checks read a
  database, its transaction runs on a possibly later one, so that statements about a handler cover any
  interleaving with others; a failed transaction leaves the tables as they were.  On the authentication
  side an operation is a function on the world of tables and store (\<^verbatim>\<open>Effects\<close>); a throw keeps what was
  written before it, except that a transaction restores the tables, not the store.  Sequences of
  operations are inductive relations (\<^verbatim>\<open>reachable_roles\<close>, \<^verbatim>\<open>auth_step\<close>, the runs of the job table).

  \<^bold>\<open>Permission catalog\<close> (\<^verbatim>\<open>permissions\<close>).  \<^verbatim>\<open>Permission_Catalog\<close>: definitions, graph builder,
  referential integrity.  \<^verbatim>\<open>Permission_Cycles\<close>: the depth-first search for cycles, with as much fuel as
  there are identifiers, which is shown to be enough since no identifier is entered twice.
  \<^verbatim>\<open>Permission_Loader\<close>: the loader over a parsed document with its naming check and indexes.
  \<^verbatim>\<open>Permission_Service\<close>: the published service state and the validation of permission sets.
  \<^verbatim>\<open>Permission_Contracts\<close>: the platform's catalog and the generated constants.  Shown: validation ends and
  decides acyclicity exactly, a reported cycle is real, initialization is all or nothing, accepted sets are
  closed under prerequisites.

  \<^bold>\<open>Roles\<close> (\<^verbatim>\<open>roles\<close>).  \<^verbatim>\<open>Role_Store\<close>: tables, templates, repositories, cache.
  \<^verbatim>\<open>Role_Service\<close>: every handler of \<^verbatim>\<open>role.application.service.ts\<close> and the seeder.  \<^verbatim>\<open>Role_Properties\<close>:
  consistency of the tables, inviolable system roles, no lost update for a request that names its version.
  \<^verbatim>\<open>Role_Requests\<close>: the endpoints of \<^verbatim>\<open>role.controller.ts\<close> with their bodies, the validation pipe and the
  answers; a version can not be named and a request to confirm never arrives.

  \<^bold>\<open>User groups\<close> (\<^verbatim>\<open>user-groups\<close>).  \<^verbatim>\<open>User_Group\<close>, \<^verbatim>\<open>User_Group_Service\<close>: aggregate, scope
  validator, repositories and the lifecycle, scope and role-assignment services.
  \<^verbatim>\<open>User_Group_Properties\<close>, \<^verbatim>\<open>User_Group_Requests\<close>: consistency under every handler, what a request leaves
  behind, overlapping requests.  \<^verbatim>\<open>Group_Requests\<close>: the administration endpoints.

  \<^bold>\<open>Matching rules\<close> (\<^verbatim>\<open>matching-rule.validator.ts\<close>, \<^verbatim>\<open>user-group-matching.engine.ts\<close>).
  \<^verbatim>\<open>Matching_Rule\<close>: validator, evaluator and query builder.  \<^verbatim>\<open>Matching_Query\<close>: PostgreSQL's three-valued
  meaning of the query.  \<^verbatim>\<open>Matching_Properties\<close>: where query and evaluator agree and where they part.

  \<^bold>\<open>Effective roles and memberships\<close> (\<^verbatim>\<open>authorization\<close>, \<^verbatim>\<open>user-groups/services\<close>).
  \<^verbatim>\<open>Effective_Roles\<close>, \<^verbatim>\<open>Effective_Roles_Properties\<close>: projection, cache, evaluator, bootstrap capabilities;
  the evaluator's decision is the one the groups describe.  \<^verbatim>\<open>Membership_Sync\<close>,
  \<^verbatim>\<open>Membership_Properties\<close>: reconciliation of a user and of a population, propagation of employee events.
  \<^verbatim>\<open>Endpoint_Permissions\<close>: the permissions endpoints require against those a role can hold.

  \<^bold>\<open>Synchronization\<close> (\<^verbatim>\<open>authorization\<close>).  \<^verbatim>\<open>Sync_Jobs\<close>, \<^verbatim>\<open>Sync_Jobs_Properties\<close>: job table,
  enqueueing, watchdog, scanner, status.  \<^verbatim>\<open>Worker_Lock\<close>: the lock number on 32-bit words and the advisory
  lock.  \<^verbatim>\<open>Sync_Worker\<close>, \<^verbatim>\<open>Sync_Worker_Properties\<close>: claiming, batches, finalization; the batch loop ends
  because the number of users still to be processed falls.  \<^verbatim>\<open>Impact_Analysis\<close>, \<^verbatim>\<open>Impact_Properties\<close>:
  previews (\<^verbatim>\<open>impact-analysis\<close>) and their agreement with the reconciliation.

  \<^bold>\<open>Outbox and security events\<close> (\<^verbatim>\<open>security-event\<close>).  \<^verbatim>\<open>Outbox\<close>, \<^verbatim>\<open>Outbox_Service\<close>,
  \<^verbatim>\<open>Security_Events\<close>: the event factories, their payloads and the repositories' defaults.

  \<^bold>\<open>Logging in\<close> (\<^verbatim>\<open>auth\<close>, \<^verbatim>\<open>firebase-sso\<close>, \<^verbatim>\<open>lockout\<close>, \<^verbatim>\<open>ip-restriction\<close>).  \<^verbatim>\<open>Auth_Model\<close>: tables,
  store, errors, the request.  \<^verbatim>\<open>User_Model\<close>: the users table.  \<^verbatim>\<open>Lockout\<close>, \<^verbatim>\<open>Ip_Restriction\<close>,
  \<^verbatim>\<open>Login\<close>: the guards and the login.  \<^verbatim>\<open>Login_Properties\<close>, \<^verbatim>\<open>Login_Safety\<close>: tokens only after every check,
  and a login that passes them all goes through.  \<^verbatim>\<open>Auth_Requests\<close>: the endpoints and the cookie.

  \<^bold>\<open>Sessions, recovery, second factor, invitations, settings\<close> (\<^verbatim>\<open>session\<close>, \<^verbatim>\<open>password\<close>, \<^verbatim>\<open>mfa\<close>,
  \<^verbatim>\<open>invite\<close>, \<^verbatim>\<open>tenant\<close>).  \<^verbatim>\<open>Sessions\<close>; \<^verbatim>\<open>Password_Reset\<close> and its properties, with the refinement of an
  abstract one-time code; \<^verbatim>\<open>Restricted_Session\<close>; \<^verbatim>\<open>Mfa\<close>; \<^verbatim>\<open>Kms_Crypto\<close>; \<^verbatim>\<open>Invitations\<close>;
  \<^verbatim>\<open>Tenant_Settings\<close>.  \<^verbatim>\<open>Typed_Store\<close>: every operation keeps one kind of value under each family of keys.

  \<^bold>\<open>Provisioning and events\<close> (\<^verbatim>\<open>provisioning\<close>, \<^verbatim>\<open>user/services\<close>, \<^verbatim>\<open>src/src/handlers\<close>).
  \<^verbatim>\<open>Cognito\<close>, \<^verbatim>\<open>Cognito_Properties\<close>: provisioning with at most three attempts (\<^verbatim>\<open>cognitoMaxRetries\<close>).
  \<^verbatim>\<open>Provisioning\<close>, \<^verbatim>\<open>Provisioning_Properties\<close>: employment events and the bootstrap of a tenant.
  \<^verbatim>\<open>Event_Handlers\<close>, \<^verbatim>\<open>Event_Properties\<close>: the handlers of employee events and their independence.

  \<^bold>\<open>Shared ground.\<close>  \<^verbatim>\<open>Prelude\<close> (insertion-ordered maps), \<^verbatim>\<open>Row_Store\<close> (keyed tables, rows
  with versions), \<^verbatim>\<open>Effects\<close> (relations every step keeps) hold the interfaces as locales, interpreted on
  the tables and relations of the model; \<^verbatim>\<open>Access_Model\<close> the shared data; \<^verbatim>\<open>Js_Numbers\<close> \<^verbatim>\<open>parseInt\<close>.

  \<^bold>\<open>Parameters and assumptions.\<close>  Strings hold code units below 256 and numbers are integers.
  Parameters are: the YAML parser and the file system, key builders, identifiers, the clock and its ISO
  text, PostgreSQL's input of uuid and integer, password hashing, token signing, HMAC, SHA-256 and AES,
  the address library, the Firebase and Cognito clients, the validation pipe, the text of Redis values and
  the times of rows.  Reads of the base repository are scoped to the request's tenant unless the code says
  unscoped; inserted rows get the tenant and an identifier; unordered reads return table order, a
  descending order puts nulls first; TypeORM's create takes column-named fields and its save skips
  undefined.  The tables are those of \<^verbatim>\<open>schema.sql\<close> and the migrations, with their unique indexes and
  foreign keys, membership keys apart; the start-up option \<^verbatim>\<open>synchronize\<close> is not applied.  Redis may be missing or fail at
  any command; times to live are recorded, and \<^verbatim>\<open>Typed_Store\<close> lets any cell expire.  Failed count queries
  read as zero, as the code has it.  The outbox rows of both sides are kept apart.  Of an employee,
  matching reads the text columns.  Advisory locks belong to a connection of the pool.

  \<^bold>\<open>Not modelled.\<close>  Paginated lists, which only format a query's page; the scope, role,
  population, preview, catalog and settings controllers, which pass a request on to one modelled service
  call; the decorators of request bodies beyond the set of validated properties; migrations as programs;
  health checks, metrics, module wiring and configuration; log output.  Concurrency is modelled as
  interleaving of checks, transactions and statements, not below the level of a statement.
\<close>

end
